(* ===== verification/Prelude.thy ===== *)
theory Prelude
  imports Main "HOL-Library.Word" "HOL-Library.Char_ord" "HOL-Library.List_Lexorder"
    "HOL-Library.Product_Lexorder"
begin

text \<open>
  Shared vocabulary of the development.  Python values are read as follows: a
  \<open>UUID\<close> is the 128-bit integer it wraps, a \<open>datetime\<close> or \<open>timedelta\<close> is its number of
  microseconds, a \<open>str\<close> is a list of characters, a \<open>dict\<close> is an association list in
  insertion order.  A SQL table is the list of its rows in insertion order, and the
  statements the repositories issue (\<open>SELECT ... WHERE\<close>, \<open>UPDATE ... WHERE\<close>,
  \<open>ORDER BY\<close>) are the list functions of this theory.
\<close>

named_theorems table_simps \<open>row-level facts about statements on tables\<close>
named_theorems contract_simps \<open>definitions of the pydantic field constraints\<close>

type_synonym uuid = "128 word"
type_synonym time = int

section \<open>Python strings\<close>

definition starts_with :: "string \<Rightarrow> string \<Rightarrow> bool" where
  "starts_with s p \<longleftrightarrow> take (length p) s = p"

definition ends_with :: "string \<Rightarrow> string \<Rightarrow> bool" where
  "ends_with s p \<longleftrightarrow> length p \<le> length s \<and> drop (length s - length p) s = p"

lemma starts_with_append [simp]: "starts_with (p @ s) p"
  by (simp add: starts_with_def)

lemma starts_withE:
  assumes "starts_with s p"
  obtains t where "s = p @ t"
  using assms by (metis append_take_drop_id starts_with_def)

text \<open>\<open>split(sep)\<close> of a string or of bytes, with a separator of length one: always at least one part.\<close>

fun split_on :: "'a \<Rightarrow> 'a list \<Rightarrow> 'a list list" where
  "split_on c [] = [[]]"
| "split_on c (x # xs) =
     (if x = c then [] # split_on c xs
      else (case split_on c xs of [] \<Rightarrow> [[x]] | p # ps \<Rightarrow> (x # p) # ps))"

text \<open>\<open>split(sep, 1)\<close>: the second part is \<open>None\<close> when the separator does not occur.\<close>

definition split_first :: "'a \<Rightarrow> 'a list \<Rightarrow> 'a list \<times> 'a list option" where
  "split_first c xs =
     (takeWhile (\<lambda>x. x \<noteq> c) xs,
      (case dropWhile (\<lambda>x. x \<noteq> c) xs of [] \<Rightarrow> None | _ # rest \<Rightarrow> Some rest))"

fun join_with :: "string \<Rightarrow> string list \<Rightarrow> string" where
  "join_with sep [] = []"
| "join_with sep [p] = p"
| "join_with sep (p # q # ps) = p @ sep @ join_with sep (q # ps)"

lemma split_on_not_Nil [simp]: "split_on c s \<noteq> []"
  by (induction s) (auto split: list.splits)

lemma join_split_on: "join_with [c] (split_on c s) = s"
proof (induction s)
  case Nil
  then show ?case by simp
next
  case (Cons x xs)
  obtain p ps where ps: "split_on c xs = p # ps"
    by (cases "split_on c xs") auto
  with Cons.IH show ?case by (cases ps) auto
qed

lemma split_on_parts: "p \<in> set (split_on c s) \<Longrightarrow> c \<notin> set p"
  by (induction s arbitrary: p) (auto split: list.splits if_splits)

lemma in_join: "p \<in> set ps \<Longrightarrow> set p \<subseteq> set (join_with sep ps)"
  by (induction sep ps rule: join_with.induct) auto

text \<open>Decimal and hexadecimal rendering of non-negative integers.\<close>

definition hex_digit :: "nat \<Rightarrow> char" where
  "hex_digit n = ''0123456789abcdef'' ! (n mod 16)"

fun hex_fixed :: "nat \<Rightarrow> nat \<Rightarrow> string" where
  "hex_fixed 0 n = []"
| "hex_fixed (Suc w) n = hex_fixed w (n div 16) @ [hex_digit n]"

lemma length_hex_fixed [simp]: "length (hex_fixed w n) = w"
  by (induction w arbitrary: n) auto

fun dec_nat :: "nat \<Rightarrow> string" where
  "dec_nat n = (if n < 10 then [''0123456789'' ! n]
                else dec_nat (n div 10) @ [''0123456789'' ! (n mod 10)])"

declare dec_nat.simps [simp del]

definition dec_int :: "int \<Rightarrow> string" where
  "dec_int i = (if i < 0 then CHR ''-'' # dec_nat (nat (- i)) else dec_nat (nat i))"

text \<open>\<open>str(uuid)\<close>: 32 hexadecimal digits in groups of 8-4-4-4-12.\<close>

definition uuid_hex :: "uuid \<Rightarrow> string" where
  "uuid_hex u = hex_fixed 32 (unat u)"

definition uuid_str :: "uuid \<Rightarrow> string" where
  "uuid_str u =
     (let h = uuid_hex u
      in take 8 h @ ''-'' @ take 4 (drop 8 h) @ ''-'' @ take 4 (drop 12 h) @ ''-''
         @ take 4 (drop 16 h) @ ''-'' @ drop 20 h)"

lemma length_uuid_str [simp]: "length (uuid_str u) = 36"
  by (simp add: uuid_str_def uuid_hex_def Let_def)

text \<open>\<open>repr(s)\<close> of a string: quote choice and escapes.\<close>

definition printable :: "nat \<Rightarrow> bool" where
  "printable n \<longleftrightarrow> 32 \<le> n \<and> n < 127 \<or> 160 < n \<and> n \<noteq> 173"

definition repr_char :: "char \<Rightarrow> char \<Rightarrow> string" where
  "repr_char q c =
     (if c = q \<or> of_char c = (92::nat) then [char_of (92::nat), c]
      else if of_char c = (10::nat) then [char_of (92::nat), CHR ''n'']
      else if of_char c = (13::nat) then [char_of (92::nat), CHR ''r'']
      else if of_char c = (9::nat) then [char_of (92::nat), CHR ''t'']
      else if printable (of_char c) then [c]
      else [char_of (92::nat), CHR ''x''] @ hex_fixed 2 (of_char c))"

definition py_repr :: "string \<Rightarrow> string" where
  "py_repr s =
     (let sq = char_of (39::nat); dq = char_of (34::nat);
          q = (if sq \<in> set s \<and> dq \<notin> set s then dq else sq)
      in [q] @ concat (map (repr_char q) s) @ [q])"

section \<open>Python collections\<close>

text \<open>
  \<open>sorted(xs, key=k)\<close> is the stable \<open>sort_key k\<close>.  \<open>sorted(set(xs))\<close> and
  \<open>sorted({...})\<close> are \<open>sorted_set\<close>.  \<open>{key(x): x for x in xs}\<close> keeps the position of the
  first occurrence of a key and the value of the last one.
\<close>

definition sorted_set :: "'a::linorder list \<Rightarrow> 'a list" where
  "sorted_set xs = sort (remdups xs)"

lemma set_sorted_set [simp]: "set (sorted_set xs) = set xs"
  by (simp add: sorted_set_def)

lemma distinct_sorted_set [simp]: "distinct (sorted_set xs)"
  by (simp add: sorted_set_def)

lemma sorted_sorted_set [simp]: "sorted (sorted_set xs)"
  by (simp add: sorted_set_def)

fun dict_set :: "'k \<Rightarrow> 'v \<Rightarrow> ('k \<times> 'v) list \<Rightarrow> ('k \<times> 'v) list" where
  "dict_set k v [] = [(k, v)]"
| "dict_set k v ((k', v') # d) = (if k = k' then (k, v) # d else (k', v') # dict_set k v d)"

definition dict_of :: "('k \<times> 'v) list \<Rightarrow> ('k \<times> 'v) list" where
  "dict_of kvs = fold (\<lambda>(k, v). dict_set k v) kvs []"

lemma map_of_dict_set: "map_of (dict_set k v d) = (map_of d)(k \<mapsto> v)"
  by (induction k v d rule: dict_set.induct) (auto simp: fun_eq_iff)

lemma keys_dict_set: "set (map fst (dict_set k v d)) = insert k (set (map fst d))"
  by (induction k v d rule: dict_set.induct) auto

lemma distinct_dict_set: "distinct (map fst d) \<Longrightarrow> distinct (map fst (dict_set k v d))"
proof (induction k v d rule: dict_set.induct)
  case (2 k v k' v' d)
  then show ?case using keys_dict_set [of k v d] by auto
qed simp

lemma dict_fold:
  "map_of (fold (\<lambda>(k, v). dict_set k v) kvs d) = map_of d ++ map_of (rev kvs)"
  "set (map fst (fold (\<lambda>(k, v). dict_set k v) kvs d)) = set (map fst d) \<union> set (map fst kvs)"
  "distinct (map fst d) \<Longrightarrow> distinct (map fst (fold (\<lambda>(k, v). dict_set k v) kvs d))"
proof (induction kvs arbitrary: d)
  case Nil
  { case 1 show ?case by simp next case 2 show ?case by simp next case 3 then show ?case by simp }
next
  case (Cons kv kvs)
  obtain k v where kv: "kv = (k, v)" by force
  { case 1 show ?case
      by (simp add: kv Cons.IH(1) map_of_dict_set) (simp add: fun_eq_iff map_add_def split: option.splits)
  next
    case 2 show ?case using Cons.IH(2) [of "dict_set k v d"]
      by (simp add: kv keys_dict_set [simplified])
  next
    case 3 then show ?case by (simp add: kv Cons.IH(3) distinct_dict_set) }
qed

lemma map_of_dict_of: "map_of (dict_of kvs) = map_of (rev kvs)"
  by (simp add: dict_of_def dict_fold(1))

lemma distinct_dict_of [simp]: "distinct (map fst (dict_of kvs))"
  by (simp add: dict_of_def dict_fold(3))

lemma keys_dict_of: "fst ` set (dict_of kvs) = fst ` set kvs"
  using dict_fold(2) [of kvs "[]"] by (simp add: dict_of_def)

lemma set_dict_of: "set (dict_of kvs) \<subseteq> set kvs"
proof
  fix kv assume "kv \<in> set (dict_of kvs)"
  then have "map_of (dict_of kvs) (fst kv) = Some (snd kv)" by simp
  then have "kv \<in> set (rev kvs)" by (metis map_of_SomeD map_of_dict_of prod.collapse)
  then show "kv \<in> set kvs" by simp
qed

section \<open>Statements on tables\<close>

text \<open>
  \<open>UPDATE t SET f WHERE P\<close> returns the table and the row count;
  \<open>session.scalar(SELECT ... WHERE P)\<close> is the first row.
\<close>

definition update_where :: "('r \<Rightarrow> bool) \<Rightarrow> ('r \<Rightarrow> 'r) \<Rightarrow> 'r list \<Rightarrow> 'r list \<times> nat" where
  "update_where P f t = (map (\<lambda>r. if P r then f r else r) t, length (filter P t))"

definition select_one :: "('r \<Rightarrow> bool) \<Rightarrow> 'r list \<Rightarrow> 'r option" where
  "select_one P t = find P t"

definition exists_row :: "('r \<Rightarrow> bool) \<Rightarrow> 'r list \<Rightarrow> bool" where
  "exists_row P t \<longleftrightarrow> list_ex P t"

lemma exists_row_iff [simp]: "exists_row P t \<longleftrightarrow> (\<exists>r \<in> set t. P r)"
  by (simp add: exists_row_def list_ex_iff)

lemma exists_row_upd:
  "(\<And>r. Q (f r) = Q r) \<Longrightarrow>
   exists_row Q (map (\<lambda>r. if P r then f r else r) t) = exists_row Q t"
  by (induction t) (simp_all add: exists_row_def)

lemma select_one_Some:
  "select_one P t = Some r \<Longrightarrow> r \<in> set t \<and> P r"
  by (auto simp: select_one_def find_Some_iff)

lemma select_one_None [simp]: "select_one P t = None \<longleftrightarrow> (\<forall>r \<in> set t. \<not> P r)"
  by (auto simp: select_one_def find_None_iff)

text \<open>A key column: the rows of a table carry pairwise different keys.\<close>

abbreviation unique_by :: "('r \<Rightarrow> 'k) \<Rightarrow> 'r list \<Rightarrow> bool" where
  "unique_by key t \<equiv> distinct (map key t)"

lemma unique_by_eq: "unique_by key t \<Longrightarrow> r \<in> set t \<Longrightarrow> r' \<in> set t \<Longrightarrow> key r = key r' \<Longrightarrow> r = r'"
  by (metis distinct_map inj_onD)

lemma unique_by_snoc: "unique_by key (t @ [r]) \<longleftrightarrow> unique_by key t \<and> (\<forall>r' \<in> set t. key r' \<noteq> key r)"
  by (auto simp: image_iff)

lemma select_one_key:
  assumes "unique_by key t" and "r \<in> set t" and "key r = k"
  shows "select_one (\<lambda>r. key r = k) t = Some r"
proof (cases "select_one (\<lambda>r. key r = k) t")
  case None
  with assms show ?thesis by auto
next
  case (Some r')
  with assms show ?thesis by (auto dest!: select_one_Some intro: unique_by_eq)
qed

lemma unique_by_map_upd:
  "(\<And>r. key (f r) = key r) \<Longrightarrow>
   unique_by key (map (\<lambda>r. if P r then f r else r) t) = unique_by key t"
  by (simp add: comp_def if_distrib cong: if_cong)

lemma length_filter_key_le_1:
  "unique_by key t \<Longrightarrow> length (filter (\<lambda>r. key r = k \<and> P r) t) \<le> 1"
proof (induction t)
  case (Cons r t)
  show ?case
  proof (cases "key r = k \<and> P r")
    case True
    with Cons.prems have "filter (\<lambda>r. key r = k \<and> P r) t = []"
      by (auto simp: filter_empty_conv image_iff)
    with True show ?thesis by simp
  qed (use Cons in auto)
qed simp

lemma update_count_one:
  assumes "unique_by key t"
  shows "snd (update_where (\<lambda>r. key r = k \<and> P r) f t) = 1 \<longleftrightarrow> (\<exists>r \<in> set t. key r = k \<and> P r)"
proof -
  let ?n = "length (filter (\<lambda>r. key r = k \<and> P r) t)"
  have "?n \<le> 1" using assms by (rule length_filter_key_le_1)
  moreover have "?n \<noteq> 0 \<longleftrightarrow> (\<exists>r \<in> set t. key r = k \<and> P r)"
    by (auto simp: filter_empty_conv)
  ultimately have "?n = 1 \<longleftrightarrow> (\<exists>r \<in> set t. key r = k \<and> P r)" by linarith
  then show ?thesis by (simp only: update_where_def snd_conv)
qed

end
