(* ===== verification/Errors.thy ===== *)
theory Errors
  imports Prelude
begin

text \<open>
  The exceptions of \<open>domain/errors.py\<close> as one datatype, with the exceptions of the
  language and of the database driver the modelled code raises or lets through (\<open>ForeignError\<close> is
  any other class, by its name).  A use case
  returns a value of type \<open>exn + 'a\<close>.  \<open>ImmutableResultConflict\<close> is a subclass of
  \<open>RepositoryInputError\<close>; the predicates below are the \<open>except\<close> clauses.
\<close>

datatype exn =
    RepositoryInputError (rie_code: string) (rie_detail: string)
  | ImmutableResultConflict string
  | InvalidStateTransition string string
  | OptimisticConcurrencyError uuid int
  | IdempotencyConflictError string
  | RunNotFoundError uuid
  | StaticReportNotReadyError uuid
  | AuditPlanNotReadyError uuid
  | DynamicAuditNotReadyError uuid
  | ClaimLostError uuid
  | TerminalRunError uuid string
  | RunCancellationRequested
  | RuntimeError string
  | IntegrityError string
  | ValueError string
  | KeyError string
  | IndexError string
  | DataError string
  | ForeignError string string
  | OverflowError string
  | OSError string
  | DockerException string
  | AssertionError string

type_synonym 'a res = "exn + 'a"

text \<open>The class attribute \<open>code\<close>, or the one the constructor sets.\<close>

fun exn_code :: "exn \<Rightarrow> string option" where
  "exn_code (RepositoryInputError c d) = Some c"
| "exn_code (ImmutableResultConflict r) = Some ''SNAPSHOT_INTEGRITY_FAILED''"
| "exn_code (InvalidStateTransition s t) = Some ''ILLEGAL_STATE_TRANSITION''"
| "exn_code (OptimisticConcurrencyError a v) = Some ''OPTIMISTIC_CONCURRENCY_CONFLICT''"
| "exn_code (IdempotencyConflictError k) = Some ''IDEMPOTENCY_CONFLICT''"
| "exn_code (RunNotFoundError r) = Some ''RUN_NOT_FOUND''"
| "exn_code (StaticReportNotReadyError r) = Some ''STATIC_REPORT_NOT_READY''"
| "exn_code (AuditPlanNotReadyError r) = Some ''AUDIT_PLAN_NOT_READY''"
| "exn_code (DynamicAuditNotReadyError r) = Some ''DYNAMIC_AUDIT_NOT_READY''"
| "exn_code (ClaimLostError s) = Some ''STEP_CLAIM_LOST''"
| "exn_code (TerminalRunError r s) = Some ''RUN_TERMINAL''"
| "exn_code _ = None"

text \<open>The message of the exception, \<open>str(error)\<close>, for the domain errors.\<close>

fun exn_detail :: "exn \<Rightarrow> string" where
  "exn_detail (RepositoryInputError c d) = d"
| "exn_detail (ImmutableResultConflict r) =
     ''Existing '' @ r @ '' does not match the computed immutable result''"
| "exn_detail (InvalidStateTransition s t) = ''Cannot transition audit run from '' @ s @ '' to '' @ t"
| "exn_detail (OptimisticConcurrencyError a v) =
     ''Aggregate '' @ uuid_str a @ '' is no longer at expected version '' @ dec_int v"
| "exn_detail (IdempotencyConflictError k) =
     ''Idempotency key '' @ py_repr k @ '' is already bound to another request''"
| "exn_detail (RunNotFoundError r) = ''Audit run '' @ uuid_str r @ '' was not found''"
| "exn_detail (StaticReportNotReadyError r) =
     ''Static report for audit run '' @ uuid_str r @ '' is not ready''"
| "exn_detail (AuditPlanNotReadyError r) = ''Audit plan for run '' @ uuid_str r @ '' is not ready''"
| "exn_detail (DynamicAuditNotReadyError r) =
     ''Dynamic audit for run '' @ uuid_str r @ '' is not ready''"
| "exn_detail (ClaimLostError s) =
     ''Run step '' @ uuid_str s @ '' is no longer owned by this claim''"
| "exn_detail (TerminalRunError r s) =
     ''Audit run '' @ uuid_str r @ '' is already terminal in state '' @ s"
| "exn_detail RunCancellationRequested = []"
| "exn_detail (RuntimeError m) = m"
| "exn_detail (IntegrityError m) = m"
| "exn_detail (ValueError m) = m"
| "exn_detail (KeyError m) = m"
| "exn_detail (IndexError m) = m"
| "exn_detail (DataError m) = m"
| "exn_detail (ForeignError n m) = m"
| "exn_detail (OverflowError m) = m"
| "exn_detail (OSError m) = m"
| "exn_detail (DockerException m) = m"
| "exn_detail (AssertionError m) = m"

text \<open>\<open>isinstance(error, RepositoryInputError)\<close>.\<close>

fun is_repository_input_error :: "exn \<Rightarrow> bool" where
  "is_repository_input_error (RepositoryInputError c d) = True"
| "is_repository_input_error (ImmutableResultConflict r) = True"
| "is_repository_input_error _ = False"

fun is_claim_lost :: "exn \<Rightarrow> bool" where
  "is_claim_lost (ClaimLostError s) = True"
| "is_claim_lost _ = False"

lemma repository_input_error_code:
  "is_repository_input_error e \<Longrightarrow> \<exists>c. exn_code e = Some c"
  by (cases e) auto

text \<open>Sequencing of computations that may raise.\<close>

definition bind_res :: "'a res \<Rightarrow> ('a \<Rightarrow> 'b res) \<Rightarrow> 'b res" where
  "bind_res m f = (case m of Inl e \<Rightarrow> Inl e | Inr x \<Rightarrow> f x)"

lemma bind_res_simps [simp]:
  "bind_res (Inl e) f = Inl e"
  "bind_res (Inr x) f = f x"
  by (simp_all add: bind_res_def)

lemma bind_res_Inr:
  "bind_res m f = Inr y \<longleftrightarrow> (\<exists>x. m = Inr x \<and> f x = Inr y)"
  by (cases m) auto

lemma bind_res_Inl:
  "bind_res m f = Inl e \<longleftrightarrow> m = Inl e \<or> (\<exists>x. m = Inr x \<and> f x = Inl e)"
  by (cases m) auto

end
