(* ===== verification/Domain.thy ===== *)
theory Domain
  imports Errors
begin

text \<open>
  \<open>domain/runs.py\<close>: the lifecycle of an audit run, its steps and its outbox events.  The
  constructors keep the source's names; where two enumerations share one it is qualified
  (\<open>run_state.FAILED\<close>, \<open>step_status.FAILED\<close>).  Field names carry a prefix per class, because
  record fields are global constants.
\<close>

section \<open>Enumerations\<close>

datatype step_status = PENDING | RUNNING | SUCCEEDED | FAILED | CANCELLED

datatype cleanup_status = NOT_REQUIRED | PENDING | RUNNING | SUCCEEDED | FAILED

datatype run_state =
    QUEUED | DISCOVERING | STATIC_ANALYSIS | PLANNING | PROVISIONING | BASELINE_READY
  | APPLYING | SEEDING | SMOKE_TESTING | ROLLBACK_VERIFYING | REPORTING
  | AWAITING_APPROVAL | COMPLETED | APPROVED | REJECTED | FAILED | CANCELLED

fun state_value :: "run_state \<Rightarrow> string" where
  "state_value QUEUED = ''QUEUED''"
| "state_value DISCOVERING = ''DISCOVERING''"
| "state_value STATIC_ANALYSIS = ''STATIC_ANALYSIS''"
| "state_value PLANNING = ''PLANNING''"
| "state_value PROVISIONING = ''PROVISIONING''"
| "state_value BASELINE_READY = ''BASELINE_READY''"
| "state_value APPLYING = ''APPLYING''"
| "state_value SEEDING = ''SEEDING''"
| "state_value SMOKE_TESTING = ''SMOKE_TESTING''"
| "state_value ROLLBACK_VERIFYING = ''ROLLBACK_VERIFYING''"
| "state_value REPORTING = ''REPORTING''"
| "state_value AWAITING_APPROVAL = ''AWAITING_APPROVAL''"
| "state_value COMPLETED = ''COMPLETED''"
| "state_value APPROVED = ''APPROVED''"
| "state_value REJECTED = ''REJECTED''"
| "state_value run_state.FAILED = ''FAILED''"
| "state_value run_state.CANCELLED = ''CANCELLED''"

definition run_states :: "run_state list" where
  "run_states = [QUEUED, DISCOVERING, STATIC_ANALYSIS, PLANNING, PROVISIONING, BASELINE_READY,
     APPLYING, SEEDING, SMOKE_TESTING, ROLLBACK_VERIFYING, REPORTING, AWAITING_APPROVAL,
     COMPLETED, APPROVED, REJECTED, run_state.FAILED, run_state.CANCELLED]"

text \<open>\<open>RunState(text)\<close>: the member with that value, \<open>ValueError\<close> if there is none.\<close>

definition parse_state :: "string \<Rightarrow> run_state res" where
  "parse_state v =
     (case find (\<lambda>s. state_value s = v) run_states of
        None \<Rightarrow> Inl (ValueError (py_repr v @ '' is not a valid RunState''))
      | Some s \<Rightarrow> Inr s)"

lemma set_run_states: "set run_states = UNIV"
proof -
  have "s \<in> set run_states" for s by (cases s) (simp_all add: run_states_def)
  then show ?thesis by auto
qed

lemma parse_state_value [simp]: "parse_state (state_value s) = Inr s"
  by (cases s) (simp_all add: parse_state_def run_states_def)

lemma state_value_inject [simp]: "state_value s = state_value t \<longleftrightarrow> s = t"
  by (metis parse_state_value sum.inject(2))

fun step_status_value :: "step_status \<Rightarrow> string" where
  "step_status_value step_status.PENDING = ''PENDING''"
| "step_status_value step_status.RUNNING = ''RUNNING''"
| "step_status_value step_status.SUCCEEDED = ''SUCCEEDED''"
| "step_status_value step_status.FAILED = ''FAILED''"
| "step_status_value step_status.CANCELLED = ''CANCELLED''"

definition step_statuses :: "step_status list" where
  "step_statuses = [step_status.PENDING, step_status.RUNNING, step_status.SUCCEEDED,
     step_status.FAILED, step_status.CANCELLED]"

fun cleanup_value :: "cleanup_status \<Rightarrow> string" where
  "cleanup_value NOT_REQUIRED = ''NOT_REQUIRED''"
| "cleanup_value cleanup_status.PENDING = ''PENDING''"
| "cleanup_value cleanup_status.RUNNING = ''RUNNING''"
| "cleanup_value cleanup_status.SUCCEEDED = ''SUCCEEDED''"
| "cleanup_value cleanup_status.FAILED = ''FAILED''"

definition cleanup_statuses :: "cleanup_status list" where
  "cleanup_statuses = [NOT_REQUIRED, cleanup_status.PENDING, cleanup_status.RUNNING,
     cleanup_status.SUCCEEDED, cleanup_status.FAILED]"

text \<open>\<open>StepStatus(text)\<close> and \<open>CleanupStatus(text)\<close>.\<close>

definition parse_step_status :: "string \<Rightarrow> step_status res" where
  "parse_step_status v =
     (case find (\<lambda>s. step_status_value s = v) step_statuses of
        None \<Rightarrow> Inl (ValueError (py_repr v @ '' is not a valid StepStatus''))
      | Some s \<Rightarrow> Inr s)"

definition parse_cleanup_status :: "string \<Rightarrow> cleanup_status res" where
  "parse_cleanup_status v =
     (case find (\<lambda>s. cleanup_value s = v) cleanup_statuses of
        None \<Rightarrow> Inl (ValueError (py_repr v @ '' is not a valid CleanupStatus''))
      | Some s \<Rightarrow> Inr s)"

lemma parse_step_status_value [simp]: "parse_step_status (step_status_value s) = Inr s"
  by (cases s) (simp_all add: parse_step_status_def step_statuses_def)

lemma parse_cleanup_status_value [simp]: "parse_cleanup_status (cleanup_value s) = Inr s"
  by (cases s) (simp_all add: parse_cleanup_status_def cleanup_statuses_def)

section \<open>The transition graph\<close>

definition main_state_path :: "run_state list" where
  "main_state_path = [QUEUED, DISCOVERING, STATIC_ANALYSIS, PLANNING, PROVISIONING,
     BASELINE_READY, APPLYING, SEEDING, SMOKE_TESTING, ROLLBACK_VERIFYING, REPORTING,
     COMPLETED]"

definition terminal_states :: "run_state set" where
  "terminal_states = {COMPLETED, APPROVED, REJECTED, run_state.FAILED, run_state.CANCELLED}"

definition normal_transitions :: "run_state \<rightharpoonup> run_state set" where
  "normal_transitions =
     (map_of (map (\<lambda>(source, target). (source, {target}))
                  (zip (butlast main_state_path) (tl main_state_path))))
       (REPORTING \<mapsto> {COMPLETED, AWAITING_APPROVAL},
        AWAITING_APPROVAL \<mapsto> {APPROVED, REJECTED})"

text \<open>\<open>list.index\<close>, which raises \<open>ValueError\<close> on a missing element.\<close>

fun index_of :: "'a \<Rightarrow> 'a list \<Rightarrow> nat option" where
  "index_of x [] = None"
| "index_of x (y # ys) = (if x = y then Some 0 else map_option Suc (index_of x ys))"

definition next_main_state :: "run_state \<Rightarrow> run_state option" where
  "next_main_state s =
     (case index_of s main_state_path of
        None \<Rightarrow> None
      | Some position \<Rightarrow>
          if position = length main_state_path - 1 then None
          else Some (main_state_path ! (position + 1)))"

text \<open>The set \<open>transition\<close> computes before it tests the target.\<close>

definition allowed_targets :: "run_state \<Rightarrow> run_state set" where
  "allowed_targets s =
     (case normal_transitions s of None \<Rightarrow> {} | Some ts \<Rightarrow> ts) \<union>
     (if s \<notin> terminal_states then {run_state.FAILED, run_state.CANCELLED} else {})"

section \<open>Aggregates\<close>

record audit_run =
  ar_id :: uuid
  ar_state :: run_state
  ar_version :: int
  ar_updated_at :: time
  ar_created_at :: "time option"
  ar_completed_at :: "time option"
  ar_cancel_requested_at :: "time option"
  ar_repository_path :: string
  ar_diff_mode :: string
  ar_base_ref :: "string option"
  ar_head_ref :: "string option"
  ar_idempotency_key :: string
  ar_request_fingerprint :: string
  ar_cleanup_status :: cleanup_status
  ar_heartbeat_at :: "time option"
  ar_failure_code :: "string option"
  ar_failure_detail :: "string option"

record run_step =
  rs_id :: uuid
  rs_run_id :: uuid
  rs_step_key :: string
  rs_from_state :: run_state
  rs_to_state :: run_state
  rs_generation :: int
  rs_attempt :: int
  rs_status :: step_status
  rs_expected_run_version :: int
  rs_handler_version :: string
  rs_started_at :: time
  rs_resulting_run_version :: "int option"
  rs_worker_id :: "string option"
  rs_claim_token :: "uuid option"
  rs_heartbeat_at :: "time option"
  rs_lease_expires_at :: "time option"
  rs_finished_at :: "time option"
  rs_error_code :: "string option"
  rs_error_detail :: "string option"

text \<open>
  The payload is the JSON object the services write: its three keys, with the run id and the
  expected state as strings.
\<close>

record advance_payload =
  pl_run_id :: string
  pl_expected_state :: string
  pl_expected_version :: int

record outbox_event =
  oe_id :: uuid
  oe_aggregate_id :: uuid
  oe_aggregate_version :: int
  oe_topic :: string
  oe_payload :: advance_payload
  oe_available_at :: time
  oe_created_at :: time
  oe_published_at :: "time option"
  oe_publish_attempts :: int
  oe_last_error :: "string option"

text \<open>\<open>AuditRun.transition\<close> and \<open>AuditRun.request_cancel\<close>.\<close>

definition transition :: "audit_run \<Rightarrow> run_state \<Rightarrow> time \<Rightarrow> audit_run res" where
  "transition run target now =
     (if target \<notin> allowed_targets (ar_state run)
      then Inl (InvalidStateTransition (state_value (ar_state run)) (state_value target))
      else Inr (run\<lparr>ar_state := target, ar_version := ar_version run + 1, ar_updated_at := now,
                    ar_completed_at := (if target \<in> terminal_states then Some now
                                        else ar_completed_at run)\<rparr>))"

definition request_cancel :: "audit_run \<Rightarrow> int \<Rightarrow> time \<Rightarrow> audit_run res" where
  "request_cancel run expected_version now =
     (if ar_state run = run_state.CANCELLED \<or> ar_cancel_requested_at run \<noteq> None then Inr run
      else if ar_state run \<in> terminal_states
      then Inl (TerminalRunError (ar_id run) (state_value (ar_state run)))
      else if ar_version run \<noteq> expected_version
      then Inl (OptimisticConcurrencyError (ar_id run) expected_version)
      else Inr (run\<lparr>ar_cancel_requested_at := Some now, ar_updated_at := now\<rparr>))"

section \<open>Facts about the graph\<close>

lemma next_main_state_simps [simp]:
  "next_main_state QUEUED = Some DISCOVERING"
  "next_main_state DISCOVERING = Some STATIC_ANALYSIS"
  "next_main_state STATIC_ANALYSIS = Some PLANNING"
  "next_main_state PLANNING = Some PROVISIONING"
  "next_main_state PROVISIONING = Some BASELINE_READY"
  "next_main_state BASELINE_READY = Some APPLYING"
  "next_main_state APPLYING = Some SEEDING"
  "next_main_state SEEDING = Some SMOKE_TESTING"
  "next_main_state SMOKE_TESTING = Some ROLLBACK_VERIFYING"
  "next_main_state ROLLBACK_VERIFYING = Some REPORTING"
  "next_main_state REPORTING = Some COMPLETED"
  "next_main_state AWAITING_APPROVAL = None"
  "next_main_state COMPLETED = None"
  "next_main_state APPROVED = None"
  "next_main_state REJECTED = None"
  "next_main_state run_state.FAILED = None"
  "next_main_state run_state.CANCELLED = None"
  by (simp_all add: next_main_state_def main_state_path_def)

lemma terminal_states_simps [simp]:
  "COMPLETED \<in> terminal_states" "APPROVED \<in> terminal_states" "REJECTED \<in> terminal_states"
  "run_state.FAILED \<in> terminal_states" "run_state.CANCELLED \<in> terminal_states"
  "QUEUED \<notin> terminal_states" "DISCOVERING \<notin> terminal_states"
  "STATIC_ANALYSIS \<notin> terminal_states" "PLANNING \<notin> terminal_states"
  "PROVISIONING \<notin> terminal_states" "BASELINE_READY \<notin> terminal_states"
  "APPLYING \<notin> terminal_states" "SEEDING \<notin> terminal_states"
  "SMOKE_TESTING \<notin> terminal_states" "ROLLBACK_VERIFYING \<notin> terminal_states"
  "REPORTING \<notin> terminal_states" "AWAITING_APPROVAL \<notin> terminal_states"
  by (simp_all add: terminal_states_def)

lemma normal_transitions_simps:
  "normal_transitions s =
     (if s = REPORTING then Some {COMPLETED, AWAITING_APPROVAL}
      else if s = AWAITING_APPROVAL then Some {APPROVED, REJECTED}
      else map_option (\<lambda>t. {t}) (next_main_state s))"
  by (cases s) (simp_all add: normal_transitions_def main_state_path_def)

lemma allowed_targets_iff:
  "t \<in> allowed_targets s \<longleftrightarrow>
     next_main_state s = Some t \<or> s = REPORTING \<and> t = AWAITING_APPROVAL \<or>
     s = AWAITING_APPROVAL \<and> t \<in> {APPROVED, REJECTED} \<or>
     s \<notin> terminal_states \<and> t \<in> {run_state.FAILED, run_state.CANCELLED}"
  by (cases s) (auto simp: allowed_targets_def normal_transitions_simps)

lemma terminal_no_target [simp]: "s \<in> terminal_states \<Longrightarrow> allowed_targets s = {}"
  by (cases s) (simp_all add: allowed_targets_def normal_transitions_simps)

lemma next_main_state_allowed: "next_main_state s = Some t \<Longrightarrow> t \<in> allowed_targets s"
  by (simp add: allowed_targets_iff)

lemma next_main_state_None:
  "next_main_state s = None \<longleftrightarrow> s \<in> terminal_states \<or> s = AWAITING_APPROVAL"
  by (cases s) simp_all

lemma target_not_QUEUED: "t \<in> allowed_targets s \<Longrightarrow> t \<noteq> QUEUED"
  by (cases s) (auto simp: allowed_targets_iff)

text \<open>
  The rank of a state: how far along the lifecycle it is.  Every allowed edge climbs, so a
  run makes at most twelve transitions.
\<close>

fun rank :: "run_state \<Rightarrow> nat" where
  "rank QUEUED = 0"
| "rank DISCOVERING = 1"
| "rank STATIC_ANALYSIS = 2"
| "rank PLANNING = 3"
| "rank PROVISIONING = 4"
| "rank BASELINE_READY = 5"
| "rank APPLYING = 6"
| "rank SEEDING = 7"
| "rank SMOKE_TESTING = 8"
| "rank ROLLBACK_VERIFYING = 9"
| "rank REPORTING = 10"
| "rank AWAITING_APPROVAL = 11"
| "rank _ = 12"

lemma rank_le_12: "rank s \<le> 12"
  by (cases s) auto

lemma allowed_rank: "t \<in> allowed_targets s \<Longrightarrow> rank s < rank t"
  by (cases s) (auto simp: allowed_targets_iff)

lemma transition_Inr:
  "transition run target now = Inr run' \<longleftrightarrow>
     target \<in> allowed_targets (ar_state run) \<and>
     run' = run\<lparr>ar_state := target, ar_version := ar_version run + 1, ar_updated_at := now,
                ar_completed_at := (if target \<in> terminal_states then Some now
                                    else ar_completed_at run)\<rparr>"
  by (auto simp: transition_def)

lemma request_cancel_Inr:
  "request_cancel run v now = Inr run' \<Longrightarrow>
     run' = run \<or>
     ar_state run \<notin> terminal_states \<and> ar_version run = v \<and>
     run' = run\<lparr>ar_cancel_requested_at := Some now, ar_updated_at := now\<rparr>"
  by (auto simp: request_cancel_def split: if_splits)

text \<open>
  Following a list of edges from a state; the history of a run is such a path.
\<close>

fun lifecycle_path :: "run_state \<Rightarrow> run_state list \<Rightarrow> bool" where
  "lifecycle_path s [] = True"
| "lifecycle_path s (t # ts) = (t \<in> allowed_targets s \<and> lifecycle_path t ts)"

lemma lifecycle_path_snoc:
  "lifecycle_path s (ts @ [t]) \<longleftrightarrow>
     lifecycle_path s ts \<and> t \<in> allowed_targets (last (s # ts))"
  by (induction ts arbitrary: s) auto

lemma lifecycle_path_rank: "lifecycle_path s ts \<Longrightarrow> rank s + length ts \<le> rank (last (s # ts))"
proof (induction ts arbitrary: s)
  case (Cons t ts)
  then have "rank t + length ts \<le> rank (last (t # ts))" and "rank s < rank t"
    by (simp_all add: allowed_rank)
  then show ?case by simp
qed simp

lemma lifecycle_path_bound: "lifecycle_path s ts \<Longrightarrow> length ts \<le> 12"
  using lifecycle_path_rank [of s ts] rank_le_12 [of "last (s # ts)"] by linarith

end
