(* ===== verification/ControlDb.thy ===== *)
theory ControlDb
  imports Domain
begin

text \<open>
  The control database as the run, step and outbox repositories of
  \<open>persistence/repositories.py\<close> use it, with the keys and checks of
  \<open>persistence/models.py\<close>.  A table is the list of its rows; a row is the domain object the
  repository converts it to.  Each definition is one repository method: a query returns a
  value, a statement that can violate a constraint returns \<open>exn + db\<close>, an \<open>UPDATE\<close> returns
  the new database and whether the row count was one.  The record is extensible, so that the
  tables of the later stages extend it (\<open>'z\<close> is the rest of the database).
\<close>

record control_db =
  audit_runs :: "audit_run list"
  run_steps :: "run_step list"
  outbox_events :: "outbox_event list"

definition empty_db :: control_db where
  "empty_db = \<lparr>audit_runs = [], run_steps = [], outbox_events = []\<rparr>"

section \<open>SqlAlchemyRunRepository\<close>

text \<open>The row \<open>add\<close> and \<open>add_if_idempotency_absent\<close> insert: \<open>created_at or updated_at\<close>.\<close>

definition run_row :: "audit_run \<Rightarrow> audit_run" where
  "run_row run = run\<lparr>ar_created_at := Some (case ar_created_at run of
                       None \<Rightarrow> ar_updated_at run | Some t \<Rightarrow> t)\<rparr>"

text \<open>Primary key and \<open>ck_audit_runs_version_positive\<close>.\<close>

definition insert_run :: "audit_run \<Rightarrow> 'z control_db_scheme \<Rightarrow> 'z control_db_scheme res" where
  "insert_run run db =
     (if exists_row (\<lambda>r. ar_id r = ar_id run) (audit_runs db)
      then Inl (IntegrityError ''audit_runs_pkey'')
      else if ar_version run < 1 then Inl (IntegrityError ''ck_audit_runs_version_positive'')
      else Inr (db\<lparr>audit_runs := audit_runs db @ [run_row run]\<rparr>))"

definition runs_add :: "audit_run \<Rightarrow> 'z control_db_scheme \<Rightarrow> 'z control_db_scheme res" where
  "runs_add run db =
     (if exists_row (\<lambda>r. ar_idempotency_key r = ar_idempotency_key run) (audit_runs db)
      then Inl (IntegrityError ''audit_runs_idempotency_key_key'')
      else insert_run run db)"

definition runs_add_if_idempotency_absent ::
    "audit_run \<Rightarrow> 'z control_db_scheme \<Rightarrow> (bool \<times> 'z control_db_scheme) res" where
  "runs_add_if_idempotency_absent run db =
     (if exists_row (\<lambda>r. ar_idempotency_key r = ar_idempotency_key run) (audit_runs db)
      then Inr (False, db)
      else bind_res (insert_run run db) (\<lambda>db'. Inr (True, db')))"

definition runs_get :: "uuid \<Rightarrow> 'z control_db_scheme \<Rightarrow> audit_run option" where
  "runs_get rid db = select_one (\<lambda>r. ar_id r = rid) (audit_runs db)"

definition runs_get_by_idempotency_key ::
    "string \<Rightarrow> 'z control_db_scheme \<Rightarrow> audit_run option" where
  "runs_get_by_idempotency_key key db =
     select_one (\<lambda>r. ar_idempotency_key r = key) (audit_runs db)"

text \<open>The columns \<open>save\<close> writes; every other column of the row keeps its value.\<close>

definition saved_columns :: "audit_run \<Rightarrow> audit_run \<Rightarrow> audit_run" where
  "saved_columns run row =
     row\<lparr>ar_state := ar_state run, ar_version := ar_version run,
         ar_cleanup_status := ar_cleanup_status run, ar_heartbeat_at := ar_heartbeat_at run,
         ar_cancel_requested_at := ar_cancel_requested_at run,
         ar_failure_code := ar_failure_code run, ar_failure_detail := ar_failure_detail run,
         ar_updated_at := ar_updated_at run, ar_completed_at := ar_completed_at run\<rparr>"

definition runs_save ::
    "audit_run \<Rightarrow> int \<Rightarrow> 'z control_db_scheme \<Rightarrow> 'z control_db_scheme res" where
  "runs_save run expected_version db =
     (let (rows, n) = update_where (\<lambda>r. ar_id r = ar_id run \<and> ar_version r = expected_version)
                        (saved_columns run) (audit_runs db)
      in if n \<noteq> 1 then Inl (OptimisticConcurrencyError (ar_id run) expected_version)
         else Inr (db\<lparr>audit_runs := rows\<rparr>))"

section \<open>SqlAlchemyRunStepRepository\<close>

text \<open>Foreign key, primary key, \<open>uq_run_steps_run_step_key\<close> and the two checks.\<close>

definition step_checks :: "run_step \<Rightarrow> 'z control_db_scheme \<Rightarrow> string option" where
  "step_checks step db =
     (if \<not> exists_row (\<lambda>r. ar_id r = rs_run_id step) (audit_runs db)
      then Some ''run_steps_run_id_fkey''
      else if rs_generation step < 1 then Some ''ck_run_steps_generation_positive''
      else if rs_attempt step < 1 then Some ''ck_run_steps_attempt_positive''
      else if exists_row (\<lambda>s. rs_id s = rs_id step) (run_steps db)
      then Some ''run_steps_pkey''
      else None)"

definition same_step_key :: "run_step \<Rightarrow> run_step \<Rightarrow> bool" where
  "same_step_key a b \<longleftrightarrow> rs_run_id a = rs_run_id b \<and> rs_step_key a = rs_step_key b"

definition steps_add :: "run_step \<Rightarrow> 'z control_db_scheme \<Rightarrow> 'z control_db_scheme res" where
  "steps_add step db =
     (case step_checks step db of
        Some c \<Rightarrow> Inl (IntegrityError c)
      | None \<Rightarrow>
          if exists_row (same_step_key step) (run_steps db)
          then Inl (IntegrityError ''uq_run_steps_run_step_key'')
          else Inr (db\<lparr>run_steps := run_steps db @ [step]\<rparr>))"

text \<open>\<open>ORDER BY resulting_run_version ASC NULLS LAST, started_at, id\<close>.\<close>

definition step_order :: "run_step \<Rightarrow> (bool \<times> int) \<times> int \<times> uuid" where
  "step_order s =
     ((rs_resulting_run_version s = None,
       case rs_resulting_run_version s of None \<Rightarrow> 0 | Some v \<Rightarrow> v),
      rs_started_at s, rs_id s)"

definition steps_list_for_run :: "uuid \<Rightarrow> 'z control_db_scheme \<Rightarrow> run_step list" where
  "steps_list_for_run rid db =
     sort_key step_order (filter (\<lambda>s. rs_run_id s = rid) (run_steps db))"

text \<open>\<open>ORDER BY started_at DESC, id DESC LIMIT 1\<close>.\<close>

definition steps_get_current :: "uuid \<Rightarrow> 'z control_db_scheme \<Rightarrow> run_step option" where
  "steps_get_current rid db =
     (case rev (sort_key (\<lambda>s. (rs_started_at s, rs_id s))
                  (filter (\<lambda>s. rs_run_id s = rid \<and> rs_status s = step_status.RUNNING)
                    (run_steps db))) of
        [] \<Rightarrow> None
      | s # _ \<Rightarrow> Some s)"

text \<open>
  The upsert of \<open>claim\<close>: insert the candidate, or on a conflict on the step key take over
  the existing row if it is \<open>RUNNING\<close> and its lease is absent or has run out at the
  candidate's start.  \<open>RETURNING\<close> gives no row when the \<open>WHERE\<close> of the update fails.
\<close>

definition claimable :: "time \<Rightarrow> run_step \<Rightarrow> bool" where
  "claimable now s \<longleftrightarrow>
     rs_status s = step_status.RUNNING \<and>
     (case rs_lease_expires_at s of None \<Rightarrow> True | Some t \<Rightarrow> t \<le> now)"

definition taken_over :: "run_step \<Rightarrow> run_step \<Rightarrow> run_step" where
  "taken_over candidate s =
     s\<lparr>rs_attempt := rs_attempt s + 1, rs_status := step_status.RUNNING,
       rs_worker_id := rs_worker_id candidate, rs_claim_token := rs_claim_token candidate,
       rs_heartbeat_at := rs_heartbeat_at candidate,
       rs_lease_expires_at := rs_lease_expires_at candidate\<rparr>"

definition steps_claim ::
    "run_step \<Rightarrow> 'z control_db_scheme \<Rightarrow> (run_step option \<times> 'z control_db_scheme) res" where
  "steps_claim candidate db =
     (case select_one (same_step_key candidate) (run_steps db) of
        Some s \<Rightarrow>
          if claimable (rs_started_at candidate) s
          then Inr (Some (taken_over candidate s),
                    db\<lparr>run_steps := fst (update_where (same_step_key candidate)
                                           (taken_over candidate) (run_steps db))\<rparr>)
          else Inr (None, db)
      | None \<Rightarrow>
          (case step_checks candidate db of
             Some c \<Rightarrow> Inl (IntegrityError c)
           | None \<Rightarrow> Inr (Some candidate, db\<lparr>run_steps := run_steps db @ [candidate]\<rparr>)))"

text \<open>The \<open>WHERE\<close> clause the owner's statements share.\<close>

definition owned :: "uuid \<Rightarrow> uuid \<Rightarrow> run_step \<Rightarrow> bool" where
  "owned step_id claim_token s \<longleftrightarrow>
     rs_id s = step_id \<and> rs_claim_token s = Some claim_token \<and>
     rs_status s = step_status.RUNNING"

definition update_owned ::
    "uuid \<Rightarrow> uuid \<Rightarrow> (run_step \<Rightarrow> run_step) \<Rightarrow> 'z control_db_scheme \<Rightarrow>
     bool \<times> 'z control_db_scheme" where
  "update_owned step_id claim_token f db =
     (let (rows, n) = update_where (owned step_id claim_token) f (run_steps db)
      in (n = 1, db\<lparr>run_steps := rows\<rparr>))"

definition steps_heartbeat ::
    "uuid \<Rightarrow> uuid \<Rightarrow> time \<Rightarrow> time \<Rightarrow> 'z control_db_scheme \<Rightarrow> bool \<times> 'z control_db_scheme" where
  "steps_heartbeat step_id claim_token heartbeat_at lease_expires_at =
     update_owned step_id claim_token
       (\<lambda>s. s\<lparr>rs_heartbeat_at := Some heartbeat_at,
              rs_lease_expires_at := Some lease_expires_at\<rparr>)"

definition steps_complete ::
    "uuid \<Rightarrow> uuid \<Rightarrow> int \<Rightarrow> time \<Rightarrow> run_state \<Rightarrow> 'z control_db_scheme \<Rightarrow>
     bool \<times> 'z control_db_scheme" where
  "steps_complete step_id claim_token resulting_run_version finished_at final_state =
     update_owned step_id claim_token
       (\<lambda>s. s\<lparr>rs_status := (if final_state = run_state.CANCELLED then step_status.CANCELLED
                            else step_status.SUCCEEDED),
              rs_to_state := final_state,
              rs_resulting_run_version := Some resulting_run_version,
              rs_finished_at := Some finished_at, rs_lease_expires_at := None\<rparr>)"

definition steps_fail ::
    "uuid \<Rightarrow> uuid \<Rightarrow> int \<Rightarrow> time \<Rightarrow> string \<Rightarrow> string \<Rightarrow> 'z control_db_scheme \<Rightarrow>
     bool \<times> 'z control_db_scheme" where
  "steps_fail step_id claim_token resulting_run_version finished_at error_code error_detail =
     update_owned step_id claim_token
       (\<lambda>s. s\<lparr>rs_status := step_status.FAILED, rs_to_state := run_state.FAILED,
              rs_resulting_run_version := Some resulting_run_version,
              rs_finished_at := Some finished_at, rs_lease_expires_at := None,
              rs_error_code := Some error_code, rs_error_detail := Some error_detail\<rparr>)"

section \<open>SqlAlchemyOutboxRepository\<close>

definition advance_topic :: string where
  "advance_topic = ''run.advance.requested.v1''"

text \<open>Foreign key, primary key and \<open>uq_outbox_aggregate_version_topic\<close>.\<close>

definition same_delivery :: "outbox_event \<Rightarrow> outbox_event \<Rightarrow> bool" where
  "same_delivery a b \<longleftrightarrow>
     oe_aggregate_id a = oe_aggregate_id b \<and>
     oe_aggregate_version a = oe_aggregate_version b \<and> oe_topic a = oe_topic b"

definition outbox_add ::
    "outbox_event \<Rightarrow> 'z control_db_scheme \<Rightarrow> 'z control_db_scheme res" where
  "outbox_add event db =
     (if \<not> exists_row (\<lambda>r. ar_id r = oe_aggregate_id event) (audit_runs db)
      then Inl (IntegrityError ''outbox_events_aggregate_id_fkey'')
      else if exists_row (\<lambda>e. oe_id e = oe_id event) (outbox_events db)
      then Inl (IntegrityError ''outbox_events_pkey'')
      else if exists_row (same_delivery event) (outbox_events db)
      then Inl (IntegrityError ''uq_outbox_aggregate_version_topic'')
      else Inr (db\<lparr>outbox_events := outbox_events db @ [event]\<rparr>))"

definition outbox_get :: "uuid \<Rightarrow> 'z control_db_scheme \<Rightarrow> outbox_event option" where
  "outbox_get eid db = select_one (\<lambda>e. oe_id e = eid) (outbox_events db)"

text \<open>
  \<open>FOR UPDATE SKIP LOCKED\<close>: rows another transaction has locked are skipped before the
  limit is applied; which rows those are is an argument.
\<close>

definition outbox_lock_unpublished ::
    "time \<Rightarrow> int \<Rightarrow> uuid list \<Rightarrow> 'z control_db_scheme \<Rightarrow> outbox_event list" where
  "outbox_lock_unpublished now limit locked db =
     take (nat limit)
       (filter (\<lambda>e. oe_id e \<notin> set locked)
         (sort_key (\<lambda>e. (oe_created_at e, oe_id e))
           (filter (\<lambda>e. oe_published_at e = None \<and> oe_available_at e \<le> now)
             (outbox_events db))))"

definition update_events ::
    "(outbox_event \<Rightarrow> bool) \<Rightarrow> (outbox_event \<Rightarrow> outbox_event) \<Rightarrow> 'z control_db_scheme \<Rightarrow>
     bool \<times> 'z control_db_scheme" where
  "update_events P f db =
     (let (rows, n) = update_where P f (outbox_events db)
      in (n = 1, db\<lparr>outbox_events := rows\<rparr>))"

definition outbox_mark_published ::
    "uuid \<Rightarrow> time \<Rightarrow> 'z control_db_scheme \<Rightarrow> bool \<times> 'z control_db_scheme" where
  "outbox_mark_published eid published_at =
     update_events (\<lambda>e. oe_id e = eid \<and> oe_published_at e = None)
       (\<lambda>e. e\<lparr>oe_published_at := Some published_at,
              oe_publish_attempts := oe_publish_attempts e + 1, oe_last_error := None\<rparr>)"

definition outbox_mark_failed ::
    "uuid \<Rightarrow> string \<Rightarrow> time \<Rightarrow> 'z control_db_scheme \<Rightarrow> bool \<times> 'z control_db_scheme" where
  "outbox_mark_failed eid err available_at =
     update_events (\<lambda>e. oe_id e = eid \<and> oe_published_at e = None)
       (\<lambda>e. e\<lparr>oe_available_at := available_at,
              oe_publish_attempts := oe_publish_attempts e + 1, oe_last_error := Some err\<rparr>)"

definition active_step :: "time \<Rightarrow> outbox_event \<Rightarrow> run_step \<Rightarrow> bool" where
  "active_step now e s \<longleftrightarrow>
     rs_run_id s = oe_aggregate_id e \<and>
     rs_expected_run_version s = oe_aggregate_version e \<and>
     rs_status s = step_status.RUNNING \<and>
     (case rs_lease_expires_at s of None \<Rightarrow> False | Some t \<Rightarrow> now < t)"

definition stale_delivery ::
    "time \<Rightarrow> time \<Rightarrow> 'z control_db_scheme \<Rightarrow> outbox_event \<Rightarrow> bool" where
  "stale_delivery now stale_before db e \<longleftrightarrow>
     (case oe_published_at e of None \<Rightarrow> False | Some t \<Rightarrow> t \<le> stale_before) \<and>
     exists_row (\<lambda>r. ar_id r = oe_aggregate_id e \<and> ar_version r = oe_aggregate_version e \<and>
                     ar_state r \<notin> terminal_states) (audit_runs db) \<and>
     \<not> exists_row (active_step now e) (run_steps db)"

definition outbox_lock_stale_deliveries ::
    "time \<Rightarrow> time \<Rightarrow> int \<Rightarrow> uuid list \<Rightarrow> 'z control_db_scheme \<Rightarrow> outbox_event list" where
  "outbox_lock_stale_deliveries now stale_before limit locked db =
     take (nat limit)
       (filter (\<lambda>e. oe_id e \<notin> set locked)
         (sort_key (\<lambda>e. (oe_published_at e \<noteq> None,
                          case oe_published_at e of None \<Rightarrow> 0 | Some t \<Rightarrow> t, oe_id e))
           (filter (stale_delivery now stale_before db) (outbox_events db))))"

definition outbox_reopen ::
    "uuid \<Rightarrow> time \<Rightarrow> string \<Rightarrow> 'z control_db_scheme \<Rightarrow> bool \<times> 'z control_db_scheme" where
  "outbox_reopen eid available_at reason =
     update_events (\<lambda>e. oe_id e = eid)
       (\<lambda>e. e\<lparr>oe_published_at := None, oe_available_at := available_at,
              oe_last_error := Some reason\<rparr>)"

definition outbox_wake_current ::
    "uuid \<Rightarrow> int \<Rightarrow> time \<Rightarrow> 'z control_db_scheme \<Rightarrow> bool \<times> 'z control_db_scheme" where
  "outbox_wake_current aggregate_id aggregate_version available_at =
     update_events
       (\<lambda>e. oe_aggregate_id e = aggregate_id \<and> oe_aggregate_version e = aggregate_version \<and>
            oe_topic e = advance_topic)
       (\<lambda>e. e\<lparr>oe_published_at := None, oe_available_at := available_at,
              oe_last_error := Some ''WOKEN_FOR_CANCELLATION''\<rparr>)"

end
