(* ===== verification/Canonical.thy ===== *)
theory Canonical
  imports Prelude "HOL-Library.Multiset"
begin

text \<open>
  The standard-library functions every content hash of the program goes through:
  \<open>str.encode()\<close>, \<open>json.dumps(..., sort_keys=True, separators=(",", ":"))\<close> and
  \<open>hashlib.sha256(data).hexdigest()\<close>.
\<close>

unbundle bit_operations_syntax

type_synonym byte = "8 word"
type_synonym bytes = "byte list"

section \<open>UTF-8\<close>

text \<open>A character is a code point below 256: one byte below 128, two from there on.\<close>

definition utf8_char :: "char \<Rightarrow> bytes" where
  "utf8_char c =
     (let n = (of_char c :: nat)
      in if n < 128 then [word_of_nat n]
         else [word_of_nat (192 + n div 64), word_of_nat (128 + n mod 64)])"

definition encode :: "string \<Rightarrow> bytes" where
  "encode s = concat (map utf8_char s)"

text \<open>Strict decoding; \<open>None\<close> is \<open>UnicodeDecodeError\<close> (or a code point above 255).\<close>

fun decode :: "bytes \<Rightarrow> string option" where
  "decode [] = Some []"
| "decode (b # bs) =
     (if unat b < 128 then map_option ((#) (char_of (unat b))) (decode bs)
      else (case bs of
              [] \<Rightarrow> None
            | b' # bs' \<Rightarrow>
                if (unat b = 194 \<or> unat b = 195) \<and> 128 \<le> unat b' \<and> unat b' < 192
                then map_option ((#) (char_of ((unat b - 192) * 64 + (unat b' - 128)))) (decode bs')
                else None))"

lemma encode_simps [simp]:
  "encode [] = []"
  "encode (c # s) = utf8_char c @ encode s"
  "encode (s @ t) = encode s @ encode t"
  by (simp_all add: encode_def)

lemma of_char_less_256: "(of_char c :: nat) < 256"
  using nat_of_char_less_256 [of c] by simp

lemma decode_utf8_char: "decode (utf8_char c @ bs) = map_option ((#) c) (decode bs)"
proof -
  define n where "n = (of_char c :: nat)"
  have n: "n < 256" using of_char_less_256 [of c] by (simp add: n_def)
  have c: "char_of n = c" by (simp add: n_def)
  show ?thesis
  proof (cases "n < 128")
    case True
    then have "unat (word_of_nat n :: byte) = n" by (simp add: unat_of_nat)
    with True c show ?thesis by (simp add: utf8_char_def Let_def flip: n_def)
  next
    case False
    with n have d: "n div 64 = 2 \<or> n div 64 = 3" by auto
    have m: "n mod 64 < 64" by simp
    have u1: "unat (word_of_nat (192 + n div 64) :: byte) = 192 + n div 64"
      using d by (auto simp: unat_of_nat)
    have u2: "unat (word_of_nat (128 + n mod 64) :: byte) = 128 + n mod 64"
      using m by (simp only: unat_of_nat) simp
    have "(192 + n div 64 - 192) * 64 + (128 + n mod 64 - 128) = n" by simp
    with False u1 u2 d m c show ?thesis
      by (auto simp: utf8_char_def Let_def simp flip: n_def)
  qed
qed

lemma decode_encode [simp]: "decode (encode s) = Some s"
  by (induction s) (simp_all add: decode_utf8_char)

lemma encode_inject [simp]: "encode s = encode t \<longleftrightarrow> s = t"
  by (metis decode_encode option.inject)

section \<open>SHA-256\<close>

definition sha_k :: "32 word list" where
  "sha_k =
    [1116352408, 1899447441, 3049323471, 3921009573, 961987163, 1508970993, 2453635748,
      2870763221, 3624381080, 310598401, 607225278, 1426881987, 1925078388, 2162078206,
      2614888103, 3248222580, 3835390401, 4022224774, 264347078, 604807628, 770255983,
      1249150122, 1555081692, 1996064986, 2554220882, 2821834349, 2952996808, 3210313671,
      3336571891, 3584528711, 113926993, 338241895, 666307205, 773529912, 1294757372,
      1396182291, 1695183700, 1986661051, 2177026350, 2456956037, 2730485921, 2820302411,
      3259730800, 3345764771, 3516065817, 3600352804, 4094571909, 275423344, 430227734,
      506948616, 659060556, 883997877, 958139571, 1322822218, 1537002063, 1747873779,
      1955562222, 2024104815, 2227730452, 2361852424, 2428436474, 2756734187, 3204031479,
      3329325298]"

definition sha_init :: "32 word list" where
  "sha_init =
    [1779033703, 3144134277, 1013904242, 2773480762, 1359893119, 2600822924, 528734635,
      1541459225]"

definition be_bytes :: "nat \<Rightarrow> nat \<Rightarrow> bytes" where
  "be_bytes w n = map (\<lambda>i. word_of_nat (n div 256 ^ i mod 256)) (rev [0..<w])"

definition sha_pad :: "bytes \<Rightarrow> bytes" where
  "sha_pad m = m @ [0x80] @ replicate ((119 - length m mod 64) mod 64) 0
                 @ be_bytes 8 (8 * length m)"

definition word_of_bytes :: "bytes \<Rightarrow> 32 word" where
  "word_of_bytes bs = foldl (\<lambda>a b. push_bit 8 a OR ucast b) 0 bs"

fun chunks :: "nat \<Rightarrow> 'a list \<Rightarrow> 'a list list" where
  "chunks n xs = (if n = 0 \<or> xs = [] then [] else take n xs # chunks n (drop n xs))"

declare chunks.simps [simp del]

definition rotr :: "nat \<Rightarrow> 32 word \<Rightarrow> 32 word" where
  "rotr n x = word_rotr n x"

text \<open>The message schedule, newest word first.\<close>

fun sha_schedule :: "nat \<Rightarrow> 32 word list \<Rightarrow> 32 word list" where
  "sha_schedule 0 ws = ws"
| "sha_schedule (Suc k) ws =
     (let s0 = rotr 7 (ws ! 14) XOR rotr 18 (ws ! 14) XOR drop_bit 3 (ws ! 14);
          s1 = rotr 17 (ws ! 1) XOR rotr 19 (ws ! 1) XOR drop_bit 10 (ws ! 1)
      in sha_schedule k ((ws ! 15 + s0 + ws ! 6 + s1) # ws))"

fun sha_round :: "32 word list \<Rightarrow> 32 word \<times> 32 word \<Rightarrow> 32 word list" where
  "sha_round [a, b, c, d, e, f, g, h] (k, w) =
     (let s1 = rotr 6 e XOR rotr 11 e XOR rotr 25 e;
          ch = (e AND f) XOR (NOT e AND g);
          t1 = h + s1 + ch + k + w;
          s0 = rotr 2 a XOR rotr 13 a XOR rotr 22 a;
          maj = (a AND b) XOR (a AND c) XOR (b AND c)
      in [t1 + (s0 + maj), a, b, c, d + t1, e, f, g])"
| "sha_round st _ = st"

definition sha_block :: "32 word list \<Rightarrow> bytes \<Rightarrow> 32 word list" where
  "sha_block h block =
     (let ws = rev (sha_schedule 48 (rev (map word_of_bytes (chunks 4 block))))
      in map2 (+) h (foldl sha_round h (zip sha_k ws)))"

definition sha256 :: "bytes \<Rightarrow> 32 word list" where
  "sha256 m = foldl sha_block sha_init (chunks 64 (sha_pad m))"

definition hexdigest :: "bytes \<Rightarrow> string" where
  "hexdigest m = concat (map (\<lambda>w. hex_fixed 8 (unat w)) (sha256 m))"

lemma length_sha_round [simp]: "length st = 8 \<Longrightarrow> length (sha_round st kw) = 8"
  by (induction st kw rule: sha_round.induct) (simp_all add: Let_def)

lemma length_foldl_keeps:
  "(\<And>a x. length a = n \<Longrightarrow> length (f a x) = n) \<Longrightarrow> length a = n \<Longrightarrow> length (foldl f a xs) = n"
  by (induction xs arbitrary: a) auto

lemma length_sha256 [simp]: "length (sha256 m) = 8"
proof -
  have "length (sha_block h b) = 8" if "length h = 8" for h b
    using that by (simp add: sha_block_def Let_def length_foldl_keeps [of 8 sha_round])
  then show ?thesis
    unfolding sha256_def by (intro length_foldl_keeps) (simp_all add: sha_init_def)
qed

text \<open>\<open>re.fullmatch(r"[a-f0-9]{64}", h)\<close>, the constraint on every stored hash.\<close>

definition is_hex_char :: "char \<Rightarrow> bool" where
  "is_hex_char c \<longleftrightarrow> c \<in> set ''0123456789abcdef''"

definition is_sha256_hex :: "string \<Rightarrow> bool" where
  "is_sha256_hex h \<longleftrightarrow> length h = 64 \<and> list_all is_hex_char h"

lemma hex_digit_is_hex: "is_hex_char (hex_digit n)"
proof -
  have "n mod 16 < length ''0123456789abcdef''" by simp
  then have "''0123456789abcdef'' ! (n mod 16) \<in> set ''0123456789abcdef''" by (rule nth_mem)
  then show ?thesis by (simp only: is_hex_char_def hex_digit_def)
qed

lemma hex_fixed_is_hex: "list_all is_hex_char (hex_fixed w n)"
  by (induction w arbitrary: n) (simp_all add: hex_digit_is_hex)

lemma length_concat_const:
  "(\<And>x. x \<in> set xs \<Longrightarrow> length (f x) = k) \<Longrightarrow> length (concat (map f xs)) = k * length xs"
  by (induction xs) auto

lemma is_sha256_hex_hexdigest: "is_sha256_hex (hexdigest m)"
  by (auto simp: is_sha256_hex_def hexdigest_def length_concat_const [where k = 8] list_all_iff
      dest: hex_fixed_is_hex [unfolded list_all_iff, rule_format])

lemma length_hexdigest [simp]: "length (hexdigest m) = 64"
  using is_sha256_hex_hexdigest [of m] by (simp add: is_sha256_hex_def)

section \<open>Canonical JSON\<close>

text \<open>\<open>JNum\<close> is a float, given by its text.\<close>

datatype json =
    JNull
  | JBool bool
  | JInt int
  | JNum string
  | JStr string
  | JList "json list"
  | JObj "(string \<times> json) list"

text \<open>
  String escapes of the encoder; \<open>ensure_ascii\<close> decides whether characters above 126 are
  written as they are or as \<open>\uXXXX\<close>.
\<close>

definition backslash :: char where
  "backslash = char_of (92::nat)"

definition quote :: char where
  "quote = char_of (34::nat)"

definition json_char :: "bool \<Rightarrow> char \<Rightarrow> string" where
  "json_char ensure_ascii c =
     (let n = (of_char c :: nat)
      in if c = quote then [backslash, quote]
         else if c = backslash then [backslash, backslash]
         else if n = 10 then [backslash, CHR ''n'']
         else if n = 13 then [backslash, CHR ''r'']
         else if n = 9 then [backslash, CHR ''t'']
         else if n = 12 then [backslash, CHR ''f'']
         else if n = 8 then [backslash, CHR ''b'']
         else if n < 32 \<or> ensure_ascii \<and> 126 < n
         then [backslash, CHR ''u''] @ hex_fixed 4 n
         else [c])"

definition json_string :: "bool \<Rightarrow> string \<Rightarrow> string" where
  "json_string ensure_ascii s = [quote] @ concat (map (json_char ensure_ascii) s) @ [quote]"

fun dumps :: "bool \<Rightarrow> json \<Rightarrow> string" where
  "dumps ea JNull = ''null''"
| "dumps ea (JBool b) = (if b then ''true'' else ''false'')"
| "dumps ea (JInt i) = dec_int i"
| "dumps ea (JNum text) = text"
| "dumps ea (JStr s) = json_string ea s"
| "dumps ea (JList xs) = ''['' @ join_with '','' (map (dumps ea) xs) @ '']''"
| "dumps ea (JObj kvs) =
     ''{'' @ join_with '',''
       (map snd (sort_key fst (map (\<lambda>(k, v). (k, json_string ea k @ '':'' @ dumps ea v)) kvs)))
     @ ''}''"

text \<open>\<open>json.dumps(...).encode()\<close> with the two settings the program uses.\<close>

definition canonical_json :: "json \<Rightarrow> bytes" where
  "canonical_json v = encode (dumps False v)"

definition canonical_json_ascii :: "json \<Rightarrow> bytes" where
  "canonical_json_ascii v = encode (dumps True v)"

fun opt_json :: "('a \<Rightarrow> json) \<Rightarrow> 'a option \<Rightarrow> json" where
  "opt_json f None = JNull"
| "opt_json f (Some x) = f x"

text \<open>With \<open>sort_keys=True\<close> the text does not depend on the insertion order of the keys.\<close>

lemma dumps_key_order:
  assumes "mset kvs = mset kvs'" and "distinct (map fst kvs)"
  shows "dumps ea (JObj kvs) = dumps ea (JObj kvs')"
proof -
  let ?entry = "\<lambda>(k, v). (k, json_string ea k @ '':'' @ dumps ea v)"
  have keys: "map (fst \<circ> ?entry) kvs = map fst kvs" by (simp add: case_prod_beta comp_def)
  have "sort_key fst (map ?entry kvs) = sort_key fst (map ?entry kvs')"
  proof (rule sort_key_inj_key_eq)
    show "mset (map ?entry kvs) = mset (sort_key fst (map ?entry kvs'))"
      using assms(1) by simp
    have "distinct (map fst (map ?entry kvs))" using assms(2) keys by (simp only: map_map)
    then show "inj_on fst (set (map ?entry kvs))" by (simp only: distinct_map)
  qed simp
  then show ?thesis by simp
qed

end
