(* ===== verification/RunService.thy ===== *)
theory RunService
  imports ControlDb Canonical
begin

text \<open>
  \<open>api/schemas/runs.py\<close> (validation of a creation request) and \<open>application/runs.py\<close>
  (create, get and cancel).  A use case is one unit of work: \<open>Inl\<close> is an exception that
  leaves the \<open>with\<close> block, which rolls back, so no database is returned with it; an early
  return without \<open>commit\<close> returns the database it was given.  Clock readings and fresh
  identifiers are arguments, in the order the code draws them.
\<close>

section \<open>CreateAuditRunRequestV1\<close>

datatype diff_mode = WORKING_TREE | RANGE

fun diff_mode_value :: "diff_mode \<Rightarrow> string" where
  "diff_mode_value WORKING_TREE = ''WORKING_TREE''"
| "diff_mode_value RANGE = ''RANGE''"

record create_request =
  rq_repository_path :: string
  rq_diff_mode :: diff_mode
  rq_base_ref :: "string option"
  rq_head_ref :: "string option"

text \<open>\<open>str.strip()\<close>: whitespace code points below 256.\<close>

definition py_space :: "char \<Rightarrow> bool" where
  "py_space c \<longleftrightarrow> (of_char c :: nat) \<in> set [9, 10, 11, 12, 13, 28, 29, 30, 31, 32, 133, 160]"

definition strip :: "string \<Rightarrow> string" where
  "strip s = rev (dropWhile py_space (rev (dropWhile py_space s)))"

definition nul :: char where
  "nul = char_of (0::nat)"

text \<open>\<open>Field(min_length=lo, max_length=hi)\<close>.\<close>

definition length_between :: "nat \<Rightarrow> nat \<Rightarrow> string \<Rightarrow> bool" where
  "length_between lo hi s \<longleftrightarrow> lo \<le> length s \<and> length s \<le> hi"

definition normalize_text :: "string option \<Rightarrow> string option res" where
  "normalize_text value =
     (case value of
        None \<Rightarrow> Inr None
      | Some v \<Rightarrow>
          let normalized = strip v
          in if normalized = [] \<or> nul \<in> set normalized
             then Inl (ValueError ''value must contain safe non-empty text'')
             else Inr (Some normalized))"

definition validate_relative_repository_path :: "string \<Rightarrow> string res" where
  "validate_relative_repository_path v =
     (if starts_with v ''/'' \<or> list_ex (\<lambda>part. part \<in> {'''', ''.'', ''..''}) (split_on CHR ''/'' v)
      then Inl (ValueError ''repository_path must be a safe relative path'')
      else Inr v)"

definition validate_diff_selection :: "create_request \<Rightarrow> create_request res" where
  "validate_diff_selection rq =
     (if rq_diff_mode rq = RANGE \<and> (rq_base_ref rq = None \<or> rq_head_ref rq = None)
      then Inl (ValueError ''RANGE mode requires both base_ref and head_ref'')
      else if rq_diff_mode rq = WORKING_TREE \<and> (rq_base_ref rq \<noteq> None \<or> rq_head_ref rq \<noteq> None)
      then Inl (ValueError ''WORKING_TREE mode does not accept range refs'')
      else Inr rq)"

definition length_checked :: "nat \<Rightarrow> nat \<Rightarrow> string option \<Rightarrow> string option res" where
  "length_checked lo hi v =
     (case v of
        None \<Rightarrow> Inr None
      | Some s \<Rightarrow> if length_between lo hi s then Inr (Some s)
                  else Inl (ValueError ''string length''))"

text \<open>
  The whole model: field lengths, then the two field validators in their order, then the
  model validator.  A \<open>None\<close> path is not accepted by the field type.
\<close>

definition create_request_validate :: "create_request \<Rightarrow> create_request res" where
  "create_request_validate raw =
     bind_res (length_checked 1 4096 (Some (rq_repository_path raw))) (\<lambda>path0.
     bind_res (length_checked 1 512 (rq_base_ref raw)) (\<lambda>base0.
     bind_res (length_checked 1 512 (rq_head_ref raw)) (\<lambda>head0.
     bind_res (normalize_text path0) (\<lambda>path1.
     bind_res (case path1 of None \<Rightarrow> Inl (ValueError ''string required'')
               | Some p \<Rightarrow> validate_relative_repository_path p) (\<lambda>path.
     bind_res (normalize_text base0) (\<lambda>base.
     bind_res (normalize_text head0) (\<lambda>head.
       validate_diff_selection
         \<lparr>rq_repository_path = path, rq_diff_mode = rq_diff_mode raw,
          rq_base_ref = base, rq_head_ref = head\<rparr>)))))))"

text \<open>\<open>CancelAuditRunRequestV1\<close>: \<open>expected_version >= 1\<close>.\<close>

definition cancel_request_validate :: "int \<Rightarrow> int res" where
  "cancel_request_validate v = (if 1 \<le> v then Inr v else Inl (ValueError ''greater_than_equal''))"

section \<open>RunService\<close>

definition request_json :: "create_request \<Rightarrow> json" where
  "request_json rq =
     JObj [(''repository_path'', JStr (rq_repository_path rq)),
           (''diff_mode'', JStr (diff_mode_value (rq_diff_mode rq))),
           (''base_ref'', opt_json JStr (rq_base_ref rq)),
           (''head_ref'', opt_json JStr (rq_head_ref rq))]"

definition request_fingerprint :: "create_request \<Rightarrow> string" where
  "request_fingerprint rq = hexdigest (canonical_json (request_json rq))"

definition resolve_replay :: "audit_run \<Rightarrow> string \<Rightarrow> string \<Rightarrow> audit_run res" where
  "resolve_replay run fingerprint key =
     (if ar_request_fingerprint run \<noteq> fingerprint then Inl (IdempotencyConflictError key)
      else Inr run)"

definition new_run :: "create_request \<Rightarrow> string \<Rightarrow> time \<Rightarrow> uuid \<Rightarrow> audit_run" where
  "new_run rq key now run_id =
     \<lparr>ar_id = run_id, ar_state = QUEUED, ar_version = 1, ar_updated_at = now,
      ar_created_at = Some now, ar_completed_at = None, ar_cancel_requested_at = None,
      ar_repository_path = rq_repository_path rq,
      ar_diff_mode = diff_mode_value (rq_diff_mode rq),
      ar_base_ref = rq_base_ref rq, ar_head_ref = rq_head_ref rq,
      ar_idempotency_key = key, ar_request_fingerprint = request_fingerprint rq,
      ar_cleanup_status = cleanup_status.NOT_REQUIRED, ar_heartbeat_at = None,
      ar_failure_code = None, ar_failure_detail = None\<rparr>"

text \<open>The advance event of a run at its present version.\<close>

definition advance_event :: "audit_run \<Rightarrow> time \<Rightarrow> uuid \<Rightarrow> outbox_event" where
  "advance_event run now event_id =
     \<lparr>oe_id = event_id, oe_aggregate_id = ar_id run, oe_aggregate_version = ar_version run,
      oe_topic = advance_topic,
      oe_payload = \<lparr>pl_run_id = uuid_str (ar_id run),
                    pl_expected_state = state_value (ar_state run),
                    pl_expected_version = ar_version run\<rparr>,
      oe_available_at = now, oe_created_at = now, oe_published_at = None,
      oe_publish_attempts = 0, oe_last_error = None\<rparr>"

definition run_service_create ::
    "create_request \<Rightarrow> string \<Rightarrow> time \<Rightarrow> uuid \<Rightarrow> uuid \<Rightarrow> 'z control_db_scheme \<Rightarrow>
     (audit_run \<times> 'z control_db_scheme) res" where
  "run_service_create rq key now run_id event_id db =
     (case runs_get_by_idempotency_key key db of
        Some existing \<Rightarrow>
          bind_res (resolve_replay existing (request_fingerprint rq) key) (\<lambda>r. Inr (r, db))
      | None \<Rightarrow>
          let run = new_run rq key now run_id
          in bind_res (runs_add_if_idempotency_absent run db) (\<lambda>(inserted, db1).
             if \<not> inserted
             then (case runs_get_by_idempotency_key key db1 of
                     None \<Rightarrow> Inl (RuntimeError
                              ''Idempotency conflict did not expose the existing run'')
                   | Some concurrent \<Rightarrow>
                       bind_res (resolve_replay concurrent (request_fingerprint rq) key)
                         (\<lambda>r. Inr (r, db)))
             else bind_res (outbox_add (advance_event run now event_id) db1)
                    (\<lambda>db2. Inr (run, db2))))"

definition run_service_get :: "uuid \<Rightarrow> 'z control_db_scheme \<Rightarrow> audit_run res" where
  "run_service_get run_id db =
     (case runs_get run_id db of None \<Rightarrow> Inl (RunNotFoundError run_id) | Some r \<Rightarrow> Inr r)"

text \<open>
  \<open>cancel\<close> reads the run and later writes it back; \<open>cancel_write\<close> is what follows the
  read, applied to the copy that was read.
\<close>

definition cancel_write ::
    "audit_run \<Rightarrow> int \<Rightarrow> time \<Rightarrow> 'z control_db_scheme \<Rightarrow>
     (audit_run \<times> 'z control_db_scheme) res" where
  "cancel_write run expected_version now db =
     bind_res (request_cancel run expected_version now) (\<lambda>run'.
       if ar_cancel_requested_at run \<noteq> None \<or> ar_state run' = run_state.CANCELLED
       then Inr (run', db)
       else bind_res (runs_save run' expected_version db) (\<lambda>db1.
         Inr (run', snd (outbox_wake_current (ar_id run') (ar_version run')
                          (case ar_cancel_requested_at run' of None \<Rightarrow> now | Some t \<Rightarrow> t) db1))))"

definition run_service_cancel ::
    "uuid \<Rightarrow> int \<Rightarrow> time \<Rightarrow> 'z control_db_scheme \<Rightarrow>
     (audit_run \<times> 'z control_db_scheme) res" where
  "run_service_cancel run_id expected_version now db =
     (case runs_get run_id db of
        None \<Rightarrow> Inl (RunNotFoundError run_id)
      | Some run \<Rightarrow> cancel_write run expected_version now db)"

section \<open>Normalised text\<close>

lemma strip_edges:
  "strip s \<noteq> [] \<Longrightarrow> \<not> py_space (hd (strip s)) \<and> \<not> py_space (last (strip s))"
proof -
  let ?t = "dropWhile py_space s"
  assume "strip s \<noteq> []"
  then have t: "dropWhile py_space (rev ?t) \<noteq> []" by (simp add: strip_def)
  then have l: "\<not> py_space (hd (dropWhile py_space (rev ?t)))" by (rule hd_dropWhile)
  have "?t \<noteq> []" using t by (metis dropWhile.simps(1) rev.simps(1))
  then have h: "\<not> py_space (hd ?t)" by (rule hd_dropWhile)
  obtain u v where uv: "rev ?t = u @ v" "v = dropWhile py_space (rev ?t)"
    by (metis takeWhile_dropWhile_id)
  then have "?t = rev v @ rev u" by (metis rev_append rev_rev_ident)
  with uv(2) t have "hd (rev v) = hd ?t" by (simp add: hd_append)
  with h l uv(2) show ?thesis by (simp add: strip_def last_rev)
qed

lemma strip_idem [simp]: "strip (strip s) = strip s"
proof (cases "strip s = []")
  case False
  from strip_edges [OF False] have "dropWhile py_space (strip s) = strip s"
    "dropWhile py_space (rev (strip s)) = rev (strip s)"
    using False by (simp_all add: dropWhile_eq_self_iff hd_rev)
  then show ?thesis by (simp add: strip_def [of "strip s"])
next
  case True
  then show ?thesis by (simp only: True) (simp add: strip_def)
qed

lemma length_strip: "length (strip s) \<le> length s"
  unfolding strip_def by (metis (no_types) length_dropWhile_le length_rev order_trans)

lemma normalize_text_again:
  assumes "length_checked lo hi v = Inr w" and "normalize_text w = Inr n" and "lo \<le> 1"
  shows "length_checked lo hi n = Inr n \<and> normalize_text n = Inr n"
proof (cases w)
  case None
  with assms(2) show ?thesis by (simp add: normalize_text_def length_checked_def)
next
  case (Some s)
  with assms(1) have "v = Some s" "length s \<le> hi"
    by (auto simp: length_checked_def length_between_def split: option.splits if_splits)
  moreover from assms(2) Some have n: "n = Some (strip s)" "strip s \<noteq> []" "nul \<notin> set (strip s)"
    by (auto simp: normalize_text_def Let_def split: if_splits)
  moreover have "1 \<le> length (strip s)" using n(2) by (cases "strip s") simp_all
  ultimately show ?thesis
    using length_strip [of s] assms(3)
    by (simp add: length_checked_def length_between_def normalize_text_def)
qed

lemma create_request_validate_Inr:
  assumes "create_request_validate raw = Inr rq"
  obtains p b h where
    "length_checked 1 4096 (Some (rq_repository_path raw)) = Inr (Some (rq_repository_path raw))"
    and "normalize_text (Some (rq_repository_path raw)) = Inr (Some p)"
    and "validate_relative_repository_path p = Inr p"
    and "length_checked 1 512 (rq_base_ref raw) = Inr (rq_base_ref raw)"
    and "normalize_text (rq_base_ref raw) = Inr b"
    and "length_checked 1 512 (rq_head_ref raw) = Inr (rq_head_ref raw)"
    and "normalize_text (rq_head_ref raw) = Inr h"
    and "validate_diff_selection \<lparr>rq_repository_path = p, rq_diff_mode = rq_diff_mode raw,
           rq_base_ref = b, rq_head_ref = h\<rparr> = Inr rq"
proof -
  have lc: "length_checked lo hi v = Inr w \<Longrightarrow> w = v" for lo hi v w
    by (auto simp: length_checked_def split: option.splits if_splits)
  have vp: "validate_relative_repository_path v = Inr w \<Longrightarrow> w = v" for v w
    by (auto simp: validate_relative_repository_path_def split: if_splits)
  from assms obtain path0 base0 head0 path1 p b h where
    1: "length_checked 1 4096 (Some (rq_repository_path raw)) = Inr path0"
      "length_checked 1 512 (rq_base_ref raw) = Inr base0"
      "length_checked 1 512 (rq_head_ref raw) = Inr head0"
    and 2: "normalize_text path0 = Inr path1" "normalize_text base0 = Inr b"
      "normalize_text head0 = Inr h"
    and 3: "(case path1 of None \<Rightarrow> Inl (ValueError ''string required'')
               | Some p \<Rightarrow> validate_relative_repository_path p) = Inr p"
    and 4: "validate_diff_selection \<lparr>rq_repository_path = p, rq_diff_mode = rq_diff_mode raw,
           rq_base_ref = b, rq_head_ref = h\<rparr> = Inr rq"
    unfolding create_request_validate_def bind_res_Inr by blast
  from 3 obtain q where "path1 = Some q" "validate_relative_repository_path q = Inr p"
    by (cases path1) auto
  then have "path1 = Some p" "validate_relative_repository_path p = Inr p" using vp by auto
  with 1 2 4 lc [OF 1(1)] lc [OF 1(2)] lc [OF 1(3)] show thesis by (intro that) simp_all
qed

end
