(* ===== verification/RunExecution.thy ===== *)
theory RunExecution
  imports RunService
begin

text \<open>
  \<open>application/run_execution.py\<close>: claim, heartbeat, finalize and fail of one stage.  Each use
  case that reads the run and writes it back is split at the read: \<open>claim_decide\<close>,
  \<open>finalize_write\<close> and \<open>fail_write\<close> work on the copies that were read, and the use case
  composes the read with them.  Under READ COMMITTED the two halves may see different
  databases.
\<close>

definition handler_version :: "run_state \<Rightarrow> string" where
  "handler_version target =
     (if target = DISCOVERING then ''m2.discovery.v1''
      else if target = STATIC_ANALYSIS then ''m2.static-analysis.v1''
      else if target = PLANNING then ''m3.planning.v1''
      else if target = PROVISIONING then ''m4.provision-shadow.v1''
      else if target = BASELINE_READY then ''m4.baseline-upgrade.v1''
      else if target = APPLYING then ''m4.apply-target.v1''
      else if target = SEEDING then ''m5.seed-data.v1''
      else if target = SMOKE_TESTING then ''m5.smoke-checks.v1''
      else if target = ROLLBACK_VERIFYING then ''m5.rollback-roundtrip.v1''
      else if target = REPORTING then ''m5.collect-evidence.v1''
      else ''m1.noop.v1'')"

text \<open>\<open>f"{run.id}:{target.value}:1"\<close>.\<close>

definition step_key :: "uuid \<Rightarrow> run_state \<Rightarrow> string" where
  "step_key run_id target = uuid_str run_id @ '':'' @ state_value target @ '':1''"

definition claim_target :: "audit_run \<Rightarrow> run_state option" where
  "claim_target run =
     (if ar_cancel_requested_at run \<noteq> None then Some run_state.CANCELLED
      else next_main_state (ar_state run))"

text \<open>An in-flight owner of the version, whose heartbeat will observe the cancellation.\<close>

definition in_flight :: "run_step option \<Rightarrow> audit_run \<Rightarrow> time \<Rightarrow> bool" where
  "in_flight current run now \<longleftrightarrow>
     (case current of
        None \<Rightarrow> False
      | Some s \<Rightarrow>
          rs_expected_run_version s = ar_version run \<and>
          (case rs_lease_expires_at s of None \<Rightarrow> False | Some t \<Rightarrow> now < t))"

definition candidate_step ::
    "audit_run \<Rightarrow> run_state \<Rightarrow> string \<Rightarrow> time \<Rightarrow> int \<Rightarrow> uuid \<Rightarrow> uuid \<Rightarrow> run_step" where
  "candidate_step run target worker_id now lease_duration step_id token =
     \<lparr>rs_id = step_id, rs_run_id = ar_id run, rs_step_key = step_key (ar_id run) target,
      rs_from_state = ar_state run, rs_to_state = target, rs_generation = 1, rs_attempt = 1,
      rs_status = step_status.RUNNING, rs_expected_run_version = ar_version run,
      rs_handler_version = handler_version target, rs_started_at = now,
      rs_resulting_run_version = None, rs_worker_id = Some worker_id,
      rs_claim_token = Some token, rs_heartbeat_at = Some now,
      rs_lease_expires_at = Some (now + lease_duration), rs_finished_at = None,
      rs_error_code = None, rs_error_detail = None\<rparr>"

text \<open>The decision of \<open>claim\<close>: \<open>None\<close> for each early \<open>return None\<close>.\<close>

definition claim_decide ::
    "outbox_event option \<Rightarrow> audit_run option \<Rightarrow> run_step option \<Rightarrow> string \<Rightarrow> time \<Rightarrow> int \<Rightarrow>
     uuid \<Rightarrow> uuid \<Rightarrow> run_step option res" where
  "claim_decide event run current worker_id now lease_duration step_id token =
     (case event of
        None \<Rightarrow> Inr None
      | Some e \<Rightarrow>
          if oe_topic e \<noteq> advance_topic then Inr None
          else (case run of
                  None \<Rightarrow> Inr None
                | Some r \<Rightarrow>
                    if ar_state r \<in> terminal_states then Inr None
                    else bind_res (parse_state (pl_expected_state (oe_payload e)))
                      (\<lambda>expected_state.
                        if ar_state r \<noteq> expected_state \<or>
                           ar_version r \<noteq> pl_expected_version (oe_payload e)
                        then Inr None
                        else if ar_cancel_requested_at r \<noteq> None \<and> in_flight current r now
                        then Inr None
                        else (case claim_target r of
                                None \<Rightarrow> Inr None
                              | Some target \<Rightarrow>
                                  Inr (Some (candidate_step r target worker_id now
                                               lease_duration step_id token))))))"

text \<open>The write half: the upsert, committed when it returned a row.\<close>

definition claim_write ::
    "run_step option \<Rightarrow> 'z control_db_scheme \<Rightarrow> (run_step option \<times> 'z control_db_scheme) res" where
  "claim_write candidate db =
     (case candidate of
        None \<Rightarrow> Inr (None, db)
      | Some c \<Rightarrow>
          bind_res (steps_claim c db) (\<lambda>(claim, db1).
            Inr (claim, if claim = None then db else db1)))"

definition exec_claim ::
    "uuid \<Rightarrow> string \<Rightarrow> time \<Rightarrow> int \<Rightarrow> uuid \<Rightarrow> uuid \<Rightarrow> 'z control_db_scheme \<Rightarrow>
     (run_step option \<times> 'z control_db_scheme) res" where
  "exec_claim event_id worker_id now lease_duration step_id token db =
     (let event = outbox_get event_id db;
          run = (case event of None \<Rightarrow> None | Some e \<Rightarrow> runs_get (oe_aggregate_id e) db);
          current = (case run of None \<Rightarrow> None | Some r \<Rightarrow> steps_get_current (ar_id r) db)
      in bind_res (claim_decide event run current worker_id now lease_duration step_id token)
           (\<lambda>candidate. claim_write candidate db))"

definition get_run_for_claim :: "run_step \<Rightarrow> 'z control_db_scheme \<Rightarrow> audit_run res" where
  "get_run_for_claim claim db =
     (case runs_get (rs_run_id claim) db of
        None \<Rightarrow> Inl (ClaimLostError (rs_id claim))
      | Some run \<Rightarrow>
          if ar_version run \<noteq> rs_expected_run_version claim
          then Inl (ClaimLostError (rs_id claim)) else Inr run)"

definition exec_heartbeat ::
    "run_step \<Rightarrow> time \<Rightarrow> int \<Rightarrow> 'z control_db_scheme \<Rightarrow> bool \<times> 'z control_db_scheme" where
  "exec_heartbeat claim now lease_duration db =
     (case rs_claim_token claim of
        None \<Rightarrow> (False, db)
      | Some token \<Rightarrow>
          let (renewed, db1) = steps_heartbeat (rs_id claim) token now (now + lease_duration) db
          in if renewed then (True, db1) else (False, db))"

definition final_state :: "run_step \<Rightarrow> audit_run \<Rightarrow> run_state" where
  "final_state claim run =
     (if ar_cancel_requested_at run \<noteq> None then run_state.CANCELLED else rs_to_state claim)"

definition finalize_write ::
    "run_step \<Rightarrow> audit_run option \<Rightarrow> time \<Rightarrow> uuid \<Rightarrow> 'z control_db_scheme \<Rightarrow>
     (audit_run \<times> 'z control_db_scheme) res" where
  "finalize_write claim read now event_id db =
     (let lost = Inl (ClaimLostError (rs_id claim))
      in case rs_claim_token claim of
        None \<Rightarrow> lost
      | Some token \<Rightarrow>
          (case read of
             None \<Rightarrow> lost
           | Some run \<Rightarrow>
               if ar_version run \<noteq> rs_expected_run_version claim then lost
               else
                 let final = final_state claim run;
                     (done, db1) = steps_complete (rs_id claim) token (ar_version run + 1) now
                                     final db
                 in if \<not> done then lost
                    else bind_res (transition run final now) (\<lambda>run'.
                         bind_res (runs_save run' (ar_version run) db1) (\<lambda>db2.
                           if ar_state run' \<notin> terminal_states
                           then bind_res (outbox_add (advance_event run' now event_id) db2)
                                  (\<lambda>db3. Inr (run', db3))
                           else Inr (run', db2)))))"

definition exec_finalize ::
    "run_step \<Rightarrow> time \<Rightarrow> uuid \<Rightarrow> 'z control_db_scheme \<Rightarrow>
     (audit_run \<times> 'z control_db_scheme) res" where
  "exec_finalize claim now event_id db =
     finalize_write claim (runs_get (rs_run_id claim) db) now event_id db"

definition fail_write ::
    "run_step \<Rightarrow> audit_run option \<Rightarrow> string \<Rightarrow> string \<Rightarrow> time \<Rightarrow> 'z control_db_scheme \<Rightarrow>
     (audit_run \<times> 'z control_db_scheme) res" where
  "fail_write claim read error_code error_detail now db =
     (let lost = Inl (ClaimLostError (rs_id claim))
      in case rs_claim_token claim of
        None \<Rightarrow> lost
      | Some token \<Rightarrow>
          (case read of
             None \<Rightarrow> lost
           | Some run \<Rightarrow>
               if ar_version run \<noteq> rs_expected_run_version claim then lost
               else
                 let (done, db1) = steps_fail (rs_id claim) token (ar_version run + 1) now
                                     error_code error_detail db
                 in if \<not> done then lost
                    else bind_res (transition (run\<lparr>ar_failure_code := Some error_code,
                                                   ar_failure_detail := Some error_detail\<rparr>)
                                     run_state.FAILED now) (\<lambda>run'.
                         bind_res (runs_save run' (ar_version run) db1) (\<lambda>db2.
                           Inr (run', db2)))))"

definition exec_fail ::
    "run_step \<Rightarrow> string \<Rightarrow> string \<Rightarrow> time \<Rightarrow> 'z control_db_scheme \<Rightarrow>
     (audit_run \<times> 'z control_db_scheme) res" where
  "exec_fail claim error_code error_detail now db =
     fail_write claim (runs_get (rs_run_id claim) db) error_code error_detail now db"

end
