(* ===== verification/Outbox.thy ===== *)
theory Outbox
  imports RunExecution
begin

text \<open>
  \<open>worker/outbox.py\<close> and \<open>worker/reconciler.py\<close>: the dispatcher that publishes outbox events
  to the broker, and the reconciler that reopens stale deliveries or fails their runs.  The
  broker is not part of the source: whether \<open>publisher.publish(event)\<close> raises, and with
  which message, is the argument \<open>publish\<close>.  What has been sent stays sent when the
  transaction rolls back, so the events handed to the broker are returned beside the result.
\<close>

section \<open>OutboxDispatcher\<close>

text \<open>
  \<open>min(retry_max, retry_base * 2 ** prior_attempts)\<close> in microseconds.  The two durations
  are floats, and multiplying a float by an integer of 1024 bits raises \<open>OverflowError\<close>;
  below that the product of a float by a power of two is exact.
\<close>

definition retry_delay :: "int \<Rightarrow> int \<Rightarrow> int \<Rightarrow> time res" where
  "retry_delay retry_base retry_max prior_attempts =
     (if 1024 \<le> prior_attempts then Inl (OverflowError ''int too large to convert to float'')
      else Inr (min retry_max (retry_base * 2 ^ nat prior_attempts)))"

text \<open>One iteration of the loop: the new database and whether the event counts as published.\<close>

definition dispatch_event ::
    "time \<Rightarrow> int \<Rightarrow> int \<Rightarrow> (outbox_event \<Rightarrow> string option) \<Rightarrow> outbox_event \<Rightarrow>
     'z control_db_scheme \<Rightarrow> (bool \<times> 'z control_db_scheme) res" where
  "dispatch_event now retry_base retry_max publish event db =
     (case publish event of
        Some err \<Rightarrow>
          bind_res (retry_delay retry_base retry_max (oe_publish_attempts event)) (\<lambda>delay.
            Inr (False, snd (outbox_mark_failed (oe_id event) (take 1000 err) (now + delay) db)))
      | None \<Rightarrow> Inr (outbox_mark_published (oe_id event) now db))"

fun dispatch_events ::
    "time \<Rightarrow> int \<Rightarrow> int \<Rightarrow> (outbox_event \<Rightarrow> string option) \<Rightarrow> outbox_event list \<Rightarrow>
     int \<Rightarrow> 'z control_db_scheme \<Rightarrow> outbox_event list \<times> (int \<times> 'z control_db_scheme) res" where
  "dispatch_events now rb rm publish [] published db = ([], Inr (published, db))"
| "dispatch_events now rb rm publish (e # es) published db =
     (let sent = (if publish e = None then [e] else [])
      in case dispatch_event now rb rm publish e db of
           Inl x \<Rightarrow> (sent, Inl x)
         | Inr (ok, db') \<Rightarrow>
             let (rest, r) = dispatch_events now rb rm publish es
                               (if ok then published + 1 else published) db'
             in (sent @ rest, r))"

definition dispatch_batch ::
    "time \<Rightarrow> int \<Rightarrow> int \<Rightarrow> (outbox_event \<Rightarrow> string option) \<Rightarrow> int \<Rightarrow> uuid list \<Rightarrow>
     'z control_db_scheme \<Rightarrow> outbox_event list \<times> (int \<times> 'z control_db_scheme) res" where
  "dispatch_batch now retry_base retry_max publish limit locked db =
     dispatch_events now retry_base retry_max publish
       (outbox_lock_unpublished now limit locked db) 0 db"

section \<open>RunReconciler\<close>

datatype reconcile_outcome = Skipped | Reopened | RecoveryFailed

definition recovery_code :: string where
  "recovery_code = ''RECOVERY_EXHAUSTED''"

definition recovery_detail :: string where
  "recovery_detail = ''Stale delivery exceeded the configured recovery budget''"

text \<open>\<open>f"{run.id}:FAILED:recovery:{expected_version}"\<close>.\<close>

definition recovery_step_key :: "uuid \<Rightarrow> int \<Rightarrow> string" where
  "recovery_step_key run_id v = uuid_str run_id @ '':FAILED:recovery:'' @ dec_int v"

definition recovery_step ::
    "outbox_event \<Rightarrow> audit_run \<Rightarrow> audit_run \<Rightarrow> time \<Rightarrow> uuid \<Rightarrow> run_step" where
  "recovery_step event run run' now step_id =
     \<lparr>rs_id = step_id, rs_run_id = ar_id run,
      rs_step_key = recovery_step_key (ar_id run) (ar_version run),
      rs_from_state = ar_state run, rs_to_state = run_state.FAILED, rs_generation = 1,
      rs_attempt = oe_publish_attempts event, rs_status = step_status.FAILED,
      rs_expected_run_version = ar_version run, rs_handler_version = ''m1.reconciler.v1'',
      rs_started_at = now, rs_resulting_run_version = Some (ar_version run'),
      rs_worker_id = None, rs_claim_token = None, rs_heartbeat_at = None,
      rs_lease_expires_at = None, rs_finished_at = Some now,
      rs_error_code = Some recovery_code, rs_error_detail = Some recovery_detail\<rparr>"

text \<open>One iteration, on the copy of the run that was read for it.\<close>

definition reconcile_write ::
    "time \<Rightarrow> int \<Rightarrow> uuid \<Rightarrow> outbox_event \<Rightarrow> audit_run option \<Rightarrow> 'z control_db_scheme \<Rightarrow>
     (reconcile_outcome \<times> 'z control_db_scheme) res" where
  "reconcile_write now max_attempts step_id event read db =
     (case read of
        None \<Rightarrow> Inr (Skipped, db)
      | Some run \<Rightarrow>
          if ar_version run \<noteq> oe_aggregate_version event then Inr (Skipped, db)
          else if max_attempts \<le> oe_publish_attempts event
          then bind_res (transition (run\<lparr>ar_failure_code := Some recovery_code,
                                        ar_failure_detail := Some recovery_detail\<rparr>)
                           run_state.FAILED now) (\<lambda>run'.
               bind_res (steps_add (recovery_step event run run' now step_id) db) (\<lambda>db1.
               bind_res (runs_save run' (ar_version run) db1) (\<lambda>db2.
                 Inr (RecoveryFailed, db2))))
          else (let (ok, db1) = outbox_reopen (oe_id event) now ''RECOVERED_STALE_DELIVERY'' db
                in Inr (if ok then Reopened else Skipped, db1)))"

fun reconcile_events ::
    "time \<Rightarrow> int \<Rightarrow> (outbox_event \<times> uuid) list \<Rightarrow> int \<times> int \<Rightarrow> 'z control_db_scheme \<Rightarrow>
     ((int \<times> int) \<times> 'z control_db_scheme) res" where
  "reconcile_events now max_attempts [] counts db = Inr (counts, db)"
| "reconcile_events now max_attempts ((e, u) # es) (reopened, failed) db =
     bind_res (reconcile_write now max_attempts u e (runs_get (oe_aggregate_id e) db) db)
       (\<lambda>(outcome, db1).
          reconcile_events now max_attempts es
            (if outcome = Reopened then reopened + 1 else reopened,
             if outcome = RecoveryFailed then failed + 1 else failed) db1)"

text \<open>\<open>step_ids\<close> supplies the identifier each failed run would draw.\<close>

definition reconcile_batch ::
    "time \<Rightarrow> int \<Rightarrow> int \<Rightarrow> int \<Rightarrow> uuid list \<Rightarrow> (uuid \<Rightarrow> uuid) \<Rightarrow> 'z control_db_scheme \<Rightarrow>
     ((int \<times> int) \<times> 'z control_db_scheme) res" where
  "reconcile_batch now stale_after max_attempts limit locked step_ids db =
     reconcile_events now max_attempts
       (map (\<lambda>e. (e, step_ids (oe_id e)))
         (outbox_lock_stale_deliveries now (now - stale_after) limit locked db))
       (0, 0) db"

section \<open>A batch as one update\<close>

text \<open>What dispatching does to one row.\<close>

definition dispatched ::
    "time \<Rightarrow> int \<Rightarrow> int \<Rightarrow> (outbox_event \<Rightarrow> string option) \<Rightarrow> outbox_event \<Rightarrow> outbox_event" where
  "dispatched now rb rm publish e =
     (case publish e of
        None \<Rightarrow> e\<lparr>oe_published_at := Some now, oe_publish_attempts := oe_publish_attempts e + 1,
                  oe_last_error := None\<rparr>
      | Some err \<Rightarrow>
          e\<lparr>oe_available_at := now + min rm (rb * 2 ^ nat (oe_publish_attempts e)),
            oe_publish_attempts := oe_publish_attempts e + 1, oe_last_error := Some (take 1000 err)\<rparr>)"

lemma dispatched_id [simp]: "oe_id (dispatched now rb rm publish e) = oe_id e"
  by (simp add: dispatched_def split: option.split)

lemma dispatch_event_spec:
  assumes "unique_by oe_id (outbox_events db)" and "e \<in> set (outbox_events db)"
    and "oe_published_at e = None" and "publish e \<noteq> None \<longrightarrow> oe_publish_attempts e < 1024"
  shows "dispatch_event now rb rm publish e db =
           Inr (publish e = None,
                db\<lparr>outbox_events := map (\<lambda>x. if x = e then dispatched now rb rm publish x else x)
                                      (outbox_events db)\<rparr>)"
proof -
  have sel: "oe_id x = oe_id e \<and> oe_published_at x = None \<longleftrightarrow> x = e"
    if "x \<in> set (outbox_events db)" for x
    using unique_by_eq [OF assms(1) that assms(2)] assms(3) by auto
  have n: "length (filter (\<lambda>x. oe_id x = oe_id e \<and> oe_published_at x = None) (outbox_events db)) = 1"
    using update_count_one [OF assms(1), of "oe_id e" "\<lambda>x. oe_published_at x = None"] assms(2,3)
    by (auto simp: update_where_def)
  show ?thesis
  proof (cases "publish e")
    case None
    have "map (\<lambda>x. if oe_id x = oe_id e \<and> oe_published_at x = None
              then x\<lparr>oe_published_at := Some now, oe_publish_attempts := oe_publish_attempts x + 1,
                     oe_last_error := None\<rparr> else x) (outbox_events db) =
          map (\<lambda>x. if x = e then dispatched now rb rm publish x else x) (outbox_events db)"
      by (rule map_cong [OF refl]) (auto simp: sel dispatched_def None)
    with None n show ?thesis
      by (simp add: dispatch_event_def outbox_mark_published_def update_events_def update_where_def)
  next
    case (Some err)
    have "map (\<lambda>x. if oe_id x = oe_id e \<and> oe_published_at x = None
              then x\<lparr>oe_available_at := now + min rm (rb * 2 ^ nat (oe_publish_attempts e)),
                     oe_publish_attempts := oe_publish_attempts x + 1,
                     oe_last_error := Some (take 1000 err)\<rparr> else x) (outbox_events db) =
          map (\<lambda>x. if x = e then dispatched now rb rm publish x else x) (outbox_events db)"
      by (rule map_cong [OF refl]) (auto simp: sel dispatched_def Some)
    with Some assms(4) show ?thesis
      by (simp add: dispatch_event_def outbox_mark_failed_def update_events_def update_where_def
          retry_delay_def)
  qed
qed

lemma dispatch_events_spec:
  assumes "unique_by oe_id (outbox_events db)" and "distinct es"
    and "set es \<subseteq> {e \<in> set (outbox_events db). oe_published_at e = None}"
    and "\<forall>e \<in> set es. publish e \<noteq> None \<longrightarrow> oe_publish_attempts e < 1024"
  shows "dispatch_events now rb rm publish es n db =
           (filter (\<lambda>e. publish e = None) es,
            Inr (n + int (length (filter (\<lambda>e. publish e = None) es)),
              db\<lparr>outbox_events := map (\<lambda>e. if e \<in> set es then dispatched now rb rm publish e else e)
                                    (outbox_events db)\<rparr>))"
  using assms
proof (induction es arbitrary: n db)
  case Nil
  then show ?case by simp
next
  case (Cons e es)
  let ?g = "dispatched now rb rm publish"
  let ?evs = "map (\<lambda>x. if x = e then ?g x else x) (outbox_events db)"
  let ?db = "db\<lparr>outbox_events := ?evs\<rparr>"
  have e: "e \<in> set (outbox_events db)" "oe_published_at e = None" using Cons.prems(3) by auto
  have uniq: "unique_by oe_id ?evs"
    using Cons.prems(1) by (subst unique_by_map_upd) simp_all
  have sub: "set es \<subseteq> {e \<in> set (outbox_events ?db). oe_published_at e = None}"
    using Cons.prems(2,3) by force
  have g: "?g e \<notin> set es"
  proof
    assume "?g e \<in> set es"
    moreover from this Cons.prems(3) have "?g e \<in> set (outbox_events db)" by auto
    then have "?g e = e" using unique_by_eq [OF Cons.prems(1) _ e(1)] by simp
    ultimately show False using Cons.prems(2) by simp
  qed
  have "map (\<lambda>x. if x \<in> set es then ?g x else x) ?evs =
        map (\<lambda>x. if x \<in> set (e # es) then ?g x else x) (outbox_events db)"
    using g Cons.prems(2) by (auto simp: comp_def)
  with Cons.IH [OF _ _ sub, of "if publish e = None then n + 1 else n"]
    dispatch_event_spec [OF Cons.prems(1) e, of publish now rb rm] uniq Cons.prems(2,4)
  show ?case by (simp add: Let_def)
qed

lemma dispatch_events_overflow:
  assumes "e \<in> set es" and "publish e \<noteq> None" and "1024 \<le> oe_publish_attempts e"
  shows "\<exists>sent err. dispatch_events now rb rm publish es n db = (sent, Inl err)"
  using assms(1)
proof (induction es arbitrary: n db)
  case (Cons x es)
  show ?case
  proof (cases "dispatch_event now rb rm publish x db")
    case (Inl err)
    then show ?thesis by (simp add: Let_def)
  next
    case (Inr p)
    obtain ok db' where p: "p = (ok, db')" by force
    have "x \<noteq> e" using Inr assms(2,3) by (auto simp: dispatch_event_def retry_delay_def)
    then obtain sent err where
      "dispatch_events now rb rm publish es (if ok then n + 1 else n) db' = (sent, Inl err)"
      using Cons.IH Cons.prems by (metis set_ConsD)
    then show ?thesis by (simp add: Inr p Let_def)
  qed
qed simp

end
