(* ===== verification/RunInvariant.thy ===== *)
theory RunInvariant
  imports Outbox
begin

text \<open>
  The invariant of the run, step and outbox tables.  Its centre is the committed history of
  a run: version 1 is \<open>QUEUED\<close>, and version \<open>v > 1\<close> is the state the one step with
  \<open>resulting_run_version = v\<close> moved to.  Histories only grow, so a copy of a run that was
  read at any time stays truthful about the version it carries; this is what makes the
  read-then-write use cases safe under interleaving.
\<close>

named_theorems inv_defs \<open>the conjuncts of the invariant, unfolded\<close>

section \<open>Histories\<close>

definition state_at :: "'z control_db_scheme \<Rightarrow> uuid \<Rightarrow> int \<Rightarrow> run_state \<Rightarrow> bool" where
  "state_at db rid v x \<longleftrightarrow>
     (if v = 1 then x = QUEUED
      else exists_row (\<lambda>s. rs_run_id s = rid \<and> rs_resulting_run_version s = Some v \<and>
                           rs_to_state s = x) (run_steps db))"

definition has_run :: "'z control_db_scheme \<Rightarrow> uuid \<Rightarrow> int \<Rightarrow> bool" where
  "has_run db rid v \<longleftrightarrow> exists_row (\<lambda>r. ar_id r = rid \<and> v \<le> ar_version r) (audit_runs db)"

definition keys_ok :: "'z control_db_scheme \<Rightarrow> bool" where
  "keys_ok db \<longleftrightarrow>
     unique_by ar_id (audit_runs db) \<and> unique_by ar_idempotency_key (audit_runs db) \<and>
     unique_by rs_id (run_steps db) \<and>
     unique_by (\<lambda>s. (rs_run_id s, rs_step_key s)) (run_steps db) \<and>
     unique_by oe_id (outbox_events db) \<and>
     unique_by (\<lambda>e. (oe_aggregate_id e, oe_aggregate_version e, oe_topic e)) (outbox_events db)"

text \<open>What holds of every copy of a run row that has ever been read.\<close>

definition run_copy_ok :: "'z control_db_scheme \<Rightarrow> audit_run \<Rightarrow> bool" where
  "run_copy_ok db c \<longleftrightarrow>
     has_run db (ar_id c) (ar_version c) \<and> 1 \<le> ar_version c \<and>
     state_at db (ar_id c) (ar_version c) (ar_state c) \<and>
     (ar_completed_at c \<noteq> None \<longleftrightarrow> ar_state c \<in> terminal_states) \<and>
     (ar_failure_code c \<noteq> None \<longleftrightarrow> ar_state c = run_state.FAILED)"

definition history_ok :: "'z control_db_scheme \<Rightarrow> audit_run \<Rightarrow> bool" where
  "history_ok db r \<longleftrightarrow>
     (\<forall>v. 1 \<le> v \<and> v < ar_version r \<longrightarrow>
        (\<exists>a b. state_at db (ar_id r) v a \<and> state_at db (ar_id r) (v + 1) b \<and>
               b \<in> allowed_targets a))"

definition step_ok :: "'z control_db_scheme \<Rightarrow> run_step \<Rightarrow> bool" where
  "step_ok db s \<longleftrightarrow>
     has_run db (rs_run_id s) (rs_expected_run_version s) \<and> 1 \<le> rs_expected_run_version s \<and>
     state_at db (rs_run_id s) (rs_expected_run_version s) (rs_from_state s) \<and>
     (case rs_resulting_run_version s of
        None \<Rightarrow> rs_status s = step_status.RUNNING \<and> rs_to_state s \<noteq> run_state.FAILED \<and>
                rs_to_state s \<in> allowed_targets (rs_from_state s)
      | Some v \<Rightarrow> rs_status s \<noteq> step_status.RUNNING \<and> v = rs_expected_run_version s + 1 \<and>
                  has_run db (rs_run_id s) v)"

definition event_ok :: "'z control_db_scheme \<Rightarrow> outbox_event \<Rightarrow> bool" where
  "event_ok db e \<longleftrightarrow>
     has_run db (oe_aggregate_id e) (oe_aggregate_version e) \<and> 1 \<le> oe_aggregate_version e \<and>
     oe_topic e = advance_topic \<and>
     pl_run_id (oe_payload e) = uuid_str (oe_aggregate_id e) \<and>
     pl_expected_version (oe_payload e) = oe_aggregate_version e \<and>
     (\<exists>x. state_at db (oe_aggregate_id e) (oe_aggregate_version e) x \<and>
          pl_expected_state (oe_payload e) = state_value x)"

text \<open>At most one step commits a given version of a run.\<close>

definition committed_unique :: "'z control_db_scheme \<Rightarrow> bool" where
  "committed_unique db \<longleftrightarrow>
     (\<forall>s \<in> set (run_steps db). \<forall>t \<in> set (run_steps db).
        rs_run_id s = rs_run_id t \<and> rs_resulting_run_version s = rs_resulting_run_version t \<and>
        rs_resulting_run_version s \<noteq> None \<longrightarrow> s = t)"

text \<open>A run that has not ended has an outbox event for its present version.\<close>

definition has_delivery :: "'z control_db_scheme \<Rightarrow> audit_run \<Rightarrow> bool" where
  "has_delivery db r \<longleftrightarrow>
     (ar_state r \<notin> terminal_states \<longrightarrow>
      exists_row (\<lambda>e. oe_aggregate_id e = ar_id r \<and> oe_aggregate_version e = ar_version r)
        (outbox_events db))"

definition db_inv :: "'z control_db_scheme \<Rightarrow> bool" where
  "db_inv db \<longleftrightarrow>
     keys_ok db \<and> committed_unique db \<and>
     (\<forall>r \<in> set (audit_runs db). run_copy_ok db r \<and> history_ok db r \<and> has_delivery db r) \<and>
     (\<forall>s \<in> set (run_steps db). step_ok db s) \<and>
     (\<forall>e \<in> set (outbox_events db). event_ok db e)"

text \<open>A claim a worker holds: the row it was issued for is still there.\<close>

definition claim_ok :: "'z control_db_scheme \<Rightarrow> run_step \<Rightarrow> bool" where
  "claim_ok db c \<longleftrightarrow>
     rs_to_state c \<noteq> run_state.FAILED \<and>
     exists_row (\<lambda>s. rs_id s = rs_id c \<and> rs_run_id s = rs_run_id c \<and>
                     rs_expected_run_version s = rs_expected_run_version c) (run_steps db)"

text \<open>How the database may change: histories grow, runs and steps stay.\<close>

definition db_extends :: "'z control_db_scheme \<Rightarrow> 'z control_db_scheme \<Rightarrow> bool" where
  "db_extends db db' \<longleftrightarrow>
     (\<forall>rid v. has_run db rid v \<longrightarrow> has_run db' rid v) \<and>
     (\<forall>rid v x. state_at db rid v x \<longrightarrow> state_at db' rid v x) \<and>
     (\<forall>c. claim_ok db c \<longrightarrow> claim_ok db' c)"

lemma db_extends_refl [simp]: "db_extends db db"
  by (simp add: db_extends_def)

lemma db_extends_trans: "db_extends a b \<Longrightarrow> db_extends b c \<Longrightarrow> db_extends a c"
  by (simp add: db_extends_def)

lemma run_copy_ok_mono: "db_extends db db' \<Longrightarrow> run_copy_ok db c \<Longrightarrow> run_copy_ok db' c"
  by (simp add: db_extends_def run_copy_ok_def)

lemma step_ok_mono: "db_extends db db' \<Longrightarrow> step_ok db s \<Longrightarrow> step_ok db' s"
  by (auto simp: db_extends_def step_ok_def split: option.splits)

lemma event_ok_mono: "db_extends db db' \<Longrightarrow> event_ok db e \<Longrightarrow> event_ok db' e"
  by (auto simp: db_extends_def event_ok_def)

lemma history_ok_mono: "db_extends db db' \<Longrightarrow> history_ok db r \<Longrightarrow> history_ok db' r"
  unfolding db_extends_def history_ok_def by meson

lemma claim_ok_mono: "db_extends db db' \<Longrightarrow> claim_ok db c \<Longrightarrow> claim_ok db' c"
  by (simp add: db_extends_def)

lemma db_invD:
  assumes "db_inv db"
  shows "keys_ok db" and "committed_unique db"
    and "r \<in> set (audit_runs db) \<Longrightarrow> run_copy_ok db r"
    and "r \<in> set (audit_runs db) \<Longrightarrow> history_ok db r"
    and "r \<in> set (audit_runs db) \<Longrightarrow> has_delivery db r"
    and "s \<in> set (run_steps db) \<Longrightarrow> step_ok db s"
    and "e \<in> set (outbox_events db) \<Longrightarrow> event_ok db e"
  using assms by (auto simp: db_inv_def)

text \<open>The history is a function of run and version.\<close>

lemma committed_step_ge_2:
  "step_ok db s \<Longrightarrow> rs_resulting_run_version s = Some v \<Longrightarrow> 2 \<le> v"
  by (auto simp: step_ok_def)

lemma state_at_unique:
  assumes "db_inv db" and "state_at db rid v x" and "state_at db rid v y"
  shows "x = y"
  using assms(2,3) db_invD(2) [OF assms(1)]
  by (simp add: state_at_def committed_unique_def split: if_splits) metis

lemma runs_get_Some:
  "runs_get rid db = Some r \<Longrightarrow> r \<in> set (audit_runs db) \<and> ar_id r = rid"
  by (auto simp: runs_get_def dest: select_one_Some)

lemma runs_get_key:
  assumes "db_inv db" and "r \<in> set (audit_runs db)"
  shows "runs_get (ar_id r) db = Some r"
  using assms by (auto simp: runs_get_def db_inv_def keys_ok_def intro: select_one_key)

lemma run_row_unique:
  assumes "db_inv db" "r \<in> set (audit_runs db)" "r' \<in> set (audit_runs db)" "ar_id r = ar_id r'"
  shows "r = r'"
  using assms by (auto simp: db_inv_def keys_ok_def intro: unique_by_eq)

lemma step_row_unique:
  assumes "db_inv db" "s \<in> set (run_steps db)" "s' \<in> set (run_steps db)" "rs_id s = rs_id s'"
  shows "s = s'"
  using assms by (auto simp: db_inv_def keys_ok_def intro: unique_by_eq)

lemma has_run_iff:
  assumes "db_inv db" "r \<in> set (audit_runs db)"
  shows "has_run db (ar_id r) v \<longleftrightarrow> v \<le> ar_version r"
  using assms run_row_unique [OF assms(1)] by (auto simp: has_run_def)

text \<open>A version beyond the present one has no history yet.\<close>

lemma state_at_le:
  assumes "db_inv db" "r \<in> set (audit_runs db)" "state_at db (ar_id r) v x" "v \<noteq> 1"
  shows "2 \<le> v \<and> v \<le> ar_version r"
proof -
  from assms(3,4) obtain s where s: "s \<in> set (run_steps db)" "rs_run_id s = ar_id r"
    "rs_resulting_run_version s = Some v"
    by (auto simp: state_at_def)
  then have "step_ok db s" using db_invD(6) [OF assms(1)] by blast
  with s show ?thesis
    using has_run_iff [OF assms(1,2)] by (auto simp: step_ok_def)
qed

lemma empty_db_inv: "db_inv empty_db"
  by (simp add: db_inv_def keys_ok_def committed_unique_def empty_db_def)

section \<open>Statements that only touch delivery columns\<close>

lemma state_at_frame [simp]:
  "state_at (db\<lparr>outbox_events := es\<rparr>) = state_at db"
  "state_at (db\<lparr>audit_runs := rs\<rparr>) = state_at db"
  by (simp_all add: state_at_def fun_eq_iff)

lemma has_run_frame [simp]:
  "has_run (db\<lparr>outbox_events := es\<rparr>) = has_run db"
  "has_run (db\<lparr>run_steps := ss\<rparr>) = has_run db"
  by (simp_all add: has_run_def fun_eq_iff)

lemma claim_ok_frame [simp]:
  "claim_ok (db\<lparr>outbox_events := es\<rparr>) = claim_ok db"
  "claim_ok (db\<lparr>audit_runs := rs\<rparr>) = claim_ok db"
  by (simp_all add: claim_ok_def fun_eq_iff)

lemma inv_frame [simp]:
  "committed_unique (db\<lparr>outbox_events := es\<rparr>) = committed_unique db"
  "committed_unique (db\<lparr>audit_runs := rs\<rparr>) = committed_unique db"
  "run_copy_ok (db\<lparr>outbox_events := es\<rparr>) = run_copy_ok db"
  "history_ok (db\<lparr>outbox_events := es\<rparr>) = history_ok db"
  "history_ok (db\<lparr>audit_runs := rs\<rparr>) = history_ok db"
  "step_ok (db\<lparr>outbox_events := es\<rparr>) = step_ok db"
  "event_ok (db\<lparr>outbox_events := es\<rparr>) = event_ok db"
  "has_delivery (db\<lparr>run_steps := ss\<rparr>) = has_delivery db"
  "has_delivery (db\<lparr>audit_runs := rs\<rparr>) = has_delivery db"
  by (simp_all add: committed_unique_def run_copy_ok_def history_ok_def step_ok_def event_ok_def
      has_delivery_def fun_eq_iff split: option.split)

lemma db_extends_events [simp]: "db_extends db (db\<lparr>outbox_events := es\<rparr>)"
  by (simp add: db_extends_def)

definition delivery_core ::
    "outbox_event \<Rightarrow> uuid \<times> uuid \<times> int \<times> string \<times> advance_payload" where
  "delivery_core e =
     (oe_id e, oe_aggregate_id e, oe_aggregate_version e, oe_topic e, oe_payload e)"

lemma update_events_inv:
  assumes inv: "db_inv db" and f: "\<And>e. delivery_core (f e) = delivery_core e"
  shows "db_inv (snd (update_events P f db)) \<and> db_extends db (snd (update_events P f db))"
proof -
  let ?es = "map (\<lambda>e. if P e then f e else e) (outbox_events db)"
  let ?db = "db\<lparr>outbox_events := ?es\<rparr>"
  have f': "oe_id (f e) = oe_id e" "oe_aggregate_id (f e) = oe_aggregate_id e"
    "oe_aggregate_version (f e) = oe_aggregate_version e" "oe_topic (f e) = oe_topic e"
    "oe_payload (f e) = oe_payload e" for e
    using f [of e] by (simp_all add: delivery_core_def)
  have ev: "event_ok db (f e)" if "e \<in> set (outbox_events db)" for e
    using db_invD(7) [OF inv that] by (simp add: event_ok_def f')
  have "unique_by oe_id ?es"
    "unique_by (\<lambda>e. (oe_aggregate_id e, oe_aggregate_version e, oe_topic e)) ?es"
    using inv by (simp_all only: db_inv_def keys_ok_def unique_by_map_upd f')
  then have "keys_ok ?db" using inv by (simp add: db_inv_def keys_ok_def)
  moreover have "has_delivery ?db r" if "r \<in> set (audit_runs db)" for r
    using db_invD(5) [OF inv that]
    by (simp add: has_delivery_def exists_row_upd f'(2,3) del: exists_row_iff)
  moreover have "event_ok db e" if "e \<in> set ?es" for e
    using that ev db_invD(7) [OF inv] by auto
  ultimately have "db_inv ?db" using inv by (simp add: db_inv_def)
  then show ?thesis by (simp add: update_events_def update_where_def)
qed

lemmas delivery_ops = outbox_mark_published_def outbox_mark_failed_def outbox_reopen_def
  outbox_wake_current_def

lemma delivery_ops_inv:
  assumes "db_inv db"
  shows "db_inv (snd (outbox_mark_published eid t db))"
    and "db_extends db (snd (outbox_mark_published eid t db))"
    and "db_inv (snd (outbox_mark_failed eid err t db))"
    and "db_extends db (snd (outbox_mark_failed eid err t db))"
    and "db_inv (snd (outbox_reopen eid t reason db))"
    and "db_extends db (snd (outbox_reopen eid t reason db))"
    and "db_inv (snd (outbox_wake_current eid v t db))"
    and "db_extends db (snd (outbox_wake_current eid v t db))"
  using assms
  by (simp_all add: delivery_ops update_events_inv [THEN conjunct1]
      update_events_inv [THEN conjunct2] delivery_core_def)

end
