(* ===== verification/RunPreserve.thy ===== *)
theory RunPreserve
  imports RunInvariant
begin

text \<open>
  Every statement group of the use cases keeps the invariant of theory RunInvariant and only
  extends the database: updates of a step that keep its place in the history, updates of a
  run row that keep its version, creation of a run, and the commit of a stage, which appends
  one state to the history of one run.
\<close>

section \<open>Updates that keep the history\<close>

definition step_core ::
    "run_step \<Rightarrow> (uuid \<times> uuid \<times> string) \<times> (run_state \<times> run_state) \<times> (int \<times> int option) \<times> step_status"
  where
  "step_core s =
     ((rs_id s, rs_run_id s, rs_step_key s), (rs_from_state s, rs_to_state s),
      (rs_expected_run_version s, rs_resulting_run_version s), rs_status s)"

lemma step_core_eq:
  "step_core a = step_core b \<longleftrightarrow>
     rs_id a = rs_id b \<and> rs_run_id a = rs_run_id b \<and> rs_step_key a = rs_step_key b \<and>
     rs_from_state a = rs_from_state b \<and> rs_to_state a = rs_to_state b \<and>
     rs_expected_run_version a = rs_expected_run_version b \<and>
     rs_resulting_run_version a = rs_resulting_run_version b \<and> rs_status a = rs_status b"
  by (auto simp: step_core_def)

lemma update_steps_inv:
  assumes inv: "db_inv db"
    and f: "\<And>s. s \<in> set (run_steps db) \<Longrightarrow> P s \<Longrightarrow> step_core (f s) = step_core s"
  defines "db' \<equiv> db\<lparr>run_steps := fst (update_where P f (run_steps db))\<rparr>"
  shows "db_inv db' \<and> db_extends db db'"
proof -
  define g where "g = (\<lambda>s. if P s then f s else s)"
  have steps: "run_steps db' = map g (run_steps db)" and runs: "audit_runs db' = audit_runs db"
    and events: "outbox_events db' = outbox_events db"
    by (simp_all add: db'_def update_where_def g_def)
  have g: "step_core (g s) = step_core s" if "s \<in> set (run_steps db)" for s
    using f that by (simp add: g_def)
  note gs = g [unfolded step_core_eq]
  have st: "state_at db' = state_at db"
    by (auto simp: state_at_def fun_eq_iff steps gs)
  have hr: "has_run db' = has_run db"
    by (simp add: has_run_def runs fun_eq_iff)
  have maps: "map rs_id (run_steps db') = map rs_id (run_steps db)"
    "map (\<lambda>s. (rs_run_id s, rs_step_key s)) (run_steps db') =
     map (\<lambda>s. (rs_run_id s, rs_step_key s)) (run_steps db)"
    by (simp_all add: steps gs)
  have "keys_ok db'"
    using inv by (simp add: db_inv_def keys_ok_def runs events maps)
  moreover have "committed_unique db'"
    using db_invD(2) [OF inv] by (auto simp: committed_unique_def steps gs)
  moreover have "step_ok db' s" if "s \<in> set (run_steps db')" for s
  proof -
    from that obtain x where x: "x \<in> set (run_steps db)" "s = g x" by (auto simp: steps)
    show ?thesis
      using db_invD(6) [OF inv x(1)] gs [OF x(1)] by (simp add: step_ok_def st hr x(2) split: option.splits)
  qed
  moreover have "run_copy_ok db' = run_copy_ok db" "history_ok db' = history_ok db"
    "event_ok db' = event_ok db" "has_delivery db' = has_delivery db"
    by (simp_all add: run_copy_ok_def history_ok_def event_ok_def has_delivery_def st hr events
        fun_eq_iff)
  ultimately have "db_inv db'"
    using inv by (simp add: db_inv_def runs events)
  moreover have "claim_ok db' c" if "claim_ok db c" for c
    using that by (auto simp: claim_ok_def steps gs)
  ultimately show ?thesis by (simp add: db_extends_def st hr)
qed

text \<open>The columns of a run row the invariant reads.\<close>

definition run_core :: "audit_run \<Rightarrow> (uuid \<times> string) \<times> (run_state \<times> int) \<times> bool \<times> bool" where
  "run_core r =
     ((ar_id r, ar_idempotency_key r), (ar_state r, ar_version r),
      ar_completed_at r = None, ar_failure_code r = None)"

lemma run_core_eq:
  "run_core a = run_core b \<longleftrightarrow>
     ar_id a = ar_id b \<and> ar_idempotency_key a = ar_idempotency_key b \<and>
     ar_state a = ar_state b \<and> ar_version a = ar_version b \<and>
     (ar_completed_at a = None \<longleftrightarrow> ar_completed_at b = None) \<and>
     (ar_failure_code a = None \<longleftrightarrow> ar_failure_code b = None)"
  by (auto simp: run_core_def)

lemma update_runs_inv:
  assumes inv: "db_inv db"
    and f: "\<And>r. r \<in> set (audit_runs db) \<Longrightarrow> P r \<Longrightarrow> run_core (f r) = run_core r"
  defines "db' \<equiv> db\<lparr>audit_runs := fst (update_where P f (audit_runs db))\<rparr>"
  shows "db_inv db' \<and> db_extends db db'"
proof -
  define g where "g = (\<lambda>r. if P r then f r else r)"
  have runs: "audit_runs db' = map g (audit_runs db)" and steps: "run_steps db' = run_steps db"
    and events: "outbox_events db' = outbox_events db"
    by (simp_all add: db'_def update_where_def g_def)
  have g: "run_core (g r) = run_core r" if "r \<in> set (audit_runs db)" for r
    using f that by (simp add: g_def)
  note gs = g [unfolded run_core_eq]
  have st: "state_at db' = state_at db"
    by (simp add: state_at_def fun_eq_iff steps)
  have hr: "has_run db' = has_run db"
    by (auto simp: has_run_def runs fun_eq_iff gs)
  have maps: "map ar_id (audit_runs db') = map ar_id (audit_runs db)"
    "map ar_idempotency_key (audit_runs db') = map ar_idempotency_key (audit_runs db)"
    by (simp_all add: runs gs)
  have "keys_ok db'"
    using inv by (simp add: db_inv_def keys_ok_def steps events maps)
  moreover have "committed_unique db' = committed_unique db" "step_ok db' = step_ok db"
    "event_ok db' = event_ok db" "claim_ok db' = claim_ok db"
    by (simp_all add: committed_unique_def step_ok_def event_ok_def claim_ok_def st hr steps
        fun_eq_iff split: option.split)
  moreover have "run_copy_ok db' (g r) \<and> history_ok db' (g r) \<and> has_delivery db' (g r)"
    if "r \<in> set (audit_runs db)" for r
    using db_invD(3-5) [OF inv that] gs [OF that]
    by (auto simp: run_copy_ok_def history_ok_def has_delivery_def st hr events)
  ultimately show ?thesis
    using inv by (simp add: db_inv_def runs steps events db_extends_def st hr)
qed

text \<open>
  Saving a copy that was read at the row's present version and whose lifecycle columns were
  not changed since: what \<open>cancel\<close> does.
\<close>

lemma runs_save_same_inv:
  assumes inv: "db_inv db" and copy: "run_copy_ok db c"
    and c': "ar_id c' = ar_id c" "ar_state c' = ar_state c" "ar_version c' = ar_version c"
      "ar_completed_at c' = ar_completed_at c" "ar_failure_code c' = ar_failure_code c"
    and save: "runs_save c' (ar_version c) db = Inr db'"
  shows "db_inv db' \<and> db_extends db db'"
proof -
  let ?P = "\<lambda>r. ar_id r = ar_id c' \<and> ar_version r = ar_version c"
  have "run_core (saved_columns c' r) = run_core r" if r: "r \<in> set (audit_runs db)" "?P r" for r
  proof -
    have "run_copy_ok db r" using db_invD(3) [OF inv r(1)] .
    moreover from this copy r(2) c' have "ar_state r = ar_state c"
      by (auto simp: run_copy_ok_def intro: state_at_unique [OF inv])
    ultimately show ?thesis
      using copy r(2) c' by (auto simp: run_core_eq saved_columns_def run_copy_ok_def)
  qed
  with inv have "db_inv (db\<lparr>audit_runs := fst (update_where ?P (saved_columns c') (audit_runs db))\<rparr>)
     \<and> db_extends db (db\<lparr>audit_runs := fst (update_where ?P (saved_columns c') (audit_runs db))\<rparr>)"
    by (rule update_runs_inv)
  with save show ?thesis
    by (auto simp: runs_save_def Let_def case_prod_beta split: if_splits)
qed

section \<open>Heartbeat and claim\<close>

lemma steps_heartbeat_inv:
  assumes "db_inv db"
  shows "db_inv (snd (steps_heartbeat sid tok t l db)) \<and>
         db_extends db (snd (steps_heartbeat sid tok t l db))"
  using update_steps_inv [OF assms, of "owned sid tok"
      "\<lambda>s. s\<lparr>rs_heartbeat_at := Some t, rs_lease_expires_at := Some l\<rparr>"]
  by (simp add: steps_heartbeat_def update_owned_def case_prod_beta step_core_def)

lemma same_step_key_sym: "same_step_key a b \<longleftrightarrow> same_step_key b a"
  by (auto simp: same_step_key_def)

lemma insert_step_inv:
  assumes inv: "db_inv db" and ok: "step_ok db c" and running: "rs_resulting_run_version c = None"
    and fresh: "\<forall>s \<in> set (run_steps db). rs_id s \<noteq> rs_id c \<and> \<not> same_step_key c s"
  defines "db' \<equiv> db\<lparr>run_steps := run_steps db @ [c]\<rparr>"
  shows "db_inv db' \<and> db_extends db db'"
proof -
  have runs: "audit_runs db' = audit_runs db" and events: "outbox_events db' = outbox_events db"
    and steps: "run_steps db' = run_steps db @ [c]"
    by (simp_all add: db'_def)
  have st: "state_at db' = state_at db"
    using running by (intro ext) (simp add: state_at_def steps)
  have hr: "has_run db' = has_run db" by (intro ext) (simp add: has_run_def runs)
  have "keys_ok db'"
    using db_invD(1) [OF inv] fresh
    by (auto simp: keys_ok_def runs steps events same_step_key_def)
  moreover have "committed_unique db'"
    unfolding committed_unique_def
  proof (intro ballI impI)
    fix s t
    assume st: "s \<in> set (run_steps db')" "t \<in> set (run_steps db')"
      and e: "rs_run_id s = rs_run_id t \<and>
        rs_resulting_run_version s = rs_resulting_run_version t \<and>
        rs_resulting_run_version s \<noteq> None"
    from e have "rs_resulting_run_version s \<noteq> None" "rs_resulting_run_version t \<noteq> None"
      by metis+
    with st running have "s \<in> set (run_steps db)" "t \<in> set (run_steps db)"
      by (auto simp: steps)
    with e db_invD(2) [OF inv] show "s = t" unfolding committed_unique_def by blast
  qed
  moreover have "run_copy_ok db' = run_copy_ok db" "history_ok db' = history_ok db"
    "step_ok db' = step_ok db" "event_ok db' = event_ok db" "has_delivery db' = has_delivery db"
    by (intro ext, simp add: run_copy_ok_def history_ok_def step_ok_def event_ok_def
        has_delivery_def st hr events split: option.split)+
  ultimately have "db_inv db'"
    using inv ok by (auto simp: db_inv_def runs steps events)
  moreover have "claim_ok db' x" if "claim_ok db x" for x
    using that by (auto simp: claim_ok_def steps)
  ultimately show ?thesis by (simp add: db_extends_def st hr)
qed

lemma steps_claim_inv:
  assumes inv: "db_inv db" and ok: "step_ok db c"
    and c: "rs_resulting_run_version c = None" "rs_to_state c \<noteq> run_state.FAILED"
    and claim: "steps_claim c db = Inr (res, db')"
  shows "db_inv db' \<and> db_extends db db' \<and> (\<forall>x. res = Some x \<longrightarrow> claim_ok db' x)"
proof (cases "select_one (same_step_key c) (run_steps db)")
  case None
  with claim have chk: "step_checks c db = None" and res: "res = Some c"
    and db': "db' = db\<lparr>run_steps := run_steps db @ [c]\<rparr>"
    by (auto simp: steps_claim_def split: option.splits)
  from chk have "\<forall>s \<in> set (run_steps db). rs_id s \<noteq> rs_id c"
    by (auto simp: step_checks_def split: if_splits)
  with None have "\<forall>s \<in> set (run_steps db). rs_id s \<noteq> rs_id c \<and> \<not> same_step_key c s" by simp
  with inv ok c(1) have "db_inv db' \<and> db_extends db db'"
    unfolding db' by (intro insert_step_inv)
  moreover have "claim_ok db' c" using c(2) by (simp add: claim_ok_def db')
  ultimately show ?thesis by (simp add: res)
next
  case (Some s)
  then have s: "s \<in> set (run_steps db)" "same_step_key c s"
    by (auto dest: select_one_Some)
  show ?thesis
  proof (cases "claimable (rs_started_at c) s")
    case False
    with Some claim show ?thesis using inv by (simp add: steps_claim_def)
  next
    case True
    with Some claim have res: "res = Some (taken_over c s)"
      and db': "db' = db\<lparr>run_steps := fst (update_where (same_step_key c) (taken_over c)
                                         (run_steps db))\<rparr>"
      by (simp_all add: steps_claim_def)
    have only: "x = s" if "x \<in> set (run_steps db)" "same_step_key c x" for x
      using that s inv unique_by_eq [of "\<lambda>s. (rs_run_id s, rs_step_key s)" "run_steps db" x s]
      by (simp add: db_inv_def keys_ok_def same_step_key_def)
    have core: "step_core (taken_over c x) = step_core x"
      if "x \<in> set (run_steps db)" "same_step_key c x" for x
      using only [OF that] True by (simp add: step_core_def taken_over_def claimable_def)
    have ext: "db_inv db' \<and> db_extends db db'"
      unfolding db' using inv core by (rule update_steps_inv)
    have "step_ok db s" using db_invD(6) [OF inv s(1)] .
    with True have "rs_to_state s \<noteq> run_state.FAILED"
      by (auto simp: step_ok_def claimable_def split: option.splits)
    with s(1) have "claim_ok db (taken_over c s)"
      by (auto simp: claim_ok_def taken_over_def)
    with ext res show ?thesis by (auto intro: claim_ok_mono)
  qed
qed

end
