(* ===== verification/RunCommit.thy ===== *)
theory RunCommit
  imports RunPreserve
begin

text \<open>
  The commit of a stage: the one kind of change that appends to a history.  It is stated once
  for the three writers that do it (\<open>finalize\<close>, \<open>fail\<close> and the reconciler) as a
  relation between the databases before and after; the writers are then shown to be
  commits.
\<close>

section \<open>The relation\<close>

text \<open>The step rows after the commit of the move from \<open>c\<close> to \<open>c'\<close>.\<close>

definition step_commit ::
    "'z control_db_scheme \<Rightarrow> audit_run \<Rightarrow> audit_run \<Rightarrow> run_step list \<Rightarrow> bool" where
  "step_commit db c c' steps' \<longleftrightarrow>
     unique_by rs_id steps' \<and> unique_by (\<lambda>s. (rs_run_id s, rs_step_key s)) steps' \<and>
     (\<exists>s1 \<in> set steps'. rs_run_id s1 = ar_id c \<and> rs_expected_run_version s1 = ar_version c \<and>
        state_at db (ar_id c) (ar_version c) (rs_from_state s1) \<and> rs_to_state s1 = ar_state c' \<and>
        rs_resulting_run_version s1 = Some (ar_version c + 1) \<and>
        rs_status s1 \<noteq> step_status.RUNNING \<and>
        (\<forall>s \<in> set steps'. s = s1 \<or> s \<in> set (run_steps db))) \<and>
     (\<forall>s \<in> set (run_steps db). rs_resulting_run_version s \<noteq> None \<longrightarrow> s \<in> set steps') \<and>
     (\<forall>s \<in> set (run_steps db). \<exists>s' \<in> set steps'. rs_id s' = rs_id s \<and>
        rs_run_id s' = rs_run_id s \<and> rs_expected_run_version s' = rs_expected_run_version s)"

definition run_commit :: "audit_run \<Rightarrow> audit_run \<Rightarrow> bool" where
  "run_commit c c' \<longleftrightarrow>
     ar_id c' = ar_id c \<and> ar_version c' = ar_version c + 1 \<and>
     ar_state c' \<in> allowed_targets (ar_state c) \<and>
     (ar_completed_at c' \<noteq> None \<longleftrightarrow> ar_state c' \<in> terminal_states) \<and>
     (ar_failure_code c' \<noteq> None \<longleftrightarrow> ar_state c' = run_state.FAILED)"

definition saved_rows :: "audit_run \<Rightarrow> audit_run \<Rightarrow> audit_run list \<Rightarrow> audit_run list" where
  "saved_rows c c' =
     map (\<lambda>r. if ar_id r = ar_id c \<and> ar_version r = ar_version c then saved_columns c' r else r)"

definition commit_of ::
    "'z control_db_scheme \<Rightarrow> audit_run \<Rightarrow> audit_run \<Rightarrow> 'z control_db_scheme \<Rightarrow> bool" where
  "commit_of db c c' db' \<longleftrightarrow>
     run_copy_ok db c \<and> run_commit c c' \<and>
     (\<exists>r \<in> set (audit_runs db). ar_id r = ar_id c \<and> ar_version r = ar_version c) \<and>
     audit_runs db' = saved_rows c c' (audit_runs db) \<and>
     step_commit db c c' (run_steps db') \<and>
     (if ar_state c' \<in> terminal_states then outbox_events db' = outbox_events db
      else \<exists>now eid. outbox_events db' = outbox_events db @ [advance_event c' now eid] \<and>
             \<not> exists_row (\<lambda>e. oe_id e = eid) (outbox_events db))"

lemma saved_columns_simps [simp]:
  "ar_id (saved_columns c r) = ar_id r"
  "ar_idempotency_key (saved_columns c r) = ar_idempotency_key r"
  "ar_version (saved_columns c r) = ar_version c"
  "ar_state (saved_columns c r) = ar_state c"
  "ar_completed_at (saved_columns c r) = ar_completed_at c"
  "ar_failure_code (saved_columns c r) = ar_failure_code c"
  by (simp_all add: saved_columns_def)

section \<open>A commit appends one entry to one history\<close>

lemma commit_state_at:
  assumes inv: "db_inv db" and com: "commit_of db c c' db'"
  shows "state_at db' rid v x \<longleftrightarrow>
           state_at db rid v x \<or> rid = ar_id c \<and> v = ar_version c + 1 \<and> x = ar_state c'"
proof (cases "v = 1")
  case True
  then show ?thesis using com by (auto simp: state_at_def commit_of_def run_copy_ok_def)
next
  case False
  from com have sc: "step_commit db c c' (run_steps db')" by (simp add: commit_of_def)
  then obtain s1 where s1: "s1 \<in> set (run_steps db')" "rs_run_id s1 = ar_id c"
      "rs_to_state s1 = ar_state c'" "rs_resulting_run_version s1 = Some (ar_version c + 1)"
      "\<And>s. s \<in> set (run_steps db') \<Longrightarrow> s = s1 \<or> s \<in> set (run_steps db)"
    and old: "\<And>s. s \<in> set (run_steps db) \<Longrightarrow> rs_resulting_run_version s \<noteq> None \<Longrightarrow>
                s \<in> set (run_steps db')"
    unfolding step_commit_def by blast
  show ?thesis (is "?l \<longleftrightarrow> ?r \<or> ?n")
  proof
    assume ?l
    with False obtain s where s: "s \<in> set (run_steps db')" "rs_run_id s = rid"
      "rs_resulting_run_version s = Some v" "rs_to_state s = x"
      by (auto simp: state_at_def)
    from s1(5) [OF s(1)] show "?r \<or> ?n"
    proof
      assume "s = s1"
      with s s1(2-4) show ?thesis by simp
    next
      assume "s \<in> set (run_steps db)"
      with s False show ?thesis by (auto simp: state_at_def)
    qed
  next
    assume "?r \<or> ?n"
    then show ?l using False s1(1-4) old by (force simp: state_at_def)
  qed
qed

lemma commit_has_run:
  assumes "db_inv db" and com: "commit_of db c c' db'"
  shows "has_run db' rid v \<longleftrightarrow> has_run db rid v \<or> rid = ar_id c \<and> v \<le> ar_version c + 1"
proof -
  from com obtain r where r: "r \<in> set (audit_runs db)" "ar_id r = ar_id c"
    "ar_version r = ar_version c"
    by (auto simp: commit_of_def)
  have ids: "r' = r" if "r' \<in> set (audit_runs db)" "ar_id r' = ar_id c" for r'
    using run_row_unique [OF assms(1) that(1) r(1)] that r by simp
  from com have v: "ar_version c' = ar_version c + 1" and
    rows: "audit_runs db' = saved_rows c c' (audit_runs db)"
    by (auto simp: commit_of_def run_commit_def)
  show ?thesis (is "?l \<longleftrightarrow> ?r \<or> ?n")
  proof
    assume ?l
    then show "?r \<or> ?n" using v
      by (auto simp: has_run_def rows saved_rows_def split: if_splits)
  next
    assume "?r \<or> ?n"
    then show ?l
    proof
      assume ?r
      then obtain r' where r': "r' \<in> set (audit_runs db)" "ar_id r' = rid" "v \<le> ar_version r'"
        by (auto simp: has_run_def)
      define r2 where "r2 = (if ar_id r' = ar_id c \<and> ar_version r' = ar_version c
                             then saved_columns c' r' else r')"
      have "r2 \<in> set (audit_runs db')" using r'(1) by (auto simp: rows saved_rows_def r2_def)
      moreover have "ar_id r2 = rid" "v \<le> ar_version r2"
        using com r'(2,3) v by (auto simp: r2_def commit_of_def run_commit_def)
      ultimately show ?l by (auto simp: has_run_def)
    next
      assume n: ?n
      have "saved_columns c' r \<in> set (audit_runs db')"
        using r by (auto simp: rows saved_rows_def)
      moreover have "ar_id (saved_columns c' r) = rid" "v \<le> ar_version (saved_columns c' r)"
        using n r v by auto
      ultimately show ?l unfolding has_run_def exists_row_iff by blast
    qed
  qed
qed

lemma commit_extends:
  assumes inv: "db_inv db" and com: "commit_of db c c' db'"
  shows "db_extends db db'"
proof -
  have "claim_ok db' x" if "claim_ok db x" for x
  proof -
    from that obtain s where s: "s \<in> set (run_steps db)" "rs_id s = rs_id x"
      "rs_run_id s = rs_run_id x" "rs_expected_run_version s = rs_expected_run_version x"
      by (auto simp: claim_ok_def)
    from com s(1) obtain s' where "s' \<in> set (run_steps db')" "rs_id s' = rs_id s"
      "rs_run_id s' = rs_run_id s" "rs_expected_run_version s' = rs_expected_run_version s"
      unfolding commit_of_def step_commit_def by blast
    with s that show ?thesis by (auto simp: claim_ok_def)
  qed
  then show ?thesis
    by (simp add: db_extends_def commit_state_at [OF assms] commit_has_run [OF assms])
qed

section \<open>A commit keeps the invariant\<close>

lemma commit_copy_ok:
  assumes inv: "db_inv db" and com: "commit_of db c c' db'"
  shows "run_copy_ok db' c'"
proof -
  from com have c: "run_copy_ok db c" and c': "run_commit c c'" by (simp_all add: commit_of_def)
  then show ?thesis
    by (auto simp: run_copy_ok_def run_commit_def commit_has_run [OF assms]
        commit_state_at [OF assms])
qed

lemma commit_keys:
  assumes inv: "db_inv db" and com: "commit_of db c c' db'"
  shows "keys_ok db'"
proof -
  from inv have k: "keys_ok db" by (simp add: db_inv_def)
  have "map ar_id (saved_rows c c' rs) = map ar_id rs"
    "map ar_idempotency_key (saved_rows c c' rs) = map ar_idempotency_key rs" for rs
    by (simp_all add: saved_rows_def)
  with k com have runs: "unique_by ar_id (audit_runs db')"
    "unique_by ar_idempotency_key (audit_runs db')"
    by (auto simp: keys_ok_def commit_of_def)
  from com have steps: "unique_by rs_id (run_steps db')"
    "unique_by (\<lambda>s. (rs_run_id s, rs_step_key s)) (run_steps db')"
    by (simp_all add: commit_of_def step_commit_def)
  have events: "unique_by oe_id (outbox_events db') \<and>
    unique_by (\<lambda>e. (oe_aggregate_id e, oe_aggregate_version e, oe_topic e)) (outbox_events db')"
  proof (cases "ar_state c' \<in> terminal_states")
    case True
    then show ?thesis using k com by (simp add: keys_ok_def commit_of_def)
  next
    case False
    with com obtain now eid where
      ev: "outbox_events db' = outbox_events db @ [advance_event c' now eid]"
      and fresh: "\<forall>e \<in> set (outbox_events db). oe_id e \<noteq> eid"
      by (auto simp: commit_of_def)
    from com obtain r where r: "r \<in> set (audit_runs db)" "ar_id r = ar_id c"
      "ar_version r = ar_version c" by (auto simp: commit_of_def)
    have "oe_aggregate_id e = ar_id c \<longrightarrow> oe_aggregate_version e \<le> ar_version c"
      if "e \<in> set (outbox_events db)" for e
    proof
      assume "oe_aggregate_id e = ar_id c"
      moreover have "has_run db (oe_aggregate_id e) (oe_aggregate_version e)"
        using db_invD(7) [OF inv that] unfolding event_ok_def by blast
      ultimately show "oe_aggregate_version e \<le> ar_version c"
        using has_run_iff [OF inv r(1), of "oe_aggregate_version e"] r(2,3) by simp
    qed
    note le = this
    have "\<not> (oe_aggregate_id e = ar_id c \<and> oe_aggregate_version e = ar_version c + 1)"
      if "e \<in> set (outbox_events db)" for e
      using le [OF that] by linarith
    moreover have "oe_aggregate_id (advance_event c' now eid) = ar_id c"
      "oe_aggregate_version (advance_event c' now eid) = ar_version c + 1"
      "oe_id (advance_event c' now eid) = eid"
      using com by (simp_all add: advance_event_def commit_of_def run_commit_def)
    ultimately show ?thesis
      using fresh k unfolding ev unique_by_snoc keys_ok_def by simp blast
  qed
  show ?thesis using runs steps events by (simp add: keys_ok_def)
qed

lemma commit_committed_unique:
  assumes inv: "db_inv db" and com: "commit_of db c c' db'"
  shows "committed_unique db'"
  unfolding committed_unique_def
proof (intro ballI impI)
  fix s t
  assume st: "s \<in> set (run_steps db')" "t \<in> set (run_steps db')"
    and e: "rs_run_id s = rs_run_id t \<and>
      rs_resulting_run_version s = rs_resulting_run_version t \<and> rs_resulting_run_version s \<noteq> None"
  from com obtain s1 where s1: "rs_run_id s1 = ar_id c"
      "rs_resulting_run_version s1 = Some (ar_version c + 1)"
    and split: "\<And>s. s \<in> set (run_steps db') \<Longrightarrow> s = s1 \<or> s \<in> set (run_steps db)"
    unfolding commit_of_def step_commit_def by blast
  from com obtain r where r: "r \<in> set (audit_runs db)" "ar_id r = ar_id c"
    "ar_version r = ar_version c" by (auto simp: commit_of_def)
  have new: "x \<notin> set (run_steps db)"
    if "rs_run_id x = ar_id c" "rs_resulting_run_version x = Some (ar_version c + 1)" for x
  proof
    assume "x \<in> set (run_steps db)"
    then have "step_ok db x" by (rule db_invD(6) [OF inv])
    with that r has_run_iff [OF inv r(1)] show False by (auto simp: step_ok_def)
  qed
  show "s = t"
  proof (cases "s = s1 \<or> t = s1")
    case True
    with e s1 have "rs_run_id s = ar_id c" "rs_resulting_run_version s = Some (ar_version c + 1)"
      "rs_run_id t = ar_id c" "rs_resulting_run_version t = Some (ar_version c + 1)"
      by auto
    with new split st show ?thesis by blast
  next
    case False
    with split st have "s \<in> set (run_steps db)" "t \<in> set (run_steps db)" by blast+
    with e db_invD(2) [OF inv] show ?thesis unfolding committed_unique_def by blast
  qed
qed

lemma commit_steps_ok:
  assumes inv: "db_inv db" and com: "commit_of db c c' db'" and s: "s \<in> set (run_steps db')"
  shows "step_ok db' s"
proof -
  from com s obtain s1 where s1: "rs_run_id s1 = ar_id c" "rs_expected_run_version s1 = ar_version c"
      "state_at db (ar_id c) (ar_version c) (rs_from_state s1)"
      "rs_resulting_run_version s1 = Some (ar_version c + 1)" "rs_status s1 \<noteq> step_status.RUNNING"
    and split: "s = s1 \<or> s \<in> set (run_steps db)"
    unfolding commit_of_def step_commit_def by blast
  from split show ?thesis
  proof
    assume "s = s1"
    with s1 com show ?thesis
      by (simp add: step_ok_def commit_state_at [OF inv com] commit_has_run [OF inv com]
          commit_of_def run_copy_ok_def)
  next
    assume "s \<in> set (run_steps db)"
    then show ?thesis
      using db_invD(6) [OF inv] step_ok_mono [OF commit_extends [OF inv com]] by blast
  qed
qed

lemma commit_events_ok:
  assumes inv: "db_inv db" and com: "commit_of db c c' db'" and e: "e \<in> set (outbox_events db')"
  shows "event_ok db' e"
proof (cases "e \<in> set (outbox_events db)")
  case True
  then show ?thesis
    using db_invD(7) [OF inv] event_ok_mono [OF commit_extends [OF inv com]] by blast
next
  case False
  with com e obtain now eid where "e = advance_event c' now eid"
    by (auto simp: commit_of_def split: if_splits)
  with commit_copy_ok [OF inv com] show ?thesis
    by (auto simp: event_ok_def advance_event_def run_copy_ok_def)
qed

lemma commit_row_ok:
  assumes inv: "db_inv db" and com: "commit_of db c c' db'" and r': "r' \<in> set (audit_runs db')"
  shows "run_copy_ok db' r' \<and> history_ok db' r' \<and> has_delivery db' r'"
proof -
  note ext = commit_extends [OF inv com]
  from com r' obtain r where r: "r \<in> set (audit_runs db)" and
    r'_def: "r' = (if ar_id r = ar_id c \<and> ar_version r = ar_version c
                   then saved_columns c' r else r)"
    by (auto simp: commit_of_def saved_rows_def)
  from com have c': "run_commit c c'" by (simp add: commit_of_def)
  show ?thesis
  proof (cases "ar_id r = ar_id c \<and> ar_version r = ar_version c")
    case False
    have "has_delivery db r" by (rule db_invD(5) [OF inv r])
    then have "has_delivery db' r"
      using com by (auto simp: has_delivery_def commit_of_def split: if_splits)
    moreover have "r' = r" unfolding r'_def using False by (rule if_not_P)
    ultimately show ?thesis
      using db_invD(3,4) [OF inv r] run_copy_ok_mono [OF ext] history_ok_mono [OF ext]
      by simp
  next
    case True
    then have r'': "r' = saved_columns c' r" by (simp add: r'_def)
    have "run_copy_ok db' r'"
      using commit_copy_ok [OF inv com] True c' by (simp add: r'' run_copy_ok_def run_commit_def)
    moreover have "history_ok db' r'"
      unfolding history_ok_def
    proof (intro allI impI)
      fix v assume v: "1 \<le> v \<and> v < ar_version r'"
      show "\<exists>a b. state_at db' (ar_id r') v a \<and> state_at db' (ar_id r') (v + 1) b \<and>
                  b \<in> allowed_targets a"
      proof (cases "v < ar_version c")
        case True
        with v \<open>_ \<and> ar_version r = _\<close> have "1 \<le> v \<and> v < ar_version r" by simp
        then show ?thesis
          using history_ok_mono [OF ext db_invD(4) [OF inv r]] by (simp add: history_ok_def r'')
      next
        case False
        with v c' have "v = ar_version c" by (simp add: r'' run_commit_def)
        then show ?thesis
          using True com commit_state_at [OF inv com]
          by (auto simp: r'' commit_of_def run_copy_ok_def run_commit_def)
      qed
    qed
    moreover have "has_delivery db' r'"
      using com True c' by (auto simp: r'' has_delivery_def commit_of_def advance_event_def
          run_commit_def)
    ultimately show ?thesis by simp
  qed
qed

lemma commit_inv:
  assumes "db_inv db" and "commit_of db c c' db'"
  shows "db_inv db' \<and> db_extends db db' \<and> run_copy_ok db' c'"
  using commit_keys [OF assms] commit_committed_unique [OF assms] commit_row_ok [OF assms]
    commit_steps_ok [OF assms] commit_events_ok [OF assms] commit_extends [OF assms]
    commit_copy_ok [OF assms]
  by (simp add: db_inv_def)

end
