(* ===== verification/Timeline.thy ===== *)
theory Timeline
  imports RunExecution
begin

text \<open>
  \<open>application/run_timeline.py\<close> and the event stream of \<open>api/routes/run_events.py\<close>: the
  durable timeline of a run, and the polls of a stream as far as events and cursor go; the text
  sent to the client is in \<open>Api\<close>.
\<close>

record timeline_event =
  te_version :: int
  te_state :: run_state
  te_at :: time
  te_step_key :: "string option"
  te_attempt :: "int option"
  te_status :: "step_status option"
  te_handler_version :: "string option"
  te_error_code :: "string option"

record run_timeline =
  tl_run_id :: uuid
  tl_run_version :: int
  tl_terminal :: bool
  tl_events :: "timeline_event list"
  tl_current_step :: "run_step option"

text \<open>The sort key \<open>step.resulting_run_version or 0\<close>.\<close>

definition resulting_or_0 :: "run_step \<Rightarrow> int" where
  "resulting_or_0 s = (case rs_resulting_run_version s of None \<Rightarrow> 0 | Some v \<Rightarrow> v)"

definition completed_steps :: "run_step list \<Rightarrow> run_step list" where
  "completed_steps steps =
     sort_key resulting_or_0 (filter (\<lambda>s. rs_resulting_run_version s \<noteq> None) steps)"

definition first_event :: "audit_run \<Rightarrow> timeline_event" where
  "first_event run =
     \<lparr>te_version = 1, te_state = QUEUED,
      te_at = (case ar_created_at run of None \<Rightarrow> ar_updated_at run | Some t \<Rightarrow> t),
      te_step_key = None, te_attempt = None, te_status = None, te_handler_version = None,
      te_error_code = None\<rparr>"

definition step_event :: "audit_run \<Rightarrow> run_step \<Rightarrow> timeline_event" where
  "step_event run s =
     \<lparr>te_version = resulting_or_0 s, te_state = rs_to_state s,
      te_at = (case rs_finished_at s of None \<Rightarrow> ar_updated_at run | Some t \<Rightarrow> t),
      te_step_key = Some (rs_step_key s), te_attempt = Some (rs_attempt s),
      te_status = Some (rs_status s), te_handler_version = Some (rs_handler_version s),
      te_error_code = rs_error_code s\<rparr>"

definition timeline_events :: "audit_run \<Rightarrow> run_step list \<Rightarrow> int \<Rightarrow> timeline_event list" where
  "timeline_events run steps after_version =
     (if after_version < 1 then [first_event run] else []) @
     map (step_event run)
       (filter (\<lambda>s. rs_resulting_run_version s \<noteq> None \<and> after_version < resulting_or_0 s)
         (completed_steps steps))"

definition timeline_get :: "uuid \<Rightarrow> int \<Rightarrow> 'z control_db_scheme \<Rightarrow> run_timeline res" where
  "timeline_get run_id after_version db =
     (case runs_get run_id db of
        None \<Rightarrow> Inl (RunNotFoundError run_id)
      | Some run \<Rightarrow>
          let terminal = ar_state run \<in> terminal_states
          in Inr \<lparr>tl_run_id = ar_id run, tl_run_version = ar_version run,
                  tl_terminal = terminal,
                  tl_events = timeline_events run (steps_list_for_run run_id db) after_version,
                  tl_current_step =
                    (if terminal then None else steps_get_current run_id db)\<rparr>)"

section \<open>The event stream\<close>

text \<open>
  One poll of \<open>generate\<close>: the events of the timeline are emitted, the cursor becomes the
  version of the last one, and the stream ends when the run is terminal and the cursor has
  reached its version.
\<close>

definition stream_poll :: "int \<Rightarrow> run_timeline \<Rightarrow> timeline_event list \<times> int \<times> bool" where
  "stream_poll cursor timeline =
     (let cursor' = (if tl_events timeline = [] then cursor
                     else te_version (last (tl_events timeline)))
      in (tl_events timeline, cursor', tl_terminal timeline \<and> tl_run_version timeline \<le> cursor'))"

text \<open>
  The stream over a sequence of databases, one per poll: each poll asks for the events after
  the cursor.  The result is everything emitted, the cursor and whether the stream ended.
\<close>

fun stream_run ::
    "uuid \<Rightarrow> int \<Rightarrow> 'z control_db_scheme list \<Rightarrow> (timeline_event list \<times> int \<times> bool) res" where
  "stream_run run_id cursor [] = Inr ([], cursor, False)"
| "stream_run run_id cursor (db # dbs) =
     bind_res (timeline_get run_id cursor db) (\<lambda>timeline.
       let (events, cursor', ended) = stream_poll cursor timeline
       in if ended then Inr (events, cursor', True)
          else bind_res (stream_run run_id cursor' dbs) (\<lambda>(rest, c, e).
                 Inr (events @ rest, c, e)))"

end
