(* ===== verification/RunWriters.thy ===== *)
theory RunWriters
  imports RunCommit Timeline
begin

text \<open>
  Every use case of the run lifecycle keeps the invariant, and only extends the database,
  whatever truthful copies it works on: the copies need not be the present rows, which is
  how the interleavings of READ COMMITTED are covered.
\<close>

section \<open>The pieces of a commit\<close>

lemma runs_save_Inr:
  assumes "runs_save c' v db = Inr db'"
  shows "db' = db\<lparr>audit_runs := map (\<lambda>r. if ar_id r = ar_id c' \<and> ar_version r = v
                                        then saved_columns c' r else r) (audit_runs db)\<rparr>"
    and "\<exists>r \<in> set (audit_runs db). ar_id r = ar_id c' \<and> ar_version r = v"
proof -
  let ?P = "\<lambda>r. ar_id r = ar_id c' \<and> ar_version r = v"
  from assms have 1: "length (filter ?P (audit_runs db)) = 1"
    and 2: "db' = db\<lparr>audit_runs := map (\<lambda>r. if ?P r then saved_columns c' r else r)
                                     (audit_runs db)\<rparr>"
    by (simp_all add: runs_save_def update_where_def split: if_splits)
  from 2 show "db' = db\<lparr>audit_runs := map (\<lambda>r. if ?P r then saved_columns c' r else r)
                                        (audit_runs db)\<rparr>" .
  from 1 have "filter ?P (audit_runs db) \<noteq> []" by force
  then show "\<exists>r \<in> set (audit_runs db). ?P r" by (auto simp: filter_empty_conv)
qed

lemma runs_save_get:
  assumes "unique_by ar_id (audit_runs db)" and "r \<in> set (audit_runs db)"
    and "ar_id c' = ar_id r" and "v = ar_version r"
    and save: "runs_save c' v (db\<lparr>run_steps := ss\<rparr>) = Inr db'"
  shows "runs_get (ar_id r) db' = Some (saved_columns c' r)"
proof -
  have rows: "audit_runs db' = map (\<lambda>x. if ar_id x = ar_id c' \<and> ar_version x = v
                                        then saved_columns c' x else x) (audit_runs db)"
    using runs_save_Inr(1) [OF save] by simp
  have "unique_by ar_id (audit_runs db')"
    unfolding rows using assms(1) by (subst unique_by_map_upd) simp_all
  moreover have "saved_columns c' r \<in> set (audit_runs db')" using assms(2-4) by (force simp: rows)
  ultimately show ?thesis unfolding runs_get_def by (rule select_one_key) simp
qed

definition step_place :: "run_step \<Rightarrow> (uuid \<times> uuid \<times> string) \<times> run_state \<times> int" where
  "step_place s =
     ((rs_id s, rs_run_id s, rs_step_key s), rs_from_state s, rs_expected_run_version s)"

lemma update_owned_commit:
  assumes inv: "db_inv db" and copy: "run_copy_ok db c" and claim: "claim_ok db k"
    and k: "rs_run_id k = ar_id c" "rs_expected_run_version k = ar_version c"
    and upd: "update_owned (rs_id k) tok f db = (True, db1)"
    and place: "\<And>s. step_place (f s) = step_place s"
    and f: "\<And>s. rs_to_state (f s) = ar_state c'"
      "\<And>s. rs_resulting_run_version (f s) = Some (ar_version c + 1)"
      "\<And>s. rs_status (f s) \<noteq> step_status.RUNNING"
  shows "step_commit db c c' (run_steps db1)"
proof -
  let ?P = "owned (rs_id k) tok"
  let ?g = "\<lambda>s. if ?P s then f s else s"
  from upd have steps: "run_steps db1 = map ?g (run_steps db)"
    and n: "length (filter ?P (run_steps db)) = 1"
    by (auto simp: update_owned_def update_where_def)
  have pl: "rs_id (f s) = rs_id s" "rs_run_id (f s) = rs_run_id s"
    "rs_step_key (f s) = rs_step_key s" "rs_from_state (f s) = rs_from_state s"
    "rs_expected_run_version (f s) = rs_expected_run_version s" for s
    using place [of s] by (simp_all add: step_place_def)
  from n have "filter ?P (run_steps db) \<noteq> []" by force
  then obtain s where s: "s \<in> set (run_steps db)" "?P s" by (auto simp: filter_empty_conv)
  from claim obtain s' where s': "s' \<in> set (run_steps db)" "rs_id s' = rs_id k"
    "rs_run_id s' = rs_run_id k" "rs_expected_run_version s' = rs_expected_run_version k"
    by (auto simp: claim_ok_def)
  have eq: "x = s" if "x \<in> set (run_steps db)" "?P x" for x
    using step_row_unique [OF inv that(1) s(1)] that(2) s(2) by (simp add: owned_def)
  have "s' = s"
    using step_row_unique [OF inv s'(1) s(1)] s'(2) s(2) by (simp add: owned_def)
  with s' k have sc: "rs_run_id s = ar_id c" "rs_expected_run_version s = ar_version c" by simp_all
  have ok: "step_ok db s" by (rule db_invD(6) [OF inv s(1)])
  have run: "rs_status s = step_status.RUNNING" using s(2) by (simp add: owned_def)
  have keys: "unique_by rs_id (run_steps db)"
    "unique_by (\<lambda>s. (rs_run_id s, rs_step_key s)) (run_steps db)"
    using inv by (auto simp: db_inv_def keys_ok_def)
  have maps: "unique_by rs_id (run_steps db1)"
    "unique_by (\<lambda>s. (rs_run_id s, rs_step_key s)) (run_steps db1)"
    unfolding steps using keys by (simp_all only: unique_by_map_upd pl)
  have new: "f s \<in> set (run_steps db1)" using s by (force simp: steps)
  have rest: "x = f s \<or> x \<in> set (run_steps db)" if "x \<in> set (run_steps db1)" for x
    using that eq by (auto simp: steps split: if_splits)
  have kept: "x \<in> set (run_steps db1)"
    if "x \<in> set (run_steps db)" "rs_resulting_run_version x \<noteq> None" for x
  proof -
    have "\<not> ?P x"
      using eq [OF that(1)] that(2) ok run by (auto simp: step_ok_def split: option.splits)
    with that(1) show ?thesis by (force simp: steps)
  qed
  have claims: "\<exists>s' \<in> set (run_steps db1). rs_id s' = rs_id x \<and> rs_run_id s' = rs_run_id x \<and>
                  rs_expected_run_version s' = rs_expected_run_version x"
    if "x \<in> set (run_steps db)" for x
    using that by (intro bexI [of _ "?g x"]) (auto simp: steps pl)
  have s1: "rs_run_id (f s) = ar_id c" "rs_expected_run_version (f s) = ar_version c"
    "state_at db (ar_id c) (ar_version c) (rs_from_state (f s))"
    using ok sc by (simp_all add: pl step_ok_def)
  show ?thesis
    unfolding step_commit_def using maps new rest kept claims s1 f by blast
qed

lemma outbox_add_Inr:
  assumes "outbox_add e db = Inr db'"
  shows "db' = db\<lparr>outbox_events := outbox_events db @ [e]\<rparr>"
    and "\<not> exists_row (\<lambda>x. oe_id x = oe_id e) (outbox_events db)"
  using assms by (auto simp: outbox_add_def split: if_splits)

lemma update_owned_frame:
  "update_owned sid tok f db = (b, db1) \<Longrightarrow>
     audit_runs db1 = audit_runs db \<and> outbox_events db1 = outbox_events db"
  by (auto simp: update_owned_def update_where_def)

lemma transition_run_commit:
  assumes "run_copy_ok db c" and "transition c' target now = Inr c''"
    and "ar_id c' = ar_id c" "ar_state c' = ar_state c" "ar_version c' = ar_version c"
      "ar_completed_at c' = ar_completed_at c"
    and "target \<in> allowed_targets (ar_state c) \<Longrightarrow>
           ar_failure_code c' \<noteq> None \<longleftrightarrow> target = run_state.FAILED"
  shows "run_commit c c''"
proof -
  from assms(2) have t: "target \<in> allowed_targets (ar_state c)" using assms(4)
    by (simp add: transition_Inr)
  then have "ar_state c \<notin> terminal_states" by auto
  with assms(1) have "ar_completed_at c = None" by (auto simp: run_copy_ok_def)
  with assms t show ?thesis by (auto simp: transition_Inr run_commit_def)
qed

section \<open>The writers are commits\<close>

lemma commit_ofI:
  assumes copy: "run_copy_ok db c" and rc: "run_commit c c'"
    and sc: "step_commit db c c' (run_steps db1)"
    and frame: "audit_runs db1 = audit_runs db" "outbox_events db1 = outbox_events db"
    and save: "runs_save c' (ar_version c) db1 = Inr db2"
    and ev: "if ar_state c' \<in> terminal_states then db' = db2
             else outbox_add (advance_event c' now eid) db2 = Inr db'"
  shows "commit_of db c c' db'"
proof -
  have id: "ar_id c' = ar_id c" using rc by (simp add: run_commit_def)
  have db2: "audit_runs db2 = saved_rows c c' (audit_runs db)" "run_steps db2 = run_steps db1"
    "outbox_events db2 = outbox_events db"
    using runs_save_Inr(1) [OF save] frame by (simp_all add: saved_rows_def id)
  have row: "\<exists>r \<in> set (audit_runs db). ar_id r = ar_id c \<and> ar_version r = ar_version c"
    using runs_save_Inr(2) [OF save] frame id by simp
  show ?thesis
  proof (cases "ar_state c' \<in> terminal_states")
    case True
    with ev have "db' = db2" by simp
    then show ?thesis using copy rc sc row db2 True by (simp add: commit_of_def)
  next
    case False
    with ev have "outbox_add (advance_event c' now eid) db2 = Inr db'" by simp
    note add = outbox_add_Inr [OF this]
    from add have "outbox_events db' = outbox_events db @ [advance_event c' now eid]"
      "\<not> exists_row (\<lambda>e. oe_id e = eid) (outbox_events db)"
      "audit_runs db' = audit_runs db2" "run_steps db' = run_steps db2"
      by (simp_all add: db2 advance_event_def)
    then show ?thesis using copy rc sc row db2 False by (auto simp: commit_of_def)
  qed
qed

lemma finalize_write_Inr:
  assumes "finalize_write k read now eid db = Inr (c', db')"
  obtains c tok db1 db2 where "read = Some c" and "rs_claim_token k = Some tok"
    and "ar_version c = rs_expected_run_version k"
    and "steps_complete (rs_id k) tok (ar_version c + 1) now (final_state k c) db = (True, db1)"
    and "transition c (final_state k c) now = Inr c'"
    and "runs_save c' (ar_version c) db1 = Inr db2"
    and "if ar_state c' \<in> terminal_states then db' = db2
         else outbox_add (advance_event c' now eid) db2 = Inr db'"
  using assms
  by (auto simp: finalize_write_def Let_def bind_res_Inr split: option.splits if_splits prod.splits)

lemma fail_write_Inr:
  assumes "fail_write k read code detail now db = Inr (c', db')"
  obtains c tok db1 where "read = Some c" and "rs_claim_token k = Some tok"
    and "ar_version c = rs_expected_run_version k"
    and "steps_fail (rs_id k) tok (ar_version c + 1) now code detail db = (True, db1)"
    and "transition (c\<lparr>ar_failure_code := Some code, ar_failure_detail := Some detail\<rparr>)
           run_state.FAILED now = Inr c'"
    and "runs_save c' (ar_version c) db1 = Inr db'"
  using assms
  by (auto simp: fail_write_def Let_def bind_res_Inr split: option.splits if_splits prod.splits)

lemma finalize_write_commit:
  assumes inv: "db_inv db" and claim: "claim_ok db k" and copy: "run_copy_ok db c"
    and id: "ar_id c = rs_run_id k"
    and fin: "finalize_write k (Some c) now eid db = Inr (c', db')"
  shows "commit_of db c c' db'"
proof -
  let ?f = "final_state k c"
  from fin obtain tok db1 db2 where tok: "rs_claim_token k = Some tok"
    and v: "ar_version c = rs_expected_run_version k"
    and upd: "steps_complete (rs_id k) tok (ar_version c + 1) now ?f db = (True, db1)"
    and tr: "transition c ?f now = Inr c'"
    and save: "runs_save c' (ar_version c) db1 = Inr db2"
    and ev: "if ar_state c' \<in> terminal_states then db' = db2
             else outbox_add (advance_event c' now eid) db2 = Inr db'"
    by (auto elim: finalize_write_Inr)
  have fr: "?f \<noteq> run_state.FAILED"
    using claim by (simp add: claim_ok_def final_state_def)
  have c': "ar_state c' = ?f" using tr by (auto simp: transition_Inr)
  have nf: "ar_failure_code c = None" if "?f \<in> allowed_targets (ar_state c)"
    using copy that by (cases "ar_state c = run_state.FAILED") (auto simp: run_copy_ok_def)
  have rc: "run_commit c c'"
    by (rule transition_run_commit [OF copy tr]) (use fr nf in simp_all)
  have sc: "step_commit db c c' (run_steps db1)"
    by (rule update_owned_commit [OF inv copy claim _ _ upd [unfolded steps_complete_def]])
       (simp_all add: id v c' step_place_def)
  show ?thesis
    by (rule commit_ofI [OF copy rc sc _ _ save ev])
       (use update_owned_frame [OF upd [unfolded steps_complete_def]] in simp_all)
qed

lemma fail_write_commit:
  assumes inv: "db_inv db" and claim: "claim_ok db k" and copy: "run_copy_ok db c"
    and id: "ar_id c = rs_run_id k"
    and fail: "fail_write k (Some c) code detail now db = Inr (c', db')"
  shows "commit_of db c c' db'"
proof -
  let ?c = "c\<lparr>ar_failure_code := Some code, ar_failure_detail := Some detail\<rparr>"
  from fail obtain tok db1 where v: "ar_version c = rs_expected_run_version k"
    and upd: "steps_fail (rs_id k) tok (ar_version c + 1) now code detail db = (True, db1)"
    and tr: "transition ?c run_state.FAILED now = Inr c'"
    and save: "runs_save c' (ar_version c) db1 = Inr db'"
    by (auto elim: fail_write_Inr)
  have c': "ar_state c' = run_state.FAILED" using tr by (auto simp: transition_Inr)
  have rc: "run_commit c c'"
    by (rule transition_run_commit [OF copy tr]) simp_all
  have sc: "step_commit db c c' (run_steps db1)"
    by (rule update_owned_commit [OF inv copy claim _ _ upd [unfolded steps_fail_def]])
       (simp_all add: id v c' step_place_def)
  show ?thesis
    by (rule commit_ofI [OF copy rc sc _ _ save])
       (use update_owned_frame [OF upd [unfolded steps_fail_def]] c' in simp_all)
qed

lemma steps_add_Inr:
  assumes "steps_add s db = Inr db'"
  shows "db' = db\<lparr>run_steps := run_steps db @ [s]\<rparr>"
    and "\<forall>x \<in> set (run_steps db). rs_id x \<noteq> rs_id s \<and> \<not> same_step_key s x"
  using assms by (auto simp: steps_add_def step_checks_def split: if_splits)

lemma recovery_write_commit:
  assumes inv: "db_inv db" and copy: "run_copy_ok db c"
    and w: "reconcile_write now m sid e (Some c) db = Inr (RecoveryFailed, db')"
  shows "\<exists>c'. commit_of db c c' db'"
proof -
  let ?c = "c\<lparr>ar_failure_code := Some recovery_code, ar_failure_detail := Some recovery_detail\<rparr>"
  from w obtain c' db1 where tr: "transition ?c run_state.FAILED now = Inr c'"
    and add: "steps_add (recovery_step e c c' now sid) db = Inr db1"
    and save: "runs_save c' (ar_version c) db1 = Inr db'"
    by (auto simp: reconcile_write_def bind_res_Inr split: if_splits prod.splits)
  let ?s = "recovery_step e c c' now sid"
  have c': "ar_state c' = run_state.FAILED" using tr by (auto simp: transition_Inr)
  have rc: "run_commit c c'"
    by (rule transition_run_commit [OF copy tr]) simp_all
  note db1 = steps_add_Inr(1) [OF add] and fresh = steps_add_Inr(2) [OF add]
  have steps: "run_steps db1 = run_steps db @ [?s]" by (simp add: db1)
  have keys: "unique_by rs_id (run_steps db)"
    "unique_by (\<lambda>s. (rs_run_id s, rs_step_key s)) (run_steps db)"
    using inv by (auto simp: db_inv_def keys_ok_def)
  have keys1: "unique_by rs_id (run_steps db1)"
    "unique_by (\<lambda>s. (rs_run_id s, rs_step_key s)) (run_steps db1)"
    unfolding steps unique_by_snoc using keys fresh by (auto simp: same_step_key_def)
  have s: "rs_run_id ?s = ar_id c" "rs_expected_run_version ?s = ar_version c"
    "state_at db (ar_id c) (ar_version c) (rs_from_state ?s)" "rs_to_state ?s = ar_state c'"
    "rs_resulting_run_version ?s = Some (ar_version c + 1)"
    "rs_status ?s \<noteq> step_status.RUNNING"
    using copy rc by (simp_all add: recovery_step_def c' run_commit_def run_copy_ok_def)
  have mem: "?s \<in> set (run_steps db1)" "\<And>x. x \<in> set (run_steps db1) \<Longrightarrow> x = ?s \<or> x \<in> set (run_steps db)"
    "\<And>x. x \<in> set (run_steps db) \<Longrightarrow> x \<in> set (run_steps db1)"
    by (auto simp: steps)
  have sc: "step_commit db c c' (run_steps db1)"
    unfolding step_commit_def using keys1 s mem by blast
  have "commit_of db c c' db'"
    by (rule commit_ofI [OF copy rc sc _ _ save]) (simp_all add: db1 c')
  then show ?thesis ..
qed

section \<open>Creation, cancellation, claim\<close>

lemma create_rows_inv:
  assumes inv: "db_inv db"
    and new: "\<not> exists_row (\<lambda>r. ar_id r = ar_id run) (audit_runs db)"
      "\<not> exists_row (\<lambda>r. ar_idempotency_key r = ar_idempotency_key run) (audit_runs db)"
    and run: "ar_state run = QUEUED" "ar_version run = 1" "ar_completed_at run = None"
      "ar_failure_code run = None"
    and eid: "\<not> exists_row (\<lambda>e. oe_id e = eid) (outbox_events db)"
    and runs: "audit_runs db' = audit_runs db @ [run]" and steps: "run_steps db' = run_steps db"
    and events: "outbox_events db' = outbox_events db @ [advance_event run now eid]"
  shows "db_inv db' \<and> db_extends db db'"
proof -
  have st: "state_at db' = state_at db" by (simp add: state_at_def fun_eq_iff steps)
  have hr: "has_run db' rid v \<longleftrightarrow> has_run db rid v \<or> rid = ar_id run \<and> v \<le> 1" for rid v
    by (auto simp: has_run_def runs run)
  have ext: "db_extends db db'"
    by (simp add: db_extends_def st hr claim_ok_def steps)
  have new_ev: "oe_aggregate_id e \<noteq> ar_id run" if "e \<in> set (outbox_events db)" for e
    using db_invD(7) [OF inv that] new(1) by (auto simp: event_ok_def has_run_def)
  have "keys_ok db'"
    using db_invD(1) [OF inv] new eid new_ev
    unfolding keys_ok_def runs steps events unique_by_snoc by (simp add: advance_event_def)
  moreover have "committed_unique db'"
    using db_invD(2) [OF inv] by (simp add: committed_unique_def steps)
  moreover have "has_delivery db' r" if "r \<in> set (audit_runs db)" for r
    using db_invD(5) [OF inv that] by (auto simp: has_delivery_def events)
  moreover have s1: "state_at db' (ar_id run) 1 QUEUED" by (simp add: state_at_def)
  then have "run_copy_ok db' run" by (simp add: run_copy_ok_def hr run)
  moreover have "history_ok db' run" by (auto simp: history_ok_def run)
  moreover have "has_delivery db' run" by (simp add: has_delivery_def events advance_event_def)
  moreover have "event_ok db' (advance_event run now eid)"
    using s1 by (auto simp: event_ok_def advance_event_def hr run)
  ultimately have "db_inv db'"
    using inv run_copy_ok_mono [OF ext] history_ok_mono [OF ext] step_ok_mono [OF ext]
      event_ok_mono [OF ext]
    by (auto simp: db_inv_def runs steps events)
  with ext show ?thesis by simp
qed

lemma create_fresh:
  assumes "run_service_create rq key now rid eid db = Inr (run, db')"
  shows "db' = db \<and> run \<in> set (audit_runs db) \<or>
         run = new_run rq key now rid \<and>
         \<not> exists_row (\<lambda>r. ar_id r = rid) (audit_runs db) \<and>
         \<not> exists_row (\<lambda>r. ar_idempotency_key r = key) (audit_runs db) \<and>
         \<not> exists_row (\<lambda>e. oe_id e = eid) (outbox_events db) \<and>
         db' = db\<lparr>audit_runs := audit_runs db @ [run],
                  outbox_events := outbox_events db @ [advance_event run now eid]\<rparr>"
proof (cases "runs_get_by_idempotency_key key db")
  case (Some r)
  then have "r \<in> set (audit_runs db)"
    by (auto simp: runs_get_by_idempotency_key_def dest: select_one_Some)
  with assms Some show ?thesis
    by (auto simp: run_service_create_def resolve_replay_def split: if_splits)
next
  case None
  let ?run = "new_run rq key now rid"
  from None have key: "\<not> exists_row (\<lambda>r. ar_idempotency_key r = key) (audit_runs db)"
    by (simp add: runs_get_by_idempotency_key_def)
  have row: "run_row ?run = ?run" by (simp add: run_row_def new_run_def)
  from assms None key obtain db1 where ins: "insert_run ?run db = Inr db1"
    and add: "outbox_add (advance_event ?run now eid) db1 = Inr db'" and run: "run = ?run"
    by (auto simp: run_service_create_def runs_add_if_idempotency_absent_def Let_def bind_res_Inr
        new_run_def split: if_splits)
  from ins have db1: "db1 = db\<lparr>audit_runs := audit_runs db @ [?run]\<rparr>"
    and rid: "\<not> exists_row (\<lambda>r. ar_id r = rid) (audit_runs db)"
    by (simp_all add: insert_run_def row split: if_splits) (auto simp: new_run_def)
  have eid: "oe_id (advance_event ?run now eid) = eid" by (simp add: advance_event_def)
  from outbox_add_Inr [OF add] show ?thesis
    unfolding eid by (simp add: db1 run key rid del: exists_row_iff)
qed

lemma create_inv:
  assumes inv: "db_inv db" and create: "run_service_create rq key now rid eid db = Inr (run, db')"
  shows "db_inv db' \<and> db_extends db db' \<and> run_copy_ok db' run"
  using create_fresh [OF create]
proof
  assume "db' = db \<and> run \<in> set (audit_runs db)"
  then show ?thesis using inv db_invD(3) [OF inv] by simp
next
  assume new: "run = new_run rq key now rid \<and>
         \<not> exists_row (\<lambda>r. ar_id r = rid) (audit_runs db) \<and>
         \<not> exists_row (\<lambda>r. ar_idempotency_key r = key) (audit_runs db) \<and>
         \<not> exists_row (\<lambda>e. oe_id e = eid) (outbox_events db) \<and>
         db' = db\<lparr>audit_runs := audit_runs db @ [run],
                  outbox_events := outbox_events db @ [advance_event run now eid]\<rparr>"
  then have run: "ar_id run = rid" "ar_idempotency_key run = key" "ar_state run = QUEUED"
    "ar_version run = 1" "ar_completed_at run = None" "ar_failure_code run = None"
    by (simp_all add: new_run_def)
  have res: "db_inv db' \<and> db_extends db db'"
    by (rule create_rows_inv [OF inv, where run = run and eid = eid and now = now])
       (use new run in \<open>simp_all del: exists_row_iff\<close>)
  moreover have "run \<in> set (audit_runs db')" using new by simp
  ultimately show ?thesis using db_invD(3) by blast
qed

lemma cancel_write_inv:
  assumes inv: "db_inv db" and copy: "run_copy_ok db c"
    and w: "cancel_write c v now db = Inr (c', db')"
  shows "db_inv db' \<and> db_extends db db'"
proof -
  from w obtain c1 where rc: "request_cancel c v now = Inr c1"
    and rest: "(if ar_cancel_requested_at c \<noteq> None \<or> ar_state c1 = run_state.CANCELLED
       then Inr (c1, db)
       else bind_res (runs_save c1 v db) (\<lambda>db1.
         Inr (c1, snd (outbox_wake_current (ar_id c1) (ar_version c1)
               (case ar_cancel_requested_at c1 of None \<Rightarrow> now | Some t \<Rightarrow> t) db1)))) = Inr (c', db')"
    by (auto simp: cancel_write_def bind_res_Inr)
  show ?thesis
  proof (cases "ar_cancel_requested_at c \<noteq> None \<or> ar_state c1 = run_state.CANCELLED")
    case True
    with rest inv show ?thesis by simp
  next
    case False
    with rest obtain db1 t where save: "runs_save c1 v db = Inr db1"
      and db': "db' = snd (outbox_wake_current (ar_id c1) (ar_version c1) t db1)"
      by (auto simp: bind_res_Inr)
    from request_cancel_Inr [OF rc] have "ar_version c = v" and
      c1: "c1 = c\<lparr>ar_cancel_requested_at := Some now, ar_updated_at := now\<rparr>"
      using False rc by (auto simp: request_cancel_def split: if_splits)
    with runs_save_same_inv [OF inv copy _ _ _ _ _ , of c1 db1] save
    have "db_inv db1 \<and> db_extends db db1" by simp
    then show ?thesis
      using delivery_ops_inv(7,8) [of db1] db' by (auto intro: db_extends_trans)
  qed
qed

text \<open>A request that is granted is stored; the rest of the row stays.\<close>

lemma cancel_write_stored:
  assumes inv: "db_inv db" and c: "c \<in> set (audit_runs db)"
    and w: "cancel_write c v now db = Inr (c', db')"
    and live: "ar_cancel_requested_at c = None" "ar_state c \<noteq> run_state.CANCELLED"
  shows "c' = c\<lparr>ar_cancel_requested_at := Some now, ar_updated_at := now\<rparr>"
    and "runs_get (ar_id c) db' = Some c'" and "ar_version c = v"
proof -
  let ?c = "c\<lparr>ar_cancel_requested_at := Some now, ar_updated_at := now\<rparr>"
  from w live have v: "ar_version c = v" and rc: "request_cancel c v now = Inr ?c"
    by (auto simp: cancel_write_def request_cancel_def split: if_splits)
  with w live obtain db1 where save: "runs_save ?c v db = Inr db1" and c': "c' = ?c"
    and db': "db' = snd (outbox_wake_current (ar_id c) v now db1)"
    by (auto simp: cancel_write_def bind_res_Inr)
  from runs_save_Inr(1) [OF save] have rows: "audit_runs db' =
      map (\<lambda>r. if ar_id r = ar_id c \<and> ar_version r = v then saved_columns ?c r else r) (audit_runs db)"
    by (simp add: db' outbox_wake_current_def update_events_def case_prod_beta)
  have "unique_by ar_id (audit_runs db)" using inv by (simp add: db_inv_def keys_ok_def)
  then have "unique_by ar_id (audit_runs db')"
    unfolding rows by (subst unique_by_map_upd) (simp_all add: saved_columns_def)
  moreover have "saved_columns ?c c \<in> set (audit_runs db')" using c v by (force simp: rows)
  ultimately have "runs_get (ar_id c) db' = Some (saved_columns ?c c)"
    unfolding runs_get_def by (rule select_one_key) (simp add: saved_columns_def)
  moreover have "saved_columns ?c c = ?c" by (simp add: saved_columns_def)
  ultimately show "c' = ?c" and "runs_get (ar_id c) db' = Some c'" and "ar_version c = v"
    using c' v by simp_all
qed

text \<open>After \<open>cancel\<close> the row carries the request, unless the run was cancelled already.\<close>

lemma cancel_write_row:
  assumes inv: "db_inv db" and c: "c \<in> set (audit_runs db)"
    and w: "cancel_write c v now db = Inr (c', db')"
  shows "\<exists>r. runs_get (ar_id c) db' = Some r \<and> ar_state r = ar_state c \<and>
           ar_version r = ar_version c \<and>
           (ar_cancel_requested_at r \<noteq> None \<or> ar_state r = run_state.CANCELLED)"
proof (cases "ar_cancel_requested_at c \<noteq> None \<or> ar_state c = run_state.CANCELLED")
  case True
  then have "db' = db" using w by (auto simp: cancel_write_def request_cancel_def)
  with True runs_get_key [OF inv c] show ?thesis by auto
next
  case False
  with cancel_write_stored [OF inv c w] show ?thesis by simp
qed

text \<open>What \<open>claim\<close> inserts is a step at the version of the copy it decided on.\<close>

lemma claim_decide_candidate:
  assumes "claim_decide ev (Some c) cur w now lease sid tok = Inr (Some k)"
  shows "\<exists>t. claim_target c = Some t \<and> k = candidate_step c t w now lease sid tok \<and>
             ar_state c \<notin> terminal_states"
  using assms by (auto simp: claim_decide_def bind_res_Inr split: option.splits if_splits)

lemma claim_target_allowed:
  "claim_target c = Some t \<Longrightarrow> ar_state c \<notin> terminal_states \<Longrightarrow>
     t \<in> allowed_targets (ar_state c) \<and> t \<noteq> run_state.FAILED"
  by (cases "ar_state c") (auto simp: claim_target_def allowed_targets_iff split: if_splits)

lemma claim_write_inv:
  assumes inv: "db_inv db" and copy: "run_copy_ok db c"
    and dec: "claim_decide ev (Some c) cur w now lease sid tok = Inr (Some k)"
    and wr: "claim_write (Some k) db = Inr (res, db')"
  shows "db_inv db' \<and> db_extends db db' \<and> (\<forall>x. res = Some x \<longrightarrow> claim_ok db' x)"
proof -
  from claim_decide_candidate [OF dec] obtain t where t: "claim_target c = Some t"
    "ar_state c \<notin> terminal_states" and k: "k = candidate_step c t w now lease sid tok"
    by blast
  have "t \<noteq> run_state.FAILED" "t \<in> allowed_targets (ar_state c)"
    using claim_target_allowed [OF t] by simp_all
  with k copy have ok: "step_ok db k" "rs_resulting_run_version k = None"
    "rs_to_state k \<noteq> run_state.FAILED"
    by (simp_all add: step_ok_def candidate_step_def run_copy_ok_def)
  from wr obtain db1 where "steps_claim k db = Inr (res, db1)"
    and db': "db' = (if res = None then db else db1)"
    by (auto simp: claim_write_def bind_res_Inr)
  from steps_claim_inv [OF inv ok this(1)] inv db' show ?thesis by auto
qed

section \<open>Dispatcher and reconciler\<close>

lemma dispatch_event_inv:
  assumes "db_inv db" and "dispatch_event now rb rm pub e db = Inr (ok, db')"
  shows "db_inv db' \<and> db_extends db db'"
  using assms delivery_ops_inv(1-4) [OF assms(1)]
  by (auto simp: dispatch_event_def bind_res_Inr split: option.splits)
    (metis snd_conv)+

lemma dispatch_events_inv:
  "db_inv db \<Longrightarrow> dispatch_events now rb rm pub es n db = (sent, Inr (m, db')) \<Longrightarrow>
   db_inv db' \<and> db_extends db db'"
proof (induction es arbitrary: n db sent)
  case (Cons e es)
  from Cons.prems(2) obtain ok db1 sent1 n1 where
    1: "dispatch_event now rb rm pub e db = Inr (ok, db1)"
    and 2: "dispatch_events now rb rm pub es n1 db1 = (sent1, Inr (m, db'))"
    by (auto simp: Let_def split: sum.splits prod.splits if_splits)
  from dispatch_event_inv [OF Cons.prems(1) 1] Cons.IH [OF _ 2] show ?case
    by (auto intro: db_extends_trans)
qed simp

lemma dispatch_batch_inv:
  assumes "db_inv db" and "dispatch_batch now rb rm pub l locked db = (sent, Inr (m, db'))"
  shows "db_inv db' \<and> db_extends db db'"
  using dispatch_events_inv [OF assms(1)] assms(2) by (auto simp: dispatch_batch_def)

lemma reconcile_write_inv:
  assumes inv: "db_inv db" and copy: "\<And>c. read = Some c \<Longrightarrow> run_copy_ok db c"
    and w: "reconcile_write now m sid e read db = Inr (out, db')"
  shows "db_inv db' \<and> db_extends db db'"
proof (cases read)
  case None
  with w inv show ?thesis by (simp add: reconcile_write_def)
next
  case (Some c)
  show ?thesis
  proof (cases "out = RecoveryFailed")
    case True
    with w Some recovery_write_commit [OF inv copy [OF Some]] obtain c' where
      "commit_of db c c' db'" by blast
    with commit_inv [OF inv] show ?thesis by blast
  next
    case False
    with w Some have "db' = db \<or> db' = snd (outbox_reopen (oe_id e) now ''RECOVERED_STALE_DELIVERY'' db)"
      by (auto simp: reconcile_write_def bind_res_Inr Let_def split: if_splits prod.splits)
    then show ?thesis using inv delivery_ops_inv(5,6) [OF inv] by auto
  qed
qed

lemma reconcile_events_inv:
  "db_inv db \<Longrightarrow> reconcile_events now m es cnt db = Inr (cnt', db') \<Longrightarrow>
   db_inv db' \<and> db_extends db db'"
proof (induction es arbitrary: cnt db)
  case (Cons x es)
  obtain e u where x: "x = (e, u)" by force
  obtain a b where cnt: "cnt = (a, b)" by force
  from Cons.prems(2) obtain out db1 cnt1 where
    1: "reconcile_write now m u e (runs_get (oe_aggregate_id e) db) db = Inr (out, db1)"
    and 2: "reconcile_events now m es cnt1 db1 = Inr (cnt', db')"
    by (auto simp: x cnt bind_res_Inr)
  have "db_inv db1 \<and> db_extends db db1"
    by (rule reconcile_write_inv [OF Cons.prems(1) _ 1])
       (use db_invD(3) [OF Cons.prems(1)] in \<open>auto dest: runs_get_Some\<close>)
  with Cons.IH [OF _ 2] show ?case by (auto intro: db_extends_trans)
qed simp

lemma exec_heartbeat_inv:
  assumes inv: "db_inv db" and hb: "exec_heartbeat k now lease db = (ok, db')"
  shows "db_inv db' \<and> db_extends db db'"
proof (cases "rs_claim_token k")
  case None
  with hb inv show ?thesis by (simp add: exec_heartbeat_def)
next
  case (Some tok)
  with hb have "db' = db \<or> db' = snd (steps_heartbeat (rs_id k) tok now (now + lease) db)"
    by (auto simp: exec_heartbeat_def split: prod.splits if_splits)
  then show ?thesis using inv steps_heartbeat_inv [OF inv] by auto
qed

end
