(* ===== verification/RunSystem.thy ===== *)
theory RunSystem
  imports RunWriters
begin

text \<open>
  The running system: the control database, the copies of runs that some transaction has read
  and may still write back, and the claims that were issued.  A step is one statement group of
  a use case; any number of API requests, workers, dispatchers and reconcilers interleave.
  The contract every use case gives is the locale \<open>use_case\<close>; the abstract ledger of
  committed states is what the system refines.
\<close>

section \<open>The contract of a use case\<close>

locale use_case =
  fixes op :: "'a \<Rightarrow> control_db \<Rightarrow> 'r \<Rightarrow> control_db \<Rightarrow> bool"
    and given :: "control_db \<Rightarrow> 'a \<Rightarrow> bool"
  assumes op_inv: "db_inv db \<Longrightarrow> given db a \<Longrightarrow> op a db r db' \<Longrightarrow> db_inv db'"
    and op_extends: "db_inv db \<Longrightarrow> given db a \<Longrightarrow> op a db r db' \<Longrightarrow> db_extends db db'"
    and given_mono: "db_extends db db' \<Longrightarrow> given db a \<Longrightarrow> given db' a"
begin

text \<open>What was read before other transactions ran may still be used.\<close>

lemma late:
  assumes "given db0 a" and "db_extends db0 db" and "db_inv db" and "op a db r db'"
  shows "db_inv db' \<and> db_extends db0 db'"
  using assms op_inv op_extends given_mono db_extends_trans by meson

lemma keeps_history:
  assumes "db_inv db" and "given db a" and "op a db r db'" and "state_at db rid v x"
  shows "state_at db' rid v x"
  using op_extends [OF assms(1-3)] assms(4) by (simp add: db_extends_def)

lemma keeps_runs:
  assumes "db_inv db" and "given db a" and "op a db r db'" and "has_run db rid v"
  shows "has_run db' rid v"
  using op_extends [OF assms(1-3)] assms(4) by (simp add: db_extends_def)

lemma keeps_copies:
  assumes "db_inv db" and "given db a" and "op a db r db'" and "run_copy_ok db c"
  shows "run_copy_ok db' c"
  using run_copy_ok_mono [OF op_extends [OF assms(1-3)] assms(4)] .

lemma keeps_claims:
  assumes "db_inv db" and "given db a" and "op a db r db'" and "claim_ok db k"
  shows "claim_ok db' k"
  using claim_ok_mono [OF op_extends [OF assms(1-3)] assms(4)] .

end

interpretation create_case: use_case
  "\<lambda>(rq, key, now, rid, eid) db run db'. run_service_create rq key now rid eid db = Inr (run, db')"
  "\<lambda>_ _. True"
  by unfold_locales (auto dest: create_inv)

interpretation cancel_case: use_case
  "\<lambda>(c, v, now) db run db'. cancel_write c v now db = Inr (run, db')"
  "\<lambda>db (c, v, now). run_copy_ok db c"
  by unfold_locales (auto dest: cancel_write_inv run_copy_ok_mono)

interpretation claim_case: use_case
  "\<lambda>(ev, c, cur, w, now, lease, sid, tok) db res db'.
     \<exists>k. claim_decide ev (Some c) cur w now lease sid tok = Inr (Some k) \<and>
         claim_write (Some k) db = Inr (res, db')"
  "\<lambda>db (ev, c, cur, w, now, lease, sid, tok). run_copy_ok db c"
  by unfold_locales (auto dest: claim_write_inv run_copy_ok_mono)

interpretation heartbeat_case: use_case
  "\<lambda>(k, now, lease) db ok db'. exec_heartbeat k now lease db = (ok, db')"
  "\<lambda>_ _. True"
  by unfold_locales (auto dest: exec_heartbeat_inv)

lemma finalize_write_inv:
  assumes "db_inv db" "claim_ok db k" "run_copy_ok db c" "ar_id c = rs_run_id k"
    "finalize_write k (Some c) now eid db = Inr (c', db')"
  shows "db_inv db' \<and> db_extends db db'"
  using commit_inv [OF assms(1) finalize_write_commit [OF assms]] by simp

lemma fail_write_inv:
  assumes "db_inv db" "claim_ok db k" "run_copy_ok db c" "ar_id c = rs_run_id k"
    "fail_write k (Some c) code detail now db = Inr (c', db')"
  shows "db_inv db' \<and> db_extends db db'"
  using commit_inv [OF assms(1) fail_write_commit [OF assms]] by simp

interpretation finalize_case: use_case
  "\<lambda>(k, c, now, eid) db run db'. finalize_write k (Some c) now eid db = Inr (run, db')"
  "\<lambda>db (k, c, now, eid). claim_ok db k \<and> run_copy_ok db c \<and> ar_id c = rs_run_id k"
  by unfold_locales (auto dest: finalize_write_inv run_copy_ok_mono claim_ok_mono)

interpretation fail_case: use_case
  "\<lambda>(k, c, code, detail, now) db run db'. fail_write k (Some c) code detail now db = Inr (run, db')"
  "\<lambda>db (k, c, code, detail, now). claim_ok db k \<and> run_copy_ok db c \<and> ar_id c = rs_run_id k"
  by unfold_locales (auto dest: fail_write_inv run_copy_ok_mono claim_ok_mono)

interpretation dispatch_case: use_case
  "\<lambda>(now, rb, rm, pub, limit, locked) db n db'.
     \<exists>sent. dispatch_batch now rb rm pub limit locked db = (sent, Inr (n, db'))"
  "\<lambda>_ _. True"
  by unfold_locales (auto dest: dispatch_batch_inv)

interpretation reconcile_case: use_case
  "\<lambda>(now, m, sid, e, c) db out db'. reconcile_write now m sid e c db = Inr (out, db')"
  "\<lambda>db (now, m, sid, e, c). \<forall>r. c = Some r \<longrightarrow> run_copy_ok db r"
  by unfold_locales (auto dest: reconcile_write_inv run_copy_ok_mono)

section \<open>Steps of the system\<close>

record run_system =
  sy_db :: control_db
  sy_seen :: "audit_run list"
  sy_claims :: "run_step list"

definition initial_system :: run_system where
  "initial_system = \<lparr>sy_db = empty_db, sy_seen = [], sy_claims = []\<rparr>"

text \<open>
  A write works on any copy ever read and any claim ever issued; in \<open>claim\<close> the event and the
  current step it was given are arbitrary as well.
\<close>

inductive sys_step :: "run_system \<Rightarrow> run_system \<Rightarrow> bool" where
  sys_read: "runs_get rid (sy_db s) = Some r \<Longrightarrow> sys_step s (s\<lparr>sy_seen := r # sy_seen s\<rparr>)"
| sys_create: "run_service_create rq key now rid eid (sy_db s) = Inr (run, db') \<Longrightarrow>
    sys_step s (s\<lparr>sy_db := db'\<rparr>)"
| sys_cancel: "c \<in> set (sy_seen s) \<Longrightarrow> cancel_write c v now (sy_db s) = Inr (run, db') \<Longrightarrow>
    sys_step s (s\<lparr>sy_db := db'\<rparr>)"
| sys_claim: "c \<in> set (sy_seen s) \<Longrightarrow>
    claim_decide ev (Some c) cur w now lease sid tok = Inr (Some k) \<Longrightarrow>
    claim_write (Some k) (sy_db s) = Inr (res, db') \<Longrightarrow>
    sys_step s (s\<lparr>sy_db := db', sy_claims := (case res of None \<Rightarrow> [] | Some x \<Rightarrow> [x]) @ sy_claims s\<rparr>)"
| sys_heartbeat: "k \<in> set (sy_claims s) \<Longrightarrow> exec_heartbeat k now lease (sy_db s) = (ok, db') \<Longrightarrow>
    sys_step s (s\<lparr>sy_db := db'\<rparr>)"
| sys_finalize: "k \<in> set (sy_claims s) \<Longrightarrow> c \<in> set (sy_seen s) \<Longrightarrow> ar_id c = rs_run_id k \<Longrightarrow>
    finalize_write k (Some c) now eid (sy_db s) = Inr (run, db') \<Longrightarrow>
    sys_step s (s\<lparr>sy_db := db'\<rparr>)"
| sys_fail: "k \<in> set (sy_claims s) \<Longrightarrow> c \<in> set (sy_seen s) \<Longrightarrow> ar_id c = rs_run_id k \<Longrightarrow>
    fail_write k (Some c) code detail now (sy_db s) = Inr (run, db') \<Longrightarrow>
    sys_step s (s\<lparr>sy_db := db'\<rparr>)"
| sys_dispatch: "dispatch_batch now rb rm pub limit locked (sy_db s) = (sent, Inr (n, db')) \<Longrightarrow>
    sys_step s (s\<lparr>sy_db := db'\<rparr>)"
| sys_reconcile: "c \<in> set (sy_seen s) \<Longrightarrow>
    reconcile_write now m sid e (Some c) (sy_db s) = Inr (out, db') \<Longrightarrow>
    sys_step s (s\<lparr>sy_db := db'\<rparr>)"

inductive reachable :: "run_system \<Rightarrow> bool" where
  reachable_init: "reachable initial_system"
| reachable_step: "reachable s \<Longrightarrow> sys_step s s' \<Longrightarrow> reachable s'"

definition sys_inv :: "run_system \<Rightarrow> bool" where
  "sys_inv s \<longleftrightarrow>
     db_inv (sy_db s) \<and> (\<forall>c \<in> set (sy_seen s). run_copy_ok (sy_db s) c) \<and>
     (\<forall>k \<in> set (sy_claims s). claim_ok (sy_db s) k)"

lemma sys_inv_change:
  assumes "sys_inv s" and "db_inv db'" and "db_extends (sy_db s) db'"
    and "\<And>k. k \<in> set new \<Longrightarrow> claim_ok db' k"
  shows "sys_inv (s\<lparr>sy_db := db', sy_claims := new @ sy_claims s\<rparr>)"
  using assms run_copy_ok_mono [OF assms(3)] claim_ok_mono [OF assms(3)]
  by (auto simp: sys_inv_def)

lemma sys_inv_db:
  assumes "sys_inv s" and "db_inv db'" and "db_extends (sy_db s) db'"
  shows "sys_inv (s\<lparr>sy_db := db'\<rparr>)"
  using assms run_copy_ok_mono [OF assms(3)] claim_ok_mono [OF assms(3)]
  by (auto simp: sys_inv_def)

context use_case
begin

lemma system_step:
  assumes "sys_inv s" and "op a (sy_db s) r db'" and "given (sy_db s) a"
  shows "sys_inv (s\<lparr>sy_db := db'\<rparr>) \<and> db_extends (sy_db s) db'"
proof -
  have inv: "db_inv (sy_db s)" using assms(1) by (simp add: sys_inv_def)
  show ?thesis
    using sys_inv_db [OF assms(1) op_inv op_extends] op_extends [OF inv assms(3,2)] inv assms
    by blast
qed

end

lemma sys_claim_step:
  assumes inv: "sys_inv s" and c: "c \<in> set (sy_seen s)"
    and dec: "claim_decide ev (Some c) cur w now lease sid tok = Inr (Some k)"
    and wr: "claim_write (Some k) (sy_db s) = Inr (res, db')"
  shows "sys_inv (s\<lparr>sy_db := db',
           sy_claims := (case res of None \<Rightarrow> [] | Some x \<Rightarrow> [x]) @ sy_claims s\<rparr>) \<and>
         db_extends (sy_db s) db'"
proof -
  have "db_inv (sy_db s)" "run_copy_ok (sy_db s) c" using inv c by (auto simp: sys_inv_def)
  from claim_write_inv [OF this dec wr]
  have w: "db_inv db'" "db_extends (sy_db s) db'" "\<And>x. res = Some x \<Longrightarrow> claim_ok db' x" by auto
  have "claim_ok db' x" if "x \<in> set (case res of None \<Rightarrow> [] | Some x \<Rightarrow> [x])" for x
    using that w(3) by (auto split: option.splits)
  then show ?thesis using w(2) by (intro conjI sys_inv_change [OF inv w(1,2)])
qed

lemma sys_step_extends:
  assumes "sys_step s s'" and "sys_inv s"
  shows "sys_inv s' \<and> db_extends (sy_db s) (sy_db s')"
  using assms(1)
proof (cases rule: sys_step.cases)
  case (sys_read rid r)
  then have "run_copy_ok (sy_db s) r"
    using assms(2) db_invD(3) runs_get_Some unfolding sys_inv_def by blast
  with assms(2) show ?thesis by (simp add: sys_read(1) sys_inv_def)
next
  case (sys_create rq key now rid eid run db')
  from create_case.system_step [OF assms(2), of "(rq, key, now, rid, eid)"] sys_create(2)
  show ?thesis by (simp add: sys_create(1))
next
  case (sys_cancel c v now run db')
  from cancel_case.system_step [OF assms(2), of "(c, v, now)"] sys_cancel(2,3) assms(2)
  show ?thesis by (simp add: sys_cancel(1) sys_inv_def)
next
  case (sys_claim c ev cur w now lease sid tok k res db')
  from sys_claim_step [OF assms(2) sys_claim(2-4)] show ?thesis by (simp add: sys_claim(1))
next
  case (sys_heartbeat k now lease ok db')
  from heartbeat_case.system_step [OF assms(2), of "(k, now, lease)"] sys_heartbeat(3)
  show ?thesis by (simp add: sys_heartbeat(1))
next
  case (sys_finalize k c now eid run db')
  from finalize_case.system_step [OF assms(2), of "(k, c, now, eid)"] sys_finalize(2-5) assms(2)
  show ?thesis by (simp add: sys_finalize(1) sys_inv_def)
next
  case (sys_fail k c code detail now run db')
  from fail_case.system_step [OF assms(2), of "(k, c, code, detail, now)"] sys_fail(2-5) assms(2)
  show ?thesis by (simp add: sys_fail(1) sys_inv_def)
next
  case (sys_dispatch now rb rm pub limit locked sent n db')
  from dispatch_case.system_step [OF assms(2), of "(now, rb, rm, pub, limit, locked)"]
    sys_dispatch(2)
  show ?thesis by (auto simp: sys_dispatch(1))
next
  case (sys_reconcile c now m sid e out db')
  from reconcile_case.system_step [OF assms(2), of "(now, m, sid, e, Some c)"]
    sys_reconcile(2,3) assms(2)
  show ?thesis by (simp add: sys_reconcile(1) sys_inv_def)
qed

lemma reachable_inv: "reachable s \<Longrightarrow> sys_inv s"
proof (induction rule: reachable.induct)
  case reachable_init
  then show ?case by (simp add: sys_inv_def initial_system_def empty_db_inv)
next
  case (reachable_step s s')
  then show ?case using sys_step_extends by blast
qed

lemma reachable_extends: "sys_step\<^sup>*\<^sup>* s s' \<Longrightarrow> sys_inv s \<Longrightarrow> sys_inv s' \<and> db_extends (sy_db s) (sy_db s')"
  by (induction rule: rtranclp_induct) (auto dest: sys_step_extends intro: db_extends_trans)

end
