(* ===== verification/RunLedger.thy ===== *)
theory RunLedger
  imports RunSystem
begin

text \<open>
  The abstract view of the run tables: a ledger that gives each run the list of states it has
  been committed in.  The whole system refines a ledger in which the only changes are to open
  a run as \<open>QUEUED\<close> and to append an allowed state to one run.
\<close>

section \<open>The abstraction\<close>

type_synonym ledger = "uuid \<rightharpoonup> run_state list"

definition committed_state :: "'z control_db_scheme \<Rightarrow> uuid \<Rightarrow> int \<Rightarrow> run_state" where
  "committed_state db rid v =
     (case select_one (\<lambda>s. rs_run_id s = rid \<and> rs_resulting_run_version s = Some v)
             (run_steps db) of
        None \<Rightarrow> QUEUED
      | Some s \<Rightarrow> rs_to_state s)"

definition run_history :: "'z control_db_scheme \<Rightarrow> audit_run \<Rightarrow> run_state list" where
  "run_history db r = map (committed_state db (ar_id r)) [1..ar_version r]"

definition ledger_of :: "'z control_db_scheme \<Rightarrow> ledger" where
  "ledger_of db = (\<lambda>rid. map_option (run_history db) (runs_get rid db))"

inductive ledger_step :: "ledger \<Rightarrow> ledger \<Rightarrow> bool" where
  ledger_open: "L rid = None \<Longrightarrow> ledger_step L (L(rid \<mapsto> [QUEUED]))"
| ledger_append: "L rid = Some h \<Longrightarrow> t \<in> allowed_targets (last h) \<Longrightarrow>
    ledger_step L (L(rid \<mapsto> h @ [t]))"

text \<open>Which versions the runs are at.\<close>

definition versions :: "'z control_db_scheme \<Rightarrow> (uuid \<times> int) list" where
  "versions db = map (\<lambda>r. (ar_id r, ar_version r)) (audit_runs db)"

section \<open>Histories as lists\<close>

lemma committed_state_at:
  assumes inv: "db_inv db" and st: "state_at db rid v x"
  shows "committed_state db rid v = x"
proof (cases "v = 1")
  case True
  have "\<not> (rs_run_id s = rid \<and> rs_resulting_run_version s = Some 1)" if "s \<in> set (run_steps db)" for s
    using committed_step_ge_2 [OF db_invD(6) [OF inv that], of 1] by auto
  then have sel: "select_one (\<lambda>s. rs_run_id s = rid \<and> rs_resulting_run_version s = Some 1)
               (run_steps db) = None"
    by (simp only: select_one_None) blast
  have x: "x = QUEUED" using st True by (simp add: state_at_def)
  show ?thesis unfolding committed_state_def True sel by (simp add: x)
next
  case False
  let ?P = "\<lambda>s. rs_run_id s = rid \<and> rs_resulting_run_version s = Some v"
  from False st obtain s where s: "s \<in> set (run_steps db)" "?P s" "rs_to_state s = x"
    by (auto simp: state_at_def)
  then obtain t where t: "select_one ?P (run_steps db) = Some t"
    by (cases "select_one ?P (run_steps db)") auto
  then have "state_at db rid v (rs_to_state t)"
    using False by (auto simp: state_at_def dest: select_one_Some)
  with st have "rs_to_state t = x" by (rule state_at_unique [OF inv, symmetric])
  with t show ?thesis by (simp add: committed_state_def)
qed

lemma state_at_exists:
  assumes inv: "db_inv db" and r: "r \<in> set (audit_runs db)" and v: "1 \<le> v" "v \<le> ar_version r"
  shows "state_at db (ar_id r) v (committed_state db (ar_id r) v)"
proof -
  have "\<exists>x. state_at db (ar_id r) v x"
  proof (cases "v = ar_version r")
    case True
    with db_invD(3) [OF inv r] show ?thesis by (auto simp: run_copy_ok_def)
  next
    case False
    with db_invD(4) [OF inv r] v show ?thesis unfolding history_ok_def by fastforce
  qed
  with committed_state_at [OF inv] show ?thesis by blast
qed

lemma run_history_length: "length (run_history db r) = nat (ar_version r)"
  by (simp add: run_history_def)

lemma run_history_last:
  assumes inv: "db_inv db" and r: "r \<in> set (audit_runs db)"
  shows "run_history db r \<noteq> [] \<and> hd (run_history db r) = QUEUED \<and>
         last (run_history db r) = ar_state r"
proof -
  from db_invD(3) [OF inv r] have v: "1 \<le> ar_version r"
    and st: "state_at db (ar_id r) (ar_version r) (ar_state r)"
    by (auto simp: run_copy_ok_def)
  have "committed_state db (ar_id r) (ar_version r) = ar_state r"
    by (rule committed_state_at [OF inv st])
  moreover have "committed_state db (ar_id r) 1 = QUEUED"
    by (rule committed_state_at [OF inv]) (simp add: state_at_def)
  moreover have "[1..ar_version r] = [1..ar_version r - 1] @ [ar_version r]"
    using v by (simp add: upto_rec2)
  moreover have "[1..ar_version r] = 1 # [2..ar_version r]"
    using v by (simp add: upto_rec1)
  ultimately show ?thesis
    by (metis (no_types, lifting) last_map last_snoc list.discI list.map(2) list.sel(1)
        run_history_def)
qed

lemma run_history_nth:
  assumes inv: "db_inv db" and r: "r \<in> set (audit_runs db)"
    and i: "Suc i < length (run_history db r)"
  shows "run_history db r ! Suc i \<in> allowed_targets (run_history db r ! i)"
proof -
  from i have v: "1 \<le> int i + 1" "int i + 1 < ar_version r"
    by (auto simp: run_history_length)
  have "int i + 1 + 1 = int i + 2" by simp
  with v db_invD(4) [OF inv r] obtain a b where ab: "state_at db (ar_id r) (int i + 1) a"
    "state_at db (ar_id r) (int i + 2) b" "b \<in> allowed_targets a"
    unfolding history_ok_def by metis
  have "run_history db r ! i = committed_state db (ar_id r) (int i + 1)"
    "run_history db r ! Suc i = committed_state db (ar_id r) (int i + 2)"
    using v by (simp_all add: run_history_def add.commute)
  with ab committed_state_at [OF inv] show ?thesis by simp
qed

lemma lifecycle_path_nth:
  "(\<And>i. i < length ts \<Longrightarrow> (s # ts) ! Suc i \<in> allowed_targets ((s # ts) ! i)) \<Longrightarrow> lifecycle_path s ts"
proof (induction ts arbitrary: s)
  case (Cons t ts)
  have "lifecycle_path t ts"
  proof (rule Cons.IH)
    fix i assume "i < length ts"
    with Cons.prems [of "Suc i"] show "(t # ts) ! Suc i \<in> allowed_targets ((t # ts) ! i)" by simp
  qed
  with Cons.prems [of 0] show ?case by simp
qed simp

lemma run_history_path:
  assumes inv: "db_inv db" and r: "r \<in> set (audit_runs db)"
  shows "\<exists>ts. run_history db r = QUEUED # ts \<and> lifecycle_path QUEUED ts"
proof -
  from run_history_last [OF assms] obtain ts where h: "run_history db r = QUEUED # ts"
    by (metis list.exhaust_sel)
  have "lifecycle_path QUEUED ts"
    by (rule lifecycle_path_nth) (use run_history_nth [OF assms] h in auto)
  with h show ?thesis by blast
qed

lemma version_bound:
  assumes inv: "db_inv db" and r: "r \<in> set (audit_runs db)"
  shows "1 \<le> ar_version r \<and> ar_version r \<le> 13"
proof -
  from run_history_path [OF assms] obtain ts where "run_history db r = QUEUED # ts"
    "length ts \<le> 12"
    using lifecycle_path_bound by blast
  with run_history_length [of db r] have "nat (ar_version r) \<le> 13" by simp
  with db_invD(3) [OF inv r] show ?thesis by (auto simp: run_copy_ok_def)
qed

text \<open>Histories of a later database extend those of an earlier one.\<close>

lemma run_history_extends:
  assumes inv: "db_inv db" and inv': "db_inv db'" and ext: "db_extends db db'"
    and r: "r \<in> set (audit_runs db)" and r': "r' \<in> set (audit_runs db')" "ar_id r' = ar_id r"
  shows "ar_version r \<le> ar_version r' \<and>
         run_history db' r' =
           run_history db r @ map (committed_state db' (ar_id r)) [ar_version r + 1..ar_version r']"
proof -
  have "has_run db (ar_id r) (ar_version r)" using r by (auto simp: has_run_def)
  with ext have "has_run db' (ar_id r) (ar_version r)" by (simp add: db_extends_def)
  with has_run_iff [OF inv' r'(1)] r'(2) have le: "ar_version r \<le> ar_version r'" by simp
  have same: "committed_state db' (ar_id r) v = committed_state db (ar_id r) v"
    if "1 \<le> v" "v \<le> ar_version r" for v
    using state_at_exists [OF inv r that] ext committed_state_at [OF inv']
    by (simp add: db_extends_def)
  have "1 \<le> ar_version r" using db_invD(3) [OF inv r] by (simp add: run_copy_ok_def)
  with le have "[1..ar_version r'] = [1..ar_version r] @ [ar_version r + 1..ar_version r']"
    by (intro upto_split2) auto
  with same le r'(2) show ?thesis by (simp add: run_history_def)
qed

section \<open>Every step is a ledger step or leaves the ledger alone\<close>

lemma runs_get_versions:
  "map_option ar_version (runs_get rid db) = map_of (versions db) rid"
proof -
  have "map_option ar_version (select_one (\<lambda>r. ar_id r = rid) rs) =
          map_of (map (\<lambda>r. (ar_id r, ar_version r)) rs) rid" for rs
    by (induction rs) (auto simp: select_one_def)
  then show ?thesis by (simp add: runs_get_def versions_def)
qed

lemma runs_get_id: "runs_get rid db = Some r \<Longrightarrow> ar_id r = rid"
  by (auto simp: runs_get_def dest: select_one_Some)

text \<open>An entry of the ledger is fixed by the version of its run.\<close>

lemma ledger_same_version:
  assumes inv: "db_inv db" "db_inv db'" and ext: "db_extends db db'"
    and v: "map_of (versions db') rid = map_of (versions db) rid"
  shows "ledger_of db' rid = ledger_of db rid"
proof (cases "runs_get rid db")
  case None
  with v runs_get_versions [of rid db] runs_get_versions [of rid db'] have "runs_get rid db' = None"
    by simp
  with None show ?thesis by (simp add: ledger_of_def)
next
  case (Some r)
  with v runs_get_versions [of rid db] runs_get_versions [of rid db']
  have "map_option ar_version (runs_get rid db') = Some (ar_version r)" by simp
  then obtain r' where r': "runs_get rid db' = Some r'" "ar_version r' = ar_version r"
    by (cases "runs_get rid db'") auto
  have "r \<in> set (audit_runs db)" "r' \<in> set (audit_runs db')" "ar_id r' = ar_id r"
    using runs_get_Some [OF Some] runs_get_Some [OF r'(1)] by simp_all
  from run_history_extends [OF inv ext this] r'(2) Some r'(1) show ?thesis
    by (simp add: ledger_of_def)
qed

lemma ledger_append_version:
  assumes inv: "db_inv db" "db_inv db'" and ext: "db_extends db db'"
    and r: "runs_get rid db = Some r"
    and v: "map_of (versions db') rid = Some (ar_version r + 1)"
  shows "\<exists>t. t \<in> allowed_targets (last (run_history db r)) \<and>
             ledger_of db rid = Some (run_history db r) \<and>
             ledger_of db' rid = Some (run_history db r @ [t])"
proof -
  from v runs_get_versions [of rid db'] obtain r' where
    r': "runs_get rid db' = Some r'" "ar_version r' = ar_version r + 1"
    by (cases "runs_get rid db'") auto
  have mem: "r \<in> set (audit_runs db)" "r' \<in> set (audit_runs db')" "ar_id r' = ar_id r"
    using runs_get_Some [OF r] runs_get_Some [OF r'(1)] by simp_all
  let ?t = "committed_state db' (ar_id r) (ar_version r + 1)"
  have h: "run_history db' r' = run_history db r @ [?t]"
    using run_history_extends [OF inv ext mem] r'(2) by simp
  have len: "length (run_history db r) = nat (ar_version r)" "1 \<le> ar_version r"
    using version_bound [OF inv(1) mem(1)] by (simp_all add: run_history_length)
  then have ne: "run_history db r \<noteq> []" by auto
  have "run_history db' r' ! Suc (nat (ar_version r) - 1) \<in>
        allowed_targets (run_history db' r' ! (nat (ar_version r) - 1))"
    by (rule run_history_nth [OF inv(2) mem(2)]) (use h len in simp)
  then have "?t \<in> allowed_targets (last (run_history db r))"
    using h len ne by (simp add: nth_append last_conv_nth)
  with h r r'(1) show ?thesis by (auto simp: ledger_of_def)
qed

text \<open>How a step changes the versions.\<close>

definition version_change :: "'z control_db_scheme \<Rightarrow> 'z control_db_scheme \<Rightarrow> bool" where
  "version_change db db' \<longleftrightarrow>
     (\<forall>rid. map_of (versions db') rid = map_of (versions db) rid) \<or>
     (\<exists>new. map_of (versions db) new = None \<and>
        map_of (versions db') = (map_of (versions db))(new \<mapsto> 1)) \<or>
     (\<exists>r v. map_of (versions db) r = Some v \<and>
        map_of (versions db') = (map_of (versions db))(r \<mapsto> v + 1))"

lemma version_change_same [simp]: "audit_runs db' = audit_runs db \<Longrightarrow> version_change db db'"
  by (simp add: version_change_def versions_def)

lemma version_change_commit:
  assumes inv: "db_inv db" and com: "commit_of db c c' db'"
  shows "version_change db db'"
proof -
  from com obtain r where r: "r \<in> set (audit_runs db)" "ar_id r = ar_id c"
    "ar_version r = ar_version c" and v': "ar_version c' = ar_version c + 1"
    and rows: "audit_runs db' = saved_rows c c' (audit_runs db)"
    by (auto simp: commit_of_def run_commit_def)
  have uniq: "unique_by ar_id (audit_runs db)" using inv by (simp add: db_inv_def keys_ok_def)
  have "map_of (versions db) (ar_id c) = Some (ar_version c)"
    using runs_get_key [OF inv r(1)] runs_get_versions [of "ar_id r" db] r by simp
  moreover have "map_of (map (\<lambda>r. (ar_id r, ar_version r)) (saved_rows c c' rs)) =
      (map_of (map (\<lambda>r. (ar_id r, ar_version r)) rs))(ar_id c \<mapsto> ar_version c + 1)"
    if "unique_by ar_id rs" "r \<in> set rs" for rs
    using that
  proof (induction rs)
    case (Cons x xs)
    show ?case
    proof (cases "x = r")
      case True
      from Cons.prems(1) have "ar_id x \<notin> ar_id ` set xs" by simp
      with True r(2) have "\<forall>y \<in> set xs. ar_id y \<noteq> ar_id c" by (metis imageI)
      then have "saved_rows c c' xs = xs" by (simp add: saved_rows_def map_idI)
      with True r v' show ?thesis by (simp add: saved_rows_def fun_eq_iff)
    next
      case False
      with Cons.prems(2) have "r \<in> set xs" by simp
      moreover from Cons.prems(1) have "ar_id x \<notin> ar_id ` set xs" by simp
      ultimately have "ar_id x \<noteq> ar_id c" using r(2) by (metis imageI)
      with Cons False show ?thesis by (auto simp: saved_rows_def fun_eq_iff)
    qed
  qed simp
  from this [OF uniq r(1)] have
    "map_of (versions db') = (map_of (versions db))(ar_id c \<mapsto> ar_version c + 1)"
    by (simp add: versions_def rows)
  ultimately show ?thesis unfolding version_change_def by blast
qed

lemma ledger_change:
  assumes inv: "db_inv db" "db_inv db'" and ext: "db_extends db db'"
    and ch: "version_change db db'"
  shows "ledger_of db' = ledger_of db \<or> ledger_step (ledger_of db) (ledger_of db')"
  using ch unfolding version_change_def
proof (elim disjE exE conjE)
  assume "\<forall>rid. map_of (versions db') rid = map_of (versions db) rid"
  then show ?thesis using ledger_same_version [OF inv ext] by blast
next
  fix new assume new: "map_of (versions db) new = None"
    "map_of (versions db') = (map_of (versions db))(new \<mapsto> 1)"
  then obtain r' where r': "runs_get new db' = Some r'" "ar_version r' = 1"
    using runs_get_versions [of new db'] by (metis fun_upd_same map_option_eq_Some)
  have mem: "r' \<in> set (audit_runs db')" using runs_get_Some [OF r'(1)] by simp
  have "run_history db' r' = [QUEUED]"
    using run_history_last [OF inv(2) mem] run_history_length [of db' r'] r'(2)
    by (cases "run_history db' r'") auto
  moreover have "ledger_of db new = None"
    using runs_get_versions [of new db] new(1) by (simp add: ledger_of_def)
  moreover have "ledger_of db' rid = ledger_of db rid" if "rid \<noteq> new" for rid
    using ledger_same_version [OF inv ext] new(2) that by simp
  ultimately have "ledger_of db' = (ledger_of db)(new \<mapsto> [QUEUED])"
    using r'(1) by (auto simp: fun_eq_iff ledger_of_def)
  then show ?thesis using ledger_open [of "ledger_of db" new] \<open>ledger_of db new = None\<close> by simp
next
  fix rid v assume v: "map_of (versions db) rid = Some v"
    "map_of (versions db') = (map_of (versions db))(rid \<mapsto> v + 1)"
  then obtain r where r: "runs_get rid db = Some r" "ar_version r = v"
    using runs_get_versions [of rid db] by (metis map_option_eq_Some)
  with v obtain t where t: "t \<in> allowed_targets (last (run_history db r))"
    "ledger_of db rid = Some (run_history db r)" "ledger_of db' rid = Some (run_history db r @ [t])"
    using ledger_append_version [OF inv ext r(1)] by auto
  have "ledger_of db' x = ledger_of db x" if "x \<noteq> rid" for x
    using ledger_same_version [OF inv ext] v(2) that by simp
  with t(3) have "ledger_of db' = (ledger_of db)(rid \<mapsto> run_history db r @ [t])"
    by (auto simp: fun_eq_iff)
  moreover have "ledger_step (ledger_of db) ((ledger_of db)(rid \<mapsto> run_history db r @ [t]))"
    using t(2,1) by (rule ledger_append)
  ultimately show ?thesis by simp
qed

section \<open>Each use case and the versions\<close>

lemma delivery_ops_runs [simp]:
  "audit_runs (snd (outbox_mark_published eid t db)) = audit_runs db"
  "audit_runs (snd (outbox_mark_failed eid err t db)) = audit_runs db"
  "audit_runs (snd (outbox_reopen eid t reason db)) = audit_runs db"
  "audit_runs (snd (outbox_wake_current eid v t db)) = audit_runs db"
  by (simp_all add: delivery_ops update_events_def case_prod_beta)

lemma claim_write_runs:
  "claim_write k db = Inr (res, db') \<Longrightarrow> audit_runs db' = audit_runs db"
  by (auto simp: claim_write_def steps_claim_def bind_res_Inr split: option.splits if_splits)

lemma exec_heartbeat_runs:
  "exec_heartbeat k now lease db = (ok, db') \<Longrightarrow> audit_runs db' = audit_runs db"
  by (auto simp: exec_heartbeat_def steps_heartbeat_def update_owned_def Let_def
      split: option.splits if_splits prod.splits)

lemma dispatch_event_runs:
  assumes "dispatch_event now rb rm pub e db = Inr (ok, db')"
  shows "audit_runs db' = audit_runs db"
proof (cases "pub e")
  case None
  with assms have "outbox_mark_published (oe_id e) now db = (ok, db')"
    by (simp add: dispatch_event_def)
  then show ?thesis by (metis delivery_ops_runs(1) snd_conv)
qed (use assms in \<open>auto simp: dispatch_event_def bind_res_Inr\<close>)

lemma dispatch_events_runs:
  "dispatch_events now rb rm pub es n db = (sent, Inr (m, db')) \<Longrightarrow> audit_runs db' = audit_runs db"
proof (induction es arbitrary: n db sent)
  case (Cons e es)
  then obtain ok db1 sent1 n1 where
    1: "dispatch_event now rb rm pub e db = Inr (ok, db1)"
    and 2: "dispatch_events now rb rm pub es n1 db1 = (sent1, Inr (m, db'))"
    by (auto simp: Let_def split: sum.splits prod.splits if_splits)
  from dispatch_event_runs [OF 1] Cons.IH [OF 2] show ?case by simp
qed simp

lemma cancel_write_versions:
  assumes "cancel_write c v now db = Inr (run, db')"
  shows "versions db' = versions db"
proof -
  from assms obtain c1 where rc: "request_cancel c v now = Inr c1"
    and rest: "(if ar_cancel_requested_at c \<noteq> None \<or> ar_state c1 = run_state.CANCELLED
       then Inr (c1, db)
       else bind_res (runs_save c1 v db) (\<lambda>db1.
         Inr (c1, snd (outbox_wake_current (ar_id c1) (ar_version c1)
               (case ar_cancel_requested_at c1 of None \<Rightarrow> now | Some t \<Rightarrow> t) db1)))) = Inr (run, db')"
    by (auto simp: cancel_write_def bind_res_Inr)
  show ?thesis
  proof (cases "ar_cancel_requested_at c \<noteq> None \<or> ar_state c1 = run_state.CANCELLED")
    case False
    with rest obtain db1 where save: "runs_save c1 v db = Inr db1"
      and runs: "audit_runs db' = audit_runs db1"
      by (auto simp: bind_res_Inr)
    have "ar_version c1 = v"
      using False rc by (auto simp: request_cancel_def split: if_splits)
    then show ?thesis
      using runs_save_Inr(1) [OF save] by (simp add: versions_def runs)
  qed (use rest in simp)
qed

lemma create_version_change:
  assumes "run_service_create rq key now rid eid db = Inr (run, db')"
  shows "version_change db db'"
  using create_fresh [OF assms]
proof
  assume new: "run = new_run rq key now rid \<and>
         \<not> exists_row (\<lambda>r. ar_id r = rid) (audit_runs db) \<and>
         \<not> exists_row (\<lambda>r. ar_idempotency_key r = key) (audit_runs db) \<and>
         \<not> exists_row (\<lambda>e. oe_id e = eid) (outbox_events db) \<and>
         db' = db\<lparr>audit_runs := audit_runs db @ [run],
                  outbox_events := outbox_events db @ [advance_event run now eid]\<rparr>"
  then have run: "ar_id run = rid" "ar_version run = 1" by (simp_all add: new_run_def)
  from new have "runs_get rid db = None" by (simp add: runs_get_def)
  then have none: "map_of (versions db) rid = None"
    using runs_get_versions [of rid db] by simp
  moreover have "versions db' = versions db @ [(rid, 1)]"
    using new run by (simp add: versions_def)
  ultimately have "map_of (versions db') = (map_of (versions db))(rid \<mapsto> 1)"
    by (auto simp: fun_eq_iff map_add_def split: option.splits)
  with none show ?thesis unfolding version_change_def by blast
qed simp

lemma reconcile_version_change:
  assumes inv: "db_inv db" and copy: "run_copy_ok db c"
    and w: "reconcile_write now m sid e (Some c) db = Inr (out, db')"
  shows "version_change db db'"
proof (cases "out = RecoveryFailed")
  case True
  with recovery_write_commit [OF inv copy] w version_change_commit [OF inv] show ?thesis by blast
next
  case False
  with w have "audit_runs db' = audit_runs db"
    by (auto simp: reconcile_write_def bind_res_Inr Let_def split: if_splits prod.splits)
       (metis delivery_ops_runs(3) snd_conv)+
  then show ?thesis by simp
qed

lemma sys_step_version_change:
  assumes "sys_step s s'" and "sys_inv s"
  shows "version_change (sy_db s) (sy_db s')"
  using assms(1)
proof (cases rule: sys_step.cases)
  case (sys_create rq key now rid eid run db')
  then show ?thesis using create_version_change by simp
next
  case (sys_cancel c v now run db')
  from cancel_write_versions [OF sys_cancel(3)] show ?thesis
    by (simp add: sys_cancel(1) version_change_def)
next
  case (sys_claim c ev cur w now lease sid tok k res db')
  from claim_write_runs [OF sys_claim(4)] show ?thesis by (simp add: sys_claim(1))
next
  case (sys_heartbeat k now lease ok db')
  from exec_heartbeat_runs [OF sys_heartbeat(3)] show ?thesis by (simp add: sys_heartbeat(1))
next
  case (sys_finalize k c now eid run db')
  then have "db_inv (sy_db s)" "claim_ok (sy_db s) k" "run_copy_ok (sy_db s) c"
    using assms(2) by (auto simp: sys_inv_def)
  from version_change_commit [OF this(1) finalize_write_commit [OF this sys_finalize(4,5)]]
  show ?thesis by (simp add: sys_finalize(1))
next
  case (sys_fail k c code detail now run db')
  then have "db_inv (sy_db s)" "claim_ok (sy_db s) k" "run_copy_ok (sy_db s) c"
    using assms(2) by (auto simp: sys_inv_def)
  from version_change_commit [OF this(1) fail_write_commit [OF this sys_fail(4,5)]]
  show ?thesis by (simp add: sys_fail(1))
next
  case (sys_dispatch now rb rm pub limit locked sent n db')
  then have "audit_runs db' = audit_runs (sy_db s)"
    using dispatch_events_runs by (auto simp: dispatch_batch_def)
  then show ?thesis by (simp add: sys_dispatch(1))
next
  case (sys_reconcile c now m sid e out db')
  then have "db_inv (sy_db s)" "run_copy_ok (sy_db s) c"
    using assms(2) by (auto simp: sys_inv_def)
  from reconcile_version_change [OF this sys_reconcile(3)] show ?thesis
    by (simp add: sys_reconcile(1))
qed simp

end
