(* ===== verification/TimelineFacts.thy ===== *)
theory TimelineFacts
  imports RunLedger
begin

text \<open>
  The timeline of a run shows its history: the versions after the cursor, each once and in
  order, with the state that was committed at it.  A client that resumes from the last version
  it saw therefore misses nothing and sees nothing twice.
\<close>

section \<open>The completed steps of a run\<close>

lemma completed_versions:
  assumes inv: "db_inv db" and r: "r \<in> set (audit_runs db)"
  shows "map resulting_or_0 (completed_steps (steps_list_for_run (ar_id r) db)) = [2..ar_version r]"
proof -
  let ?cs = "completed_steps (steps_list_for_run (ar_id r) db)"
  have mem: "s \<in> set ?cs \<longleftrightarrow>
      s \<in> set (run_steps db) \<and> rs_run_id s = ar_id r \<and> rs_resulting_run_version s \<noteq> None" for s
    by (auto simp: completed_steps_def steps_list_for_run_def)
  have dist: "distinct (map resulting_or_0 ?cs)"
  proof -
    have d: "distinct (run_steps db)"
      using inv distinct_map by (auto simp: db_inv_def keys_ok_def)
    have "distinct ?cs"
      using d by (simp add: completed_steps_def steps_list_for_run_def distinct_filter)
    moreover have "inj_on resulting_or_0 (set ?cs)"
    proof (rule inj_onI)
      fix s t assume st: "s \<in> set ?cs" "t \<in> set ?cs" and eq: "resulting_or_0 s = resulting_or_0 t"
      from st eq have "rs_run_id s = rs_run_id t"
        "rs_resulting_run_version s = rs_resulting_run_version t" "rs_resulting_run_version s \<noteq> None"
        by (auto simp: mem resulting_or_0_def)
      with st db_invD(2) [OF inv] show "s = t" unfolding committed_unique_def mem by blast
    qed
    ultimately show ?thesis by (simp add: distinct_map)
  qed
  have set: "set (map resulting_or_0 ?cs) = set [2..ar_version r]"
  proof (intro set_eqI iffI)
    fix v assume "v \<in> set (map resulting_or_0 ?cs)"
    then obtain s where s: "s \<in> set (run_steps db)" "rs_run_id s = ar_id r"
      "rs_resulting_run_version s = Some v"
      using mem by (auto simp: resulting_or_0_def)
    from db_invD(6) [OF inv s(1)] s(2,3) has_run_iff [OF inv r]
    show "v \<in> set [2..ar_version r]" by (auto simp: step_ok_def)
  next
    fix v assume "v \<in> set [2..ar_version r]"
    then have v: "2 \<le> v" "v \<le> ar_version r" by simp_all
    then have "state_at db (ar_id r) v (committed_state db (ar_id r) v)"
      using state_at_exists [OF inv r] by simp
    with v obtain s where "s \<in> set (run_steps db)" "rs_run_id s = ar_id r"
      "rs_resulting_run_version s = Some v"
      by (auto simp: state_at_def)
    then have "s \<in> set ?cs" "resulting_or_0 s = v" by (auto simp: mem resulting_or_0_def)
    then show "v \<in> set (map resulting_or_0 ?cs)" by force
  qed
  have "sorted (map resulting_or_0 ?cs)" by (simp add: completed_steps_def)
  with dist set show ?thesis by (intro sorted_distinct_set_unique) simp_all
qed

lemma completed_state:
  assumes inv: "db_inv db"
    and s: "s \<in> set (completed_steps (steps_list_for_run rid db))"
  shows "rs_to_state s = committed_state db rid (resulting_or_0 s)"
proof -
  from s have m: "s \<in> set (run_steps db)" "rs_run_id s = rid" "rs_resulting_run_version s \<noteq> None"
    by (auto simp: completed_steps_def steps_list_for_run_def)
  then obtain v where v: "rs_resulting_run_version s = Some v" by blast
  have "2 \<le> v" using committed_step_ge_2 [OF db_invD(6) [OF inv m(1)] v] .
  with m v have "state_at db rid v (rs_to_state s)" by (auto simp: state_at_def)
  from committed_state_at [OF inv this] v show ?thesis by (simp add: resulting_or_0_def)
qed

section \<open>Events after a cursor\<close>

lemma filter_upto: "filter (\<lambda>v. a < v) [i..j] = [max i (a + 1)..j]"
proof (induction "nat (j - i + 1)" arbitrary: i)
  case 0
  then show ?case by simp
next
  case (Suc n)
  then have ij: "i \<le> j" by simp
  have "filter (\<lambda>v. a < v) [i + 1..j] = [max (i + 1) (a + 1)..j]" using Suc by simp
  moreover have "[i..j] = i # [i + 1..j]" using ij by (rule upto_rec1)
  moreover have "a < i \<Longrightarrow> max i (a + 1) = i \<and> max (i + 1) (a + 1) = i + 1" by auto
  moreover have "\<not> a < i \<Longrightarrow> max i (a + 1) = max (i + 1) (a + 1)" by auto
  ultimately show ?case using ij by (cases "a < i") (simp_all add: upto_rec1)
qed

lemma drop_upto1: "0 \<le> a \<Longrightarrow> drop (nat a) [1..b] = [a + 1..b]"
  by (rule nth_equalityI) auto

lemma filter_map_eq: "map f (filter (\<lambda>x. P (f x)) xs) = filter P (map f xs)"
  by (induction xs) auto

lemma timeline_events_versions:
  assumes inv: "db_inv db" and r: "r \<in> set (audit_runs db)" and a: "0 \<le> a"
  shows "map te_version (timeline_events r (steps_list_for_run (ar_id r) db) a) =
           [a + 1..ar_version r]"
    and "map te_state (timeline_events r (steps_list_for_run (ar_id r) db) a) =
           map (committed_state db (ar_id r)) [a + 1..ar_version r]"
proof -
  let ?cs = "completed_steps (steps_list_for_run (ar_id r) db)"
  let ?later = "filter (\<lambda>s. rs_resulting_run_version s \<noteq> None \<and> a < resulting_or_0 s) ?cs"
  have "?later = filter (\<lambda>s. a < resulting_or_0 s) ?cs"
    by (rule filter_cong) (auto simp: completed_steps_def)
  then have later: "map resulting_or_0 ?later = [max 2 (a + 1)..ar_version r]"
    using completed_versions [OF inv r] filter_upto [of a 2 "ar_version r"]
    by (simp add: filter_map_eq)
  have v1: "1 \<le> ar_version r" using version_bound [OF inv r] by simp
  have vs: "(if a < 1 then [1] else []) @ [max 2 (a + 1)..ar_version r] = [a + 1..ar_version r]"
  proof (cases "a < 1")
    case True
    with a have "a = 0" by simp
    with v1 show ?thesis by (simp add: upto_rec1 [of 1])
  qed simp
  show "map te_version (timeline_events r (steps_list_for_run (ar_id r) db) a) = [a + 1..ar_version r]"
    unfolding vs [symmetric] later [symmetric]
    by (simp add: timeline_events_def first_event_def step_event_def comp_def)
  have "map rs_to_state ?later = map (committed_state db (ar_id r)) (map resulting_or_0 ?later)"
    using completed_state [OF inv] by simp
  moreover have "committed_state db (ar_id r) 1 = QUEUED"
    by (rule committed_state_at [OF inv]) (simp add: state_at_def)
  ultimately show "map te_state (timeline_events r (steps_list_for_run (ar_id r) db) a) =
           map (committed_state db (ar_id r)) [a + 1..ar_version r]"
    unfolding vs [symmetric] later [symmetric]
    by (simp add: timeline_events_def first_event_def step_event_def comp_def)
qed

section \<open>The stream\<close>

text \<open>
  A stream over databases of which each extends the one before emits consecutive versions from
  the cursor on, and if it ends it ends with the version of a terminal run.
\<close>

lemma stream_run_versions:
  assumes "\<forall>db \<in> set dbs. db_inv db" and "0 \<le> cursor"
    and "stream_run rid cursor dbs = Inr (events, cursor', ended)"
    and "dbs \<noteq> [] \<longrightarrow> has_run (hd dbs) rid cursor"
    and "\<And>i. Suc i < length dbs \<Longrightarrow> db_extends (dbs ! i) (dbs ! Suc i)"
  shows "map te_version events = [cursor + 1..cursor'] \<and> cursor \<le> cursor' \<and>
         (ended \<longrightarrow> (\<exists>db \<in> set dbs. \<exists>r. runs_get rid db = Some r \<and>
            ar_state r \<in> terminal_states \<and> ar_version r = cursor'))"
  using assms
proof (induction dbs arbitrary: cursor events)
  case Nil
  then show ?case by simp
next
  case (Cons db dbs)
  have inv: "db_inv db" using Cons.prems(1) by simp
  from Cons.prems(3) obtain tl where tl: "timeline_get rid cursor db = Inr tl"
    by (auto simp: bind_res_Inr)
  then obtain r where r: "runs_get rid db = Some r" by (auto simp: timeline_get_def split: option.splits)
  have mem: "r \<in> set (audit_runs db)" "ar_id r = rid" using runs_get_Some [OF r] by auto
  have le: "cursor \<le> ar_version r"
    using Cons.prems(4) has_run_iff [OF inv mem(1)] mem(2) by simp
  let ?ev = "timeline_events r (steps_list_for_run rid db) cursor"
  have tl': "tl_events tl = ?ev" "tl_terminal tl = (ar_state r \<in> terminal_states)"
    "tl_run_version tl = ar_version r"
    using tl r by (auto simp: timeline_get_def Let_def)
  have vs: "map te_version ?ev = [cursor + 1..ar_version r]"
    using timeline_events_versions(1) [OF inv mem(1) Cons.prems(2)] mem(2) by simp
  have cur: "(if ?ev = [] then cursor else te_version (last ?ev)) = ar_version r"
  proof (cases "?ev = []")
    case True
    with vs have "[cursor + 1..ar_version r] = []" by simp
    with le True show ?thesis by simp
  next
    case False
    then have "te_version (last ?ev) = last (map te_version ?ev)" by (simp add: last_map)
    also have "\<dots> = ar_version r" using False vs
      by (metis (no_types, lifting) Nil_is_map_conv last_snoc upto_empty upto_rec2 not_le)
    finally show ?thesis using False by simp
  qed
  have poll: "stream_poll cursor tl = (?ev, ar_version r, ar_state r \<in> terminal_states)"
    unfolding stream_poll_def tl' cur Let_def by simp
  show ?case
  proof (cases "ar_state r \<in> terminal_states")
    case True
    with Cons.prems(3) tl have "events = ?ev" "cursor' = ar_version r" "ended"
      by (auto simp: poll)
    with vs le True r show ?thesis by auto
  next
    case False
    with Cons.prems(3) tl obtain rest where
      rest: "stream_run rid (ar_version r) dbs = Inr (rest, cursor', ended)"
      and ev: "events = ?ev @ rest"
      by (auto simp: poll bind_res_Inr)
    have next_run: "dbs \<noteq> [] \<longrightarrow> has_run (hd dbs) rid (ar_version r)"
    proof
      assume "dbs \<noteq> []"
      with Cons.prems(5) [of 0] have "db_extends db (hd dbs)" by (simp add: hd_conv_nth)
      moreover have "has_run db rid (ar_version r)" using mem by (auto simp: has_run_def)
      ultimately show "has_run (hd dbs) rid (ar_version r)" by (simp add: db_extends_def)
    qed
    have "map te_version rest = [ar_version r + 1..cursor'] \<and> ar_version r \<le> cursor' \<and>
         (ended \<longrightarrow> (\<exists>db \<in> set dbs. \<exists>r. runs_get rid db = Some r \<and>
            ar_state r \<in> terminal_states \<and> ar_version r = cursor'))"
    proof (rule Cons.IH [OF _ _ rest next_run])
      show "\<forall>db \<in> set dbs. db_inv db" using Cons.prems(1) by simp
      show "0 \<le> ar_version r" using Cons.prems(2) le by simp
      show "db_extends (dbs ! i) (dbs ! Suc i)" if "Suc i < length dbs" for i
        using Cons.prems(5) [of "Suc i"] that by simp
    qed
    moreover from this le
    have "[cursor + 1..cursor'] = [cursor + 1..ar_version r] @ [ar_version r + 1..cursor']"
      by (cases "cursor = ar_version r") (auto intro: upto_split2)
    ultimately show ?thesis using vs le ev by auto
  qed
qed

end
