(* ===== verification/RunFencing.thy ===== *)
theory RunFencing
  imports RunSystem
begin

text \<open>
  Ownership of a step: the claim token fences every statement of a worker that lost its step,
  a second claim inside the lease gets nothing, and a claim on a delivered event goes through
  when nobody holds the step and can then be committed.
\<close>

section \<open>The fencing contract\<close>

definition holds :: "run_step \<Rightarrow> 'z control_db_scheme \<Rightarrow> bool" where
  "holds k db \<longleftrightarrow>
     (case rs_claim_token k of
        None \<Rightarrow> False
      | Some tok \<Rightarrow> exists_row (owned (rs_id k) tok) (run_steps db))"

locale fenced_update =
  fixes op :: "run_step \<Rightarrow> 'a \<Rightarrow> 'z control_db_scheme \<Rightarrow> 'r"
    and refused :: "run_step \<Rightarrow> 'z control_db_scheme \<Rightarrow> 'r"
  assumes refuses: "\<not> holds k db \<Longrightarrow> op k a db = refused k db"
begin

lemma other_owner:
  assumes "db_inv db" and "s \<in> set (run_steps db)" and "rs_id s = rs_id k"
    and "rs_claim_token s \<noteq> rs_claim_token k"
  shows "op k a db = refused k db"
proof (rule refuses)
  have "x = s" if "x \<in> set (run_steps db)" "rs_id x = rs_id k" for x
    using step_row_unique [OF assms(1) that(1) assms(2)] that(2) assms(3) by simp
  with assms(4) show "\<not> holds k db" by (auto simp: holds_def owned_def split: option.splits)
qed

lemma finished_step:
  assumes "db_inv db" and "s \<in> set (run_steps db)" and "rs_id s = rs_id k"
    and "rs_status s \<noteq> step_status.RUNNING"
  shows "op k a db = refused k db"
proof (rule refuses)
  have "x = s" if "x \<in> set (run_steps db)" "rs_id x = rs_id k" for x
    using step_row_unique [OF assms(1) that(1) assms(2)] that(2) assms(3) by simp
  with assms(4) show "\<not> holds k db" by (auto simp: holds_def owned_def split: option.splits)
qed

end

lemma update_owned_unowned:
  assumes "\<not> exists_row (owned sid tok) (run_steps db)"
  shows "update_owned sid tok f db = (False, db)"
proof -
  have f: "filter (owned sid tok) (run_steps db) = []" using assms by (simp add: filter_empty_conv)
  have m: "map (\<lambda>s. if owned sid tok s then f s else s) (run_steps db) = run_steps db"
    using assms by (auto intro: map_idI)
  show ?thesis unfolding update_owned_def update_where_def by (simp add: f m)
qed

interpretation heartbeat_fence: fenced_update
  "\<lambda>k (now, lease) db. exec_heartbeat k now lease db" "\<lambda>k db. (False, db)"
  by unfold_locales
     (auto simp: exec_heartbeat_def steps_heartbeat_def holds_def update_owned_unowned
       simp del: exists_row_iff split: option.splits)

interpretation finalize_fence: fenced_update
  "\<lambda>k (read, now, eid) db. finalize_write k read now eid db"
  "\<lambda>k db. Inl (ClaimLostError (rs_id k))"
  by unfold_locales
     (auto simp: finalize_write_def steps_complete_def holds_def update_owned_unowned Let_def
       simp del: exists_row_iff split: option.splits)

interpretation fail_fence: fenced_update
  "\<lambda>k (read, code, detail, now) db. fail_write k read code detail now db"
  "\<lambda>k db. Inl (ClaimLostError (rs_id k))"
  by unfold_locales
     (auto simp: fail_write_def steps_fail_def holds_def update_owned_unowned Let_def
       simp del: exists_row_iff split: option.splits)

section \<open>What a claim leaves behind\<close>

lemma steps_claim_result:
  assumes "steps_claim c db = Inr (Some x, db')"
  shows "x \<in> set (run_steps db') \<and> rs_status x = rs_status c \<or> rs_status x = step_status.RUNNING"
    and "same_step_key c x" and "rs_claim_token x = rs_claim_token c"
    and "rs_lease_expires_at x = rs_lease_expires_at c"
    and "x \<in> set (run_steps db')"
    and "\<forall>s \<in> set (run_steps db'). same_step_key c s \<longrightarrow>
           rs_lease_expires_at s = rs_lease_expires_at c \<and> rs_claim_token s = rs_claim_token c"
    and "audit_runs db' = audit_runs db" and "outbox_events db' = outbox_events db"
proof -
  have "same_step_key c x \<and> rs_claim_token x = rs_claim_token c \<and>
        rs_lease_expires_at x = rs_lease_expires_at c \<and> x \<in> set (run_steps db') \<and>
        (\<forall>s \<in> set (run_steps db'). same_step_key c s \<longrightarrow>
           rs_lease_expires_at s = rs_lease_expires_at c \<and> rs_claim_token s = rs_claim_token c) \<and>
        (rs_status x = rs_status c \<or> rs_status x = step_status.RUNNING) \<and>
        audit_runs db' = audit_runs db \<and> outbox_events db' = outbox_events db"
  proof (cases "select_one (same_step_key c) (run_steps db)")
    case None
    with assms have "x = c" "db' = db\<lparr>run_steps := run_steps db @ [c]\<rparr>"
      by (auto simp: steps_claim_def split: option.splits)
    with None show ?thesis by (auto simp: same_step_key_def)
  next
    case (Some s)
    with assms have x: "x = taken_over c s" and db': "db' = db\<lparr>run_steps :=
        map (\<lambda>s. if same_step_key c s then taken_over c s else s) (run_steps db)\<rparr>"
      by (auto simp: steps_claim_def update_where_def split: if_splits)
    from Some have s: "s \<in> set (run_steps db)" "same_step_key c s" by (auto dest: select_one_Some)
    then have "x \<in> set (run_steps db')" by (force simp: x db')
    with s show ?thesis by (auto simp: x db' taken_over_def same_step_key_def)
  qed
  then show "x \<in> set (run_steps db') \<and> rs_status x = rs_status c \<or> rs_status x = step_status.RUNNING"
    "same_step_key c x" "rs_claim_token x = rs_claim_token c"
    "rs_lease_expires_at x = rs_lease_expires_at c" "x \<in> set (run_steps db')"
    "\<forall>s \<in> set (run_steps db'). same_step_key c s \<longrightarrow>
           rs_lease_expires_at s = rs_lease_expires_at c \<and> rs_claim_token s = rs_claim_token c"
    "audit_runs db' = audit_runs db" "outbox_events db' = outbox_events db"
    by auto
qed

text \<open>Inside the lease of a step its key cannot be claimed again.\<close>

lemma steps_claim_leased:
  assumes "\<forall>s \<in> set (run_steps db). same_step_key c s \<longrightarrow>
             (\<exists>t. rs_lease_expires_at s = Some t \<and> rs_started_at c < t)"
    and "\<exists>s \<in> set (run_steps db). same_step_key c s"
  shows "steps_claim c db = Inr (None, db)"
proof (cases "select_one (same_step_key c) (run_steps db)")
  case None
  with assms(2) show ?thesis by simp
next
  case (Some s)
  then have "s \<in> set (run_steps db)" "same_step_key c s" by (auto dest: select_one_Some)
  with assms(1) obtain t where "rs_lease_expires_at s = Some t" "rs_started_at c < t" by blast
  then have "\<not> claimable (rs_started_at c) s" by (simp add: claimable_def)
  with Some show ?thesis by (simp add: steps_claim_def)
qed

lemma claim_write_Some: "claim_write k db = Inr (Some x, db') \<Longrightarrow> \<exists>c. k = Some c"
  by (cases k) (auto simp: claim_write_def)

lemma exec_claim_Some:
  assumes "exec_claim ev w now lease sid tok db = Inr (Some x, db')"
  shows "\<exists>e r t. outbox_get ev db = Some e \<and> runs_get (oe_aggregate_id e) db = Some r \<and>
           claim_target r = Some t \<and> ar_state r \<notin> terminal_states \<and>
           steps_claim (candidate_step r t w now lease sid tok) db = Inr (Some x, db')"
proof -
  let ?dec = "\<lambda>e r. claim_decide (Some e) (Some r) (steps_get_current (ar_id r) db) w now lease sid tok"
  from assms obtain e r xa where e: "outbox_get ev db = Some e"
    and r: "runs_get (oe_aggregate_id e) db = Some r" and "?dec e r = Inr xa"
    and "claim_write xa db = Inr (Some x, db')"
    by (auto simp: exec_claim_def Let_def bind_res_Inr claim_decide_def [of None]
        claim_decide_def [of _ None] claim_write_def [of None] split: option.splits)
  with claim_write_Some obtain k where dec: "?dec e r = Inr (Some k)"
    and wr: "claim_write (Some k) db = Inr (Some x, db')" by blast
  from claim_decide_candidate [OF dec] obtain t where "claim_target r = Some t"
    "k = candidate_step r t w now lease sid tok" "ar_state r \<notin> terminal_states" by blast
  moreover from wr have "steps_claim k db = Inr (Some x, db')"
    by (auto simp: claim_write_def bind_res_Inr split: if_splits)
  ultimately show ?thesis using e r by blast
qed

section \<open>Progress\<close>

text \<open>
  The advance event of the present version of a run that has not ended is claimable as soon as
  nobody holds the step.
\<close>

lemma claim_progress:
  assumes inv: "db_inv db" and e: "outbox_get ev db = Some e"
    and r: "runs_get (oe_aggregate_id e) db = Some r" "ar_version r = oe_aggregate_version e"
    and t: "claim_target r = Some t" "ar_state r \<notin> terminal_states"
    and free: "\<not> (ar_cancel_requested_at r \<noteq> None \<and> in_flight (steps_get_current (ar_id r) db) r now)"
      "\<forall>s \<in> set (run_steps db). rs_run_id s = ar_id r \<and> rs_step_key s = step_key (ar_id r) t \<longrightarrow>
         claimable now s"
    and fresh: "\<forall>s \<in> set (run_steps db). rs_id s \<noteq> sid"
  shows "\<exists>x db'. exec_claim ev w now lease sid tok db = Inr (Some x, db') \<and>
           rs_claim_token x = Some tok"
proof -
  let ?k = "candidate_step r t w now lease sid tok"
  have mem: "e \<in> set (outbox_events db)" "r \<in> set (audit_runs db)" "ar_id r = oe_aggregate_id e"
    using e r(1) by (auto simp: outbox_get_def runs_get_def dest: select_one_Some)
  have st: "state_at db (ar_id r) (ar_version r) (ar_state r)"
    using db_invD(3) [OF inv mem(2)] by (simp add: run_copy_ok_def)
  from db_invD(7) [OF inv mem(1)] obtain y where ev: "oe_topic e = advance_topic"
    "pl_expected_version (oe_payload e) = oe_aggregate_version e"
    "state_at db (oe_aggregate_id e) (oe_aggregate_version e) y"
    "pl_expected_state (oe_payload e) = state_value y"
    unfolding event_ok_def by blast
  have "y = ar_state r"
    using state_at_unique [OF inv ev(3)] st mem(3) r(2) by simp
  then have dec: "claim_decide (Some e) (Some r) (steps_get_current (ar_id r) db) w now lease sid tok
      = Inr (Some ?k)"
    using ev t free(1) r(2) by (auto simp: claim_decide_def)
  have "\<exists>x db'. steps_claim ?k db = Inr (Some x, db') \<and> rs_claim_token x = Some tok"
  proof (cases "select_one (same_step_key ?k) (run_steps db)")
    case None
    have "step_checks ?k db = None"
      using mem(2) fresh by (auto simp: step_checks_def candidate_step_def)
    with None show ?thesis
      by (simp del: select_one_None add: steps_claim_def) (simp add: candidate_step_def)
  next
    case (Some s)
    then have "s \<in> set (run_steps db)" "same_step_key ?k s" by (auto dest: select_one_Some)
    then have "rs_run_id s = ar_id r" "rs_step_key s = step_key (ar_id r) t"
      by (auto simp: same_step_key_def candidate_step_def)
    with free(2) \<open>s \<in> _\<close> have "claimable now s" by blast
    with Some show ?thesis by (simp add: steps_claim_def candidate_step_def taken_over_def)
  qed
  then obtain x db' where x: "steps_claim ?k db = Inr (Some x, db')" "rs_claim_token x = Some tok"
    by blast
  have "exec_claim ev w now lease sid tok db = Inr (Some x, db')"
    using e r(1) dec x(1) by (simp add: exec_claim_def claim_write_def)
  with x(2) show ?thesis by blast
qed

text \<open>The owner of a step at the present version of its run can commit it.\<close>

lemma finalize_progress:
  assumes inv: "db_inv db" and s: "s \<in> set (run_steps db)" "rs_id s = rs_id k"
      "rs_claim_token s = Some tok" "rs_status s = step_status.RUNNING"
    and k: "rs_claim_token k = Some tok" "rs_run_id k = rs_run_id s"
      "rs_expected_run_version k = ar_version r"
    and r: "runs_get (rs_run_id k) db = Some r"
    and target: "final_state k r \<in> allowed_targets (ar_state r)"
    and fresh: "\<forall>e \<in> set (outbox_events db). oe_id e \<noteq> eid"
  shows "\<exists>run' db'. exec_finalize k now eid db = Inr (run', db') \<and>
           ar_state run' = final_state k r \<and> ar_version run' = ar_version r + 1"
proof -
  let ?t = "final_state k r"
  have mem: "r \<in> set (audit_runs db)" "ar_id r = rs_run_id k" using runs_get_Some [OF r] by auto
  obtain r' where tr: "transition r ?t now = Inr r'" and r': "ar_id r' = ar_id r"
    "ar_version r' = ar_version r + 1" "ar_state r' = ?t"
    using target by (auto simp: transition_def)
  have ids: "unique_by rs_id (run_steps db)" "unique_by ar_id (audit_runs db)"
    using inv by (auto simp: db_inv_def keys_ok_def)
  obtain db1 where c: "steps_complete (rs_id k) tok (ar_version r + 1) now ?t db = (True, db1)"
    and db1: "audit_runs db1 = audit_runs db" "outbox_events db1 = outbox_events db"
    using update_count_one [OF ids(1), of "rs_id k"
        "\<lambda>s. rs_claim_token s = Some tok \<and> rs_status s = step_status.RUNNING"] s
    by (auto simp: steps_complete_def update_owned_def owned_def [abs_def] case_prod_beta)
  have "\<exists>db2. runs_save r' (ar_version r) db1 = Inr db2 \<and>
          outbox_events db2 = outbox_events db \<and> map ar_id (audit_runs db2) = map ar_id (audit_runs db)"
    using update_count_one [OF ids(2), of "ar_id r" "\<lambda>x. ar_version x = ar_version r"] mem(1) r'
    by (auto simp: runs_save_def db1 case_prod_beta update_where_def saved_columns_def)
  then obtain db2 where db2: "runs_save r' (ar_version r) db1 = Inr db2"
    "outbox_events db2 = outbox_events db" "map ar_id (audit_runs db2) = map ar_id (audit_runs db)"
    by blast
  have old: "oe_aggregate_version e \<le> ar_version r"
    if "e \<in> set (outbox_events db)" "oe_aggregate_id e = ar_id r" for e
  proof -
    have "has_run db (oe_aggregate_id e) (oe_aggregate_version e)"
      using db_invD(7) [OF inv that(1)] unfolding event_ok_def by blast
    with that(2) show ?thesis using has_run_iff [OF inv mem(1)] by simp
  qed
  let ?e = "advance_event r' now eid"
  have "\<not> same_delivery ?e e" if "e \<in> set (outbox_events db)" for e
  proof
    assume "same_delivery ?e e"
    then have "oe_aggregate_id e = ar_id r" "oe_aggregate_version e = ar_version r + 1"
      using r'(1,2) by (simp_all add: same_delivery_def advance_event_def)
    with old [OF that] show False by linarith
  qed
  then have "\<not> exists_row (same_delivery ?e) (outbox_events db2)"
    unfolding db2(2) exists_row_iff by blast
  moreover have "exists_row (\<lambda>x. ar_id x = oe_aggregate_id ?e) (audit_runs db2)"
  proof -
    have "ar_id r \<in> set (map ar_id (audit_runs db2))" unfolding db2(3) using mem(1) by simp
    then show ?thesis using r'(1) by (auto simp: advance_event_def)
  qed
  moreover have "\<not> exists_row (\<lambda>e. oe_id e = oe_id ?e) (outbox_events db2)"
    using fresh unfolding db2(2) exists_row_iff by (simp add: advance_event_def)
  ultimately have add: "outbox_add ?e db2 = Inr (db2\<lparr>outbox_events := outbox_events db2 @ [?e]\<rparr>)"
    unfolding outbox_add_def by (simp only: if_False not_not simp_thms)
  have "exec_finalize k now eid db =
          (if ?t \<in> terminal_states then Inr (r', db2)
           else Inr (r', db2\<lparr>outbox_events := outbox_events db2 @ [?e]\<rparr>))"
    using k r c tr db2(1) add r'(3)
    by (simp add: exec_finalize_def finalize_write_def Let_def)
  with r' show ?thesis by auto
qed

lemma exec_claim_candidate:
  assumes inv: "db_inv db" and claim: "exec_claim ev w now lease sid tok db = Inr (Some x, db')"
  shows "\<exists>k. steps_claim k db = Inr (Some x, db') \<and> step_ok db k \<and>
          rs_resulting_run_version k = None \<and> rs_to_state k \<noteq> run_state.FAILED \<and>
          rs_status k = step_status.RUNNING \<and> rs_claim_token k = Some tok"
proof -
  from exec_claim_Some [OF claim] obtain e r t where "outbox_get ev db = Some e" and
    r: "runs_get (oe_aggregate_id e) db = Some r" and t: "claim_target r = Some t"
      "ar_state r \<notin> terminal_states"
    and cl: "steps_claim (candidate_step r t w now lease sid tok) db = Inr (Some x, db')"
    by blast
  have "run_copy_ok db r" using db_invD(3) [OF inv] runs_get_Some [OF r] by blast
  with claim_target_allowed [OF t]
  have "step_ok db (candidate_step r t w now lease sid tok) \<and> t \<noteq> run_state.FAILED"
    by (simp add: step_ok_def candidate_step_def run_copy_ok_def)
  with cl show ?thesis by (intro exI) (auto simp: candidate_step_def)
qed

text \<open>A running step at the present version leads to a state its run may move to.\<close>

lemma running_step_target:
  assumes inv: "db_inv db" and s: "s \<in> set (run_steps db)" "rs_status s = step_status.RUNNING"
    and r: "runs_get (rs_run_id s) db = Some r" "rs_expected_run_version s = ar_version r"
  shows "rs_to_state s \<in> allowed_targets (ar_state r)"
proof -
  have ok: "step_ok db s" by (rule db_invD(6) [OF inv s(1)])
  have mem: "r \<in> set (audit_runs db)" "ar_id r = rs_run_id s" using runs_get_Some [OF r(1)] by auto
  have "state_at db (rs_run_id s) (ar_version r) (ar_state r)"
    using db_invD(3) [OF inv mem(1)] mem(2) by (simp add: run_copy_ok_def)
  moreover have "state_at db (rs_run_id s) (ar_version r) (rs_from_state s)"
    using ok r(2) by (simp add: step_ok_def)
  ultimately have "rs_from_state s = ar_state r" by (rule state_at_unique [OF inv, symmetric])
  with ok s(2) show ?thesis by (auto simp: step_ok_def split: option.splits)
qed

lemma exec_claim_parse:
  assumes "exec_claim ev w now lease sid tok db = Inr (Some x, db')"
    and "outbox_get ev db = Some e" and "runs_get (oe_aggregate_id e) db = Some r"
  shows "\<exists>st. parse_state (pl_expected_state (oe_payload e)) = Inr st"
proof (cases "parse_state (pl_expected_state (oe_payload e))")
  case (Inl err)
  with assms(2,3)
  have "claim_decide (Some e) (Some r) (steps_get_current (ar_id r) db) w now lease sid tok \<in>
          {Inr None, Inl err}"
    by (simp add: claim_decide_def)
  with assms show ?thesis by (auto simp: exec_claim_def claim_write_def)
qed simp

lemma steps_get_current_mem:
  assumes "steps_get_current rid db = Some s"
  shows "s \<in> set (run_steps db) \<and> rs_run_id s = rid \<and> rs_status s = step_status.RUNNING"
proof -
  let ?xs = "sort_key (\<lambda>s. (rs_started_at s, rs_id s))
    (filter (\<lambda>s. rs_run_id s = rid \<and> rs_status s = step_status.RUNNING) (run_steps db))"
  from assms have "s \<in> set (rev ?xs)"
    unfolding steps_get_current_def by (cases "rev ?xs") auto
  then show ?thesis by simp
qed

end
