(* ===== verification/RunExamples.thy ===== *)
theory RunExamples
  imports TimelineFacts RunFencing
begin

text \<open>
  A concrete run, followed from its creation to its first commit: the inputs the witnesses of
  the lifecycle properties use.
\<close>

definition demo_request :: create_request where
  "demo_request = \<lparr>rq_repository_path = ''shop'', rq_diff_mode = WORKING_TREE,
                    rq_base_ref = None, rq_head_ref = None\<rparr>"

definition demo_run :: audit_run where
  "demo_run = new_run demo_request ''key-1'' 0 1"

definition demo_event :: outbox_event where
  "demo_event = advance_event demo_run 0 2"

definition demo_created :: control_db where
  "demo_created =
     \<lparr>audit_runs = [demo_run], run_steps = [], outbox_events = [demo_event]\<rparr>"

definition demo_step :: run_step where
  "demo_step = candidate_step demo_run DISCOVERING ''worker'' 10 30 3 4"

definition demo_claimed :: control_db where
  "demo_claimed = demo_created\<lparr>run_steps := [demo_step]\<rparr>"

definition demo_moved :: audit_run where
  "demo_moved = demo_run\<lparr>ar_state := DISCOVERING, ar_version := 2, ar_updated_at := 20\<rparr>"

definition demo_committed_step :: run_step where
  "demo_committed_step =
     demo_step\<lparr>rs_status := step_status.SUCCEEDED, rs_to_state := DISCOVERING,
               rs_resulting_run_version := Some 2, rs_finished_at := Some 20,
               rs_lease_expires_at := None\<rparr>"

definition demo_committed :: control_db where
  "demo_committed =
     \<lparr>audit_runs = [demo_moved], run_steps = [demo_committed_step],
      outbox_events = [demo_event, advance_event demo_moved 20 5]\<rparr>"

lemmas demo_defs = demo_run_def new_run_def demo_event_def advance_event_def demo_created_def
  demo_step_def candidate_step_def demo_claimed_def demo_moved_def demo_committed_step_def
  demo_committed_def

lemma demo_create:
  "run_service_create demo_request ''key-1'' 0 1 2 empty_db = Inr (demo_run, demo_created)"
  by (simp add: run_service_create_def runs_get_by_idempotency_key_def empty_db_def select_one_def
      runs_add_if_idempotency_absent_def insert_run_def outbox_add_def Let_def run_row_def
      demo_defs)

lemma parse_QUEUED: "parse_state ''QUEUED'' = Inr QUEUED"
  using parse_state_value [of QUEUED] by simp

lemma demo_decide:
  "claim_decide (Some demo_event) (Some demo_run) None ''worker'' 10 30 3 4 = Inr (Some demo_step)"
  by (simp add: claim_decide_def claim_target_def parse_QUEUED demo_defs)

lemma demo_write: "claim_write (Some demo_step) demo_created = Inr (Some demo_step, demo_claimed)"
  by (simp add: claim_write_def steps_claim_def step_checks_def select_one_def demo_defs)

lemma demo_claim:
  "exec_claim 2 ''worker'' 10 30 3 4 demo_created = Inr (Some demo_step, demo_claimed)"
proof -
  have "outbox_get 2 demo_created = Some demo_event"
    "runs_get (oe_aggregate_id demo_event) demo_created = Some demo_run"
    "steps_get_current (ar_id demo_run) demo_created = None"
    by (simp_all add: outbox_get_def runs_get_def select_one_def steps_get_current_def demo_defs)
  with demo_decide demo_write show ?thesis by (simp add: exec_claim_def)
qed

lemma demo_get_run: "runs_get 1 demo_claimed = Some demo_run"
  by (simp add: runs_get_def select_one_def demo_defs)

lemma demo_finalize:
  "finalize_write demo_step (Some demo_run) 20 5 demo_claimed = Inr (demo_moved, demo_committed)"
  by (simp add: finalize_write_def Let_def final_state_def steps_complete_def update_owned_def
      owned_def update_where_def transition_def allowed_targets_iff runs_save_def saved_columns_def
      outbox_add_def same_delivery_def demo_defs)

text \<open>The run after its creation, read once, claimed, and committed.\<close>

definition demo_sys_created :: run_system where
  "demo_sys_created = \<lparr>sy_db = demo_created, sy_seen = [demo_run], sy_claims = []\<rparr>"

definition demo_sys_claimed :: run_system where
  "demo_sys_claimed = \<lparr>sy_db = demo_claimed, sy_seen = [demo_run], sy_claims = [demo_step]\<rparr>"

definition demo_sys_committed :: run_system where
  "demo_sys_committed = \<lparr>sy_db = demo_committed, sy_seen = [demo_run], sy_claims = [demo_step]\<rparr>"

lemma demo_reachable_created: "reachable demo_sys_created"
proof -
  have "sys_step initial_system (initial_system\<lparr>sy_db := demo_created\<rparr>)"
    by (rule sys_create [where rq = demo_request and key = "''key-1''" and now = 0 and rid = 1
          and eid = 2 and run = demo_run]) (simp add: initial_system_def demo_create)
  with reachable_init have r: "reachable (initial_system\<lparr>sy_db := demo_created\<rparr>)"
    by (rule reachable_step)
  have "runs_get 1 demo_created = Some demo_run"
    by (simp add: runs_get_def select_one_def demo_defs)
  then have "sys_step (initial_system\<lparr>sy_db := demo_created\<rparr>) demo_sys_created"
    using sys_read [of 1 "initial_system\<lparr>sy_db := demo_created\<rparr>" demo_run]
    by (simp add: initial_system_def demo_sys_created_def)
  with r show ?thesis by (rule reachable_step)
qed

lemma demo_step_claim: "sys_step demo_sys_created demo_sys_claimed"
  using sys_claim [of demo_run demo_sys_created "Some demo_event" None "''worker''" 10 30 3 4
      demo_step "Some demo_step" demo_claimed] demo_decide demo_write
  by (simp add: demo_sys_created_def demo_sys_claimed_def)

lemma demo_step_commit: "sys_step demo_sys_claimed demo_sys_committed"
proof -
  have "ar_id demo_run = rs_run_id demo_step" by (simp add: demo_defs)
  then show ?thesis
    using sys_finalize [of demo_step demo_sys_claimed demo_run 20 5 demo_moved demo_committed]
      demo_finalize
    by (simp add: demo_sys_claimed_def demo_sys_committed_def)
qed

lemma demo_reachable_claimed: "reachable demo_sys_claimed"
  using demo_reachable_created demo_step_claim by (rule reachable_step)

lemma demo_reachable_committed: "reachable demo_sys_committed"
  using demo_reachable_claimed demo_step_commit by (rule reachable_step)

lemma demo_inv: "db_inv demo_created" "db_inv demo_claimed" "db_inv demo_committed"
  using reachable_inv [OF demo_reachable_created] reachable_inv [OF demo_reachable_claimed]
    reachable_inv [OF demo_reachable_committed]
  by (simp_all add: sys_inv_def demo_sys_created_def demo_sys_claimed_def demo_sys_committed_def)

lemma demo_timelines:
  "\<exists>t. timeline_get 1 0 demo_created = Inr t \<and> \<not> tl_terminal t \<and> tl_events t = [first_event demo_run]"
  "\<exists>t. timeline_get 1 1 demo_claimed = Inr t \<and> \<not> tl_terminal t \<and> tl_events t = []"
  "\<exists>t. timeline_get 1 1 demo_committed = Inr t \<and> \<not> tl_terminal t \<and>
     tl_events t = [step_event demo_moved demo_committed_step]"
proof -
  have t: "runs_get 1 demo_created = Some demo_run" "runs_get 1 demo_claimed = Some demo_run"
    "runs_get 1 demo_committed = Some demo_moved"
    by (simp_all add: runs_get_def select_one_def demo_defs)
  have l: "steps_list_for_run 1 demo_created = []" "steps_list_for_run 1 demo_claimed = [demo_step]"
    "steps_list_for_run 1 demo_committed = [demo_committed_step]"
    by (simp_all add: steps_list_for_run_def demo_defs)
  have e: "timeline_events demo_run [] 0 = [first_event demo_run]"
    "timeline_events demo_run [demo_step] 1 = []"
    "timeline_events demo_moved [demo_committed_step] 1 = [step_event demo_moved demo_committed_step]"
    by (simp_all add: timeline_events_def completed_steps_def resulting_or_0_def demo_defs)
  have n: "ar_state demo_run = QUEUED" "ar_state demo_moved = DISCOVERING"
    by (simp_all add: demo_defs)
  show "\<exists>t. timeline_get 1 0 demo_created = Inr t \<and> \<not> tl_terminal t \<and> tl_events t = [first_event demo_run]"
    "\<exists>t. timeline_get 1 1 demo_claimed = Inr t \<and> \<not> tl_terminal t \<and> tl_events t = []"
    "\<exists>t. timeline_get 1 1 demo_committed = Inr t \<and> \<not> tl_terminal t \<and>
       tl_events t = [step_event demo_moved demo_committed_step]"
    by (simp_all add: timeline_get_def t l e n Let_def)
qed

lemma demo_event_versions:
  "te_version (first_event demo_run) = 1" "te_version (step_event demo_moved demo_committed_step) = 2"
  by (simp_all add: first_event_def step_event_def resulting_or_0_def demo_defs)

lemma demo_stream:
  "\<exists>ev. stream_run 1 0 [demo_created, demo_claimed, demo_committed] = Inr (ev, 2, False)"
  using demo_timelines demo_event_versions by (auto simp: stream_poll_def Let_def)

text \<open>The same run when cancellation is requested while the worker holds the step.\<close>

definition demo_cancel_copy :: audit_run where
  "demo_cancel_copy = demo_run\<lparr>ar_cancel_requested_at := Some 15, ar_updated_at := 15\<rparr>"

definition demo_cancelling :: control_db where
  "demo_cancelling =
     \<lparr>audit_runs = [demo_cancel_copy], run_steps = [demo_step],
      outbox_events = [demo_event\<lparr>oe_available_at := 15,
                                  oe_last_error := Some ''WOKEN_FOR_CANCELLATION''\<rparr>]\<rparr>"

lemma demo_get_claimed: "runs_get 1 demo_claimed = Some demo_run"
  by (simp add: runs_get_def select_one_def demo_defs)

lemma demo_cancel: "run_service_cancel 1 1 15 demo_claimed = Inr (demo_cancel_copy, demo_cancelling)"
proof -
  have rc: "request_cancel demo_run 1 15 = Inr demo_cancel_copy"
    by (simp add: request_cancel_def demo_cancel_copy_def demo_defs)
  have save: "runs_save demo_cancel_copy 1 demo_claimed =
      Inr (demo_claimed\<lparr>audit_runs := [demo_cancel_copy]\<rparr>)"
    by (simp add: runs_save_def update_where_def saved_columns_def demo_cancel_copy_def demo_defs)
  have wake: "snd (outbox_wake_current 1 1 15 (demo_claimed\<lparr>audit_runs := [demo_cancel_copy]\<rparr>)) =
      demo_cancelling"
    by (simp add: outbox_wake_current_def update_events_def update_where_def demo_cancelling_def
        demo_defs)
  have f: "ar_cancel_requested_at demo_run = None" "ar_state demo_cancel_copy = QUEUED"
    "ar_id demo_cancel_copy = 1" "ar_version demo_cancel_copy = 1"
    "ar_cancel_requested_at demo_cancel_copy = Some 15"
    by (simp_all add: demo_cancel_copy_def demo_defs)
  show ?thesis
    by (simp add: run_service_cancel_def demo_get_claimed cancel_write_def rc save wake f)
qed

lemma demo_finalize_cancelling:
  "c \<in> {demo_run, demo_cancel_copy} \<Longrightarrow>
   \<exists>db2 r'. finalize_write demo_step (Some c) 20 5 demo_cancelling = Inr (r', db2) \<and>
     runs_get 1 db2 = Some r' \<and> ar_cancel_requested_at r' = ar_cancel_requested_at c \<and>
     ar_state r' = (if ar_cancel_requested_at c \<noteq> None then run_state.CANCELLED else DISCOVERING)"
  by (elim insertE emptyE)
     (simp_all add: finalize_write_def Let_def final_state_def steps_complete_def update_owned_def
       owned_def update_where_def transition_def allowed_targets_iff runs_save_def saved_columns_def
       runs_get_def select_one_def outbox_add_def same_delivery_def demo_cancelling_def
       demo_cancel_copy_def demo_defs)

end
