(* ===== verification/RunProperties.thy ===== *)
theory RunProperties
  imports RunExamples
begin

text \<open>
  The properties of the run lifecycle: what holds in every reachable state of the system, how
  ownership of a step is fenced, and what the timeline shows of a run.
\<close>

section \<open>The ledger\<close>

text \<open>
  C1. Every step of the system, whatever stale copies and old claims it works on, either leaves
  the ledger of committed states as it is, or opens one run as \<open>QUEUED\<close>, or appends to one run
  a state its last state allows.
\<close>

theorem ledger_refinement:
  assumes "reachable s" and "sys_step s s'"
  shows "ledger_of (sy_db s') = ledger_of (sy_db s) \<or>
         ledger_step (ledger_of (sy_db s)) (ledger_of (sy_db s'))"
proof -
  have inv: "sys_inv s" using assms(1) by (rule reachable_inv)
  from sys_step_extends [OF assms(2) inv] have inv': "sys_inv s'"
    and ext: "db_extends (sy_db s) (sy_db s')" by simp_all
  have "db_inv (sy_db s)" "db_inv (sy_db s')" using inv inv' by (simp_all add: sys_inv_def)
  then show ?thesis
    by (rule ledger_change [OF _ _ ext sys_step_version_change [OF assms(2) inv]])
qed

lemma ledger_refinement_witness:
  "ledger_of (sy_db demo_sys_committed) = ledger_of (sy_db demo_sys_claimed) \<or>
   ledger_step (ledger_of (sy_db demo_sys_claimed)) (ledger_of (sy_db demo_sys_committed))"
  by (rule ledger_refinement [OF demo_reachable_claimed demo_step_commit])

text \<open>
  C2. The history of every run is a path of the transition graph from \<open>QUEUED\<close> to its present
  state, with one entry per version, and no run gets beyond version 13.
\<close>

theorem reachable_history_legal:
  assumes "reachable s" and "r \<in> set (audit_runs (sy_db s))"
  shows "\<exists>ts. run_history (sy_db s) r = QUEUED # ts \<and> lifecycle_path QUEUED ts \<and>
              last (QUEUED # ts) = ar_state r \<and> int (length (QUEUED # ts)) = ar_version r \<and>
              ar_version r \<le> 13"
proof -
  have inv: "db_inv (sy_db s)" using reachable_inv [OF assms(1)] by (simp add: sys_inv_def)
  from run_history_path [OF inv assms(2)] obtain ts where
    ts: "run_history (sy_db s) r = QUEUED # ts" "lifecycle_path QUEUED ts" by blast
  with run_history_last [OF inv assms(2)] run_history_length [of "sy_db s" r]
    version_bound [OF inv assms(2)] show ?thesis by auto
qed

lemma reachable_history_legal_witness:
  "\<exists>ts. run_history demo_committed demo_moved = QUEUED # ts \<and> lifecycle_path QUEUED ts \<and>
        last (QUEUED # ts) = ar_state demo_moved \<and>
        int (length (QUEUED # ts)) = ar_version demo_moved \<and> ar_version demo_moved \<le> 13"
  using reachable_history_legal [OF demo_reachable_committed, of demo_moved]
  by (simp add: demo_sys_committed_def demo_committed_def)

text \<open>
  C4. A version is committed exactly once: for every version from 2 to the present one there is
  one and only one step row of the run that carries it, and that step ended.
\<close>

theorem version_committed_once:
  assumes "reachable s" and "r \<in> set (audit_runs (sy_db s))" and "2 \<le> v" and "v \<le> ar_version r"
  shows "\<exists>!st. st \<in> set (run_steps (sy_db s)) \<and> rs_run_id st = ar_id r \<and>
               rs_resulting_run_version st = Some v"
proof -
  have inv: "db_inv (sy_db s)" using reachable_inv [OF assms(1)] by (simp add: sys_inv_def)
  have "state_at (sy_db s) (ar_id r) v (committed_state (sy_db s) (ar_id r) v)"
    using state_at_exists [OF inv assms(2)] assms(3,4) by simp
  then obtain st where st: "st \<in> set (run_steps (sy_db s))" "rs_run_id st = ar_id r"
    "rs_resulting_run_version st = Some v"
    using assms(3) by (auto simp: state_at_def)
  have "t = st" if "t \<in> set (run_steps (sy_db s)) \<and> rs_run_id t = ar_id r \<and>
                    rs_resulting_run_version t = Some v" for t
    using db_invD(2) [OF inv] st that unfolding committed_unique_def by force
  with st show ?thesis by blast
qed

lemma version_committed_once_witness:
  "\<exists>!st. st \<in> set (run_steps demo_committed) \<and> rs_run_id st = ar_id demo_moved \<and>
         rs_resulting_run_version st = Some 2"
  using version_committed_once [OF demo_reachable_committed, of demo_moved 2]
  by (simp add: demo_sys_committed_def demo_committed_def)
    (simp add: demo_moved_def)

text \<open>
  C5. Nothing gets stuck for want of a message: a run that has not ended has an advance event
  in the outbox for its present version, whose payload names the run, its state and its version.
\<close>

theorem live_run_has_event:
  assumes "reachable s" and "r \<in> set (audit_runs (sy_db s))" and "ar_state r \<notin> terminal_states"
  shows "\<exists>e \<in> set (outbox_events (sy_db s)).
           oe_aggregate_id e = ar_id r \<and> oe_aggregate_version e = ar_version r \<and>
           oe_topic e = advance_topic \<and> pl_run_id (oe_payload e) = uuid_str (ar_id r) \<and>
           pl_expected_state (oe_payload e) = state_value (ar_state r) \<and>
           pl_expected_version (oe_payload e) = ar_version r"
proof -
  have inv: "db_inv (sy_db s)" using reachable_inv [OF assms(1)] by (simp add: sys_inv_def)
  from db_invD(5) [OF inv assms(2)] assms(3) obtain e where
    e: "e \<in> set (outbox_events (sy_db s))" "oe_aggregate_id e = ar_id r"
      "oe_aggregate_version e = ar_version r"
    by (auto simp: has_delivery_def)
  from db_invD(7) [OF inv e(1)] obtain x where x: "oe_topic e = advance_topic"
    "pl_run_id (oe_payload e) = uuid_str (oe_aggregate_id e)"
    "pl_expected_version (oe_payload e) = oe_aggregate_version e"
    "state_at (sy_db s) (oe_aggregate_id e) (oe_aggregate_version e) x"
    "pl_expected_state (oe_payload e) = state_value x"
    unfolding event_ok_def by blast
  have "state_at (sy_db s) (ar_id r) (ar_version r) (ar_state r)"
    using db_invD(3) [OF inv assms(2)] by (simp add: run_copy_ok_def)
  with x(4) e have "x = ar_state r" using state_at_unique [OF inv] by simp
  with e x show ?thesis by auto
qed

lemma live_run_has_event_witness:
  "\<exists>e \<in> set (outbox_events demo_committed).
     oe_aggregate_id e = ar_id demo_moved \<and> oe_aggregate_version e = ar_version demo_moved \<and>
     oe_topic e = advance_topic \<and> pl_run_id (oe_payload e) = uuid_str (ar_id demo_moved) \<and>
     pl_expected_state (oe_payload e) = state_value (ar_state demo_moved) \<and>
     pl_expected_version (oe_payload e) = ar_version demo_moved"
proof -
  have "demo_moved \<in> set (audit_runs (sy_db demo_sys_committed))"
    "ar_state demo_moved \<notin> terminal_states"
    by (simp_all add: demo_sys_committed_def demo_committed_def demo_moved_def)
  from live_run_has_event [OF demo_reachable_committed this] show ?thesis
    by (simp add: demo_sys_committed_def)
qed

section \<open>Stages\<close>





section \<open>Ownership\<close>



text \<open>
  C8. A claim token fences: once another worker has taken the step over, everything the former
  owner sends is refused (its heartbeat renews nothing, \<open>finalize\<close> and \<open>fail\<close> raise
  \<open>ClaimLostError\<close>), whatever copy of the run it had read.
\<close>

theorem takeover_fences:
  assumes "reachable s" and "x \<in> set (run_steps (sy_db s))" and "rs_id x = rs_id k"
    and "rs_claim_token x \<noteq> rs_claim_token k"
  shows "exec_heartbeat k now lease (sy_db s) = (False, sy_db s) \<and>
         finalize_write k read now eid (sy_db s) = Inl (ClaimLostError (rs_id k)) \<and>
         fail_write k read code detail now (sy_db s) = Inl (ClaimLostError (rs_id k))"
proof -
  have inv: "db_inv (sy_db s)" using reachable_inv [OF assms(1)] by (simp add: sys_inv_def)
  from heartbeat_fence.other_owner [OF inv assms(2-4), of "(now, lease)"]
    finalize_fence.other_owner [OF inv assms(2-4), of "(read, now, eid)"]
    fail_fence.other_owner [OF inv assms(2-4), of "(read, code, detail, now)"]
  show ?thesis by simp
qed

lemma takeover_fences_witness:
  "let k = demo_step\<lparr>rs_claim_token := Some 9\<rparr> in
   exec_heartbeat k 50 30 demo_claimed = (False, demo_claimed) \<and>
   finalize_write k (Some demo_run) 50 5 demo_claimed = Inl (ClaimLostError (rs_id k)) \<and>
   fail_write k (Some demo_run) ''X'' ''x'' 50 demo_claimed = Inl (ClaimLostError (rs_id k))"
  using takeover_fences [OF demo_reachable_claimed, of demo_step
      "demo_step\<lparr>rs_claim_token := Some 9\<rparr>" 50 30 "Some demo_run" 5 "''X''" "''x''"]
  by (simp add: demo_sys_claimed_def Let_def) (simp add: demo_defs)

text \<open>
  No version is left twice: a worker whose claim is for a version the run has moved past
  cannot commit, whatever copy of the run it works on; \<open>finalize\<close> and \<open>fail\<close> raise and
  nothing is written.
\<close>

theorem stale_version_refused:
  assumes "r \<in> set (audit_runs db)" and "unique_by ar_id (audit_runs db)"
    and "rs_run_id k = ar_id r" and "rs_expected_run_version k < ar_version r"
    and "\<forall>c. read = Some c \<longrightarrow> ar_id c = rs_run_id k"
  shows "(\<exists>e. finalize_write k read now eid db = Inl e) \<and>
         (\<exists>e. fail_write k read code detail now db = Inl e)"
proof -
  have save: "\<exists>e. runs_save c' v db1 = Inl e"
    if c': "ar_id c' = ar_id r" "v < ar_version r" "audit_runs db1 = audit_runs db" for c' v db1
  proof (rule ccontr)
    assume "\<nexists>e. runs_save c' v db1 = Inl e"
    then obtain db2 where "runs_save c' v db1 = Inr db2" by (cases "runs_save c' v db1") auto
    from runs_save_Inr(2) [OF this] obtain y where
      y: "y \<in> set (audit_runs db)" "ar_id y = ar_id r" "ar_version y = v"
      using c'(1,3) by metis
    with unique_by_eq [OF assms(2) y(1) assms(1)] c'(2) show False by simp
  qed
  have "finalize_write k read now eid db \<noteq> Inr (c', db')" for c' db'
  proof
    assume "finalize_write k read now eid db = Inr (c', db')"
    then show False
    proof (rule finalize_write_Inr)
      fix c tok db1 db2
      assume c: "read = Some c" "ar_version c = rs_expected_run_version k"
        and upd: "steps_complete (rs_id k) tok (ar_version c + 1) now (final_state k c) db = (True, db1)"
        and tr: "transition c (final_state k c) now = Inr c'"
        and "runs_save c' (ar_version c) db1 = Inr db2"
      moreover have "ar_id c' = ar_id r"
      proof -
        have "ar_id c' = ar_id c" using tr by (simp add: transition_Inr)
        moreover have "ar_id c = rs_run_id k" using assms(5) c(1) by blast
        ultimately show ?thesis using assms(3) by simp
      qed
      moreover have "audit_runs db1 = audit_runs db"
        using update_owned_frame [OF upd [unfolded steps_complete_def]] by simp
      ultimately show False using save [of c' "ar_version c" db1] assms(4) by simp
    qed
  qed
  moreover have "fail_write k read code detail now db \<noteq> Inr (c', db')" for c' db'
  proof
    assume "fail_write k read code detail now db = Inr (c', db')"
    then show False
    proof (rule fail_write_Inr)
      fix c tok db1
      assume c: "read = Some c" "ar_version c = rs_expected_run_version k"
        and upd: "steps_fail (rs_id k) tok (ar_version c + 1) now code detail db = (True, db1)"
        and tr: "transition (c\<lparr>ar_failure_code := Some code, ar_failure_detail := Some detail\<rparr>)
                   run_state.FAILED now = Inr c'"
        and "runs_save c' (ar_version c) db1 = Inr db'"
      moreover have "ar_id c' = ar_id r"
      proof -
        have "ar_id c' = ar_id c" using tr by (simp add: transition_Inr)
        moreover have "ar_id c = rs_run_id k" using assms(5) c(1) by blast
        ultimately show ?thesis using assms(3) by simp
      qed
      moreover have "audit_runs db1 = audit_runs db"
        using update_owned_frame [OF upd [unfolded steps_fail_def]] by simp
      ultimately show False using save [of c' "ar_version c" db1] assms(4) by simp
    qed
  qed
  ultimately show ?thesis by (metis sumE surj_pair)
qed

lemma stale_version_refused_witness:
  "(\<exists>e. finalize_write demo_step (Some demo_run) 50 6 demo_committed = Inl e) \<and>
   (\<exists>e. fail_write demo_step (Some demo_run) ''X'' ''x'' 50 demo_committed = Inl e)"
  by (rule stale_version_refused [of demo_moved])
     (simp_all add: demo_defs)

section \<open>The timeline\<close>

text \<open>
  C15. The timeline after a cursor shows exactly the later versions of the run, each once and in
  order, with the state committed at it, up to the present version and state.
\<close>

theorem timeline_complete:
  assumes "reachable s" and "runs_get rid (sy_db s) = Some r" and "0 \<le> a"
  shows "\<exists>tl. timeline_get rid a (sy_db s) = Inr tl \<and>
           map te_version (tl_events tl) = [a + 1..ar_version r] \<and>
           map te_state (tl_events tl) = drop (nat a) (run_history (sy_db s) r) \<and>
           tl_run_version tl = ar_version r"
proof -
  have inv: "db_inv (sy_db s)" using reachable_inv [OF assms(1)] by (simp add: sys_inv_def)
  have mem: "r \<in> set (audit_runs (sy_db s))" "ar_id r = rid" using runs_get_Some [OF assms(2)] by auto
  have "map (committed_state (sy_db s) rid) [a + 1..ar_version r] =
          drop (nat a) (run_history (sy_db s) r)"
    using assms(3) by (simp add: run_history_def mem(2) drop_map drop_upto1)
  with timeline_events_versions [OF inv mem(1) assms(3)] mem(2) assms(2) show ?thesis
    by (simp add: timeline_get_def Let_def)
qed

lemma timeline_complete_witness:
  "\<exists>tl. timeline_get 1 1 demo_committed = Inr tl \<and> map te_version (tl_events tl) = [1 + 1..2] \<and>
     map te_state (tl_events tl) = drop (nat 1) (run_history demo_committed demo_moved) \<and>
     tl_run_version tl = 2"
proof -
  have "runs_get 1 (sy_db demo_sys_committed) = Some demo_moved"
    by (simp add: demo_sys_committed_def runs_get_def select_one_def demo_defs)
  from timeline_complete [OF demo_reachable_committed this, of 1] show ?thesis
    by (simp add: demo_sys_committed_def) (simp add: demo_moved_def)
qed

text \<open>
  A stream that polls while the system goes on, resuming each time from the last version it
  sent, sends consecutive versions: nothing is missed and nothing is sent twice.  When it ends,
  it has sent the version at which the run ended.
\<close>

theorem stream_resumes:
  assumes "reachable s" and "runs_get rid (sy_db s) = Some r" and "0 \<le> a" and "a \<le> ar_version r"
    and "length ss = Suc n" and "ss ! 0 = s" and "\<forall>i < n. sys_step\<^sup>*\<^sup>* (ss ! i) (ss ! Suc i)"
    and "stream_run rid a (map sy_db ss) = Inr (events, cursor, ended)"
  shows "map te_version events = [a + 1..cursor] \<and> a \<le> cursor \<and>
         (ended \<longrightarrow> (\<exists>s' \<in> set ss. \<exists>r'. runs_get rid (sy_db s') = Some r' \<and>
            ar_state r' \<in> terminal_states \<and> ar_version r' = cursor))"
proof -
  have inv: "sys_inv (ss ! i)" if "i \<le> n" for i
    using that
  proof (induction i)
    case 0
    then show ?case using assms(6) reachable_inv [OF assms(1)] by simp
  next
    case (Suc i)
    then show ?case using assms(7) reachable_extends by (metis Suc_le_lessD less_imp_le)
  qed
  have invs: "\<forall>db \<in> set (map sy_db ss). db_inv db"
    using inv assms(5) by (auto simp: sys_inv_def in_set_conv_nth less_Suc_eq_le)
  have ext: "db_extends (map sy_db ss ! i) (map sy_db ss ! Suc i)" if "Suc i < length (map sy_db ss)" for i
    using that assms(5,7) inv [of i] reachable_extends [of "ss ! i" "ss ! Suc i"] by simp
  have ne: "ss \<noteq> []" using assms(5) by auto
  have "has_run (sy_db s) rid (ar_version r)"
    using runs_get_Some [OF assms(2)] by (auto simp: has_run_def)
  then have "has_run (sy_db s) rid a"
    using assms(4) by (fastforce simp: has_run_def)
  then have "has_run (hd (map sy_db ss)) rid a"
    using ne assms(6) by (simp add: hd_map hd_conv_nth)
  with stream_run_versions [OF invs assms(3,8) _ ext] show ?thesis by auto
qed

lemma stream_resumes_witness:
  "\<exists>ev. stream_run 1 0 [demo_created, demo_claimed, demo_committed] = Inr (ev, 2, False) \<and>
     map te_version ev = [0 + 1..2]"
proof -
  let ?ss = "[demo_sys_created, demo_sys_claimed, demo_sys_committed]"
  from demo_stream obtain ev where
    ev: "stream_run 1 0 [demo_created, demo_claimed, demo_committed] = Inr (ev, 2, False)" by blast
  have r: "runs_get 1 (sy_db demo_sys_created) = Some demo_run"
    by (simp add: demo_sys_created_def runs_get_def select_one_def demo_defs)
  have v: "0 \<le> ar_version demo_run" by (simp add: demo_defs)
  have steps: "\<forall>i < 2. sys_step\<^sup>*\<^sup>* (?ss ! i) (?ss ! Suc i)"
    using demo_step_claim demo_step_commit by (auto simp: less_Suc_eq numeral_2_eq_2)
  have "stream_run 1 0 (map sy_db ?ss) = Inr (ev, 2, False)"
    using ev by (simp add: demo_sys_created_def demo_sys_claimed_def demo_sys_committed_def)
  from stream_resumes [OF demo_reachable_created r _ v _ _ steps this] ev show ?thesis by simp
qed

end
