(* ===== verification/ServiceProperties.thy ===== *)
theory ServiceProperties
  imports RunExamples
begin

text \<open>
  The properties of the services around the lifecycle: creation under an idempotency key,
  cancellation, the dispatcher and the reconciler, and the validation of a creation request.
\<close>

section \<open>Creation\<close>

text \<open>
  C17. An idempotency key is bound once: for a key some run carries, \<open>create\<close> changes nothing
  and returns that run when the request is the one it was created for, and raises
  \<open>IdempotencyConflictError\<close> when it is another; for a free key (and fresh identifiers) it adds
  the run at version 1 together with its first advance event.
\<close>

theorem create_idempotent:
  assumes "db_inv db"
  shows "(\<forall>r \<in> set (audit_runs db). ar_idempotency_key r = key \<longrightarrow>
            run_service_create rq key now rid eid db =
              (if ar_request_fingerprint r = request_fingerprint rq then Inr (r, db)
               else Inl (IdempotencyConflictError key))) \<and>
         ((\<forall>r \<in> set (audit_runs db). ar_idempotency_key r \<noteq> key \<and> ar_id r \<noteq> rid) \<longrightarrow>
          (\<forall>e \<in> set (outbox_events db). oe_id e \<noteq> eid) \<longrightarrow>
            run_service_create rq key now rid eid db =
              Inr (new_run rq key now rid,
                   db\<lparr>audit_runs := audit_runs db @ [new_run rq key now rid],
                      outbox_events := outbox_events db @
                        [advance_event (new_run rq key now rid) now eid]\<rparr>))"
proof (intro conjI ballI impI)
  fix r assume r: "r \<in> set (audit_runs db)" "ar_idempotency_key r = key"
  have "unique_by ar_idempotency_key (audit_runs db)" using assms by (simp add: db_inv_def keys_ok_def)
  from select_one_key [OF this r] have "runs_get_by_idempotency_key key db = Some r"
    by (simp add: runs_get_by_idempotency_key_def)
  then show "run_service_create rq key now rid eid db =
              (if ar_request_fingerprint r = request_fingerprint rq then Inr (r, db)
               else Inl (IdempotencyConflictError key))"
    by (simp add: run_service_create_def resolve_replay_def)
next
  assume new: "\<forall>r \<in> set (audit_runs db). ar_idempotency_key r \<noteq> key \<and> ar_id r \<noteq> rid"
    and eid: "\<forall>e \<in> set (outbox_events db). oe_id e \<noteq> eid"
  let ?run = "new_run rq key now rid"
  let ?e = "advance_event ?run now eid"
  have f: "ar_id ?run = rid" "ar_idempotency_key ?run = key" "ar_version ?run = 1"
    "run_row ?run = ?run" "oe_aggregate_id ?e = rid" "oe_id ?e = eid"
    by (simp_all add: new_run_def run_row_def advance_event_def)
  have "oe_aggregate_id e \<noteq> rid" if "e \<in> set (outbox_events db)" for e
  proof -
    have "has_run db (oe_aggregate_id e) (oe_aggregate_version e)"
      using db_invD(7) [OF assms that] unfolding event_ok_def by blast
    then show ?thesis using new by (auto simp: has_run_def)
  qed
  then have "\<not> exists_row (same_delivery ?e) (outbox_events db)"
    by (auto simp: same_delivery_def f)
  then have "outbox_add ?e (db\<lparr>audit_runs := audit_runs db @ [?run]\<rparr>) =
      Inr (db\<lparr>audit_runs := audit_runs db @ [?run], outbox_events := outbox_events db @ [?e]\<rparr>)"
    using eid f by (simp add: outbox_add_def del: exists_row_iff) (auto simp: outbox_add_def)
  moreover have "runs_get_by_idempotency_key key db = None"
    using new by (simp add: runs_get_by_idempotency_key_def)
  moreover have "insert_run ?run db = Inr (db\<lparr>audit_runs := audit_runs db @ [?run]\<rparr>)"
    using new f by (auto simp: insert_run_def)
  moreover have "\<not> exists_row (\<lambda>r. ar_idempotency_key r = ar_idempotency_key ?run) (audit_runs db)"
    using new f by auto
  ultimately show "run_service_create rq key now rid eid db =
      Inr (?run, db\<lparr>audit_runs := audit_runs db @ [?run], outbox_events := outbox_events db @ [?e]\<rparr>)"
    by (simp add: run_service_create_def runs_add_if_idempotency_absent_def Let_def
        del: exists_row_iff)
qed

lemma create_idempotent_witness:
  "run_service_create demo_request ''key-1'' 99 7 8 demo_created = Inr (demo_run, demo_created)"
proof -
  have "demo_run \<in> set (audit_runs demo_created)" "ar_idempotency_key demo_run = ''key-1''"
    "ar_request_fingerprint demo_run = request_fingerprint demo_request"
    by (simp_all add: demo_defs)
  with create_idempotent [OF demo_inv(1), THEN conjunct1, of "''key-1''" demo_request 99 7 8]
  show ?thesis by auto
qed

section \<open>Cancellation\<close>


text \<open>
  C20. What the commit read before the cancellation is written back over it: there is an
  interleaving of one worker and one request in which \<open>cancel\<close> succeeds, and yet the run goes
  on to its next stage with no trace of the request left.
\<close>

theorem lost_cancellation:
  "\<exists>c' db1 r' db2.
     run_service_cancel 1 1 15 (sy_db demo_sys_claimed) = Inr (c', db1) \<and>
     ar_cancel_requested_at c' = Some 15 \<and>
     finalize_write demo_step (Some demo_run) 20 5 db1 = Inr (r', db2) \<and>
     runs_get 1 (sy_db demo_sys_claimed) = Some demo_run \<and>
     runs_get 1 db2 = Some r' \<and> ar_state r' = DISCOVERING \<and> ar_cancel_requested_at r' = None"
proof -
  from demo_finalize_cancelling [of demo_run] obtain db2 r' where
    "finalize_write demo_step (Some demo_run) 20 5 demo_cancelling = Inr (r', db2)"
    "runs_get 1 db2 = Some r'" "ar_cancel_requested_at r' = None" "ar_state r' = DISCOVERING"
    by (auto simp: demo_run_def new_run_def)
  moreover have "ar_cancel_requested_at demo_cancel_copy = Some 15"
    by (simp add: demo_cancel_copy_def)
  ultimately show ?thesis
    using demo_cancel demo_get_claimed by (auto simp: demo_sys_claimed_def)
qed

text \<open>
  Cancelling a live run at its present version records the request, keeps its state and
  version, and wakes the delivery: the advance event of that version is unpublished again and
  due at once, so that the next worker sees the request.
\<close>

theorem cancel_wakes_delivery:
  assumes "db_inv db" and "runs_get rid db = Some c" and "ar_state c \<notin> terminal_states"
    and "ar_cancel_requested_at c = None" and "ar_version c = v"
  shows "\<exists>db1 e. run_service_cancel rid v now db =
             Inr (c\<lparr>ar_cancel_requested_at := Some now, ar_updated_at := now\<rparr>, db1) \<and>
           e \<in> set (outbox_events db1) \<and> oe_aggregate_id e = rid \<and> oe_aggregate_version e = v \<and>
           oe_published_at e = None \<and> oe_available_at e = now \<and>
           run_history db1 c = run_history db c"
proof -
  let ?c = "c\<lparr>ar_cancel_requested_at := Some now, ar_updated_at := now\<rparr>"
  have mem: "c \<in> set (audit_runs db)" "ar_id c = rid" using runs_get_Some [OF assms(2)] by auto
  have nc: "ar_state c \<noteq> run_state.CANCELLED" using assms(3) by auto
  have ids: "unique_by ar_id (audit_runs db)" using assms(1) by (simp add: db_inv_def keys_ok_def)
  have "snd (update_where (\<lambda>r. ar_id r = rid \<and> ar_version r = v) (saved_columns ?c) (audit_runs db)) = 1"
    using update_count_one [OF ids, of rid "\<lambda>r. ar_version r = v"] mem assms(5) by auto
  then obtain db1 where save: "runs_save ?c v db = Inr db1" and ev1: "outbox_events db1 = outbox_events db"
    and st1: "run_steps db1 = run_steps db"
    by (simp add: runs_save_def case_prod_beta mem(2))
  let ?db2 = "snd (outbox_wake_current rid v now db1)"
  have run: "run_service_cancel rid v now db = Inr (?c, ?db2)"
    using assms(2-5) nc save mem(2)
    by (simp add: run_service_cancel_def cancel_write_def request_cancel_def)
  from db_invD(5) [OF assms(1) mem(1)] assms(3,5) mem(2) obtain e where
    e: "e \<in> set (outbox_events db)" "oe_aggregate_id e = rid" "oe_aggregate_version e = v"
    by (auto simp: has_delivery_def)
  have "oe_topic e = advance_topic" using db_invD(7) [OF assms(1) e(1)] unfolding event_ok_def by blast
  with e have "e\<lparr>oe_published_at := None, oe_available_at := now,
      oe_last_error := Some ''WOKEN_FOR_CANCELLATION''\<rparr> \<in> set (outbox_events ?db2)"
    by (force simp: outbox_wake_current_def update_events_def update_where_def ev1)
  moreover have "run_history ?db2 c = run_history db c"
    by (simp add: run_history_def committed_state_def outbox_wake_current_def update_events_def
        case_prod_beta st1)
  ultimately show ?thesis using run e(2,3)
    by (intro exI [of _ ?db2] exI [of _ "e\<lparr>oe_published_at := None, oe_available_at := now,
          oe_last_error := Some ''WOKEN_FOR_CANCELLATION''\<rparr>"]) simp
qed

lemma cancel_wakes_delivery_witness:
  "\<exists>db1 e. run_service_cancel 1 1 15 demo_claimed =
       Inr (demo_run\<lparr>ar_cancel_requested_at := Some 15, ar_updated_at := 15\<rparr>, db1) \<and>
     e \<in> set (outbox_events db1) \<and> oe_aggregate_id e = 1 \<and> oe_aggregate_version e = 1 \<and>
     oe_published_at e = None \<and> oe_available_at e = 15 \<and>
     run_history db1 demo_run = run_history demo_claimed demo_run"
  by (rule cancel_wakes_delivery [OF demo_inv(2) demo_get_run]) (simp_all add: demo_defs)


section \<open>Dispatch\<close>

text \<open>
  Below 1024 failed attempts the retry delay lies between the base and the maximum and never
  shrinks as attempts accumulate; from 1024 on the computation itself raises.
\<close>

theorem retry_delay_bounds:
  assumes "0 \<le> base" and "base \<le> cap" and "0 \<le> n" and "n \<le> m"
  shows "(if m < 1024
          then \<exists>d d'. retry_delay base cap n = Inr d \<and> retry_delay base cap m = Inr d' \<and>
                      base \<le> d \<and> d \<le> d' \<and> d' \<le> cap
          else \<exists>e. retry_delay base cap m = Inl e)"
proof -
  have "(1::int) \<le> 2 ^ nat n" by simp
  then have "base * 1 \<le> base * 2 ^ nat n" using assms(1) by (intro mult_left_mono)
  moreover have "base * 2 ^ nat n \<le> base * 2 ^ nat m"
    using assms by (intro mult_left_mono power_increasing) auto
  ultimately show ?thesis using assms by (auto simp: retry_delay_def)
qed

lemma retry_delay_bounds_witness:
  "(\<exists>d d'. retry_delay 1000000 30000000 2 = Inr d \<and> retry_delay 1000000 30000000 9 = Inr d' \<and>
      1000000 \<le> d \<and> d \<le> d' \<and> d' \<le> 30000000) \<and>
   (\<exists>e. retry_delay 1000000 30000000 1024 = Inl e)"
  using retry_delay_bounds [of 1000000 30000000 2 9] retry_delay_bounds [of 1000000 30000000 2 1024]
  by simp

text \<open>
  C23. What a batch does to the outbox, when no failing event has reached the overflow: exactly
  the events the publisher accepted are sent and counted, in the order of the batch; each of them
  is marked published now; each refused one is put off by its retry delay with the error kept;
  every other row is as before.
\<close>

theorem dispatch_batch_spec:
  assumes "unique_by oe_id (outbox_events db)"
    and "\<forall>e \<in> set (outbox_lock_unpublished now limit locked db).
           publish e \<noteq> None \<longrightarrow> oe_publish_attempts e < 1024"
  shows "let batch = outbox_lock_unpublished now limit locked db;
             sent = filter (\<lambda>e. publish e = None) batch
         in dispatch_batch now rb rm publish limit locked db =
              (sent, Inr (int (length sent),
                 db\<lparr>outbox_events := map (\<lambda>e. if e \<in> set batch then dispatched now rb rm publish e
                                             else e) (outbox_events db)\<rparr>))"
proof -
  let ?batch = "outbox_lock_unpublished now limit locked db"
  have "distinct (outbox_events db)" using assms(1) by (simp add: distinct_map)
  then have "distinct ?batch"
    by (simp add: outbox_lock_unpublished_def distinct_take distinct_filter)
  moreover have "set ?batch \<subseteq> {e \<in> set (outbox_events db). oe_published_at e = None}"
    by (auto simp: outbox_lock_unpublished_def dest: in_set_takeD)
  ultimately show ?thesis
    using dispatch_events_spec [OF assms(1) _ _ assms(2), of now rb rm 0]
    by (auto simp: dispatch_batch_def Let_def)
qed

lemma dispatch_batch_spec_witness:
  "dispatch_batch 10 1 30 (\<lambda>e. None) 5 [] demo_created =
     ([demo_event], Inr (1, demo_created\<lparr>outbox_events :=
        [demo_event\<lparr>oe_published_at := Some 10, oe_publish_attempts := 1\<rparr>]\<rparr>))"
proof -
  have b: "outbox_lock_unpublished 10 5 [] demo_created = [demo_event]"
    by (simp add: outbox_lock_unpublished_def demo_defs)
  have "unique_by oe_id (outbox_events demo_created)" by (simp add: demo_created_def)
  from dispatch_batch_spec [OF this, of 10 5 "[]" "\<lambda>e. None" 1 30] show ?thesis
    by (simp add: b Let_def) (simp add: demo_created_def dispatched_def,
        simp add: demo_event_def advance_event_def)
qed

text \<open>
  One event at the overflow stops the dispatcher: if an event of the batch that the broker
  refuses has been refused 1024 times, the whole batch raises and rolls back, whatever else it
  published; the events sent before it have left for the broker all the same.
\<close>

theorem overflow_stops_batch:
  assumes "e \<in> set (outbox_lock_unpublished now limit locked db)" and "publish e \<noteq> None"
    and "1024 \<le> oe_publish_attempts e"
  shows "\<exists>sent err. dispatch_batch now rb rm publish limit locked db = (sent, Inl err)"
  using dispatch_events_overflow [where publish = publish, OF assms] by (simp add: dispatch_batch_def)

lemma overflow_stops_batch_witness:
  "\<exists>sent err. dispatch_batch 10 1 30 (\<lambda>_. Some ''down'') 5 []
     (demo_created\<lparr>outbox_events := [demo_event\<lparr>oe_publish_attempts := 1024\<rparr>]\<rparr>) = (sent, Inl err)"
  by (rule overflow_stops_batch [of "demo_event\<lparr>oe_publish_attempts := 1024\<rparr>"])
     (simp_all add: outbox_lock_unpublished_def demo_event_def advance_event_def)

section \<open>Recovery\<close>

text \<open>
  C24. The reconciler treats a stale delivery of a live run by its budget: below it the event is
  reopened, due now, and no run or step is touched; at it the run fails with
  \<open>RECOVERY_EXHAUSTED\<close> at the next version, with a step row that records it.
\<close>

theorem reconcile_by_budget:
  assumes "db_inv db" and "e \<in> set (outbox_events db)"
    and "runs_get (oe_aggregate_id e) db = Some r" and "ar_version r = oe_aggregate_version e"
    and "ar_state r \<notin> terminal_states" and "1 \<le> budget"
    and "\<forall>st \<in> set (run_steps db). rs_id st \<noteq> sid \<and>
           (rs_run_id st = ar_id r \<longrightarrow> rs_step_key st \<noteq> recovery_step_key (ar_id r) (ar_version r))"
  shows "\<exists>db'. reconcile_write now budget sid e (runs_get (oe_aggregate_id e) db) db =
             Inr (if oe_publish_attempts e < budget then Reopened else RecoveryFailed, db') \<and>
           (if oe_publish_attempts e < budget
            then audit_runs db' = audit_runs db \<and> run_steps db' = run_steps db \<and>
                 e\<lparr>oe_published_at := None, oe_available_at := now,
                   oe_last_error := Some ''RECOVERED_STALE_DELIVERY''\<rparr> \<in> set (outbox_events db')
            else \<exists>r'. runs_get (ar_id r) db' = Some r' \<and> ar_state r' = run_state.FAILED \<and>
                   ar_version r' = ar_version r + 1 \<and> ar_failure_code r' = Some ''RECOVERY_EXHAUSTED'')"
proof (cases "oe_publish_attempts e < budget")
  case True
  have ids: "unique_by oe_id (outbox_events db)" using assms(1) by (simp add: db_inv_def keys_ok_def)
  have "snd (update_where (\<lambda>x. oe_id x = oe_id e) f (outbox_events db)) = 1" for f
    using update_count_one [OF ids, of "oe_id e" "\<lambda>_. True"] assms(2) by auto
  then show ?thesis
    using True assms(2-4)
    by (auto simp: reconcile_write_def outbox_reopen_def update_events_def case_prod_beta Let_def)
       (auto simp: update_where_def)
next
  case False
  have mem: "r \<in> set (audit_runs db)" using runs_get_Some [OF assms(3)] by simp
  let ?c = "r\<lparr>ar_failure_code := Some recovery_code, ar_failure_detail := Some recovery_detail\<rparr>"
  define r' where "r' = ?c\<lparr>ar_state := run_state.FAILED, ar_version := ar_version r + 1,
      ar_updated_at := now, ar_completed_at := Some now\<rparr>"
  have tr: "transition ?c run_state.FAILED now = Inr r'"
    using assms(5) by (simp add: transition_Inr allowed_targets_iff r'_def)
  let ?s = "recovery_step e r r' now sid"
  let ?db1 = "db\<lparr>run_steps := run_steps db @ [?s]\<rparr>"
  have add: "steps_add ?s db = Inr ?db1"
    using mem assms(6,7) False
    by (auto simp: steps_add_def step_checks_def recovery_step_def same_step_key_def)
  have ids: "unique_by ar_id (audit_runs db)" using assms(1) by (simp add: db_inv_def keys_ok_def)
  have "snd (update_where (\<lambda>x. ar_id x = ar_id r \<and> ar_version x = ar_version r)
          (saved_columns r') (audit_runs db)) = 1"
    using update_count_one [OF ids, of "ar_id r" "\<lambda>x. ar_version x = ar_version r"] mem by auto
  then obtain db2 where save: "runs_save r' (ar_version r) ?db1 = Inr db2"
    by (simp add: runs_save_def case_prod_beta r'_def)
  have "reconcile_write now budget sid e (runs_get (oe_aggregate_id e) db) db = Inr (RecoveryFailed, db2)"
    using assms(3,4) False tr add save by (simp add: reconcile_write_def)
  moreover have "runs_get (ar_id r) db2 = Some (saved_columns r' r)"
    by (rule runs_save_get [OF ids mem _ _ save]) (simp_all add: r'_def)
  ultimately show ?thesis using False
    by (simp add: saved_columns_def r'_def recovery_code_def)
qed

lemma reconcile_by_budget_witness:
  "\<exists>db'. reconcile_write 99 3 8 demo_event (runs_get 1 demo_created) demo_created =
     Inr (Reopened, db')"
proof -
  have "runs_get (oe_aggregate_id demo_event) demo_created = Some demo_run"
    by (simp add: runs_get_def select_one_def demo_defs)
  moreover have "demo_event \<in> set (outbox_events demo_created)" "oe_aggregate_id demo_event = 1"
    "ar_version demo_run = oe_aggregate_version demo_event" "ar_state demo_run \<notin> terminal_states"
    "\<forall>st \<in> set (run_steps demo_created). rs_id st \<noteq> 8 \<and> (rs_run_id st = ar_id demo_run \<longrightarrow>
       rs_step_key st \<noteq> recovery_step_key (ar_id demo_run) (ar_version demo_run))"
    "oe_publish_attempts demo_event = 0"
    by (simp_all add: demo_defs)
  ultimately show ?thesis
    using reconcile_by_budget [OF demo_inv(1), of demo_event demo_run 3 8 99] by auto
qed

section \<open>Requests\<close>

text \<open>
  A creation request that passes validation names a repository by a relative path without
  empty, \<open>.\<close> or \<open>..\<close> components and without NUL, and carries both refs exactly in \<open>RANGE\<close>
  mode; validating it again changes nothing.
\<close>

theorem validated_request_safe:
  assumes "create_request_validate raw = Inr rq"
  shows "\<not> starts_with (rq_repository_path rq) ''/'' \<and>
         (\<forall>part \<in> set (split_on CHR ''/'' (rq_repository_path rq)). part \<notin> {[], ''.'', ''..''}) \<and>
         nul \<notin> set (rq_repository_path rq) \<and>
         (rq_base_ref rq \<noteq> None \<longleftrightarrow> rq_diff_mode rq = RANGE) \<and>
         (rq_head_ref rq \<noteq> None \<longleftrightarrow> rq_diff_mode rq = RANGE) \<and>
         create_request_validate rq = Inr rq"
proof -
  from assms obtain p b h where
    p: "length_checked 1 4096 (Some (rq_repository_path raw)) = Inr (Some (rq_repository_path raw))"
    and np: "normalize_text (Some (rq_repository_path raw)) = Inr (Some p)"
    and vp: "validate_relative_repository_path p = Inr p"
    and b: "length_checked 1 512 (rq_base_ref raw) = Inr (rq_base_ref raw)"
      "normalize_text (rq_base_ref raw) = Inr b"
    and h: "length_checked 1 512 (rq_head_ref raw) = Inr (rq_head_ref raw)"
      "normalize_text (rq_head_ref raw) = Inr h"
    and sel: "validate_diff_selection \<lparr>rq_repository_path = p, rq_diff_mode = rq_diff_mode raw,
                rq_base_ref = b, rq_head_ref = h\<rparr> = Inr rq"
    by (rule create_request_validate_Inr)
  from sel have rq: "rq = \<lparr>rq_repository_path = p, rq_diff_mode = rq_diff_mode raw,
                rq_base_ref = b, rq_head_ref = h\<rparr>"
    by (auto simp: validate_diff_selection_def split: if_splits)
  note again = normalize_text_again [OF p np] normalize_text_again [OF b] normalize_text_again [OF h]
  have "create_request_validate rq = Inr rq"
    using again vp sel unfolding rq by (simp add: create_request_validate_def)
  moreover have "nul \<notin> set p"
    using np by (auto simp: normalize_text_def Let_def split: if_splits)
  moreover have "\<not> starts_with p ''/''"
    "\<forall>part \<in> set (split_on CHR ''/'' p). part \<notin> {[], ''.'', ''..''}"
    using vp by (auto simp: validate_relative_repository_path_def list_ex_iff split: if_splits)
  moreover have "(b \<noteq> None \<longleftrightarrow> rq_diff_mode raw = RANGE) \<and> (h \<noteq> None \<longleftrightarrow> rq_diff_mode raw = RANGE)"
    using sel by (cases "rq_diff_mode raw") (auto simp: validate_diff_selection_def split: if_splits)
  ultimately show ?thesis by (simp add: rq)
qed

lemma validated_request_safe_witness:
  "create_request_validate \<lparr>rq_repository_path = '' a/b '', rq_diff_mode = RANGE,
      rq_base_ref = Some ''v1'', rq_head_ref = Some '' v2''\<rparr> =
     Inr \<lparr>rq_repository_path = ''a/b'', rq_diff_mode = RANGE,
          rq_base_ref = Some ''v1'', rq_head_ref = Some ''v2''\<rparr> \<and>
   nul \<notin> set ''a/b''"
proof -
  have "create_request_validate \<lparr>rq_repository_path = '' a/b '', rq_diff_mode = RANGE,
      rq_base_ref = Some ''v1'', rq_head_ref = Some '' v2''\<rparr> =
     Inr \<lparr>rq_repository_path = ''a/b'', rq_diff_mode = RANGE,
          rq_base_ref = Some ''v1'', rq_head_ref = Some ''v2''\<rparr>"
    by code_simp
  with validated_request_safe [OF this] show ?thesis by simp
qed

end
