(* ===== verification/RepoContracts.thy ===== *)
theory RepoContracts
  imports RunService
begin

text \<open>
  \<open>repository/contracts.py\<close> (the immutable results of discovery) and
  \<open>repository/security.py\<close> (which paths and files of a repository are accepted).
\<close>

section \<open>Contracts\<close>

record git_change =
  gc_path :: string
  gc_status :: string
  gc_content_hash :: "string option"

record git_selection =
  gs_diff_mode :: diff_mode
  gs_base_commit :: "string option"
  gs_head_commit :: string
  gs_dirty_diff_hash :: "string option"
  gs_files :: "string list"
  gs_changes :: "git_change list"

record snapshot_request =
  sr_run_id :: uuid
  sr_repository_path :: string
  sr_diff_mode :: diff_mode
  sr_base_ref :: "string option"
  sr_head_ref :: "string option"

record manifest_file =
  mf_path :: string
  mf_size :: int
  mf_mode :: string
  mf_sha256 :: string

record repo_snapshot =
  sn_id :: uuid
  sn_run_id :: uuid
  sn_source_path_hash :: string
  sn_diff_mode :: diff_mode
  sn_base_commit :: "string option"
  sn_head_commit :: string
  sn_dirty_diff_hash :: "string option"
  sn_content_hash :: string
  sn_artifact_uri :: string
  sn_file_count :: int
  sn_total_bytes :: int
  sn_changed_paths :: "git_change list"
  sn_created_at :: time

record unsupported_reason =
  ur_code :: string
  ur_detail :: string
  ur_relative_path :: "string option"

datatype change_kind = UNCHANGED | NEW | MODIFIED

record revision_node =
  rn_revision :: string
  rn_parent_ids :: "string list"
  rn_relative_path :: string
  rn_change_kind :: change_kind
  rn_has_upgrade :: bool
  rn_has_downgrade :: bool
  rn_content_hash :: string
  rn_evidence_id :: string

record revision_graph =
  rg_id :: uuid
  rg_run_id :: uuid
  rg_snapshot_id :: uuid
  rg_diff_mode :: diff_mode
  rg_base_commit :: "string option"
  rg_head_commit :: string
  rg_nodes :: "revision_node list"
  rg_heads :: "string list"
  rg_baseline_revision :: "string option"
  rg_target_chain :: "string list"
  rg_changed_revisions :: "string list"
  rg_supported :: bool
  rg_unsupported_reasons :: "unsupported_reason list"
  rg_created_at :: time

section \<open>Paths\<close>

text \<open>An accepted \<open>PurePosixPath\<close> is the list of its parts; \<open>as_posix\<close> joins them.\<close>

type_synonym posix_path = "string list"

definition as_posix :: "posix_path \<Rightarrow> string" where
  "as_posix p = join_with ''/'' p"

definition outside_root :: exn where
  "outside_root = RepositoryInputError ''REPOSITORY_OUTSIDE_ALLOWED_ROOT'' ''Invalid repository path''"

definition safe_relative_path :: "string \<Rightarrow> posix_path res" where
  "safe_relative_path raw =
     (if raw = [] \<or> nul \<in> set raw then Inl outside_root
      else let raw_parts = split_on CHR ''/'' raw
           in if starts_with raw ''/'' \<or> list_ex (\<lambda>part. part \<in> {[], ''.'', ''..''}) raw_parts
              then Inl outside_root
              else Inr raw_parts)"

lemma safe_relative_path_Inr:
  assumes "safe_relative_path raw = Inr p"
  shows "as_posix p = raw" and "p \<noteq> []" and "nul \<notin> set raw"
    and "\<forall>part \<in> set p. part \<notin> {[], ''.'', ''..''} \<and> CHR ''/'' \<notin> set part"
  using assms join_split_on [of "CHR ''/''" raw] split_on_parts [of _ "CHR ''/''" raw]
  by (auto simp: safe_relative_path_def as_posix_def Let_def list_ex_iff split: if_splits)

definition excluded_directories :: "string list" where
  "excluded_directories =
     [''.git'', ''.venv'', ''venv'', ''env'', ''__pycache__'', ''.pytest_cache'', ''.mypy_cache'',
      ''.ruff_cache'', ''node_modules'', ''dist'', ''build'', ''.aws'', ''.azure'',
      ''.config/gcloud'']"

definition excluded_filenames :: "string list" where
  "excluded_filenames = [''id_rsa'', ''id_ed25519'', ''credentials'']"

text \<open>\<open>parts[index : index + 2]\<close> joined, for every index but the last.\<close>

fun excluded_prefix :: "posix_path \<Rightarrow> bool" where
  "excluded_prefix [] = False"
| "excluded_prefix [name] = False"
| "excluded_prefix (part # next # rest) =
     (part \<in> set excluded_directories \<or>
      part @ ''/'' @ next \<in> set excluded_directories \<or> excluded_prefix (next # rest))"

definition is_excluded :: "posix_path \<Rightarrow> bool" where
  "is_excluded parts =
     (if excluded_prefix parts then True
      else let name = (if parts = [] then [] else last parts)
           in if name = ''.env.example'' then False
              else if name = ''.env'' \<or> starts_with name ''.env.'' then True
              else name \<in> set excluded_filenames \<or> ends_with name ''.pem'' \<or> ends_with name ''.key'')"

section \<open>The file system below the allowed root\<close>

text \<open>
  What the checks of \<open>resolve_repository\<close> ask of an entry.  The tree is the one below the resolved root; a path that meets a symbolic link is rejected before
  anything is resolved through it.
\<close>

datatype fs_entry =
    FsDir "(string \<times> fs_entry) list"
  | FsFile
  | FsLink
  | FsSpecial

fun fs_lookup :: "fs_entry \<Rightarrow> posix_path \<Rightarrow> fs_entry option" where
  "fs_lookup e [] = Some e"
| "fs_lookup (FsDir es) (part # rest) =
     (case map_of es part of None \<Rightarrow> None | Some e \<Rightarrow> fs_lookup e rest)"
| "fs_lookup e (part # rest) = None"

text \<open>The loop over the prefixes: is one of them a symbolic link?\<close>

definition meets_link :: "fs_entry \<Rightarrow> posix_path \<Rightarrow> bool" where
  "meets_link root parts \<longleftrightarrow>
     list_ex (\<lambda>i. fs_lookup root (take i parts) = Some FsLink) [1..<Suc (length parts)]"

definition resolve_repository :: "fs_entry option \<Rightarrow> string \<Rightarrow> posix_path res" where
  "resolve_repository root repository_path =
     bind_res (safe_relative_path repository_path) (\<lambda>parts.
       let not_found = Inl (RepositoryInputError ''REPOSITORY_NOT_FOUND'' ''Repository was not found'')
       in case root of
            None \<Rightarrow> not_found
          | Some r \<Rightarrow>
              if meets_link r parts
              then Inl (RepositoryInputError ''REPOSITORY_SYMLINK_REJECTED''
                         ''Repository symlinks are not accepted'')
              else (case fs_lookup r parts of
                      Some (FsDir es) \<Rightarrow>
                        (case map_of es ''.git'' of
                           None \<Rightarrow> Inl (RepositoryInputError ''REPOSITORY_NOT_GIT''
                                         ''Repository is not a Git worktree'')
                         | Some g \<Rightarrow>
                             if g = FsLink
                             then Inl (RepositoryInputError ''REPOSITORY_NOT_GIT''
                                        ''Repository is not a Git worktree'')
                             else Inr parts)
                    | _ \<Rightarrow> not_found))"

section \<open>Regular files\<close>

text \<open>The fields of \<open>os.stat_result\<close> the program reads; \<open>st_exec\<close> is \<open>st_mode & S_IXUSR\<close>.\<close>

datatype file_kind = RegularFile | SymbolicLink | OtherFile

record file_stat =
  st_kind :: file_kind
  st_nlink :: int
  st_dev :: int
  st_ino :: int
  st_size :: int
  st_mtime_ns :: int
  st_exec :: bool

definition changed_during_snapshot :: exn where
  "changed_during_snapshot =
     RepositoryInputError ''REPOSITORY_CHANGED_DURING_SNAPSHOT'' ''Repository changed during snapshot''"

text \<open>\<open>None\<close> is an \<open>lstat\<close> that fails.\<close>

definition validate_regular_file :: "file_stat option \<Rightarrow> file_stat res" where
  "validate_regular_file inspected =
     (case inspected of
        None \<Rightarrow> Inl changed_during_snapshot
      | Some st \<Rightarrow>
          if st_kind st = SymbolicLink
          then Inl (RepositoryInputError ''REPOSITORY_SYMLINK_REJECTED''
                     ''Repository symlinks are not accepted'')
          else if st_kind st \<noteq> RegularFile \<or> st_nlink st \<noteq> 1
          then Inl (RepositoryInputError ''REPOSITORY_FILE_UNSUPPORTED''
                     ''Repository contains an unsupported file'')
          else Inr st)"

lemma validate_regular_file_Inr:
  "validate_regular_file inspected = Inr st \<longleftrightarrow>
     inspected = Some st \<and> st_kind st = RegularFile \<and> st_nlink st = 1"
  by (cases inspected) (auto simp: validate_regular_file_def)

lemma resolve_repository_Inr:
  assumes "resolve_repository root raw = Inr parts"
  shows "\<exists>r es g. root = Some r \<and> safe_relative_path raw = Inr parts \<and>
           fs_lookup r parts = Some (FsDir es) \<and> map_of es ''.git'' = Some g \<and> g \<noteq> FsLink \<and>
           \<not> meets_link r parts"
proof -
  from assms obtain ps where ps: "safe_relative_path raw = Inr ps"
    by (auto simp: resolve_repository_def bind_res_Inr)
  with assms obtain r where r: "root = Some r" "\<not> meets_link r ps"
    by (auto simp: resolve_repository_def Let_def split: option.splits if_splits)
  with assms ps obtain e where e: "fs_lookup r ps = Some e"
    by (auto simp: resolve_repository_def Let_def split: option.splits)
  with assms ps r obtain es where es: "e = FsDir es"
    by (cases e) (auto simp: resolve_repository_def Let_def)
  with assms ps r e show ?thesis
    by (auto simp: resolve_repository_def Let_def split: option.splits if_splits)
qed

end
