(* ===== verification/PyAst.thy ===== *)
theory PyAst
  imports Prelude
begin

text \<open>
  The part of Python's \<open>ast\<close> module the program reads: the node classes it tests for, the
  children of a node in field order, and \<open>ast.walk\<close>.  Every other node class is \<open>PyOther\<close>
  with its children.  Context nodes (\<open>Load\<close>, \<open>Store\<close>) and the like are leaves of no class the
  program tests for, and are left out; so is \<open>ast.parse\<close>, which is a parameter where it is used.
\<close>

type_synonym location = "int \<times> int"

datatype py_const = CNone | CBool bool | CStr string | COther

text \<open>
  \<open>PyFunction is_async name args body rest\<close>: \<open>args\<close> is the arguments node, \<open>rest\<close> the
  decorators, the return annotation and the type parameters.
\<close>

datatype py_node =
    PyFunction bool string "py_node list" "py_node list" "py_node list" location
  | PyAssign "py_node list" py_node location
  | PyAnnAssign py_node py_node "py_node option" location
  | PyExpr py_node location
  | PyPass location
  | PyRaise "py_node option" "py_node option" location
  | PyCall py_node "py_node list" "py_node list" location
  | PyKeyword "string option" py_node location
  | PyAttribute py_node string location
  | PyName string location
  | PyConstant py_const location
  | PyTuple "py_node list" location
  | PyList "py_node list" location
  | PyOther "py_node list" location

fun py_location :: "py_node \<Rightarrow> location" where
  "py_location (PyFunction a n xs ys zs l) = l"
| "py_location (PyAssign ts v l) = l"
| "py_location (PyAnnAssign t a v l) = l"
| "py_location (PyExpr e l) = l"
| "py_location (PyPass l) = l"
| "py_location (PyRaise e c l) = l"
| "py_location (PyCall f xs ks l) = l"
| "py_location (PyKeyword n v l) = l"
| "py_location (PyAttribute v n l) = l"
| "py_location (PyName n l) = l"
| "py_location (PyConstant c l) = l"
| "py_location (PyTuple es l) = l"
| "py_location (PyList es l) = l"
| "py_location (PyOther cs l) = l"

definition opt_list :: "'a option \<Rightarrow> 'a list" where
  "opt_list x = (case x of None \<Rightarrow> [] | Some y \<Rightarrow> [y])"

text \<open>\<open>ast.iter_child_nodes\<close>.\<close>

fun children :: "py_node \<Rightarrow> py_node list" where
  "children (PyFunction a n xs ys zs l) = xs @ ys @ zs"
| "children (PyAssign ts v l) = ts @ [v]"
| "children (PyAnnAssign t a v l) = [t, a] @ opt_list v"
| "children (PyExpr e l) = [e]"
| "children (PyPass l) = []"
| "children (PyRaise e c l) = opt_list e @ opt_list c"
| "children (PyCall f xs ks l) = [f] @ xs @ ks"
| "children (PyKeyword n v l) = [v]"
| "children (PyAttribute v n l) = [v]"
| "children (PyName n l) = []"
| "children (PyConstant c l) = []"
| "children (PyTuple es l) = es"
| "children (PyList es l) = es"
| "children (PyOther cs l) = cs"

definition weight :: "py_node \<Rightarrow> nat" where
  "weight n = 2 * size n + 1"

lemma weight_list: "sum_list (map weight ns) = 2 * size_list size ns - length ns"
  by (induction ns) (auto simp: weight_def size_list_conv_sum_list)

lemma children_smaller: "sum_list (map weight (children n)) < weight n"
  by (cases n)
     (auto simp: opt_list_def weight_list size_list_conv_sum_list weight_def split: option.split)

text \<open>\<open>ast.walk\<close>: breadth first, from a queue of nodes.\<close>

function walk_queue :: "py_node list \<Rightarrow> py_node list" where
  "walk_queue [] = []"
| "walk_queue (n # ns) = n # walk_queue (ns @ children n)"
  by pat_completeness auto
termination
  by (relation "measure (\<lambda>q. sum_list (map weight q))") (use children_smaller in \<open>auto simp: weight_def\<close>)

definition walk :: "py_node \<Rightarrow> py_node list" where
  "walk n = walk_queue [n]"

text \<open>The nodes of a tree.\<close>

inductive part_of :: "py_node \<Rightarrow> py_node \<Rightarrow> bool" where
  part_self: "part_of n n"
| part_child: "part_of m c \<Longrightarrow> c \<in> set (children n) \<Longrightarrow> part_of m n"

lemma part_of_iff: "part_of m n \<longleftrightarrow> m = n \<or> (\<exists>c \<in> set (children n). part_of m c)"
proof
  assume "part_of m n"
  then show "m = n \<or> (\<exists>c \<in> set (children n). part_of m c)" by (rule part_of.cases) auto
qed (auto intro: part_of.intros)

lemma walk_queue_parts: "m \<in> set (walk_queue q) \<longleftrightarrow> (\<exists>n \<in> set q. part_of m n)"
proof (induction q rule: walk_queue.induct)
  case (2 n ns)
  then show ?case using part_of_iff [of m n] by auto
qed simp

text \<open>\<open>ast.walk\<close> visits the node and everything below it, and nothing else.\<close>

lemma set_walk: "m \<in> set (walk n) \<longleftrightarrow> part_of m n"
  by (simp add: walk_def walk_queue_parts del: walk_queue.simps)

end
