(* ===== verification/CycleSearch.thy ===== *)
theory CycleSearch
  imports Prelude
begin

text \<open>
  The contract behind the two recursive cycle searches of the program (revision graph and plan
  validator): a depth-first visit that keeps a set of active nodes and a set of finished ones,
  in whatever way its state represents them.  Recursion is on a depth budget; the number of
  nodes plus one is enough.
\<close>

section \<open>\<open>any(f(x) for x in xs)\<close> with state\<close>

text \<open>The generator stops at the first true result; \<open>None\<close> is an exhausted depth budget.\<close>

fun any_st :: "('a \<Rightarrow> 's \<Rightarrow> (bool \<times> 's) option) \<Rightarrow> 'a list \<Rightarrow> 's \<Rightarrow> (bool \<times> 's) option" where
  "any_st f [] s = Some (False, s)"
| "any_st f (x # xs) s =
     (case f x s of
        None \<Rightarrow> None
      | Some (True, s') \<Rightarrow> Some (True, s')
      | Some (False, s') \<Rightarrow> any_st f xs s')"

lemma any_st_cong [fundef_cong]:
  "(\<And>x s. x \<in> set xs \<Longrightarrow> f x s = g x s) \<Longrightarrow> xs = ys \<Longrightarrow> s = t \<Longrightarrow> any_st f xs s = any_st g ys t"
proof (induction xs arbitrary: ys s t)
  case (Cons x xs)
  have "any_st f xs s' = any_st g xs s'" for s' by (rule Cons.IH) (use Cons.prems(1) in auto)
  with Cons.prems(1) [of x s] show ?case
    by (auto simp flip: Cons.prems(2,3) split: option.split bool.split)
qed simp

section \<open>The contract\<close>

locale cycle_search =
  fixes nodes :: "'a set"
    and succs :: "'a \<Rightarrow> 'a list"
    and visit :: "nat \<Rightarrow> 'a \<Rightarrow> 's \<Rightarrow> (bool \<times> 's) option"
    and act :: "'s \<Rightarrow> 'a set"
    and fin :: "'s \<Rightarrow> 'a set"
    and ok :: "'s \<Rightarrow> bool"
    and enter :: "'a \<Rightarrow> 's \<Rightarrow> 's"
    and leave :: "'a \<Rightarrow> 's \<Rightarrow> 's"
  assumes finite_nodes: "finite nodes"
    and visit_0: "visit 0 r s = None"
    and visit_Suc: "visit (Suc n) r s =
          (if r \<in> act s then Some (True, s)
           else if r \<in> fin s \<or> r \<notin> nodes then Some (False, s)
           else map_option (\<lambda>(b, s'). (b, leave r s')) (any_st (visit n) (succs r) (enter r s)))"
    and act_enter: "act (enter r s) = insert r (act s)"
    and fin_enter: "r \<notin> fin s \<Longrightarrow> fin (enter r s) = fin s"
    and act_leave: "act (leave r s) = act s - {r}"
    and fin_leave: "ok s \<Longrightarrow> r \<in> act s \<Longrightarrow> fin (leave r s) = insert r (fin s)"
    and ok_enter: "ok s \<Longrightarrow> ok (enter r s)"
    and ok_leave: "ok s \<Longrightarrow> ok (leave r s)"
begin

definition edges :: "('a \<times> 'a) set" where
  "edges = {(u, v). u \<in> nodes \<and> v \<in> nodes \<and> v \<in> set (succs u)}"

text \<open>The finished nodes are closed under successors and on no cycle.\<close>

definition done_ok :: "'s \<Rightarrow> bool" where
  "done_ok s \<longleftrightarrow>
     ok s \<and> act s \<inter> fin s = {} \<and> act s \<union> fin s \<subseteq> nodes \<and>
     (\<forall>u \<in> fin s. \<forall>v. (u, v) \<in> edges \<longrightarrow> v \<in> fin s) \<and> (\<forall>u \<in> fin s. (u, u) \<notin> edges\<^sup>+)"

lemma fin_closed: "done_ok s \<Longrightarrow> u \<in> fin s \<Longrightarrow> (u, v) \<in> edges\<^sup>+ \<Longrightarrow> v \<in> fin s"
proof (rotate_tac 2, induction rule: trancl_induct)
  case (base y)
  then show ?case by (auto simp: done_ok_def)
next
  case (step y z)
  then show ?case by (auto simp: done_ok_def)
qed

text \<open>A visit that finds nothing finishes its node and keeps the active ones.\<close>

definition visited_false :: "'a \<Rightarrow> 's \<Rightarrow> 's \<Rightarrow> bool" where
  "visited_false r s s' \<longleftrightarrow>
     done_ok s' \<and> act s' = act s \<and> fin s \<subseteq> fin s' \<and> (r \<in> nodes \<longrightarrow> r \<in> fin s')"

lemma any_false:
  assumes step: "\<And>r s s'. visit n r s = Some (False, s') \<Longrightarrow> done_ok s \<Longrightarrow> visited_false r s s'"
    and run: "any_st (visit n) xs s = Some (False, s')" and s: "done_ok s"
  shows "done_ok s' \<and> act s' = act s \<and> fin s \<subseteq> fin s' \<and> (\<forall>x \<in> set xs. x \<in> nodes \<longrightarrow> x \<in> fin s')"
  using run s
proof (induction xs arbitrary: s)
  case (Cons x xs)
  from Cons.prems(1) obtain s1 where s1: "visit n x s = Some (False, s1)"
    "any_st (visit n) xs s1 = Some (False, s')"
    by (auto split: option.splits bool.splits)
  from step [OF s1(1) Cons.prems(2)] have v: "visited_false x s s1" .
  then have "done_ok s1" by (simp add: visited_false_def)
  from Cons.IH [OF s1(2) this] v show ?case by (auto simp: visited_false_def)
qed simp

lemma leave_done:
  assumes s: "done_ok s" and r: "r \<in> nodes" "r \<notin> act s" "r \<notin> fin s"
    and s1: "done_ok s1" "act s1 = insert r (act s)" "fin s \<subseteq> fin s1"
      "\<forall>x \<in> set (succs r). x \<in> nodes \<longrightarrow> x \<in> fin s1"
  shows "visited_false r s (leave r s1)"
proof -
  have ok1: "ok s1" "r \<in> act s1" using s1(1,2) by (auto simp: done_ok_def)
  note f = fin_leave [OF ok1] and a = act_leave [of r s1]
  have r1: "r \<notin> fin s1" using s1(1,2) by (auto simp: done_ok_def)
  have "(r, r) \<notin> edges\<^sup>+"
  proof
    assume "(r, r) \<in> edges\<^sup>+"
    then obtain y where y: "(r, y) \<in> edges" "(y, r) \<in> edges\<^sup>*" by (meson tranclD)
    then have "y \<in> fin s1" using s1(4) by (auto simp: edges_def)
    with y(2) have "r \<in> fin s1" using fin_closed [OF s1(1)] by (metis rtranclD)
    with r1 show False by simp
  qed
  moreover have "v \<in> fin s1" if "(r, v) \<in> edges" for v using that s1(4) by (auto simp: edges_def)
  ultimately have "done_ok (leave r s1)"
    using s1(1) ok_leave [OF ok1(1)] r(1) unfolding done_ok_def f a by auto
  with r s1(2,3) show ?thesis unfolding visited_false_def f a by auto
qed

lemma visit_false:
  "visit n r s = Some (False, s') \<Longrightarrow> done_ok s \<Longrightarrow> visited_false r s s'"
proof (induction n arbitrary: r s s')
  case 0
  then show ?case by (simp add: visit_0)
next
  case (Suc n)
  show ?case
  proof (cases "r \<in> fin s \<or> r \<notin> nodes")
    case True
    with Suc.prems show ?thesis by (auto simp: visit_Suc visited_false_def split: if_splits)
  next
    case False
    with Suc.prems(1) obtain s1 where r: "r \<notin> act s" and s': "s' = leave r s1"
      and run: "any_st (visit n) (succs r) (enter r s) = Some (False, s1)"
      by (auto simp: visit_Suc split: if_splits)
    have "done_ok (enter r s)"
      using Suc.prems(2) False ok_enter [of s r] r
      by (auto simp: done_ok_def act_enter fin_enter)
    from any_false [OF Suc.IH run this] have
      "done_ok s1" "act s1 = insert r (act s)" "fin s \<subseteq> fin s1"
      "\<forall>x \<in> set (succs r). x \<in> nodes \<longrightarrow> x \<in> fin s1"
      using False by (auto simp: act_enter fin_enter)
    with leave_done [OF Suc.prems(2)] False r show ?thesis by (simp add: s')
  qed
qed

text \<open>A visit that reports a cycle has closed one.\<close>

lemma any_true:
  "any_st (visit n) xs s = Some (True, s') \<Longrightarrow>
   done_ok s \<Longrightarrow>
   \<exists>x \<in> set xs. \<exists>t t'. visit n x t = Some (True, t') \<and> done_ok t \<and> act t = act s"
proof (induction xs arbitrary: s)
  case (Cons x xs)
  show ?case
  proof (cases "visit n x s")
    case (Some p)
    obtain b s1 where p: "p = (b, s1)" by force
    show ?thesis
    proof (cases b)
      case True
      with Some p Cons.prems(2) show ?thesis by auto
    next
      case False
      with Some p Cons.prems(2) visit_false [of n x s s1] have "visited_false x s s1" by simp
      then have "done_ok s1" "act s1 = act s" by (auto simp: visited_false_def)
      with Cons.IH [of s1] Cons.prems Some p False show ?thesis by auto
    qed
  qed (use Cons.prems in simp)
qed simp

lemma visit_true:
  "visit n r s = Some (True, s') \<Longrightarrow> done_ok s \<Longrightarrow> r \<in> nodes \<Longrightarrow> \<forall>a \<in> act s. (a, r) \<in> edges\<^sup>+ \<Longrightarrow>
   \<exists>x. (x, x) \<in> edges\<^sup>+"
proof (induction n arbitrary: r s s')
  case 0
  then show ?case by (simp add: visit_0)
next
  case (Suc n)
  show ?case
  proof (cases "r \<in> act s")
    case True
    with Suc.prems(4) show ?thesis by blast
  next
    case False
    with Suc.prems(1) obtain s1 where r: "r \<notin> fin s"
      and run: "any_st (visit n) (succs r) (enter r s) = Some (True, s1)"
      by (auto simp: visit_Suc split: if_splits)
    have "done_ok (enter r s)"
      using Suc.prems(2,3) r False ok_enter [of s r] by (auto simp: done_ok_def act_enter fin_enter)
    from any_true [OF run this] obtain x t t' where
      x: "x \<in> set (succs r)" "visit n x t = Some (True, t')" "done_ok t"
        "act t = insert r (act s)"
      by (auto simp: act_enter)
    have xn: "x \<in> nodes"
    proof (rule ccontr)
      assume "x \<notin> nodes"
      moreover from this x(3) have "x \<notin> act t" by (auto simp: done_ok_def)
      ultimately show False using x(2) by (cases n) (auto simp: visit_0 visit_Suc)
    qed
    then have e: "(r, x) \<in> edges" using x(1) Suc.prems(3) by (simp add: edges_def)
    then have "\<forall>a \<in> act t. (a, x) \<in> edges\<^sup>+"
      using Suc.prems(4) x(4) by (auto intro: trancl_into_trancl)
    with Suc.IH [OF x(2,3) xn] show ?thesis by blast
  qed
qed

text \<open>The budget: every level of the recursion makes one more node active or finished.\<close>

definition fresh :: "'s \<Rightarrow> nat" where
  "fresh s = card (nodes - (act s \<union> fin s))"

lemma visit_defined:
  "fresh s < n \<Longrightarrow> done_ok s \<Longrightarrow> visit n r s \<noteq> None"
proof (induction n arbitrary: r s)
  case (Suc n)
  have any: "any_st (visit n) xs s1 \<noteq> None"
    if "fresh s1 < n" "done_ok s1" for xs s1
    using that
  proof (induction xs arbitrary: s1)
    case (Cons x xs)
    from Suc.IH [OF Cons.prems] obtain b s2 where v: "visit n x s1 = Some (b, s2)" by force
    show ?case
    proof (cases b)
      case False
      with v visit_false [of n x s1 s2] Cons.prems(2) have f: "visited_false x s1 s2" by simp
      then have "nodes - (act s2 \<union> fin s2) \<subseteq> nodes - (act s1 \<union> fin s1)"
        by (auto simp: visited_false_def)
      then have "fresh s2 \<le> fresh s1" unfolding fresh_def by (intro card_mono) (simp add: finite_nodes)
      moreover have "done_ok s2" using f by (simp add: visited_false_def)
      ultimately show ?thesis using Cons.IH [of s2] Cons.prems(1) v False by simp
    qed (simp add: v)
  qed simp
  show ?case
  proof (cases "r \<in> act s \<or> r \<in> fin s \<or> r \<notin> nodes")
    case False
    have "done_ok (enter r s)"
      using Suc.prems(2) False ok_enter [of s r] by (auto simp: done_ok_def act_enter fin_enter)
    moreover have "fresh (enter r s) < fresh s"
      unfolding fresh_def using False
      by (intro psubset_card_mono) (auto simp: finite_nodes act_enter fin_enter)
    ultimately show ?thesis using any [of "enter r s" "succs r"] Suc.prems(1) False
      by (simp add: visit_Suc)
  qed (auto simp: visit_Suc)
qed simp

text \<open>The search over all nodes from an empty state decides whether there is a cycle.\<close>

theorem search_correct:
  assumes s: "ok s" "act s = {}" "fin s = {}" and n: "card nodes < n" and xs: "set xs = nodes"
  shows "\<exists>s'. any_st (visit n) xs s = Some (\<exists>x. (x, x) \<in> edges\<^sup>+, s')"
proof -
  have s0: "done_ok s" using s by (simp add: done_ok_def)
  have def: "any_st (visit n) ys t \<noteq> None" if "done_ok t" for ys t
    using that
  proof (induction ys arbitrary: t)
    case (Cons y ys)
    have "fresh t \<le> card nodes" unfolding fresh_def by (intro card_mono) (auto simp: finite_nodes)
    with n Cons.prems visit_defined [of t n y] obtain b t' where v: "visit n y t = Some (b, t')"
      by force
    show ?case
    proof (cases b)
      case False
      with v visit_false [of n y t t'] Cons.prems have "done_ok t'" by (auto simp: visited_false_def)
      with Cons.IH v False show ?thesis by simp
    qed (simp add: v)
  qed simp
  obtain b s' where run: "any_st (visit n) xs s = Some (b, s')" using def [OF s0, of xs] by force
  show ?thesis
  proof (cases b)
    case True
    with any_true [OF _ s0, of n xs s'] run obtain x t t' where
      x: "x \<in> set xs" "visit n x t = Some (True, t')" "done_ok t" "act t = {}"
      using s(2) by auto
    from visit_true [OF x(2,3)] x(1,4) xs have "\<exists>x. (x, x) \<in> edges\<^sup>+" by simp
    with run True show ?thesis by simp
  next
    case False
    with any_false [OF visit_false _ s0] run have d: "done_ok s'" "\<forall>x \<in> nodes. x \<in> fin s'"
      using xs by auto
    have "\<nexists>x. (x, x) \<in> edges\<^sup>+"
    proof
      assume "\<exists>x. (x, x) \<in> edges\<^sup>+"
      then obtain x where c: "(x, x) \<in> edges\<^sup>+" by blast
      then have "x \<in> nodes" by (auto elim: tranclE simp: edges_def)
      with d c show False by (auto simp: done_ok_def)
    qed
    with run False show ?thesis by simp
  qed
qed

end

end
