(* ===== verification/RevisionGraph.thy ===== *)
theory RevisionGraph
  imports RepoContracts PyAst CycleSearch
begin

text \<open>
  \<open>repository/alembic.py\<close>: static discovery of the revision graph.  \<open>ast.parse\<close> is the
  argument \<open>parse\<close> of the definitions that use it, the reader of the configuration file the
  argument \<open>config_get\<close>, and a file of the snapshot is what its read returns (\<open>None\<close> for
  \<open>OSError\<close>).
\<close>

section \<open>One revision file\<close>

datatype parse_result = Parsed "py_node list" | ParseSyntaxError | ParseValueError

text \<open>What \<open>_literal_metadata\<close> returns: a string, a tuple of strings, or \<open>None\<close>.\<close>

datatype metadata = MNone | MStr string | MTuple "string list"

fun constant_str :: "py_node \<Rightarrow> string option" where
  "constant_str (PyConstant (CStr s) l) = Some s"
| "constant_str _ = None"

fun all_some :: "'a option list \<Rightarrow> 'a list option" where
  "all_some [] = Some []"
| "all_some (None # xs) = None"
| "all_some (Some x # xs) = map_option ((#) x) (all_some xs)"

text \<open>\<open>None\<close> is \<open>ValueError\<close>.\<close>

fun literal_metadata :: "py_node \<Rightarrow> metadata option" where
  "literal_metadata (PyConstant CNone l) = Some MNone"
| "literal_metadata (PyConstant (CStr s) l) = Some (MStr s)"
| "literal_metadata (PyTuple es l) = map_option MTuple (all_some (map constant_str es))"
| "literal_metadata (PyList es l) = map_option MTuple (all_some (map constant_str es))"
| "literal_metadata _ = None"

text \<open>The top-level assignments (the last one to a name wins) and function names.\<close>

fun assign_target :: "py_node \<Rightarrow> py_node \<Rightarrow> (string \<rightharpoonup> py_node) \<Rightarrow> (string \<rightharpoonup> py_node)" where
  "assign_target v (PyName name l) asg = asg(name \<mapsto> v)"
| "assign_target v _ asg = asg"

fun collect_statement ::
    "py_node \<Rightarrow> (string \<rightharpoonup> py_node) \<times> string list \<Rightarrow> (string \<rightharpoonup> py_node) \<times> string list" where
  "collect_statement (PyFunction a name xs ys zs l) (asg, fns) = (asg, fns @ [name])"
| "collect_statement (PyAssign targets v l) (asg, fns) = (fold (assign_target v) targets asg, fns)"
| "collect_statement (PyAnnAssign target ann (Some v) l) (asg, fns) = (assign_target v target asg, fns)"
| "collect_statement _ st = st"

definition collect_module :: "py_node list \<Rightarrow> (string \<rightharpoonup> py_node) \<times> string list" where
  "collect_module body = fold collect_statement body (Map.empty, [])"

definition reason :: "string \<Rightarrow> string \<Rightarrow> string option \<Rightarrow> unsupported_reason" where
  "reason code detail path = \<lparr>ur_code = code, ur_detail = detail, ur_relative_path = path\<rparr>"

definition integrity_failed :: "string \<Rightarrow> exn" where
  "integrity_failed detail = RepositoryInputError ''SNAPSHOT_INTEGRITY_FAILED'' detail"

definition dynamic_reason :: "string \<Rightarrow> string \<Rightarrow> unsupported_reason" where
  "dynamic_reason name path =
     reason ''DYNAMIC_REVISION_METADATA''
       (name @ '' must be a literal string, string sequence, or null'') (Some path)"

text \<open>
  \<open>values[name]\<close> with the reason appended on failure.  A required name that is not assigned is
  dynamic (\<open>KeyError\<close>), an optional one is \<open>None\<close>.
\<close>

definition read_metadata ::
    "bool \<Rightarrow> (string \<rightharpoonup> py_node) \<Rightarrow> string \<Rightarrow> string \<Rightarrow> metadata option \<times> unsupported_reason list" where
  "read_metadata required asg path name =
     (case asg name of
        None \<Rightarrow> if required then (None, [dynamic_reason name path]) else (Some MNone, [])
      | Some e \<Rightarrow>
          (case literal_metadata e of
             None \<Rightarrow> (None, [dynamic_reason name path])
           | Some m \<Rightarrow> (Some m, [])))"

text \<open>\<open>values.get(name) not in {None, ()}\<close>.\<close>

definition non_empty :: "metadata option \<Rightarrow> bool" where
  "non_empty m \<longleftrightarrow> m \<notin> {None, Some MNone, Some (MTuple [])}"

fun parent_ids_of :: "metadata \<Rightarrow> string list" where
  "parent_ids_of (MStr s) = [s]"
| "parent_ids_of (MTuple ps) = ps"
| "parent_ids_of MNone = []"

definition change_kind_of :: "string option \<Rightarrow> change_kind" where
  "change_kind_of status =
     (case status of
        None \<Rightarrow> UNCHANGED
      | Some s \<Rightarrow> if s = ''??'' \<or> starts_with s ''A'' then NEW else MODIFIED)"

definition revision_evidence :: "string \<Rightarrow> string \<Rightarrow> string \<Rightarrow> string" where
  "revision_evidence snapshot_hash relative_path content_hash =
     ''evidence:'' @ hexdigest (encode
       (snapshot_hash @ '':'' @ relative_path @ '':'' @ content_hash @ '':revision''))"

text \<open>The second half of \<open>_parse_revision\<close>: from the module to the node and the new reasons.\<close>

definition module_revision ::
    "py_node list \<Rightarrow> string \<Rightarrow> string \<Rightarrow> string \<Rightarrow> string option \<Rightarrow>
     revision_node option \<times> unsupported_reason list" where
  "module_revision body relative_path content_hash snapshot_hash status =
     (let (asg, functions) = collect_module body;
          (revision, r1) = read_metadata True asg relative_path ''revision'';
          (down_revision, r2) = read_metadata True asg relative_path ''down_revision'';
          (labels, r3) = read_metadata False asg relative_path ''branch_labels'';
          (depends, r4) = read_metadata False asg relative_path ''depends_on'';
          r5 = (if non_empty labels
                then [reason ''BRANCH_LABELS_UNSUPPORTED'' ''Non-empty branch_labels is unsupported''
                        (Some relative_path)] else []);
          r6 = (if non_empty depends
                then [reason ''REVISION_DEPENDENCY_UNSUPPORTED''
                        ''Non-empty depends_on is unsupported'' (Some relative_path)] else []);
          reasons = r1 @ r2 @ r3 @ r4 @ r5 @ r6
      in case (revision, down_revision, labels, depends) of
           (Some (MStr ident), Some down, Some _, Some _) \<Rightarrow>
             let r7 = (if ident = [] \<or> [] \<in> set (parent_ids_of down)
                       then [reason ''INVALID_REVISION_METADATA''
                               ''Revision identifiers must be non-empty literal strings''
                               (Some relative_path)] else [])
             in (Some \<lparr>rn_revision = ident, rn_parent_ids = parent_ids_of down,
                       rn_relative_path = relative_path,
                       rn_change_kind = change_kind_of status,
                       rn_has_upgrade = (''upgrade'' \<in> set functions),
                       rn_has_downgrade = (''downgrade'' \<in> set functions),
                       rn_content_hash = content_hash,
                       rn_evidence_id =
                         revision_evidence snapshot_hash relative_path content_hash\<rparr>,
                 reasons @ r7)
         | _ \<Rightarrow> (None, reasons))"

text \<open>
  \<open>_parse_revision\<close>.  \<open>UnicodeDecodeError\<close> is a \<open>ValueError\<close>, so it takes the first
  \<open>except\<close> clause, not the one that names \<open>UnicodeError\<close>.
\<close>

definition parse_revision ::
    "(string \<Rightarrow> parse_result) \<Rightarrow> bytes option \<Rightarrow> string \<Rightarrow> string \<Rightarrow> string \<Rightarrow> string option \<Rightarrow>
     (revision_node option \<times> unsupported_reason list) res" where
  "parse_revision parse data relative_path content_hash snapshot_hash status =
     (let invalid = Inl (integrity_failed ''Snapshot content is invalid'');
          unparsed = Inr (None, [reason ''INVALID_REVISION_SOURCE''
                                   ''Revision source could not be parsed safely''
                                   (Some relative_path)])
      in case data of
           None \<Rightarrow> unparsed
         | Some bytes \<Rightarrow>
             if hexdigest bytes \<noteq> content_hash then invalid
             else (case decode bytes of
                     None \<Rightarrow> invalid
                   | Some source \<Rightarrow>
                       (case parse source of
                          ParseValueError \<Rightarrow> invalid
                        | ParseSyntaxError \<Rightarrow> unparsed
                        | Parsed body \<Rightarrow>
                            Inr (module_revision body relative_path content_hash
                                   snapshot_hash status))))"

section \<open>The search for a cycle\<close>

text \<open>\<open>visit\<close> of \<open>_has_cycle\<close>: the state is \<open>(visited, active)\<close>; \<open>by_id\<close> gives the parents.\<close>

fun rev_visit ::
    "nat \<Rightarrow> (string \<rightharpoonup> string list) \<Rightarrow> string \<Rightarrow> string set \<times> string set \<Rightarrow>
     (bool \<times> string set \<times> string set) option" where
  "rev_visit 0 by_id revision st = None"
| "rev_visit (Suc n) by_id revision (visited, active) =
     (if revision \<in> active then Some (True, visited, active)
      else if revision \<in> visited then Some (False, visited, active)
      else (case by_id revision of
              None \<Rightarrow> Some (False, visited, active)
            | Some parents \<Rightarrow>
                map_option (\<lambda>(cyclic, visited', active'). (cyclic, visited', active' - {revision}))
                  (any_st (rev_visit n by_id) (filter (\<lambda>p. by_id p \<noteq> None) parents)
                     (insert revision visited, insert revision active))))"

definition graph_has_cycle :: "(string \<times> revision_node) list \<Rightarrow> bool" where
  "graph_has_cycle by_id =
     (case any_st (rev_visit (Suc (length by_id)) (map_option rn_parent_ids \<circ> map_of by_id))
             (map fst by_id) ({}, {}) of
        None \<Rightarrow> False
      | Some (cyclic, st) \<Rightarrow> cyclic)"

section \<open>The graph\<close>

definition count_revision :: "revision_node list \<Rightarrow> string \<Rightarrow> nat" where
  "count_revision nodes ident = length (filter (\<lambda>n. rn_revision n = ident) nodes)"

definition unique_nodes :: "revision_node list \<Rightarrow> (string \<times> revision_node) list" where
  "unique_nodes nodes =
     map (\<lambda>n. (rn_revision n, n)) (filter (\<lambda>n. count_revision nodes (rn_revision n) = 1) nodes)"

definition node_reasons ::
    "(string \<times> revision_node) list \<Rightarrow> revision_node \<Rightarrow> unsupported_reason list" where
  "node_reasons by_id n =
     (if 1 < length (rn_parent_ids n)
      then [reason ''MERGE_REVISION_UNSUPPORTED''
              (''Merge revision is unsupported: '' @ rn_revision n) (Some (rn_relative_path n))]
      else []) @
     map (\<lambda>p. reason ''MISSING_REVISION_PARENT'' (''Revision parent is missing: '' @ p)
                (Some (rn_relative_path n)))
       (filter (\<lambda>p. map_of by_id p = None) (rn_parent_ids n))"

definition graph_heads :: "revision_node list \<Rightarrow> string list" where
  "graph_heads nodes =
     (let parents = concat (map rn_parent_ids nodes)
      in sort (map rn_revision (filter (\<lambda>n. rn_revision n \<notin> set parents) nodes)))"

definition only_parent :: "revision_node \<Rightarrow> string option" where
  "only_parent n = (case rn_parent_ids n of [p] \<Rightarrow> Some p | _ \<Rightarrow> None)"

text \<open>
  The \<open>while\<close> loop from the head.  The second argument is the chain found so far, oldest
  revision first; its members are \<open>seen\<close>.  The result says whether a revision came twice.
\<close>

function chain_walk ::
    "(string \<times> revision_node) list \<Rightarrow> string option \<Rightarrow> string list \<Rightarrow> string list \<times> bool" where
  "chain_walk by_id current chain =
     (case current of
        None \<Rightarrow> (chain, False)
      | Some c \<Rightarrow>
          (case map_of by_id c of
             None \<Rightarrow> (chain, False)
           | Some n \<Rightarrow>
               if c \<in> set chain then (chain, True)
               else chain_walk by_id (only_parent n) (c # chain)))"
  by pat_completeness auto
termination
proof (relation "measure (\<lambda>(by_id, current, chain). length (filter (\<lambda>(k, n). k \<notin> set chain) by_id))",
    goal_cases)
  case (2 by_id current chain c n)
  then have "(c, n) \<in> set (filter (\<lambda>(k, n). k \<notin> set chain) by_id)"
    by (auto dest: map_of_SomeD)
  moreover have "filter (\<lambda>(k, n). k \<notin> set (c # chain)) by_id =
      filter (\<lambda>(k, n). k \<noteq> c) (filter (\<lambda>(k, n). k \<notin> set chain) by_id)"
    by (simp add: conj_commute) (rule filter_cong, auto)
  ultimately show ?case
    by (simp only: in_measure case_prod_conv) (rule length_filter_less, auto)
qed simp

declare chain_walk.simps [simp del]

definition contiguous_in :: "string list \<Rightarrow> string list \<Rightarrow> bool" where
  "contiguous_in chain ordered =
     (let positions = map (\<lambda>ident. the (index_of ident chain)) ordered
      in positions = [] \<or> positions = [hd positions..<hd positions + length positions])"

definition cycle_reason :: unsupported_reason where
  "cycle_reason = reason ''REVISION_CYCLE'' ''Alembic revision graph contains a cycle'' None"

definition chain_of ::
    "(string \<times> revision_node) list \<Rightarrow> string list \<Rightarrow> string list \<times> unsupported_reason list" where
  "chain_of by_id heads =
     (case heads of
        [h] \<Rightarrow>
          (let (chain, repeated) = chain_walk by_id (Some h) []
           in (chain,
               (if repeated then [cycle_reason] else []) @
               (if length chain \<noteq> length by_id
                then [reason ''DISCONNECTED_REVISION_GRAPH''
                        ''Alembic revisions do not form one connected chain'' None] else [])))
      | _ \<Rightarrow> ([], []))"

definition build_graph ::
    "repo_snapshot \<Rightarrow> revision_node list \<Rightarrow> unsupported_reason list \<Rightarrow> uuid \<Rightarrow> time \<Rightarrow> revision_graph"
  where
  "build_graph snapshot nodes reasons0 graph_id now =
     (let duplicates = sorted_set (filter (\<lambda>ident. 1 < count_revision nodes ident)
                         (map rn_revision nodes));
          by_id = unique_nodes nodes;
          heads = graph_heads nodes;
          (chain, chain_reasons) = chain_of by_id heads;
          changed = map rn_revision (filter (\<lambda>n. rn_change_kind n \<noteq> UNCHANGED) nodes);
          ordered_changed = filter (\<lambda>ident. ident \<in> set changed) chain;
          baseline = (case ordered_changed of
                        [] \<Rightarrow> None
                      | ident # _ \<Rightarrow> (case map_of by_id ident of
                                     None \<Rightarrow> None | Some n \<Rightarrow> only_parent n));
          reasons1 =
            reasons0 @
            map (\<lambda>ident. reason ''DUPLICATE_REVISION_ID'' (''Duplicate revision ID: '' @ ident) None)
              duplicates @
            concat (map (node_reasons by_id) nodes) @
            (if nodes \<noteq> [] \<and> graph_has_cycle by_id then [cycle_reason] else []) @
            (if 1 < length heads
             then [reason ''MULTIPLE_REVISION_HEADS''
                     ''Multiple Alembic revision heads are unsupported'' None] else []) @
            chain_reasons @
            (if changed \<noteq> [] \<and> (set ordered_changed \<noteq> set changed \<or>
                               \<not> contiguous_in chain ordered_changed)
             then [reason ''CHANGED_REVISIONS_NOT_LINEAR''
                     ''Changed revisions do not form one target chain'' None] else []);
          reasons =
            reasons1 @
            (if nodes = [] \<and> reasons1 = []
             then [reason ''NO_REVISIONS_FOUND'' ''No Alembic revisions were found'' None] else []);
          unique_reasons = map snd (dict_of
            (map (\<lambda>r. ((ur_code r, ur_detail r, ur_relative_path r), r)) reasons))
      in \<lparr>rg_id = graph_id, rg_run_id = sn_run_id snapshot, rg_snapshot_id = sn_id snapshot,
          rg_diff_mode = sn_diff_mode snapshot, rg_base_commit = sn_base_commit snapshot,
          rg_head_commit = sn_head_commit snapshot,
          rg_nodes = sort_key (\<lambda>n. (rn_relative_path n, rn_revision n)) nodes,
          rg_heads = heads, rg_baseline_revision = baseline, rg_target_chain = chain,
          rg_changed_revisions = ordered_changed,
          rg_supported = (unique_reasons = [] \<and> nodes \<noteq> []),
          rg_unsupported_reasons = unique_reasons, rg_created_at = now\<rparr>)"

section \<open>Discovery\<close>

text \<open>
  The artifact of a snapshot: the bytes of its manifest and of the files of its tree, each
  \<open>None\<close> when the read raises \<open>OSError\<close>.
\<close>

record snapshot_artifact =
  sa_manifest :: "bytes option"
  sa_tree :: "string \<Rightarrow> bytes option"

text \<open>\<open>manifest_parse\<close> is \<open>SnapshotManifestV1.model_validate_json\<close>, \<open>None\<close> when it raises.\<close>

definition read_manifest ::
    "(bytes \<Rightarrow> manifest_file list option) \<Rightarrow> snapshot_artifact \<Rightarrow> string \<Rightarrow> manifest_file list res" where
  "read_manifest manifest_parse artifact expected_hash =
     (let failed = Inl (integrity_failed ''Snapshot artifact could not be read'')
      in case sa_manifest artifact of
           None \<Rightarrow> failed
         | Some data \<Rightarrow>
             if hexdigest data \<noteq> expected_hash then failed
             else (case manifest_parse data of None \<Rightarrow> failed | Some files \<Rightarrow> Inr files))"

definition location_reason :: "string \<Rightarrow> unsupported_reason" where
  "location_reason detail = reason ''UNSUPPORTED_SCRIPT_LOCATION'' detail (Some ''alembic.ini'')"

definition here_prefix :: string where
  "here_prefix = ''%(here)s/''"

text \<open>
  \<open>_script_location\<close>.  \<open>config_get\<close> is the value of \<open>script_location\<close> in the section
  \<open>alembic\<close>, \<open>None\<close> for a \<open>configparser.Error\<close>.
\<close>

definition script_location ::
    "(string \<Rightarrow> string option) \<Rightarrow> bytes option \<Rightarrow> string \<Rightarrow>
     (posix_path option \<times> unsupported_reason list) res" where
  "script_location config_get data expected_hash =
     (let invalid = Inl (integrity_failed ''Snapshot content is invalid'');
          unsupported = (\<lambda>detail. Inr (None, [location_reason detail]));
          no_location = unsupported ''alembic.ini has no supported script_location''
      in case data of
           None \<Rightarrow> no_location
         | Some bytes \<Rightarrow>
             if hexdigest bytes \<noteq> expected_hash then invalid
             else (case decode bytes of
                     None \<Rightarrow> invalid
                   | Some text \<Rightarrow>
                       (case config_get text of
                          None \<Rightarrow> no_location
                        | Some raw \<Rightarrow>
                            (let stripped = strip raw;
                                 loc = (if starts_with stripped here_prefix
                                        then drop (length here_prefix) stripped else stripped)
                             in if loc = [] \<or> list_ex (\<lambda>c. c \<in> set ''%$: '') loc
                                then unsupported
                                       ''Only one literal relative script_location is supported''
                                else (case safe_relative_path loc of
                                        Inl e \<Rightarrow> unsupported
                                          ''script_location must remain within the snapshot''
                                      | Inr path \<Rightarrow> Inr (Some path, []))))))"

text \<open>The loop over the sorted entries below \<open>versions/\<close>.\<close>

fun parse_entries ::
    "(string \<Rightarrow> parse_result) \<Rightarrow> snapshot_artifact \<Rightarrow> string \<Rightarrow> string \<Rightarrow> (string \<times> string) list \<Rightarrow>
     (string \<times> manifest_file) list \<Rightarrow> revision_node list \<times> unsupported_reason list \<Rightarrow>
     (revision_node list \<times> unsupported_reason list) res" where
  "parse_entries parse artifact prefix snapshot_hash changed [] acc = Inr acc"
| "parse_entries parse artifact prefix snapshot_hash changed ((path, entry) # es) (nodes, reasons) =
     (if \<not> starts_with path prefix \<or> \<not> ends_with path ''.py''
      then parse_entries parse artifact prefix snapshot_hash changed es (nodes, reasons)
      else bind_res (parse_revision parse (sa_tree artifact path) path (mf_sha256 entry)
                       snapshot_hash (map_of changed path)) (\<lambda>(node, new).
             parse_entries parse artifact prefix snapshot_hash changed es
               (nodes @ (case node of None \<Rightarrow> [] | Some n \<Rightarrow> [n]), reasons @ new)))"

definition missing_sources :: "string \<Rightarrow> (string \<times> string) list \<Rightarrow> unsupported_reason list" where
  "missing_sources prefix changed =
     map (\<lambda>(path, status). reason ''CHANGED_REVISION_SOURCE_MISSING''
            ''A changed revision is absent from the target snapshot'' (Some path))
       (filter (\<lambda>(path, status). starts_with path prefix \<and> ends_with path ''.py'' \<and>
                                  starts_with status ''D'')
         (sort_key fst changed))"

definition discover ::
    "(string \<Rightarrow> parse_result) \<Rightarrow> (string \<Rightarrow> string option) \<Rightarrow> (bytes \<Rightarrow> manifest_file list option) \<Rightarrow>
     repo_snapshot option \<Rightarrow> snapshot_artifact \<Rightarrow> uuid \<Rightarrow> time \<Rightarrow> revision_graph res" where
  "discover parse config_get manifest_parse found artifact graph_id now =
     (case found of
        None \<Rightarrow> Inl (integrity_failed ''Snapshot was not found'')
      | Some snapshot \<Rightarrow>
          bind_res (read_manifest manifest_parse artifact (sn_content_hash snapshot)) (\<lambda>files.
            let entries = dict_of (map (\<lambda>f. (mf_path f, f)) files)
            in case map_of entries ''alembic.ini'' of
                 None \<Rightarrow> Inl (RepositoryInputError ''ALEMBIC_CONFIG_NOT_FOUND''
                           ''The repository root has no alembic.ini'')
               | Some ini \<Rightarrow>
                   bind_res (script_location config_get (sa_tree artifact ''alembic.ini'')
                               (mf_sha256 ini)) (\<lambda>(location, reasons).
                     case location of
                       None \<Rightarrow> Inr (build_graph snapshot [] reasons graph_id now)
                     | Some path \<Rightarrow>
                         let prefix = as_posix path @ ''/versions/'';
                             changed = dict_of (map (\<lambda>c. (gc_path c, gc_status c))
                                                  (sn_changed_paths snapshot))
                         in bind_res (parse_entries parse artifact prefix (sn_content_hash snapshot)
                                        changed (sort_key fst entries) ([], reasons))
                              (\<lambda>(nodes, reasons'). Inr (build_graph snapshot nodes
                                 (reasons' @ missing_sources prefix changed) graph_id now)))))"

end
