(* ===== verification/RevisionFacts.thy ===== *)
theory RevisionFacts
  imports RevisionGraph
begin

text \<open>
  What discovery establishes: the cycle search decides whether the parent relation has a cycle,
  and a graph that is reported as supported is one linear chain with the changed revisions as
  one segment of it.
\<close>

section \<open>The cycle search\<close>

abbreviation parents_in :: "(string \<times> revision_node) list \<Rightarrow> string \<rightharpoonup> string list" where
  "parents_in by_id \<equiv> map_option rn_parent_ids \<circ> map_of by_id"

lemma finite_parents_in: "finite (dom (parents_in by_id))"
  by (rule finite_subset [OF _ finite_dom_map_of [of by_id]]) auto

interpretation rev_search: cycle_search
  "dom (parents_in by_id)"
  "\<lambda>r. filter (\<lambda>p. parents_in by_id p \<noteq> None) (the (parents_in by_id r))"
  "\<lambda>n. rev_visit n (parents_in by_id)"
  "\<lambda>(visited, active). active"
  "\<lambda>(visited, active). visited - active"
  "\<lambda>(visited, active). active \<subseteq> visited"
  "\<lambda>r (visited, active). (insert r visited, insert r active)"
  "\<lambda>r (visited, active). (visited, active - {r})"
  for by_id
proof (unfold_locales, goal_cases)
  case (3 n r s)
  obtain v a where s: "s = (v, a)" by force
  show ?case
  proof (cases "parents_in by_id r")
    case None
    then show ?thesis by (auto simp: s)
  next
    case (Some ps)
    then show ?thesis by (auto simp: s intro!: option.map_cong0)
  qed
qed (auto simp: finite_dom_map_of)

definition parent_edges :: "(string \<times> revision_node) list \<Rightarrow> (string \<times> string) set" where
  "parent_edges by_id =
     {(c, p). \<exists>n. map_of by_id c = Some n \<and> p \<in> set (rn_parent_ids n) \<and> p \<in> dom (map_of by_id)}"

lemma rev_search_edges: "rev_search.edges by_id = parent_edges by_id"
  unfolding rev_search.edges_def parent_edges_def by auto

lemma graph_has_cycle_iff: "graph_has_cycle by_id \<longleftrightarrow> (\<exists>x. (x, x) \<in> (parent_edges by_id)\<^sup>+)"
proof -
  have nodes: "set (map fst by_id) = dom (parents_in by_id)"
    by (simp add: dom_map_option_comp dom_map_of_conv_image_fst)
  have "card (dom (parents_in by_id)) \<le> length by_id"
    using card_length [of "map fst by_id"] by (simp only: nodes [symmetric] length_map)
  then have "card (dom (parents_in by_id)) < Suc (length by_id)" by simp
  from rev_search.search_correct [OF _ _ _ this nodes, of "({}, {})", unfolded rev_search_edges]
  show ?thesis by (auto simp: graph_has_cycle_def)
qed

section \<open>The chain\<close>

text \<open>Each revision of the chain has the one before it as its only parent.\<close>

fun linked :: "(string \<times> revision_node) list \<Rightarrow> string list \<Rightarrow> bool" where
  "linked by_id [] = True"
| "linked by_id [c] = (map_of by_id c \<noteq> None)"
| "linked by_id (p # c # cs) =
     (map_of by_id p \<noteq> None \<and> (\<exists>n. map_of by_id c = Some n \<and> rn_parent_ids n = [p]) \<and>
      linked by_id (c # cs))"

definition next_of :: "(string \<times> revision_node) list \<Rightarrow> string \<Rightarrow> string option" where
  "next_of by_id c = (case map_of by_id c of None \<Rightarrow> None | Some n \<Rightarrow> only_parent n)"

lemma only_parent_Some: "only_parent n = Some p \<longleftrightarrow> rn_parent_ids n = [p]"
  by (auto simp: only_parent_def split: list.splits)

lemma linked_Cons:
  "map_of by_id c = Some n \<Longrightarrow> linked by_id chain \<Longrightarrow>
   (chain \<noteq> [] \<Longrightarrow> next_of by_id (hd chain) = Some c) \<Longrightarrow> linked by_id (c # chain)"
  by (cases chain) (auto simp: next_of_def only_parent_Some split: option.splits)

lemma chain_walk_linked:
  assumes "chain_walk by_id cur chain = (result, repeated)"
    and "linked by_id chain" and "distinct chain"
    and "chain \<noteq> [] \<Longrightarrow> next_of by_id (hd chain) = cur"
  shows "linked by_id result \<and> distinct result \<and> (\<exists>front. result = front @ chain) \<and>
         (result = [] \<longrightarrow> cur = None \<or> (\<exists>c. cur = Some c \<and> map_of by_id c = None)) \<and>
         (\<not> repeated \<and> result \<noteq> [] \<longrightarrow>
            (\<forall>c. next_of by_id (hd result) = Some c \<longrightarrow> map_of by_id c = None))"
  using assms
proof (induction by_id cur chain rule: chain_walk.induct)
  case (1 by_id cur chain)
  show ?case
  proof (cases cur)
    case None
    with 1 show ?thesis by (auto simp: chain_walk.simps [of _ None])
  next
    case (Some c)
    show ?thesis
    proof (cases "map_of by_id c")
      case None
      with Some 1 show ?thesis by (auto simp: chain_walk.simps [of _ "Some c"])
    next
      case n: (Some n)
      show ?thesis
      proof (cases "c \<in> set chain")
        case True
        with Some n 1 show ?thesis by (auto simp: chain_walk.simps [of _ "Some c"])
      next
        case False
        have walk: "chain_walk by_id (only_parent n) (c # chain) = (result, repeated)"
          using 1(2) Some n False by (simp add: chain_walk.simps [of _ "Some c"])
        have "linked by_id (c # chain)" using linked_Cons [OF n 1(3)] 1(5) Some by simp
        moreover have "next_of by_id (hd (c # chain)) = only_parent n" using n by (simp add: next_of_def)
        ultimately show ?thesis
          using 1(1) [OF Some n False walk] 1(4) False by auto
      qed
    qed
  qed
qed

text \<open>
  The specification: the chain lists every revision once, from a root to the head, each with
  exactly its predecessor as parent.
\<close>

definition linear_history :: "revision_node list \<Rightarrow> string list \<Rightarrow> bool" where
  "linear_history nodes chain \<longleftrightarrow>
     distinct chain \<and> mset (map rn_revision nodes) = mset chain \<and>
     (\<forall>n \<in> set nodes. \<forall>i < length chain. rn_revision n = chain ! i \<longrightarrow>
        rn_parent_ids n = (if i = 0 then [] else [chain ! (i - 1)]))"

lemma linked_nth:
  "linked by_id chain \<Longrightarrow> Suc i < length chain \<Longrightarrow>
   \<exists>n. map_of by_id (chain ! Suc i) = Some n \<and> rn_parent_ids n = [chain ! i]"
proof (induction by_id chain arbitrary: i rule: linked.induct)
  case (3 by_id p c cs)
  then show ?case by (cases i) auto
qed auto

lemma linked_dom: "linked by_id chain \<Longrightarrow> c \<in> set chain \<Longrightarrow> map_of by_id c \<noteq> None"
  by (induction by_id chain rule: linked.induct) auto

text \<open>Without duplicates the index covers every node.\<close>

lemma count_revision_pos: "n \<in> set nodes \<Longrightarrow> 1 \<le> count_revision nodes (rn_revision n)"
proof -
  assume "n \<in> set nodes"
  then have "n \<in> set (filter (\<lambda>m. rn_revision m = rn_revision n) nodes)" by simp
  from length_pos_if_in_set [OF this] show ?thesis unfolding count_revision_def by linarith
qed

lemma distinct_count_list: "(\<And>x. x \<in> set xs \<Longrightarrow> count_list xs x = 1) \<Longrightarrow> distinct xs"
proof (induction xs)
  case (Cons a xs)
  have "count_list xs a = 0" using Cons.prems [of a] by simp
  then have a: "a \<notin> set xs" by (simp add: count_list_0_iff)
  then have "count_list xs x = 1" if "x \<in> set xs" for x
    using Cons.prems [of x] that by (auto split: if_splits)
  with Cons.IH a show ?case by simp
qed simp

lemma unique_nodes_all:
  assumes "filter (\<lambda>r. 1 < count_revision nodes r) (map rn_revision nodes) = []"
  shows "unique_nodes nodes = map (\<lambda>n. (rn_revision n, n)) nodes"
    and "distinct (map rn_revision nodes)"
proof -
  have one: "count_revision nodes (rn_revision n) = 1" if "n \<in> set nodes" for n
    using assms count_revision_pos [OF that] that by (force simp: filter_empty_conv)
  then have "filter (\<lambda>n. count_revision nodes (rn_revision n) = 1) nodes = nodes"
    by (intro filter_True) simp
  then show "unique_nodes nodes = map (\<lambda>n. (rn_revision n, n)) nodes" by (simp add: unique_nodes_def)
  have "count_list (map rn_revision nodes) r = count_revision nodes r" for r
    by (induction nodes) (simp_all add: count_revision_def)
  with one have "count_list (map rn_revision nodes) r = 1" if "r \<in> set (map rn_revision nodes)" for r
    using that by auto
  then show "distinct (map rn_revision nodes)" by (rule distinct_count_list)
qed

section \<open>A repeated revision closes a cycle\<close>

lemma linked_rtrancl:
  assumes "linked by_id chain" and "i \<le> j" and "j < length chain"
  shows "(chain ! j, chain ! i) \<in> (parent_edges by_id)\<^sup>*"
  using assms(2,3)
proof (induction j)
  case (Suc j)
  show ?case
  proof (cases "i = Suc j")
    case False
    obtain n where n: "map_of by_id (chain ! Suc j) = Some n" "rn_parent_ids n = [chain ! j]"
      using linked_nth [OF assms(1) Suc.prems(2)] by blast
    have "map_of by_id (chain ! j) \<noteq> None"
      using linked_dom [OF assms(1), of "chain ! j"] Suc.prems(2) by simp
    with n have "(chain ! Suc j, chain ! j) \<in> parent_edges by_id"
      unfolding parent_edges_def by auto
    moreover have "(chain ! j, chain ! i) \<in> (parent_edges by_id)\<^sup>*"
      using Suc False by simp
    ultimately show ?thesis by (rule converse_rtrancl_into_rtrancl)
  qed simp
qed simp

lemma chain_walk_repeated:
  assumes "chain_walk by_id cur chain = (result, True)"
    and "linked by_id chain" and "chain \<noteq> [] \<Longrightarrow> next_of by_id (hd chain) = cur"
  shows "\<exists>x. (x, x) \<in> (parent_edges by_id)\<^sup>+"
  using assms
proof (induction by_id cur chain rule: chain_walk.induct)
  case (1 by_id cur chain)
  obtain c n where c: "cur = Some c" "map_of by_id c = Some n"
    using 1(2) by (auto simp: chain_walk.simps [of by_id cur] split: option.splits)
  show ?case
  proof (cases "c \<in> set chain")
    case True
    then obtain i where i: "i < length chain" "chain ! i = c" by (meson in_set_conv_nth)
    have ne: "chain \<noteq> []" using True by auto
    then obtain m where "map_of by_id (hd chain) = Some m" "rn_parent_ids m = [c]"
      using 1(4) c(1) by (auto simp: next_of_def only_parent_Some split: option.splits)
    with c(2) have "(hd chain, c) \<in> parent_edges by_id" unfolding parent_edges_def by auto
    moreover have "(chain ! i, chain ! 0) \<in> (parent_edges by_id)\<^sup>*"
      by (rule linked_rtrancl [OF 1(3) _ i(1)]) simp
    ultimately have "(c, c) \<in> (parent_edges by_id)\<^sup>+"
      using i(2) ne by (simp add: hd_conv_nth rtrancl_into_trancl1)
    then show ?thesis ..
  next
    case False
    have "chain_walk by_id (only_parent n) (c # chain) = (result, True)"
      using 1(2) c False by (simp add: chain_walk.simps [of _ "Some c"])
    moreover have "linked by_id (c # chain)" using linked_Cons [OF c(2) 1(3)] 1(4) c(1) by simp
    ultimately show ?thesis using 1(1) [OF c(1,2) False] c(2) by (simp add: next_of_def)
  qed
qed

lemma chain_of_cycle:
  assumes "cycle_reason \<in> set (snd (chain_of by_id heads))"
  shows "\<exists>x. (x, x) \<in> (parent_edges by_id)\<^sup>+"
proof -
  from assms obtain h where h: "heads = [h]"
    by (cases heads rule: list.exhaust) (auto simp: chain_of_def split: list.splits)
  obtain result repeated where w: "chain_walk by_id (Some h) [] = (result, repeated)" by force
  with assms h have "repeated"
    by (auto simp: chain_of_def cycle_reason_def reason_def split: if_splits)
  with w show ?thesis by (intro chain_walk_repeated [of by_id "Some h" "[]"]) auto
qed

section \<open>The reasons of a graph\<close>

lemma dict_of_functional:
  assumes "\<And>x y. x \<in> set xs \<Longrightarrow> y \<in> set xs \<Longrightarrow> key x = key y \<Longrightarrow> x = y"
  shows "snd ` set (dict_of (map (\<lambda>x. (key x, x)) xs)) = set xs"
proof -
  let ?kvs = "map (\<lambda>x. (key x, x)) xs"
  note sub = set_dict_of [of ?kvs]
  show ?thesis
  proof (intro subset_antisym subsetI)
    fix x assume "x \<in> set xs"
    then have "key x \<in> fst ` set (dict_of ?kvs)" by (force simp: keys_dict_of)
    then obtain y where y: "(key x, y) \<in> set (dict_of ?kvs)" by auto
    with sub have "y \<in> set xs" "key y = key x" by auto
    with assms \<open>x \<in> set xs\<close> y show "x \<in> snd ` set (dict_of ?kvs)" by force
  qed (use sub in auto)
qed

definition reported :: "revision_graph \<Rightarrow> string \<Rightarrow> bool" where
  "reported g code \<longleftrightarrow> (\<exists>r \<in> set (rg_unsupported_reasons g). ur_code r = code)"

lemma cycle_reason_code [simp]: "ur_code cycle_reason = ''REVISION_CYCLE''"
  by (simp add: cycle_reason_def reason_def)

lemma other_reasons:
  "r \<in> set (node_reasons by_id n) \<Longrightarrow> ur_code r \<noteq> ''REVISION_CYCLE''"
  "r \<in> set (snd (chain_of by_id heads)) \<Longrightarrow> ur_code r = ''REVISION_CYCLE'' \<Longrightarrow> r = cycle_reason"
  by (auto simp: node_reasons_def chain_of_def cycle_reason_def reason_def Let_def case_prod_beta
      split: if_splits list.splits)

lemma set_unique_reasons:
  "set (map snd (dict_of (map (\<lambda>r. ((ur_code r, ur_detail r, ur_relative_path r), r)) rs))) =
   set (rs :: unsupported_reason list)"
proof -
  have "snd ` set (dict_of (map (\<lambda>r. ((\<lambda>r. (ur_code r, ur_detail r, ur_relative_path r)) r, r)) rs)) =
    set rs"
    by (rule dict_of_functional) (auto intro: unsupported_reason.equality)
  then show ?thesis by (simp only: set_map)
qed

text \<open>Lists of reasons none of which is the cycle.\<close>

definition no_cycle_reason :: "unsupported_reason list \<Rightarrow> bool" where
  "no_cycle_reason rs \<longleftrightarrow> (\<forall>r \<in> set rs. ur_code r \<noteq> ''REVISION_CYCLE'')"

lemma no_cycle_reason_intros:
  "no_cycle_reason []"
  "c \<noteq> ''REVISION_CYCLE'' \<Longrightarrow> no_cycle_reason [reason c d p]"
  "no_cycle_reason xs \<Longrightarrow> no_cycle_reason ys \<Longrightarrow> no_cycle_reason (xs @ ys)"
  "no_cycle_reason xs \<Longrightarrow> no_cycle_reason ys \<Longrightarrow> no_cycle_reason (if b then xs else ys)"
  "(\<And>x. ur_code (f x) \<noteq> ''REVISION_CYCLE'') \<Longrightarrow> no_cycle_reason (map f zs)"
  "no_cycle_reason (concat (map (node_reasons by_id) ns))"
  using other_reasons(1) [of _ by_id] by (auto simp: no_cycle_reason_def reason_def)

lemma reported_cycle:
  assumes "\<forall>r \<in> set reasons0. ur_code r \<noteq> ''REVISION_CYCLE''"
  shows "reported (build_graph snap nodes reasons0 gid now) ''REVISION_CYCLE'' \<longleftrightarrow>
           nodes \<noteq> [] \<and> graph_has_cycle (unique_nodes nodes) \<or>
           cycle_reason \<in> set (snd (chain_of (unique_nodes nodes) (graph_heads nodes)))"
proof -
  define by_id where "by_id = unique_nodes nodes"
  define chained where "chained = snd (chain_of by_id (graph_heads nodes))"
  have start: "no_cycle_reason reasons0" using assms by (simp add: no_cycle_reason_def)
  have "\<exists>As Bs Cs. (no_cycle_reason As \<and> no_cycle_reason Bs \<and> no_cycle_reason Cs) \<and>
      set (rg_unsupported_reasons (build_graph snap nodes reasons0 gid now)) =
      set (As @ (if nodes \<noteq> [] \<and> graph_has_cycle by_id then [cycle_reason] else []) @ Bs @
           chained @ Cs)"
    unfolding build_graph_def Let_def case_prod_beta revision_graph.select_convs set_unique_reasons
      by_id_def [symmetric] chained_def [symmetric] append_assoc
    apply (rule exI [of _ "reasons0 @ map _ _ @ concat (map (node_reasons by_id) nodes)"])
    apply (rule exI)+
    apply (unfold append_assoc)
    apply (rule conjI [OF _ refl])
    apply (intro conjI no_cycle_reason_intros start)
    by (simp_all add: reason_def)
  then obtain As Bs Cs where
    r: "no_cycle_reason As \<and> no_cycle_reason Bs \<and> no_cycle_reason Cs"
      "set (rg_unsupported_reasons (build_graph snap nodes reasons0 gid now)) =
      set (As @ (if nodes \<noteq> [] \<and> graph_has_cycle by_id then [cycle_reason] else []) @ Bs @
           chained @ Cs)" by blast
  have "reported (build_graph snap nodes reasons0 gid now) ''REVISION_CYCLE'' \<longleftrightarrow>
      nodes \<noteq> [] \<and> graph_has_cycle by_id \<or> (\<exists>r \<in> set chained. ur_code r = ''REVISION_CYCLE'')"
    using r(1) unfolding reported_def r(2) no_cycle_reason_def by auto
  moreover have "(\<exists>r \<in> set chained. ur_code r = ''REVISION_CYCLE'') \<longleftrightarrow> cycle_reason \<in> set chained"
    using other_reasons(2) [of _ by_id "graph_heads nodes"] cycle_reason_code
    unfolding chained_def by blast
  ultimately show ?thesis by (simp only: by_id_def chained_def)
qed

section \<open>No reasons, one chain\<close>

lemma dict_of_Nil [simp]: "dict_of kvs = [] \<longleftrightarrow> kvs = []"
  using keys_dict_of [of kvs] by (auto simp: dict_of_def)

lemma sorted_set_Nil [simp]: "sorted_set xs = [] \<longleftrightarrow> xs = []"
  using set_sorted_set [of xs] by (metis set_empty)

text \<open>The conditions under which no reason is reported.\<close>

lemma supported_conditions:
  assumes "rg_supported (build_graph snap nodes reasons0 gid now)"
  defines "by_id \<equiv> unique_nodes nodes" and "heads \<equiv> graph_heads nodes"
    and "g \<equiv> build_graph snap nodes reasons0 gid now"
    and "changed \<equiv> map rn_revision (filter (\<lambda>n. rn_change_kind n \<noteq> UNCHANGED) nodes)"
  shows "nodes \<noteq> []" and "reasons0 = []"
    and "filter (\<lambda>r. 1 < count_revision nodes r) (map rn_revision nodes) = []"
    and "\<forall>n \<in> set nodes. node_reasons by_id n = []" and "\<not> graph_has_cycle by_id"
    and "length heads \<le> 1" and "snd (chain_of by_id heads) = []"
    and "changed = [] \<or> set (rg_changed_revisions g) = set changed \<and>
           contiguous_in (rg_target_chain g) (rg_changed_revisions g)"
    and "rg_target_chain g = fst (chain_of by_id heads)" and "rg_heads g = heads"
    and "rg_changed_revisions g = filter (\<lambda>r. r \<in> set changed) (rg_target_chain g)"
    and "rg_baseline_revision g =
           (case rg_changed_revisions g of [] \<Rightarrow> None
            | r # _ \<Rightarrow> (case map_of by_id r of None \<Rightarrow> None | Some n \<Rightarrow> only_parent n))"
  using assms(1) unfolding by_id_def heads_def changed_def g_def
  by (auto simp: build_graph_def Let_def case_prod_beta split: if_splits)

lemma index_of_nth:
  "x \<in> set xs \<Longrightarrow> \<exists>i. index_of x xs = Some i \<and> i < length xs \<and> xs ! i = x"
  by (induction xs) auto

text \<open>A contiguous selection is a segment.\<close>

lemma contiguous_segment:
  assumes "contiguous_in chain xs" and "set xs \<subseteq> set chain" and "xs \<noteq> []"
  defines "p \<equiv> the (index_of (hd xs) chain)"
  shows "chain = take p chain @ xs @ drop (p + length xs) chain \<and> p < length chain"
proof -
  let ?pos = "map (\<lambda>r. the (index_of r chain)) xs"
  have at: "the (index_of x chain) < length chain \<and> chain ! the (index_of x chain) = x"
    if "x \<in> set xs" for x
  proof -
    have "x \<in> set chain" using that assms(2) by blast
    from index_of_nth [OF this] show ?thesis by auto
  qed
  have "hd ?pos = p" using assms(3) by (simp add: p_def hd_map)
  then have pos: "?pos = [p..<p + length xs]"
    using assms(1,3) by (auto simp: contiguous_in_def Let_def)
  have nth: "p + i < length chain \<and> chain ! (p + i) = xs ! i" if "i < length xs" for i
  proof -
    have "?pos ! i = p + i" using that by (simp only: pos) simp
    then have "the (index_of (xs ! i) chain) = p + i" using that by simp
    then show ?thesis using at [of "xs ! i"] that by simp
  qed
  have "p + length xs \<le> length chain" using nth [of "length xs - 1"] assms(3) by (cases xs) auto
  then have "take (length xs) (drop p chain) = xs" by (intro nth_equalityI) (auto simp: nth)
  then show ?thesis
    using nth [of 0] assms(3)
    by (metis (no_types) add.commute add_0 append_take_drop_id drop_drop length_greater_0_conv
        add_lessD1)
qed

lemma nth_last_take: "p < length xs \<Longrightarrow> p \<noteq> 0 \<Longrightarrow> xs ! (p - 1) = last (take p xs)"
  by (subst last_conv_nth) auto

text \<open>In a finite non-empty set where everything is somebody's parent there is a cycle.\<close>

lemma cycle_if_all_parents:
  assumes "finite N" and "N \<noteq> {}" and "E \<subseteq> N \<times> N" and "\<And>x. x \<in> N \<Longrightarrow> \<exists>y. (y, x) \<in> E"
  shows "\<exists>x. (x, x) \<in> E\<^sup>+"
proof (rule ccontr)
  assume "\<nexists>x. (x, x) \<in> E\<^sup>+"
  then have "acyclic E" by (simp add: acyclic_def)
  moreover have "finite E" using assms(1,3) by (meson finite_SigmaI finite_subset)
  ultimately have "wf E" by (rule finite_acyclic_wf [rotated])
  then obtain m where "m \<in> N" "\<And>y. (y, m) \<in> E \<Longrightarrow> y \<notin> N"
    using assms(2) by (metis all_not_in_conv wfE_min)
  with assms(3,4) show False by blast
qed

lemma node_reasons_Nil:
  "node_reasons by_id n = [] \<longleftrightarrow>
     length (rn_parent_ids n) \<le> 1 \<and> (\<forall>p \<in> set (rn_parent_ids n). map_of by_id p \<noteq> None)"
  by (auto simp: node_reasons_def filter_empty_conv)

lemma map_of_nodes:
  "distinct (map rn_revision nodes) \<Longrightarrow> n \<in> set nodes \<Longrightarrow>
   map_of (map (\<lambda>n. (rn_revision n, n)) nodes) (rn_revision n) = Some n"
  by (rule map_of_is_SomeI) (simp_all add: comp_def)

lemma map_of_nodes_SomeD:
  "map_of (map (\<lambda>n. (rn_revision n, n)) nodes) r = Some n \<Longrightarrow> n \<in> set nodes \<and> rn_revision n = r"
  by (induction nodes) (auto split: if_splits)

lemma heads_not_empty:
  assumes nodes: "nodes \<noteq> []" and by_id: "by_id = map (\<lambda>n. (rn_revision n, n)) nodes"
    and dist: "distinct (map rn_revision nodes)"
    and ok: "\<forall>n \<in> set nodes. node_reasons by_id n = []" and acyclic: "\<not> graph_has_cycle by_id"
  shows "graph_heads nodes \<noteq> []"
proof
  assume no: "graph_heads nodes = []"
  let ?N = "rn_revision ` set nodes"
  have dom: "map_of by_id r \<noteq> None \<longleftrightarrow> r \<in> ?N" for r
    by (force simp: by_id map_of_eq_None_iff)
  have "\<exists>y. (y, x) \<in> parent_edges by_id" if "x \<in> ?N" for x
  proof -
    from that no obtain n where n: "n \<in> set nodes" "x \<in> set (rn_parent_ids n)"
      by (force simp: graph_heads_def Let_def filter_empty_conv
          dest: arg_cong [where f = length])
    have "map_of by_id (rn_revision n) = Some n" unfolding by_id by (rule map_of_nodes [OF dist n(1)])
    then show ?thesis using n(2) that dom [of x] unfolding parent_edges_def by blast
  qed
  moreover have "parent_edges by_id \<subseteq> ?N \<times> ?N"
    using dom unfolding parent_edges_def by blast
  ultimately have "\<exists>x. (x, x) \<in> (parent_edges by_id)\<^sup>+"
    using nodes by (intro cycle_if_all_parents [of ?N]) auto
  with acyclic show False by (simp add: graph_has_cycle_iff)
qed

lemma single_head_chain:
  assumes by_id: "by_id = map (\<lambda>n. (rn_revision n, n)) nodes"
    and dist: "distinct (map rn_revision nodes)"
    and ok: "\<forall>n \<in> set nodes. node_reasons by_id n = []"
    and h: "graph_heads nodes = [h]" and none: "snd (chain_of by_id [h]) = []"
  defines "chain \<equiv> fst (chain_of by_id [h])"
  shows "linear_history nodes chain \<and> chain \<noteq> [] \<and> last chain = h"
proof -
  obtain result repeated where w: "chain_walk by_id (Some h) [] = (result, repeated)" by force
  have chain: "chain = result" and rep: "\<not> repeated" and len: "length result = length nodes"
    using none w by (auto simp: chain_of_def chain_def by_id split: if_splits)
  have "set (graph_heads nodes) \<subseteq> rn_revision ` set nodes"
    by (auto simp: graph_heads_def Let_def)
  then have "h \<in> rn_revision ` set nodes" by (simp add: h)
  then obtain hn where hn: "hn \<in> set nodes" "rn_revision hn = h" by auto
  then have mh: "map_of by_id h = Some hn" using map_of_nodes [OF dist] by (auto simp: by_id)
  then have w': "chain_walk by_id (only_parent hn) [h] = (result, repeated)"
    using w by (simp add: chain_walk.simps [of _ "Some h"])
  have "next_of by_id (hd [h]) = only_parent hn" using mh by (simp add: next_of_def)
  then have "linked by_id result \<and> distinct result \<and> (\<exists>front. result = front @ [h]) \<and>
         (result = [] \<longrightarrow> only_parent hn = None \<or>
            (\<exists>c. only_parent hn = Some c \<and> map_of by_id c = None)) \<and>
         (\<not> repeated \<and> result \<noteq> [] \<longrightarrow>
            (\<forall>c. next_of by_id (hd result) = Some c \<longrightarrow> map_of by_id c = None))"
    by (intro chain_walk_linked [OF w']) (simp_all add: mh)
  then obtain front where l: "linked by_id result" "distinct result" "result = front @ [h]"
    and first: "\<forall>c. next_of by_id (hd result) = Some c \<longrightarrow> map_of by_id c = None"
    using rep by blast
  have sub: "set result \<subseteq> rn_revision ` set nodes"
  proof
    fix c assume "c \<in> set result"
    with linked_dom [OF l(1)] obtain n where "map_of by_id c = Some n" by blast
    then show "c \<in> rn_revision ` set nodes" unfolding by_id by (auto dest: map_of_nodes_SomeD)
  qed
  have "card (set result) = card (rn_revision ` set nodes)"
    using len distinct_card [OF l(2)] distinct_card [OF dist] by simp
  with sub have "set result = set (map rn_revision nodes)" by (simp add: card_subset_eq)
  then have ms: "mset (map rn_revision nodes) = mset result"
    using set_eq_iff_mset_eq_distinct [OF l(2) dist] by simp
  have par: "rn_parent_ids n = (if i = 0 then [] else [result ! (i - 1)])"
    if n: "n \<in> set nodes" and i: "i < length result" "rn_revision n = result ! i" for n i
  proof -
    have mn: "map_of by_id (result ! i) = Some n"
      using map_of_nodes [OF dist n] i(2) by (simp add: by_id)
    show ?thesis
    proof (cases i)
      case 0
      have "hd result = result ! 0" using l(3) by (simp add: hd_conv_nth)
      with mn 0 first have "\<forall>c. only_parent n = Some c \<longrightarrow> map_of by_id c = None"
        by (simp add: next_of_def)
      moreover have "length (rn_parent_ids n) \<le> 1" "\<forall>p \<in> set (rn_parent_ids n). map_of by_id p \<noteq> None"
        using ok n node_reasons_Nil by blast+
      ultimately show ?thesis using 0
        by (cases "rn_parent_ids n") (auto simp: only_parent_Some length_Suc_conv)
    next
      case (Suc j)
      with linked_nth [OF l(1), of j] i(1) mn show ?thesis by auto
    qed
  qed
  show ?thesis using l(2,3) ms par by (simp add: linear_history_def chain)
qed

section \<open>Where a node comes from\<close>

lemma module_revision_Some:
  "module_revision body path hash snap status = (Some n, rs) \<Longrightarrow>
   rn_relative_path n = path \<and> rn_content_hash n = hash \<and>
   rn_evidence_id n = revision_evidence snap path hash"
  by (auto simp: module_revision_def Let_def case_prod_beta split: option.splits metadata.splits)

lemma parse_revision_Some:
  assumes "parse_revision parse data path hash snap status = Inr (Some n, rs)"
  shows "(\<exists>bytes. data = Some bytes \<and> hexdigest bytes = hash) \<and> rn_relative_path n = path \<and>
         rn_content_hash n = hash \<and> rn_evidence_id n = revision_evidence snap path hash"
proof -
  from assms obtain bytes source body where
    "data = Some bytes" "hexdigest bytes = hash" "module_revision body path hash snap status = (Some n, rs)"
    by (auto simp: parse_revision_def Let_def split: option.splits if_splits parse_result.splits)
  then show ?thesis using module_revision_Some by blast
qed

text \<open>What holds of every node that \<open>parse_entries\<close> collects from entries named by their path.\<close>

definition from_entry ::
    "snapshot_artifact \<Rightarrow> string \<Rightarrow> string \<Rightarrow> (string \<times> manifest_file) list \<Rightarrow> revision_node \<Rightarrow> bool"
  where
  "from_entry artifact prefix snap es n \<longleftrightarrow>
     (\<exists>f. (rn_relative_path n, f) \<in> set es \<and> mf_sha256 f = rn_content_hash n \<and>
        (\<exists>data. sa_tree artifact (rn_relative_path n) = Some data \<and>
           hexdigest data = rn_content_hash n) \<and>
        starts_with (rn_relative_path n) prefix \<and> ends_with (rn_relative_path n) ''.py'' \<and>
        rn_evidence_id n = revision_evidence snap (rn_relative_path n) (rn_content_hash n))"

lemma from_entry_mono:
  "from_entry artifact prefix snap es n \<Longrightarrow> set es \<subseteq> set es' \<Longrightarrow> from_entry artifact prefix snap es' n"
  unfolding from_entry_def by blast

lemma parse_entries_nodes:
  assumes "parse_entries parse artifact prefix snap changed es acc = Inr (nodes, reasons)"
    and "n \<in> set nodes"
  shows "n \<in> set (fst acc) \<or> from_entry artifact prefix snap es n"
  using assms
proof (induction parse artifact prefix snap changed es acc rule: parse_entries.induct)
  case (2 parse artifact prefix snap changed path entry es ns rs)
  let ?skip = "\<not> starts_with path prefix \<or> \<not> ends_with path ''.py''"
  have mono: "from_entry artifact prefix snap es n \<Longrightarrow>
      from_entry artifact prefix snap ((path, entry) # es) n"
    by (rule from_entry_mono) auto
  show ?case
  proof (cases ?skip)
    case True
    with 2 mono show ?thesis by auto
  next
    case False
    let ?parsed = "parse_revision parse (sa_tree artifact path) path (mf_sha256 entry) snap
       (map_of changed path)"
    from False 2(3) obtain node new where p: "?parsed = Inr (node, new)"
      and rest: "parse_entries parse artifact prefix snap changed es
        (ns @ (case node of None \<Rightarrow> [] | Some n \<Rightarrow> [n]), rs @ new) = Inr (nodes, reasons)"
      by (auto simp: bind_res_Inr)
    from 2(2) [OF False rest 2(4)]
    have "n \<in> set ns \<or> node = Some n \<or> from_entry artifact prefix snap es n"
      by (cases node) auto
    moreover have "from_entry artifact prefix snap ((path, entry) # es) n" if "node = Some n"
      using parse_revision_Some [OF p [unfolded that]] False unfolding from_entry_def by auto
    ultimately show ?thesis using mono by auto
  qed
qed auto

lemma set_rg_nodes: "set (rg_nodes (build_graph snap nodes rs gid now)) = set nodes"
  by (simp add: build_graph_def Let_def case_prod_beta)

lemma read_manifest_Inr:
  "read_manifest manifest_parse artifact hash = Inr files \<longleftrightarrow>
     (\<exists>data. sa_manifest artifact = Some data \<and> hexdigest data = hash \<and>
        manifest_parse data = Some files)"
  by (auto simp: read_manifest_def Let_def split: option.splits if_splits)

lemma discover_nodes:
  assumes "discover parse config_get manifest_parse found artifact gid now = Inr g"
    and "n \<in> set (rg_nodes g)"
  shows "\<exists>snap files prefix. found = Some snap \<and>
           read_manifest manifest_parse artifact (sn_content_hash snap) = Inr files \<and>
           from_entry artifact prefix (sn_content_hash snap)
             (dict_of (map (\<lambda>f. (mf_path f, f)) files)) n"
proof -
  let ?dict = "\<lambda>files. dict_of (map (\<lambda>f. (mf_path f, f)) files)"
  obtain snap where s: "found = Some snap"
    using assms(1) by (cases found) (auto simp: discover_def)
  obtain files where files:
    "read_manifest manifest_parse artifact (sn_content_hash snap) = Inr files"
    using assms(1) by (cases "read_manifest manifest_parse artifact (sn_content_hash snap)")
      (auto simp: discover_def s)
  obtain ini where ini: "map_of (?dict files) ''alembic.ini'' = Some ini"
    using assms(1) by (cases "map_of (?dict files) ''alembic.ini''") (auto simp: discover_def s files)
  obtain loc reasons where loc:
    "script_location config_get (sa_tree artifact ''alembic.ini'') (mf_sha256 ini) = Inr (loc, reasons)"
    using assms(1)
    by (cases "script_location config_get (sa_tree artifact ''alembic.ini'') (mf_sha256 ini)")
      (auto simp: discover_def s files ini)
  have g: "(case loc of None \<Rightarrow> Inr (build_graph snap [] reasons gid now)
       | Some path \<Rightarrow>
           let prefix = as_posix path @ ''/versions/'';
               changed = dict_of (map (\<lambda>c. (gc_path c, gc_status c)) (sn_changed_paths snap))
           in bind_res (parse_entries parse artifact prefix (sn_content_hash snap)
                          changed (sort_key fst (?dict files)) ([], reasons))
                (\<lambda>(nodes, reasons'). Inr (build_graph snap nodes
                   (reasons' @ missing_sources prefix changed) gid now))) = Inr g"
    using assms(1) by (simp add: discover_def s files ini loc)
  then obtain path where loc: "loc = Some path" using assms(2)
    by (cases loc) (auto simp: set_rg_nodes)
  from g loc obtain nodes rs where
    p: "parse_entries parse artifact (as_posix path @ ''/versions/'') (sn_content_hash snap)
          (dict_of (map (\<lambda>c. (gc_path c, gc_status c)) (sn_changed_paths snap)))
          (sort_key fst (?dict files)) ([], reasons) = Inr (nodes, rs)"
    and "set (rg_nodes g) = set nodes"
    by (auto simp: bind_res_Inr Let_def set_rg_nodes)
  with assms(2) have "from_entry artifact (as_posix path @ ''/versions/'') (sn_content_hash snap)
      (sort_key fst (?dict files)) n"
    using parse_entries_nodes [OF p] by auto
  then have "from_entry artifact (as_posix path @ ''/versions/'') (sn_content_hash snap)
      (?dict files) n" by (rule from_entry_mono) simp
  with s files show ?thesis by blast
qed

end
