(* ===== verification/RepoProperties.thy ===== *)
theory RepoProperties
  imports RevisionFacts
begin

text \<open>
  The properties of repository discovery: which graphs are reported as supported, the decision
  of the cycle search, and what the path policy lets through.
\<close>

section \<open>Graphs\<close>

lemma supported_chain:
  assumes "rg_supported (build_graph snap nodes reasons graph_id now)"
  defines "g \<equiv> build_graph snap nodes reasons graph_id now"
  shows "linear_history nodes (rg_target_chain g)" and "rg_heads g = [last (rg_target_chain g)]"
    and "unique_nodes nodes = map (\<lambda>n. (rn_revision n, n)) nodes" and "distinct (map rn_revision nodes)"
proof -
  note c = supported_conditions [OF assms(1), folded g_def]
  show u: "unique_nodes nodes = map (\<lambda>n. (rn_revision n, n)) nodes" "distinct (map rn_revision nodes)"
    using unique_nodes_all [OF c(3)] by simp_all
  have "graph_heads nodes \<noteq> []" using heads_not_empty [OF c(1) u c(4,5)] .
  then obtain h where h: "graph_heads nodes = [h]"
    using c(6) by (cases "graph_heads nodes") auto
  have "linear_history nodes (rg_target_chain g) \<and> rg_target_chain g \<noteq> [] \<and> last (rg_target_chain g) = h"
    using single_head_chain [OF u c(4) h] c(7,9) by (simp add: h)
  then show "linear_history nodes (rg_target_chain g)" "rg_heads g = [last (rg_target_chain g)]"
    using c(10) h by auto
qed

lemma supported_changed:
  assumes "rg_supported (build_graph snap nodes reasons graph_id now)"
  defines "g \<equiv> build_graph snap nodes reasons graph_id now"
  shows "set (rg_changed_revisions g) = rn_revision ` {n \<in> set nodes. rn_change_kind n \<noteq> UNCHANGED}"
    and "rg_changed_revisions g = [] \<or> contiguous_in (rg_target_chain g) (rg_changed_revisions g)"
    and "set (rg_changed_revisions g) \<subseteq> set (rg_target_chain g)"
proof -
  note c = supported_conditions [OF assms(1), folded g_def]
  let ?ch = "rg_changed_revisions g" and ?changed = "rn_revision ` {n \<in> set nodes. rn_change_kind n \<noteq> UNCHANGED}"
  let ?list = "map rn_revision (filter (\<lambda>n. rn_change_kind n \<noteq> UNCHANGED) nodes)"
  have list: "set ?list = ?changed" by auto
  have "set ?ch = ?changed \<and> (?ch = [] \<or> contiguous_in (rg_target_chain g) ?ch)"
  proof (cases "?list = []")
    case True
    then have "?ch = []" by (simp only: c(11)) simp
    then show ?thesis using list True by simp
  next
    case False
    with c(8) list show ?thesis by argo
  qed
  then show "set ?ch = ?changed" "?ch = [] \<or> contiguous_in (rg_target_chain g) ?ch" by blast+
  show "set ?ch \<subseteq> set (rg_target_chain g)" by (subst c(11)) auto
qed

text \<open>The revision before the first changed one is its only parent.\<close>

lemma supported_baseline:
  assumes "rg_supported (build_graph snap nodes reasons graph_id now)"
  defines "g \<equiv> build_graph snap nodes reasons graph_id now"
  shows "\<exists>before after. rg_target_chain g = before @ rg_changed_revisions g @ after \<and>
     rg_baseline_revision g =
       (if rg_changed_revisions g = [] \<or> before = [] then None else Some (last before))"
proof (cases "rg_changed_revisions g = []")
  case True
  then show ?thesis using supported_conditions(12) [OF assms(1), folded g_def]
    by (intro exI [of _ "rg_target_chain g"] exI [of _ "[]"]) simp
next
  case False
  let ?chain = "rg_target_chain g" and ?ch = "rg_changed_revisions g"
  note lin = supported_chain [OF assms(1), folded g_def] and ch = supported_changed [OF assms(1), folded g_def]
  define p where "p = the (index_of (hd ?ch) ?chain)"
  have seg: "?chain = take p ?chain @ ?ch @ drop (p + length ?ch) ?chain \<and> p < length ?chain"
    using contiguous_segment [OF _ ch(3) False] ch(2) False unfolding p_def by blast
  obtain r rs where r: "?ch = r # rs" using False by (cases ?ch) auto
  have at: "?chain ! p = r"
    using seg by (metis Cons_eq_appendI append_Cons hd_drop_conv_nth hd_append
        append_take_drop_id list.sel(1) r same_append_eq)
  have "r \<in> set ?ch" by (simp add: r)
  then obtain n where n: "n \<in> set nodes" "rn_revision n = r" unfolding ch(1) by auto
  then have m: "map_of (unique_nodes nodes) r = Some n"
    using map_of_nodes [OF lin(4)] by (auto simp: lin(3))
  have "rn_parent_ids n = (if p = 0 then [] else [?chain ! (p - 1)])"
    using lin(1) n seg at by (auto simp: linear_history_def)
  then have "rg_baseline_revision g = (if p = 0 then None else Some (?chain ! (p - 1)))"
    using supported_conditions(12) [OF assms(1), folded g_def] r m by (simp add: only_parent_def)
  moreover have "?chain ! (p - 1) = last (take p ?chain)" if "p \<noteq> 0"
    by (rule nth_last_take [OF conjunct2 [OF seg] that])
  ultimately show ?thesis using seg False
    by (intro exI [of _ "take p ?chain"] exI [of _ "drop (p + length ?ch) ?chain"]) auto
qed

text \<open>
  C30. A graph that is reported as supported is one linear history: the target chain lists every
  revision exactly once, from a root to the only head, each revision having exactly its
  predecessor as parent; the changed revisions are one segment of it, and the baseline is the
  revision right before that segment.
\<close>

theorem supported_graph_linear:
  assumes "rg_supported (build_graph snap nodes reasons graph_id now)"
  shows "let g = build_graph snap nodes reasons graph_id now; chain = rg_target_chain g in
           nodes \<noteq> [] \<and> reasons = [] \<and> linear_history nodes chain \<and> rg_heads g = [last chain] \<and>
           set (rg_changed_revisions g) =
             rn_revision ` {n \<in> set nodes. rn_change_kind n \<noteq> UNCHANGED} \<and>
           (\<exists>before after. chain = before @ rg_changed_revisions g @ after \<and>
              rg_baseline_revision g =
                (if rg_changed_revisions g = [] \<or> before = [] then None else Some (last before)))"
  using supported_conditions(1,2) [OF assms] supported_chain(1,2) [OF assms]
    supported_changed(1) [OF assms] supported_baseline [OF assms]
  unfolding Let_def by blast

text \<open>A two-revision repository: \<open>0002\<close> is new on top of the root \<open>0001\<close>.\<close>

definition demo_node :: "string \<Rightarrow> string list \<Rightarrow> change_kind \<Rightarrow> revision_node" where
  "demo_node ident parents kind =
     \<lparr>rn_revision = ident, rn_parent_ids = parents,
      rn_relative_path = ''migrations/versions/'' @ ident @ ''.py'', rn_change_kind = kind,
      rn_has_upgrade = True, rn_has_downgrade = True, rn_content_hash = replicate 64 CHR ''0'',
      rn_evidence_id = ''evidence:'' @ replicate 64 CHR ''0''\<rparr>"

definition demo_nodes :: "revision_node list" where
  "demo_nodes = [demo_node ''0002'' [''0001''] NEW, demo_node ''0001'' [] UNCHANGED]"

definition demo_snapshot :: repo_snapshot where
  "demo_snapshot =
     \<lparr>sn_id = 2, sn_run_id = 1, sn_source_path_hash = replicate 64 CHR ''0'',
      sn_diff_mode = WORKING_TREE, sn_base_commit = None, sn_head_commit = ''c0ffee'',
      sn_dirty_diff_hash = None, sn_content_hash = replicate 64 CHR ''1'',
      sn_artifact_uri = ''artifact://demo'', sn_file_count = 3, sn_total_bytes = 100,
      sn_changed_paths = [\<lparr>gc_path = ''migrations/versions/0002.py'', gc_status = ''??'',
        gc_content_hash = None\<rparr>], sn_created_at = 0\<rparr>"

lemma demo_graph:
  "rg_supported (build_graph demo_snapshot demo_nodes [] 3 0)"
  "rg_target_chain (build_graph demo_snapshot demo_nodes [] 3 0) = [''0001'', ''0002'']"
  "rg_baseline_revision (build_graph demo_snapshot demo_nodes [] 3 0) = Some ''0001''"
  by code_simp+

theorem supported_graph_linear_witness:
  "let g = build_graph demo_snapshot demo_nodes [] 3 0 in
     linear_history demo_nodes (rg_target_chain g) \<and> rg_target_chain g = [''0001'', ''0002''] \<and>
     rg_baseline_revision g = Some ''0001'' \<and> rg_heads g = [''0002'']"
  using supported_graph_linear [OF demo_graph(1)] demo_graph(2,3) by (simp add: Let_def)

text \<open>
  The graph reports a cycle exactly when following parents within the revisions that occur
  once can lead from a revision back to itself: the recursive search neither misses a cycle nor
  invents one, and its depth never exceeds the number of revisions.
\<close>

theorem cycle_reported:
  assumes "\<forall>r \<in> set reasons. ur_code r \<noteq> ''REVISION_CYCLE''"
  shows "reported (build_graph snap nodes reasons graph_id now) ''REVISION_CYCLE'' \<longleftrightarrow>
           (\<exists>x. (x, x) \<in> (parent_edges (unique_nodes nodes))\<^sup>+)"
proof -
  have "nodes \<noteq> []" if "(x, x) \<in> (parent_edges (unique_nodes nodes))\<^sup>+" for x
    using tranclD [OF that] by (auto simp: parent_edges_def unique_nodes_def)
  then show ?thesis
    using reported_cycle [OF assms] chain_of_cycle graph_has_cycle_iff by metis
qed

theorem cycle_reported_witness:
  "let nodes = [demo_node ''a'' [''b''] NEW, demo_node ''b'' [''a''] NEW] in
     \<exists>x. (x, x) \<in> (parent_edges (unique_nodes nodes))\<^sup>+"
proof -
  let ?nodes = "[demo_node ''a'' [''b''] NEW, demo_node ''b'' [''a''] NEW]"
  have "reported (build_graph demo_snapshot ?nodes [] 3 0) ''REVISION_CYCLE''" by code_simp
  then show ?thesis using cycle_reported [of "[]" demo_snapshot ?nodes 3 0] by simp
qed

section \<open>Files\<close>

text \<open>
  C31. Every node of a discovered graph comes from the snapshot the run recorded: the manifest
  had the recorded hash, lists the node's file, the bytes that were parsed had the listed hash,
  which is the node's content hash, and the evidence identifier binds snapshot, path and hash.
\<close>

theorem discovery_integrity:
  assumes "discover parse config_get manifest_parse (Some snap) artifact graph_id now = Inr g"
    and "n \<in> set (rg_nodes g)"
  shows "\<exists>manifest files f data.
           sa_manifest artifact = Some manifest \<and> hexdigest manifest = sn_content_hash snap \<and>
           manifest_parse manifest = Some files \<and> f \<in> set files \<and> mf_path f = rn_relative_path n \<and>
           sa_tree artifact (mf_path f) = Some data \<and> hexdigest data = mf_sha256 f \<and>
           rn_content_hash n = mf_sha256 f \<and> ends_with (mf_path f) ''.py'' \<and>
           rn_evidence_id n =
             revision_evidence (sn_content_hash snap) (mf_path f) (mf_sha256 f)"
proof -
  obtain files prefix where files:
    "read_manifest manifest_parse artifact (sn_content_hash snap) = Inr files"
    and n: "from_entry artifact prefix (sn_content_hash snap)
              (dict_of (map (\<lambda>f. (mf_path f, f)) files)) n"
    using discover_nodes [OF assms] by auto
  from n obtain f data where f: "(rn_relative_path n, f) \<in> set (dict_of (map (\<lambda>f. (mf_path f, f)) files))"
    "mf_sha256 f = rn_content_hash n" "sa_tree artifact (rn_relative_path n) = Some data"
    "hexdigest data = rn_content_hash n" "ends_with (rn_relative_path n) ''.py''"
    "rn_evidence_id n = revision_evidence (sn_content_hash snap) (rn_relative_path n) (rn_content_hash n)"
    unfolding from_entry_def by blast
  have "(rn_relative_path n, f) \<in> set (map (\<lambda>f. (mf_path f, f)) files)"
    using set_dict_of f(1) by blast
  then have "f \<in> set files" "mf_path f = rn_relative_path n" by auto
  moreover from files obtain manifest where "sa_manifest artifact = Some manifest"
    "hexdigest manifest = sn_content_hash snap" "manifest_parse manifest = Some files"
    by (auto simp: read_manifest_Inr)
  ultimately show ?thesis using f by (intro exI [of _ manifest] exI [of _ files] exI [of _ f]
      exI [of _ data]) simp
qed

text \<open>A snapshot of a repository with one revision file.\<close>

definition demo_source :: "string \<Rightarrow> py_node list" where
  "demo_source text =
     [PyAssign [PyName ''revision'' (1, 0)]
        (PyConstant (if text = ''null'' then CNone else CStr ''0001'') (1, 11)) (1, 0),
      PyAssign [PyName ''down_revision'' (2, 0)] (PyConstant CNone (2, 16)) (2, 0)]"

definition demo_files :: "manifest_file list" where
  "demo_files =
     [\<lparr>mf_path = ''alembic.ini'', mf_size = 3, mf_mode = ''0644'',
       mf_sha256 = hexdigest (encode ''ini'')\<rparr>,
      \<lparr>mf_path = ''m/versions/1.py'', mf_size = 3, mf_mode = ''0644'',
       mf_sha256 = hexdigest (encode ''rev'')\<rparr>]"

definition demo_artifact :: snapshot_artifact where
  "demo_artifact =
     \<lparr>sa_manifest = Some (encode ''manifest''),
      sa_tree = (\<lambda>path. if path = ''alembic.ini'' then Some (encode ''ini'')
                        else if path = ''m/versions/1.py'' then Some (encode ''rev'') else None)\<rparr>"

definition demo_recorded :: repo_snapshot where
  "demo_recorded = demo_snapshot\<lparr>sn_content_hash := hexdigest (encode ''manifest''),
                                 sn_changed_paths := []\<rparr>"

lemma demo_location: "safe_relative_path ''m'' = Inr [''m'']" "strip ''m'' = ''m''"
  "starts_with ''m'' here_prefix = False" "as_posix [''m''] = ''m''"
  by code_simp+

lemma demo_entries: "dict_of (map (\<lambda>f. (mf_path f, f)) demo_files) =
    map (\<lambda>f. (mf_path f, f)) demo_files"
  "sort_key fst (map (\<lambda>f. (mf_path f, f)) demo_files) = map (\<lambda>f. (mf_path f, f)) demo_files"
  by (simp_all add: demo_files_def dict_of_def less_eq_list_code less_eq_char_simp)

lemma demo_parsed:
  "\<exists>n. parse_revision (Parsed \<circ> demo_source) (Some (encode ''rev'')) ''m/versions/1.py''
         (hexdigest (encode ''rev'')) h None = Inr (Some n, []) \<and> rn_revision n = ''0001''"
  by (simp add: parse_revision_def demo_source_def module_revision_def collect_module_def
      read_metadata_def non_empty_def del: encode_simps)

lemma demo_discovery:
  "\<exists>g n. discover (Parsed \<circ> demo_source) (\<lambda>_. Some ''m'') (\<lambda>_. Some demo_files)
           (Some demo_recorded) demo_artifact 3 0 = Inr g \<and> n \<in> set (rg_nodes g) \<and>
         rn_revision n = ''0001''"
proof -
  have split: "starts_with ''alembic.ini'' ''m/versions/'' = False"
    "starts_with ''m/versions/1.py'' ''m/versions/''" "ends_with ''m/versions/1.py'' ''.py''"
    by code_simp+
  obtain n where "parse_revision (Parsed \<circ> demo_source) (Some (encode ''rev'')) ''m/versions/1.py''
         (hexdigest (encode ''rev'')) (hexdigest (encode ''manifest'')) None = Inr (Some n, [])"
    "rn_revision n = ''0001''" using demo_parsed by blast
  then show ?thesis
    by (simp add: discover_def demo_artifact_def demo_recorded_def read_manifest_def
      script_location_def demo_location Let_def demo_entries demo_snapshot_def demo_files_def split
      dict_of_def missing_sources_def set_rg_nodes del: encode_simps)
qed

theorem discovery_integrity_witness:
  "\<exists>(n :: revision_node) f. f \<in> set demo_files \<and> mf_path f = rn_relative_path n \<and> rn_revision n = ''0001'' \<and>
         rn_content_hash n = mf_sha256 f"
proof -
  obtain g n where g: "discover (Parsed \<circ> demo_source) (\<lambda>_. Some ''m'') (\<lambda>_. Some demo_files)
      (Some demo_recorded) demo_artifact 3 0 = Inr g" "n \<in> set (rg_nodes g)" "rn_revision n = ''0001''"
    using demo_discovery by blast
  from discovery_integrity [OF g(1,2)] obtain f where
    "f \<in> set demo_files \<and> mf_path f = rn_relative_path n \<and> rn_content_hash n = mf_sha256 f"
    by fastforce
  with g(3) show ?thesis by blast
qed

text \<open>
  A revision file with an intact source whose \<open>revision\<close> is assigned \<open>None\<close> or a sequence,
  and whose other metadata is literal, disappears: it gives no node and no reason, although the
  same file with an empty string, or with a computed value, is reported.
\<close>

theorem non_string_revision_dropped:
  assumes "hexdigest bytes = content_hash" and "decode bytes = Some source"
    and "parse source = Parsed body"
    and "fst (collect_module body) ''revision'' = Some rev_expr"
    and "literal_metadata rev_expr \<in> {Some MNone, Some (MTuple ids)}"
    and "fst (collect_module body) ''down_revision'' = Some down_expr"
    and "literal_metadata down_expr \<noteq> None"
    and "fst (collect_module body) ''branch_labels'' = None"
    and "fst (collect_module body) ''depends_on'' = None"
  shows "parse_revision parse (Some bytes) path content_hash snapshot_hash status = Inr (None, [])"
  using assms
  by (auto simp: parse_revision_def module_revision_def read_metadata_def non_empty_def
      case_prod_beta Let_def split: option.split)

theorem non_string_revision_dropped_witness:
  "parse_revision (Parsed \<circ> demo_source) (Some (encode ''null'')) ''m/versions/1.py''
     (hexdigest (encode ''null'')) ''h'' (Some ''??'') = Inr (None, [])"
  by (rule non_string_revision_dropped [OF refl decode_encode,
        where body = "demo_source ''null''" and rev_expr = "PyConstant CNone (1, 11)"
          and down_expr = "PyConstant CNone (2, 16)" and ids = "[]"])
     (simp_all add: demo_source_def collect_module_def)

text \<open>
  C32. A repository path that is accepted denotes a directory strictly below the allowed root:
  its parts are plain names, no prefix of it is a symbolic link, and it holds a \<open>.git\<close> entry
  that is not a link.  The path given is the path used.
\<close>

theorem resolved_repository_inside:
  assumes "resolve_repository root raw = Inr parts"
  shows "as_posix parts = raw \<and> parts \<noteq> [] \<and>
         (\<forall>part \<in> set parts. part \<notin> {[], ''.'', ''..''} \<and> CHR ''/'' \<notin> set part \<and> nul \<notin> set part) \<and>
         (\<exists>r es g. root = Some r \<and> fs_lookup r parts = Some (FsDir es) \<and>
            map_of es ''.git'' = Some g \<and> g \<noteq> FsLink \<and>
            (\<forall>i \<in> {1..length parts}. fs_lookup r (take i parts) \<noteq> Some FsLink))"
proof -
  obtain r es g where r: "root = Some r" "safe_relative_path raw = Inr parts"
    "fs_lookup r parts = Some (FsDir es)" "map_of es ''.git'' = Some g" "g \<noteq> FsLink"
    "\<not> meets_link r parts" using resolve_repository_Inr [OF assms] by blast
  have "\<forall>i \<in> {1..length parts}. fs_lookup r (take i parts) \<noteq> Some FsLink"
    using r(6) by (auto simp: meets_link_def list_ex_iff simp del: upt_Suc)
  moreover have "nul \<notin> set part" if "part \<in> set parts" for part
    using safe_relative_path_Inr(1,3) [OF r(2)] in_join [OF that] unfolding as_posix_def by blast
  ultimately show ?thesis using safe_relative_path_Inr(1,2,4) [OF r(2)] r by blast
qed

theorem resolved_repository_inside_witness:
  "let root = FsDir [(''team'', FsDir [(''app'', FsDir [(''.git'', FsDir [])])]), (''out'', FsLink)] in
     as_posix [''team'', ''app''] = ''team/app'' \<and> fs_lookup root [''team'', ''app''] \<noteq> None \<and>
     resolve_repository (Some root) ''out/app'' \<noteq> Inr [''out'', ''app'']"
proof -
  let ?root = "FsDir [(''team'', FsDir [(''app'', FsDir [(''.git'', FsDir [])])]), (''out'', FsLink)]"
  have "resolve_repository (Some ?root) ''team/app'' = Inr [''team'', ''app'']" by code_simp
  note inside = resolved_repository_inside [OF this]
  moreover have "resolve_repository (Some ?root) ''out/app'' \<noteq> Inr [''out'', ''app'']" by code_simp
  ultimately show ?thesis by (auto simp: Let_def)
qed

end
