(* ===== verification/GitRepository.thy ===== *)
theory GitRepository
  imports RepoContracts Canonical
begin

text \<open>
  \<open>repository/git.py\<close>: the selection of files and changes through bounded \<open>git\<close> commands.
  The \<open>git\<close> program is the argument \<open>runner\<close>: from the command line and the environment
  overrides to the exit code and the output, \<open>None\<close> for a failed or timed-out start.  Files of
  the worktree are what their reads return.
\<close>

section \<open>Text of git's output\<close>

definition invalid_object :: "string \<Rightarrow> exn" where
  "invalid_object detail = RepositoryInputError ''GIT_OBJECT_INVALID'' detail"

definition invalid_selector :: "string \<Rightarrow> exn" where
  "invalid_selector detail = RepositoryInputError ''GIT_SELECTOR_INVALID'' detail"

definition file_budget :: exn where
  "file_budget = RepositoryInputError ''SNAPSHOT_LIMIT_EXCEEDED'' ''Snapshot file budget exceeded''"

text \<open>\<open>decode("ascii")\<close>.\<close>

definition decode_ascii :: "bytes \<Rightarrow> string option" where
  "decode_ascii bs =
     (if list_all (\<lambda>b. unat b < 128) bs then Some (map (\<lambda>b. char_of (unat b)) bs) else None)"

text \<open>\<open>int(text)\<close> for decimal digits with single underscores between them.\<close>

fun digits_value :: "string \<Rightarrow> int \<Rightarrow> bool \<Rightarrow> int option" where
  "digits_value [] acc after_digit = (if after_digit then Some acc else None)"
| "digits_value (c # cs) acc after_digit =
     (let n = (of_char c :: int)
      in if 48 \<le> n \<and> n \<le> 57 then digits_value cs (10 * acc + (n - 48)) True
         else if c = CHR ''_'' \<and> after_digit then digits_value cs acc False
         else None)"

definition py_int :: "string \<Rightarrow> int option" where
  "py_int text =
     (case strip text of
        [] \<Rightarrow> None
      | c # cs \<Rightarrow>
          if c = CHR ''-'' then map_option uminus (digits_value cs 0 False)
          else if c = CHR ''+'' then digits_value cs 0 False
          else digits_value (c # cs) 0 False)"

text \<open>A loop that may raise at each item and may skip it.\<close>

fun collect :: "('a \<Rightarrow> 'b option res) \<Rightarrow> 'a list \<Rightarrow> 'b list res" where
  "collect f [] = Inr []"
| "collect f (x # xs) =
     bind_res (f x) (\<lambda>y. bind_res (collect f xs) (\<lambda>ys.
       Inr (case y of None \<Rightarrow> ys | Some z \<Rightarrow> z # ys)))"

lemma collect_Inr_mem:
  "collect f xs = Inr ys \<Longrightarrow> y \<in> set ys \<longleftrightarrow> (\<exists>x \<in> set xs. f x = Inr (Some y))"
  by (induction xs arbitrary: ys) (auto simp: bind_res_Inr split: option.splits)

lemma collect_cong [fundef_cong]:
  "(\<And>x. x \<in> set xs \<Longrightarrow> f x = g x) \<Longrightarrow> xs = ys \<Longrightarrow> collect f xs = collect g ys"
proof (induction xs arbitrary: ys)
  case (Cons x xs)
  have "collect f xs = collect g xs" by (rule Cons.IH) (use Cons.prems(1) in auto)
  with Cons.prems(1) [of x] show ?case by (simp flip: Cons.prems(2))
qed simp

section \<open>Running git\<close>

record git_result =
  gr_returncode :: int
  gr_stdout :: bytes

type_synonym git_runner = "string list \<Rightarrow> (string \<times> string) list \<Rightarrow> git_result option"

definition git_prefix :: "string list" where
  "git_prefix =
     [''git'', ''-c'', ''core.hooksPath=/dev/null'', ''-c'', ''core.fsmonitor=false'',
      ''-c'', ''diff.external='', ''-c'', ''diff.noprefix=false'']"

definition git_command :: "string \<Rightarrow> string list \<Rightarrow> string list" where
  "git_command path args =
     git_prefix @ [''-c'', ''safe.directory='' @ path, ''-C'', path] @ args"

definition git_environment :: "(string \<times> string) list" where
  "git_environment =
     [(''GIT_CONFIG_NOSYSTEM'', ''1''), (''GIT_TERMINAL_PROMPT'', ''0''),
      (''GIT_OPTIONAL_LOCKS'', ''0'')]"

definition run_result :: "git_runner \<Rightarrow> string \<Rightarrow> string list \<Rightarrow> git_result res" where
  "run_result runner path args =
     (case runner (git_command path args) git_environment of
        None \<Rightarrow> Inl (invalid_object ''Git repository data could not be read'')
      | Some r \<Rightarrow> Inr r)"

definition run_git :: "git_runner \<Rightarrow> string \<Rightarrow> string list \<Rightarrow> bytes res" where
  "run_git runner path args =
     bind_res (run_result runner path args) (\<lambda>r.
       if gr_returncode r \<noteq> 0
       then Inl (invalid_object ''Git repository data could not be read'')
       else Inr (gr_stdout r))"

definition run_text :: "git_runner \<Rightarrow> string \<Rightarrow> string list \<Rightarrow> string res" where
  "run_text runner path args =
     bind_res (run_git runner path args) (\<lambda>out.
       case decode out of
         None \<Rightarrow> Inl (invalid_object ''Git output is invalid'')
       | Some text \<Rightarrow> Inr text)"

section \<open>Objects\<close>

definition read_blob :: "git_runner \<Rightarrow> string \<Rightarrow> string \<Rightarrow> int \<Rightarrow> bytes res" where
  "read_blob runner path object_id max_bytes =
     bind_res (run_text runner path [''cat-file'', ''-s'', object_id]) (\<lambda>size_text.
       case py_int (strip size_text) of
         None \<Rightarrow> Inl (invalid_object ''Git object is invalid'')
       | Some blob_size \<Rightarrow>
           if max_bytes < blob_size then Inl file_budget
           else bind_res (run_git runner path [''cat-file'', ''blob'', object_id]) (\<lambda>data.
             if int (length data) \<noteq> blob_size then Inl (invalid_object ''Git object is invalid'')
             else Inr data))"

text \<open>One record of \<open>ls-tree\<close>: mode, type and object before the tab, the path after it.\<close>

definition tree_record :: "bytes \<Rightarrow> (string \<times> string \<times> string) option res" where
  "tree_record record =
     (let invalid = Inl (invalid_object ''Git tree is invalid'')
      in case split_first 9 record of
           (metadata, Some raw_path) \<Rightarrow>
             (case decode_ascii metadata of
                None \<Rightarrow> invalid
              | Some text \<Rightarrow>
                  (case split_first CHR '' '' text of
                     (mode, Some rest) \<Rightarrow>
                       (case split_first CHR '' '' rest of
                          (object_type, Some object_id) \<Rightarrow>
                            (case decode raw_path of
                               None \<Rightarrow> invalid
                             | Some path_text \<Rightarrow>
                                 bind_res (safe_relative_path path_text) (\<lambda>relative.
                                   if is_excluded relative then Inr None
                                   else if object_type \<noteq> ''blob'' \<or> mode \<notin> {''100644'', ''100755''}
                                   then Inl (RepositoryInputError ''REPOSITORY_FILE_UNSUPPORTED''
                                              ''Git tree contains unsupported entries'')
                                   else Inr (Some (as_posix relative, object_id, mode))))
                        | _ \<Rightarrow> invalid)
                   | _ \<Rightarrow> invalid))
         | _ \<Rightarrow> invalid)"

definition tree_entries ::
    "git_runner \<Rightarrow> string \<Rightarrow> string \<Rightarrow> (string \<times> string \<times> string) list res" where
  "tree_entries runner path commit =
     bind_res (run_git runner path [''ls-tree'', ''-rz'', ''--full-tree'', commit]) (\<lambda>raw.
       bind_res (collect tree_record (filter (\<lambda>r. r \<noteq> []) (split_on 0 raw))) (\<lambda>entries.
         Inr (sort entries)))"

definition is_commit_id :: "string \<Rightarrow> bool" where
  "is_commit_id commit \<longleftrightarrow> length commit = 40 \<and> list_all is_hex_char commit"

definition resolve_commit :: "git_runner \<Rightarrow> string \<Rightarrow> string \<Rightarrow> string res" where
  "resolve_commit runner path ref =
     (if ref = [] \<or> nul \<in> set ref \<or> starts_with ref ''-''
      then Inl (invalid_selector ''Git ref is invalid'')
      else bind_res (run_result runner path
             [''rev-parse'', ''--verify'', ''--end-of-options'', ref @ ''^{commit}'']) (\<lambda>r.
        if gr_returncode r \<noteq> 0
        then Inl (invalid_selector ''Git ref does not resolve to a commit'')
        else (case decode_ascii (gr_stdout r) of
                None \<Rightarrow> Inl (invalid_object ''Git object is invalid'')
              | Some out \<Rightarrow>
                  let commit = strip out
                  in if is_commit_id commit then Inr commit
                     else Inl (invalid_object ''Git object is invalid''))))"

section \<open>Reading worktree files\<close>

text \<open>
  The non-empty chunks a file gives, read until the end or until the budget is exceeded.
\<close>

fun read_chunks :: "exn \<Rightarrow> int \<Rightarrow> int \<Rightarrow> bytes list \<Rightarrow> bytes res" where
  "read_chunks limit_error limit already [] = Inr []"
| "read_chunks limit_error limit already (chunk # rest) =
     (if chunk = [] then Inr []
      else let already' = already + int (length chunk)
           in if limit < already' then Inl limit_error
              else bind_res (read_chunks limit_error limit already' rest) (\<lambda>more.
                Inr (chunk @ more)))"

lemma read_chunks_bound:
  "read_chunks e limit already cs = Inr data \<Longrightarrow> already \<le> limit \<Longrightarrow>
   already + int (length data) \<le> limit"
  by (induction e limit already cs arbitrary: data rule: read_chunks.induct)
     (fastforce simp: bind_res_Inr Let_def split: if_splits)+

text \<open>What \<open>_hash_worktree_file\<close> sees: an \<open>OSError\<close>, no regular file, or size and content.\<close>

datatype hash_observation =
    HashIOError
  | HashNotFile
  | HashFile int "bytes list"

definition hash_worktree_file :: "int \<Rightarrow> hash_observation \<Rightarrow> string option res" where
  "hash_worktree_file max_file_bytes seen =
     (case seen of
        HashIOError \<Rightarrow> Inl (RepositoryInputError ''REPOSITORY_CHANGED_DURING_SNAPSHOT''
                          ''Repository changed during selection'')
      | HashNotFile \<Rightarrow> Inr None
      | HashFile file_size parts \<Rightarrow>
          if max_file_bytes < file_size then Inl file_budget
          else bind_res (read_chunks file_budget max_file_bytes 0 parts) (\<lambda>data.
            Inr (Some (hexdigest data))))"

section \<open>Selections\<close>

definition decode_path :: "bytes \<Rightarrow> string option res" where
  "decode_path item =
     (case decode item of
        None \<Rightarrow> Inl (invalid_object ''Git path is invalid'')
      | Some text \<Rightarrow>
          bind_res (safe_relative_path text) (\<lambda>relative.
            Inr (if is_excluded relative then None else Some (as_posix relative))))"

definition decode_paths :: "bytes \<Rightarrow> string list res" where
  "decode_paths raw =
     bind_res (collect decode_path (filter (\<lambda>r. r \<noteq> []) (split_on 0 raw))) (\<lambda>paths.
       Inr (sorted_set paths))"

definition sort_changes :: "git_change list \<Rightarrow> git_change list" where
  "sort_changes = sort_key (\<lambda>c. (gc_path c, gc_status c))"

text \<open>
  The loop over \<open>git status --porcelain=v1 -z\<close>: after a rename or copy the next record is the
  old name and is skipped.
\<close>

function working_records ::
    "int \<Rightarrow> (posix_path \<Rightarrow> hash_observation) \<Rightarrow> string list \<Rightarrow> bytes list \<Rightarrow> git_change list res" where
  "working_records max_file_bytes observe files [] = Inr []"
| "working_records max_file_bytes observe files (record # rest) =
     (if record = [] then working_records max_file_bytes observe files rest
      else case (decode_ascii (take 2 record), decode (drop 3 record)) of
        (Some status, Some path) \<Rightarrow>
          (let rest' = (if CHR ''R'' \<in> set status \<or> CHR ''C'' \<in> set status
                        then drop 1 rest else rest)
           in bind_res (safe_relative_path path) (\<lambda>relative.
                if is_excluded relative then working_records max_file_bytes observe files rest'
                else bind_res (if as_posix relative \<in> set files
                               then hash_worktree_file max_file_bytes (observe relative)
                               else Inr None) (\<lambda>content_hash.
                  bind_res (working_records max_file_bytes observe files rest') (\<lambda>more.
                    Inr (\<lparr>gc_path = as_posix relative, gc_status = strip status,
                          gc_content_hash = content_hash\<rparr> # more)))))
      | _ \<Rightarrow> Inl (invalid_object ''Git status is invalid''))"
  by pat_completeness auto
termination
  by (relation "measure (\<lambda>(m, obs, fs, rs). length rs)") auto

definition working_changes ::
    "git_runner \<Rightarrow> string \<Rightarrow> int \<Rightarrow> (posix_path \<Rightarrow> hash_observation) \<Rightarrow> string list \<Rightarrow>
     git_change list res" where
  "working_changes runner path max_file_bytes observe files =
     bind_res (run_git runner path
       [''status'', ''--porcelain=v1'', ''-z'', ''--untracked-files=all'']) (\<lambda>raw.
       bind_res (working_records max_file_bytes observe files (split_on 0 raw)) (\<lambda>changes.
         Inr (sort_changes changes)))"

definition change_json :: "git_change \<Rightarrow> json" where
  "change_json c =
     JObj [(''path'', JStr (gc_path c)), (''status'', JStr (gc_status c)),
           (''content_hash'', opt_json JStr (gc_content_hash c))]"

definition working_tree ::
    "git_runner \<Rightarrow> string \<Rightarrow> int \<Rightarrow> (posix_path \<Rightarrow> hash_observation) \<Rightarrow> git_selection res" where
  "working_tree runner path max_file_bytes observe =
     bind_res (resolve_commit runner path ''HEAD'') (\<lambda>head.
     bind_res (run_git runner path
       [''ls-files'', ''-z'', ''--cached'', ''--others'', ''--exclude-standard'']) (\<lambda>raw_files.
     bind_res (decode_paths raw_files) (\<lambda>files.
     bind_res (working_changes runner path max_file_bytes observe files) (\<lambda>changes.
       Inr \<lparr>gs_diff_mode = WORKING_TREE, gs_base_commit = None, gs_head_commit = head,
            gs_dirty_diff_hash =
              Some (hexdigest (canonical_json_ascii (JList (map change_json changes)))),
            gs_files = files, gs_changes = changes\<rparr>))))"

text \<open>The \<open>--name-status -z\<close> output: status and path alternate.\<close>

fun range_records :: "bytes list \<Rightarrow> git_change list res" where
  "range_records [] = Inr []"
| "range_records [status] = Inl (invalid_object ''Git diff is invalid'')"
| "range_records (raw_status # raw_path # rest) =
     (case (decode_ascii raw_status, decode raw_path) of
        (Some status, Some path) \<Rightarrow>
          bind_res (safe_relative_path path) (\<lambda>relative.
            bind_res (range_records rest) (\<lambda>more.
              Inr (if is_excluded relative then more
                   else \<lparr>gc_path = as_posix relative, gc_status = status,
                         gc_content_hash = None\<rparr> # more)))
      | _ \<Rightarrow> Inl (invalid_object ''Git diff is invalid''))"

definition range_changes ::
    "git_runner \<Rightarrow> string \<Rightarrow> string \<Rightarrow> string \<Rightarrow> git_change list res" where
  "range_changes runner path base head =
     bind_res (run_git runner path
       [''diff'', ''--no-ext-diff'', ''--name-status'', ''-z'', ''--no-renames'', base, head]) (\<lambda>raw.
       bind_res (range_records (filter (\<lambda>p. p \<noteq> []) (split_on 0 raw))) (\<lambda>changes.
         Inr (sort_changes changes)))"

definition range_selection ::
    "git_runner \<Rightarrow> string \<Rightarrow> string \<Rightarrow> string \<Rightarrow> git_selection res" where
  "range_selection runner path base_ref head_ref =
     bind_res (resolve_commit runner path base_ref) (\<lambda>base.
     bind_res (resolve_commit runner path head_ref) (\<lambda>head.
     bind_res (run_result runner path [''merge-base'', ''--is-ancestor'', base, head]) (\<lambda>r.
       if gr_returncode r = 1
       then Inl (RepositoryInputError ''GIT_RANGE_NOT_LINEAR''
                  ''Range base is not an ancestor of head'')
       else if gr_returncode r \<noteq> 0
       then Inl (invalid_object ''Git range could not be verified'')
       else bind_res (tree_entries runner path head) (\<lambda>entries.
            bind_res (range_changes runner path base head) (\<lambda>changes.
              Inr \<lparr>gs_diff_mode = RANGE, gs_base_commit = Some base, gs_head_commit = head,
                   gs_dirty_diff_hash = None, gs_files = map fst entries,
                   gs_changes = changes\<rparr>)))))"

definition git_select ::
    "git_runner \<Rightarrow> string \<Rightarrow> int \<Rightarrow> (posix_path \<Rightarrow> hash_observation) \<Rightarrow> diff_mode \<Rightarrow>
     string option \<Rightarrow> string option \<Rightarrow> git_selection res" where
  "git_select runner path max_file_bytes observe mode base_ref head_ref =
     (case mode of
        WORKING_TREE \<Rightarrow>
          if base_ref \<noteq> None \<or> head_ref \<noteq> None
          then Inl (invalid_selector ''Working-tree selection does not accept refs'')
          else working_tree runner path max_file_bytes observe
      | RANGE \<Rightarrow>
          (case (base_ref, head_ref) of
             (Some base, Some head) \<Rightarrow>
               if base = [] \<or> head = []
               then Inl (invalid_selector ''Range selection requires two refs'')
               else range_selection runner path base head
           | _ \<Rightarrow> Inl (invalid_selector ''Range selection requires two refs'')))"

end
