(* ===== verification/Snapshot.thy ===== *)
theory Snapshot
  imports GitRepository RevisionGraph
begin

text \<open>
  \<open>repository/snapshot.py\<close>: content-addressed snapshots.  What the service sees of a live
  repository is a \<open>repo_view\<close>, one for each moment it looks: the first selection, the copy,
  and the second selection.  The artifact directory is a map from content hash to artifact.
\<close>

section \<open>Artifacts\<close>

text \<open>
  An artifact with what \<open>lstat\<close> says of its directory, its manifest and its files.
\<close>

record stored_artifact = snapshot_artifact +
  sa_is_dir :: bool
  sa_manifest_stat :: "file_stat option"
  sa_stats :: "string \<Rightarrow> file_stat option"

record snapshot_limits =
  sl_max_files :: int
  sl_max_file_bytes :: int
  sl_max_total_bytes :: int

definition snapshot_limit :: exn where
  "snapshot_limit = RepositoryInputError ''SNAPSHOT_LIMIT_EXCEEDED'' ''Snapshot budget exceeded''"

definition artifact_check_failed :: exn where
  "artifact_check_failed = integrity_failed ''Snapshot artifact integrity check failed''"

section \<open>The manifest\<close>

definition manifest_file_json :: "manifest_file \<Rightarrow> json" where
  "manifest_file_json f =
     JObj [(''path'', JStr (mf_path f)), (''size'', JInt (mf_size f)), (''mode'', JStr (mf_mode f)),
           (''sha256'', JStr (mf_sha256 f))]"

definition canonical_manifest :: "manifest_file list \<Rightarrow> bytes" where
  "canonical_manifest files =
     canonical_json_ascii
       (JObj [(''schema_version'', JStr ''1.0''), (''files'', JList (map manifest_file_json files))])"

text \<open>The loop of \<open>_verify_artifact\<close> over the listed files.\<close>

fun verify_files :: "stored_artifact \<Rightarrow> manifest_file list \<Rightarrow> unit res" where
  "verify_files artifact [] = Inr ()"
| "verify_files artifact (item # rest) =
     bind_res (safe_relative_path (mf_path item)) (\<lambda>relative.
     bind_res (validate_regular_file (sa_stats artifact (as_posix relative))) (\<lambda>inspected.
       if st_size inspected \<noteq> mf_size item then Inl artifact_check_failed
       else (case sa_tree artifact (as_posix relative) of
               None \<Rightarrow> Inl artifact_check_failed
             | Some data \<Rightarrow>
                 if hexdigest data \<noteq> mf_sha256 item then Inl artifact_check_failed
                 else verify_files artifact rest)))"

text \<open>\<open>manifest_parse\<close> is \<open>SnapshotManifestV1.model_validate_json\<close>.\<close>

definition verify_artifact ::
    "(bytes \<Rightarrow> manifest_file list option) \<Rightarrow> stored_artifact \<Rightarrow> string \<Rightarrow> manifest_file list res" where
  "verify_artifact manifest_parse artifact expected_hash =
     (if \<not> sa_is_dir artifact then Inl artifact_check_failed
      else bind_res (validate_regular_file (sa_manifest_stat artifact)) (\<lambda>_.
        case sa_manifest artifact of
          None \<Rightarrow> Inl artifact_check_failed
        | Some canonical \<Rightarrow>
            if hexdigest canonical \<noteq> expected_hash then Inl artifact_check_failed
            else (case manifest_parse canonical of
                    None \<Rightarrow> Inl artifact_check_failed
                  | Some files \<Rightarrow>
                      if canonical \<noteq> canonical_manifest files then Inl artifact_check_failed
                      else bind_res (verify_files artifact files) (\<lambda>_. Inr files))))"

section \<open>Reading the repository\<close>

text \<open>
  One pass over a worktree file: \<open>lstat\<close>, the \<open>fstat\<close> of the opened file (\<open>None\<close> when the open
  fails), the chunks read, and the last \<open>fstat\<close>.
\<close>

record file_observation =
  fo_lstat :: "file_stat option"
  fo_opened :: "file_stat option"
  fo_chunks :: "bytes list"
  fo_completed :: file_stat

definition same_file :: "file_stat \<Rightarrow> file_stat \<Rightarrow> bool" where
  "same_file a b \<longleftrightarrow> st_dev a = st_dev b \<and> st_ino a = st_ino b"

definition read_worktree_file :: "int \<Rightarrow> file_observation \<Rightarrow> (bytes \<times> string) res" where
  "read_worktree_file max_file_bytes seen =
     bind_res (validate_regular_file (fo_lstat seen)) (\<lambda>inspected.
       if max_file_bytes < st_size inspected then Inl snapshot_limit
       else (case fo_opened seen of
               None \<Rightarrow> Inl changed_during_snapshot
             | Some handle \<Rightarrow>
                 bind_res (validate_regular_file (Some handle)) (\<lambda>opened.
                   if \<not> same_file opened inspected then Inl changed_during_snapshot
                   else bind_res (read_chunks snapshot_limit max_file_bytes 0 (fo_chunks seen))
                     (\<lambda>data.
                       let completed = fo_completed seen
                       in if \<not> (same_file completed inspected \<and>
                                st_size completed = st_size inspected \<and>
                                st_mtime_ns completed = st_mtime_ns inspected)
                          then Inl changed_during_snapshot
                          else Inr (data, if st_exec completed then ''100755'' else ''100644'')))))"

record repo_view =
  rv_git :: git_runner
  rv_hashes :: "posix_path \<Rightarrow> hash_observation"
  rv_files :: "posix_path \<Rightarrow> file_observation"

text \<open>
  The body of the copy loop: the bytes and the mode of one selected file, from the object store
  in RANGE mode and from the worktree otherwise.
\<close>

definition selected_file ::
    "snapshot_limits \<Rightarrow> string \<Rightarrow> repo_view \<Rightarrow> diff_mode \<Rightarrow> (string \<rightharpoonup> string \<times> string) \<Rightarrow>
     string \<Rightarrow> posix_path \<Rightarrow> (bytes \<times> string) res" where
  "selected_file limits path view mode range_objects path_text relative =
     (if mode = RANGE
      then (case range_objects path_text of
              None \<Rightarrow> Inl (invalid_object ''Git tree changed during snapshot'')
            | Some (object_id, file_mode) \<Rightarrow>
                bind_res (read_blob (rv_git view) path object_id (sl_max_file_bytes limits))
                  (\<lambda>data. Inr (data, file_mode)))
      else read_worktree_file (sl_max_file_bytes limits) (rv_files view relative))"

text \<open>The accumulator: the tree written so far, the manifest entries, the bytes copied.\<close>

fun copy_files ::
    "snapshot_limits \<Rightarrow> string \<Rightarrow> repo_view \<Rightarrow> diff_mode \<Rightarrow> (string \<rightharpoonup> string \<times> string) \<Rightarrow>
     string list \<Rightarrow> (string \<rightharpoonup> bytes) \<times> manifest_file list \<times> int \<Rightarrow>
     ((string \<rightharpoonup> bytes) \<times> manifest_file list \<times> int) res" where
  "copy_files limits path view mode range_objects [] acc = Inr acc"
| "copy_files limits path view mode range_objects (path_text # rest) (tree, manifest, copied) =
     bind_res (safe_relative_path path_text) (\<lambda>relative.
     bind_res (selected_file limits path view mode range_objects path_text relative)
       (\<lambda>(data, file_mode).
         let copied' = copied + int (length data)
         in if sl_max_total_bytes limits < copied' then Inl snapshot_limit
            else copy_files limits path view mode range_objects rest
                   (tree(as_posix relative \<mapsto> data),
                    manifest @ [\<lparr>mf_path = as_posix relative, mf_size = int (length data),
                                 mf_mode = file_mode, mf_sha256 = hexdigest data\<rparr>],
                    copied')))"

definition copy_selection ::
    "snapshot_limits \<Rightarrow> string \<Rightarrow> repo_view \<Rightarrow> git_selection \<Rightarrow>
     ((string \<rightharpoonup> bytes) \<times> manifest_file list) res" where
  "copy_selection limits path view selection =
     (if sl_max_files limits < int (length (gs_files selection)) then Inl snapshot_limit
      else bind_res (if gs_diff_mode selection = RANGE
                     then bind_res (tree_entries (rv_git view) path (gs_head_commit selection))
                            (\<lambda>entries. Inr (map_of (rev entries)))
                     else Inr Map.empty) (\<lambda>range_objects.
        bind_res (copy_files limits path view (gs_diff_mode selection) range_objects
                    (gs_files selection) (Map.empty, [], 0)) (\<lambda>(tree, manifest, copied).
          Inr (tree, sort_key mf_path manifest))))"

section \<open>Creating a snapshot\<close>

text \<open>The fields of a fresh file that no check reads are 0.\<close>

definition written_stat :: "bytes \<Rightarrow> file_stat" where
  "written_stat data =
     \<lparr>st_kind = RegularFile, st_nlink = 1, st_dev = 0, st_ino = 0, st_size = int (length data),
      st_mtime_ns = 0, st_exec = False\<rparr>"

definition temporary_artifact :: "(string \<rightharpoonup> bytes) \<Rightarrow> bytes \<Rightarrow> stored_artifact" where
  "temporary_artifact tree canonical =
     \<lparr>sa_manifest = Some canonical, sa_tree = tree, sa_is_dir = True,
      sa_manifest_stat = Some (written_stat canonical),
      sa_stats = (\<lambda>path. map_option written_stat (tree path))\<rparr>"

text \<open>
  How \<open>temporary.rename(target)\<close> ends when the target did not exist: it succeeds, or it raises
  \<open>OSError\<close> and the target is still missing or was made by somebody else in between.
\<close>

datatype rename_outcome = Renamed | RenameFailed | RenameRaced stored_artifact

type_synonym artifact_store = "string \<rightharpoonup> stored_artifact"

definition publish_artifact ::
    "(bytes \<Rightarrow> manifest_file list option) \<Rightarrow> rename_outcome \<Rightarrow> string \<Rightarrow> stored_artifact \<Rightarrow>
     artifact_store \<Rightarrow> manifest_file list res \<times> artifact_store" where
  "publish_artifact manifest_parse outcome content_hash temporary store =
     (case verify_artifact manifest_parse temporary content_hash of
        Inl e \<Rightarrow> (Inl e, store)
      | Inr files \<Rightarrow>
          (case store content_hash of
             Some existing \<Rightarrow> (verify_artifact manifest_parse existing content_hash, store)
           | None \<Rightarrow>
               (case outcome of
                  Renamed \<Rightarrow> (Inr files, store(content_hash \<mapsto> temporary))
                | RenameFailed \<Rightarrow> (Inl (OSError ''rename''), store)
                | RenameRaced other \<Rightarrow>
                    (verify_artifact manifest_parse other content_hash,
                     store(content_hash \<mapsto> other)))))"

text \<open>From the selection to the copied tree and the sorted manifest entries.\<close>

definition prepare_snapshot ::
    "snapshot_limits \<Rightarrow> string \<Rightarrow> repo_view \<Rightarrow> repo_view \<Rightarrow> repo_view \<Rightarrow> unit res \<Rightarrow>
     snapshot_request \<Rightarrow> (git_selection \<times> (string \<rightharpoonup> bytes) \<times> manifest_file list) res" where
  "prepare_snapshot limits path view1 view2 view3 checkpoint request =
     (let select = (\<lambda>view mode base head.
            git_select (rv_git view) path (sl_max_file_bytes limits) (rv_hashes view) mode base head)
      in bind_res (select view1 (sr_diff_mode request) (sr_base_ref request) (sr_head_ref request))
           (\<lambda>selection.
         bind_res checkpoint (\<lambda>_.
           if gs_files selection = []
           then Inl (RepositoryInputError ''REPOSITORY_FILE_UNSUPPORTED''
                      ''Repository has no snapshot files'')
           else bind_res (copy_selection limits path view2 selection) (\<lambda>(tree, manifest).
             if gs_diff_mode selection = WORKING_TREE
             then bind_res (select view3 WORKING_TREE None None) (\<lambda>verified.
               if verified \<noteq> selection then Inl changed_during_snapshot
               else Inr (selection, tree, manifest))
             else Inr (selection, tree, manifest)))))"

definition snapshot_create ::
    "(bytes \<Rightarrow> manifest_file list option) \<Rightarrow> snapshot_limits \<Rightarrow> string \<Rightarrow> fs_entry option \<Rightarrow>
     repo_view \<Rightarrow> repo_view \<Rightarrow> repo_view \<Rightarrow> unit res \<Rightarrow> rename_outcome \<Rightarrow> uuid \<Rightarrow> time \<Rightarrow>
     snapshot_request \<Rightarrow> artifact_store \<Rightarrow> repo_snapshot res \<times> artifact_store" where
  "snapshot_create manifest_parse limits root_path root view1 view2 view3 checkpoint outcome
     snapshot_id now request store =
     (case resolve_repository root (sr_repository_path request) of
        Inl e \<Rightarrow> (Inl e, store)
      | Inr relative \<Rightarrow>
          (let path = root_path @ ''/'' @ as_posix relative
           in case prepare_snapshot limits path view1 view2 view3 checkpoint request of
                Inl e \<Rightarrow> (Inl e, store)
              | Inr (selection, tree, manifest) \<Rightarrow>
                  (let canonical = canonical_manifest manifest;
                       content_hash = hexdigest canonical;
                       (published, store') = publish_artifact manifest_parse outcome content_hash
                                               (temporary_artifact tree canonical) store
                   in (bind_res published (\<lambda>_.
                         Inr \<lparr>sn_id = snapshot_id, sn_run_id = sr_run_id request,
                              sn_source_path_hash = hexdigest (encode path),
                              sn_diff_mode = gs_diff_mode selection,
                              sn_base_commit = gs_base_commit selection,
                              sn_head_commit = gs_head_commit selection,
                              sn_dirty_diff_hash = gs_dirty_diff_hash selection,
                              sn_content_hash = content_hash,
                              sn_artifact_uri = ''artifact://snapshots/'' @ content_hash,
                              sn_file_count = int (length manifest),
                              sn_total_bytes = sum_list (map mf_size manifest),
                              sn_changed_paths = gs_changes selection,
                              sn_created_at = now\<rparr>), store'))))"

section \<open>Reading a snapshot\<close>

record snapshot_text =
  tx_snapshot_id :: uuid
  tx_relative_path :: string
  tx_text :: string
  tx_content_hash :: string
  tx_evidence_id :: string

definition text_evidence :: "string \<Rightarrow> string \<Rightarrow> string \<Rightarrow> string" where
  "text_evidence snapshot_hash path content_hash =
     ''evidence:'' @ hexdigest (encode
       (snapshot_hash @ '':'' @ path @ '':'' @ content_hash))"

definition read_text ::
    "(bytes \<Rightarrow> manifest_file list option) \<Rightarrow> repo_snapshot option \<Rightarrow> stored_artifact \<Rightarrow> uuid \<Rightarrow>
     string \<Rightarrow> int \<Rightarrow> snapshot_text res" where
  "read_text manifest_parse found artifact snapshot_id relative_path max_bytes =
     (case found of
        None \<Rightarrow> Inl (integrity_failed ''Snapshot was not found'')
      | Some snapshot \<Rightarrow>
          bind_res (safe_relative_path relative_path) (\<lambda>relative.
          let invalid_manifest = Inl (integrity_failed ''Snapshot manifest is invalid'');
              budget = Inl (RepositoryInputError ''SNAPSHOT_LIMIT_EXCEEDED''
                             ''Snapshot read budget exceeded'')
          in case sa_manifest artifact of
               None \<Rightarrow> invalid_manifest
             | Some manifest_data \<Rightarrow>
                 if hexdigest manifest_data \<noteq> sn_content_hash snapshot then invalid_manifest
                 else (case manifest_parse manifest_data of
                   None \<Rightarrow> invalid_manifest
                 | Some files \<Rightarrow>
                   (case find (\<lambda>f. mf_path f = as_posix relative) files of
                      None \<Rightarrow> budget
                    | Some item \<Rightarrow>
                        if max_bytes < mf_size item then budget
                        else bind_res (validate_regular_file (sa_stats artifact (as_posix relative)))
                          (\<lambda>_. case sa_tree artifact (as_posix relative) of
                             None \<Rightarrow> Inl (OSError relative_path)
                           | Some data \<Rightarrow>
                               if hexdigest data \<noteq> mf_sha256 item
                               then Inl (integrity_failed ''Snapshot content is invalid'')
                               else (case decode data of
                                 None \<Rightarrow> Inl (RepositoryInputError ''REPOSITORY_FILE_UNSUPPORTED''
                                           ''Snapshot file is not UTF-8 text'')
                               | Some content \<Rightarrow>
                                   Inr \<lparr>tx_snapshot_id = snapshot_id, tx_relative_path = mf_path item,
                                        tx_text = content, tx_content_hash = mf_sha256 item,
                                        tx_evidence_id = text_evidence (sn_content_hash snapshot)
                                          (mf_path item) (mf_sha256 item)\<rparr>))))))"

end
