(* ===== verification/SnapshotFacts.thy ===== *)
theory SnapshotFacts
  imports Snapshot
begin

text \<open>
  What selection and snapshot creation establish: which commands \<open>git\<close> sees, which paths are
  selected, that the copy stays within the budgets, and that a stored artifact verifies.
\<close>

section \<open>The commands of a selection\<close>

text \<open>
  The arguments a selection may pass: a caller's ref only behind \<open>--end-of-options\<close>, every other
  variable argument a 40-digit commit id.
\<close>

inductive permitted_args :: "string list \<Rightarrow> bool" where
  permitted_rev_parse: "ref \<noteq> [] \<Longrightarrow> nul \<notin> set ref \<Longrightarrow> \<not> starts_with ref ''-'' \<Longrightarrow>
    permitted_args [''rev-parse'', ''--verify'', ''--end-of-options'', ref @ ''^{commit}'']"
| permitted_ls_files:
    "permitted_args [''ls-files'', ''-z'', ''--cached'', ''--others'', ''--exclude-standard'']"
| permitted_status:
    "permitted_args [''status'', ''--porcelain=v1'', ''-z'', ''--untracked-files=all'']"
| permitted_merge_base: "is_commit_id a \<Longrightarrow> is_commit_id b \<Longrightarrow>
    permitted_args [''merge-base'', ''--is-ancestor'', a, b]"
| permitted_ls_tree: "is_commit_id a \<Longrightarrow> permitted_args [''ls-tree'', ''-rz'', ''--full-tree'', a]"
| permitted_diff: "is_commit_id a \<Longrightarrow> is_commit_id b \<Longrightarrow> permitted_args
    [''diff'', ''--no-ext-diff'', ''--name-status'', ''-z'', ''--no-renames'', a, b]"

definition same_permitted :: "string \<Rightarrow> git_runner \<Rightarrow> git_runner \<Rightarrow> bool" where
  "same_permitted path runner runner' \<longleftrightarrow>
     (\<forall>args. permitted_args args \<longrightarrow>
        runner (git_command path args) git_environment =
        runner' (git_command path args) git_environment)"

lemma run_same:
  assumes "same_permitted path runner runner'" and "permitted_args args"
  shows "run_result runner path args = run_result runner' path args"
    and "run_git runner path args = run_git runner' path args"
proof -
  have "runner (git_command path args) git_environment = runner' (git_command path args) git_environment"
    using assms unfolding same_permitted_def by blast
  then show "run_result runner path args = run_result runner' path args"
    and "run_git runner path args = run_git runner' path args"
    by (simp_all add: run_git_def run_result_def)
qed

lemma bind_res_cong_Inr:
  "m = m' \<Longrightarrow> (\<And>x. m' = Inr x \<Longrightarrow> f x = g x) \<Longrightarrow> bind_res m f = bind_res m' g"
  by (cases m') auto

lemma resolve_commit_Inr: "resolve_commit runner path ref = Inr c \<Longrightarrow> is_commit_id c"
  by (auto simp: resolve_commit_def bind_res_Inr Let_def split: if_splits option.splits)

lemma resolve_commit_same:
  assumes "same_permitted path runner runner'"
  shows "resolve_commit runner path ref = resolve_commit runner' path ref"
proof (cases "ref = [] \<or> nul \<in> set ref \<or> starts_with ref ''-''")
  case False
  then have "permitted_args [''rev-parse'', ''--verify'', ''--end-of-options'', ref @ ''^{commit}'']"
    by (intro permitted_rev_parse) simp_all
  from run_same(1) [OF assms this] show ?thesis by (simp add: resolve_commit_def)
qed (simp add: resolve_commit_def)

lemma working_tree_same:
  assumes "same_permitted path runner runner'"
  shows "working_tree runner path n obs = working_tree runner' path n obs"
proof -
  note same = permitted_ls_files [THEN run_same(2) [OF assms]]
    permitted_status [THEN run_same(2) [OF assms]] resolve_commit_same [OF assms]
  show ?thesis by (simp only: working_tree_def working_changes_def same)
qed

lemma range_selection_same:
  assumes "same_permitted path runner runner'"
  shows "range_selection runner path b h = range_selection runner' path b h"
proof -
  have "tree_entries runner path a = tree_entries runner' path a" if "is_commit_id a" for a
    by (simp only: tree_entries_def permitted_ls_tree [OF that, THEN run_same(2) [OF assms]])
  moreover have "range_changes runner path a b = range_changes runner' path a b"
    if "is_commit_id a" "is_commit_id b" for a b
    by (simp only: range_changes_def permitted_diff [OF that, THEN run_same(2) [OF assms]])
  moreover note permitted_merge_base [THEN run_same(1) [OF assms]]
  ultimately show ?thesis
    unfolding range_selection_def
    by (intro bind_res_cong_Inr resolve_commit_same [OF assms]) (auto dest!: resolve_commit_Inr)
qed

section \<open>The selected paths\<close>

definition accepted_path :: "string \<Rightarrow> bool" where
  "accepted_path p \<longleftrightarrow> (\<exists>parts. safe_relative_path p = Inr parts \<and> \<not> is_excluded parts)"

lemma safe_posix: "safe_relative_path p = Inr parts \<Longrightarrow> as_posix parts = p"
  by (rule safe_relative_path_Inr(1))

lemma decode_path_accepted: "decode_path item = Inr (Some p) \<Longrightarrow> accepted_path p"
  by (auto simp: decode_path_def bind_res_Inr accepted_path_def safe_posix
      split: option.splits if_splits)

lemma decode_paths_accepted: "decode_paths raw = Inr ps \<Longrightarrow> p \<in> set ps \<Longrightarrow> accepted_path p"
  by (auto simp: decode_paths_def bind_res_Inr collect_Inr_mem dest: decode_path_accepted)

lemma tree_record_accepted: "tree_record r = Inr (Some (p, i, m)) \<Longrightarrow> accepted_path p"
  by (auto simp: tree_record_def Let_def bind_res_Inr accepted_path_def safe_posix
      split: option.splits if_splits prod.splits)

lemma tree_entries_accepted:
  "tree_entries runner path commit = Inr es \<Longrightarrow> (p, i, m) \<in> set es \<Longrightarrow> accepted_path p"
  by (auto simp: tree_entries_def bind_res_Inr collect_Inr_mem dest: tree_record_accepted)

lemma working_records_accepted:
  "working_records n obs files rs = Inr cs \<Longrightarrow> c \<in> set cs \<Longrightarrow> accepted_path (gc_path c)"
proof (induction n obs files rs arbitrary: cs rule: working_records.induct)
  case (2 n obs files r rest)
  show ?case
  proof (cases "r = []")
    case True
    with 2 show ?thesis by simp
  next
    case False
    obtain status path where dec: "decode_ascii (take 2 r) = Some status"
      "decode (drop 3 r) = Some path"
      using 2(4) False by (auto split: option.splits)
    define rest' where
      "rest' = (if CHR ''R'' \<in> set status \<or> CHR ''C'' \<in> set status then drop 1 rest else rest)"
    obtain parts where parts: "safe_relative_path path = Inr parts"
      using 2(4) False dec by (auto simp: Let_def bind_res_Inr)
    note IH = 2(2) [OF False refl dec rest'_def] 2(3) [OF False refl dec rest'_def]
    show ?thesis
    proof (cases "is_excluded parts")
      case True
      then have "working_records n obs files rest' = Inr cs"
        using 2(4) False dec parts by (simp add: rest'_def Let_def)
      with IH(1) [OF True] 2(5) show ?thesis by blast
    next
      case kept: False
      then obtain h more where h: "working_records n obs files rest' = Inr more"
        "cs = \<lparr>gc_path = as_posix parts, gc_status = strip status, gc_content_hash = h\<rparr> # more"
        using 2(4) False dec parts by (auto simp: rest'_def Let_def bind_res_Inr)
      show ?thesis
        using IH(2) [OF kept h(1)] 2(5) h(2) parts kept
        by (auto simp: accepted_path_def safe_posix)
    qed
  qed
qed simp

lemma range_records_accepted:
  "range_records rs = Inr cs \<Longrightarrow> c \<in> set cs \<Longrightarrow> accepted_path (gc_path c)"
  by (induction rs arbitrary: cs rule: range_records.induct)
     (fastforce simp: bind_res_Inr accepted_path_def safe_posix split: option.splits if_splits)+

lemma working_tree_accepted:
  assumes "working_tree runner path n obs = Inr sel"
  shows "(\<forall>p \<in> set (gs_files sel). accepted_path p) \<and>
         (\<forall>c \<in> set (gs_changes sel). accepted_path (gc_path c)) \<and> distinct (gs_files sel) \<and>
         gs_diff_mode sel = WORKING_TREE"
proof -
  from assms obtain raw files cs rs where "decode_paths raw = Inr files" "gs_files sel = files"
    "gs_changes sel = sort_changes cs" "gs_diff_mode sel = WORKING_TREE"
    "working_records n obs files rs = Inr cs"
    by (auto simp: working_tree_def working_changes_def bind_res_Inr)
  moreover from this(1) have "distinct files" by (auto simp: decode_paths_def bind_res_Inr)
  ultimately show ?thesis
    using decode_paths_accepted working_records_accepted by (auto simp: sort_changes_def)
qed

lemma range_selection_accepted:
  assumes "range_selection runner path b h = Inr sel"
  shows "(\<forall>p \<in> set (gs_files sel). accepted_path p) \<and>
         (\<forall>c \<in> set (gs_changes sel). accepted_path (gc_path c)) \<and> gs_diff_mode sel = RANGE"
proof -
  from assms obtain es cs head rs where "tree_entries runner path head = Inr es"
    "gs_files sel = map fst es" "gs_changes sel = sort_changes cs" "gs_diff_mode sel = RANGE"
    "range_records rs = Inr cs"
    by (auto simp: range_selection_def range_changes_def bind_res_Inr split: if_splits)
  then show ?thesis
    using tree_entries_accepted range_records_accepted by (fastforce simp: sort_changes_def)
qed

lemma git_select_accepted:
  assumes "git_select runner path n obs mode b h = Inr sel"
  shows "(\<forall>p \<in> set (gs_files sel). accepted_path p) \<and>
         (\<forall>c \<in> set (gs_changes sel). accepted_path (gc_path c)) \<and> gs_diff_mode sel = mode"
  using assms working_tree_accepted range_selection_accepted
  by (auto simp: git_select_def split: diff_mode.splits option.splits if_splits)

section \<open>The copy\<close>

definition manifest_entry :: "string \<Rightarrow> bytes \<Rightarrow> string \<Rightarrow> manifest_file" where
  "manifest_entry path data file_mode =
     \<lparr>mf_path = path, mf_size = int (length data), mf_mode = file_mode,
      mf_sha256 = hexdigest data\<rparr>"

lemma read_worktree_file_bound:
  "read_worktree_file limit seen = Inr (data, file_mode) \<Longrightarrow> 0 \<le> limit \<Longrightarrow> int (length data) \<le> limit"
  using read_chunks_bound [of snapshot_limit limit 0 "fo_chunks seen" data]
  by (auto simp: read_worktree_file_def bind_res_Inr Let_def split: if_splits option.splits)

lemma read_blob_bound:
  "read_blob runner path object_id limit = Inr data \<Longrightarrow> int (length data) \<le> limit"
  by (auto simp: read_blob_def bind_res_Inr split: if_splits option.splits)

lemma selected_file_bound:
  "selected_file limits path view mode objs p rel = Inr (data, file_mode) \<Longrightarrow>
   0 \<le> sl_max_file_bytes limits \<Longrightarrow> int (length data) \<le> sl_max_file_bytes limits"
  by (auto simp: selected_file_def bind_res_Inr split: if_splits option.splits
      dest: read_blob_bound read_worktree_file_bound)

text \<open>
  The invariant of the copy loop: an entry says what the tree holds at its path, and that is what
  the repository gave for it.
\<close>

definition copied_ok ::
    "(string \<Rightarrow> (bytes \<times> string) res) \<Rightarrow> (string \<rightharpoonup> bytes) \<times> manifest_file list \<times> int \<Rightarrow> bool" where
  "copied_ok source acc \<longleftrightarrow>
     (case acc of (tree, manifest, copied) \<Rightarrow>
        copied = sum_list (map mf_size manifest) \<and>
        (\<forall>f \<in> set manifest. \<exists>data file_mode. source (mf_path f) = Inr (data, file_mode) \<and>
           tree (mf_path f) = Some data \<and> f = manifest_entry (mf_path f) data file_mode))"

lemma copied_ok_mem:
  "copied_ok source (tree, manifest, copied) \<Longrightarrow> f \<in> set manifest \<Longrightarrow>
   \<exists>data file_mode. source (mf_path f) = Inr (data, file_mode) \<and> tree (mf_path f) = Some data"
  unfolding copied_ok_def split
  by (elim conjE, drule (1) bspec, elim exE conjE, intro exI conjI, assumption+)

lemma copy_files_ok:
  assumes "copy_files limits path view mode objs ps acc = Inr (tree, manifest, copied)"
    and "source = (\<lambda>p. bind_res (safe_relative_path p) (selected_file limits path view mode objs p))"
    and "copied_ok source acc"
  shows "copied_ok source (tree, manifest, copied) \<and>
         map mf_path manifest = map mf_path (fst (snd acc)) @ ps \<and>
         (snd (snd acc) \<le> sl_max_total_bytes limits \<longrightarrow> copied \<le> sl_max_total_bytes limits)"
  using assms
proof (induction limits path view mode objs ps acc rule: copy_files.induct)
  case (2 limits path view mode objs p ps t m c)
  from 2(2) obtain rel data file_mode where
    rel: "safe_relative_path p = Inr rel"
    and sel: "selected_file limits path view mode objs p rel = Inr (data, file_mode)"
    and le: "c + int (length data) \<le> sl_max_total_bytes limits"
    and rest: "copy_files limits path view mode objs ps
        (t(p \<mapsto> data), m @ [manifest_entry p data file_mode], c + int (length data)) =
        Inr (tree, manifest, copied)"
    by (auto simp: bind_res_Inr Let_def safe_posix manifest_entry_def split: if_splits)
  have src: "source p = Inr (data, file_mode)" by (simp add: 2(3) rel sel)
  have ok: "copied_ok source
      (t(p \<mapsto> data), m @ [manifest_entry p data file_mode], c + int (length data))"
    using 2(4) src by (fastforce simp: copied_ok_def manifest_entry_def)
  have "\<lbrakk>copy_files limits path view mode objs ps
        (t(p \<mapsto> data), m @ [manifest_entry p data file_mode], c + int (length data)) =
        Inr (tree, manifest, copied)\<rbrakk> \<Longrightarrow> copied_ok source (tree, manifest, copied) \<and>
      map mf_path manifest = map mf_path (m @ [manifest_entry p data file_mode]) @ ps \<and>
      (c + int (length data) \<le> sl_max_total_bytes limits \<longrightarrow> copied \<le> sl_max_total_bytes limits)"
    using 2(1) [OF refl, of data rel file_mode] ok 2(3) le
    by (simp add: safe_posix [OF rel] manifest_entry_def)
  with rest le show ?case by (simp add: manifest_entry_def)
qed simp

lemma copy_selection_ok:
  assumes "copy_selection limits path view sel = Inr (tree, manifest)"
  shows "\<exists>source. copied_ok source (tree, manifest, sum_list (map mf_size manifest)) \<and>
           (\<forall>p data file_mode. source p = Inr (data, file_mode) \<longrightarrow> 0 \<le> sl_max_file_bytes limits \<longrightarrow>
              int (length data) \<le> sl_max_file_bytes limits) \<and>
           (\<forall>p data file_mode. source p = Inr (data, file_mode) \<longrightarrow> gs_diff_mode sel = WORKING_TREE \<longrightarrow>
              (\<exists>parts. safe_relative_path p = Inr parts \<and> read_worktree_file
                 (sl_max_file_bytes limits) (rv_files view parts) = Inr (data, file_mode))) \<and>
           mset (map mf_path manifest) = mset (gs_files sel) \<and>
           int (length manifest) \<le> sl_max_files limits \<and>
           (0 \<le> sl_max_total_bytes limits \<longrightarrow>
              sum_list (map mf_size manifest) \<le> sl_max_total_bytes limits)"
proof -
  from assms obtain objs m c where n: "int (length (gs_files sel)) \<le> sl_max_files limits"
    and copy: "copy_files limits path view (gs_diff_mode sel) objs (gs_files sel)
        (Map.empty, [], 0) = Inr (tree, m, c)"
    and m: "manifest = sort_key mf_path m"
    by (auto simp: copy_selection_def bind_res_Inr split: if_splits)
  define source where "source = (\<lambda>p. bind_res (safe_relative_path p)
      (selected_file limits path view (gs_diff_mode sel) objs p))"
  have ok: "copied_ok source (tree, m, c) \<and> map mf_path m = gs_files sel \<and>
      (0 \<le> sl_max_total_bytes limits \<longrightarrow> c \<le> sl_max_total_bytes limits)"
  proof -
    have "copied_ok source (Map.empty, [], 0)" by (simp add: copied_ok_def)
    from copy_files_ok [OF copy source_def this] show ?thesis by simp
  qed
  have sum: "sum_list (map mf_size manifest) = sum_list (map mf_size m)"
    by (simp add: m flip: sum_mset_sum_list)
  have "copied_ok source (tree, manifest, sum_list (map mf_size manifest))"
    using ok by (simp add: copied_ok_def m)
  moreover have "\<forall>p data file_mode. source p = Inr (data, file_mode) \<longrightarrow>
      0 \<le> sl_max_file_bytes limits \<longrightarrow> int (length data) \<le> sl_max_file_bytes limits"
    by (auto simp: source_def bind_res_Inr dest: selected_file_bound)
  moreover have "\<forall>p data file_mode. source p = Inr (data, file_mode) \<longrightarrow>
      gs_diff_mode sel = WORKING_TREE \<longrightarrow>
      (\<exists>parts. safe_relative_path p = Inr parts \<and> read_worktree_file
         (sl_max_file_bytes limits) (rv_files view parts) = Inr (data, file_mode))"
    by (auto simp: source_def bind_res_Inr selected_file_def)
  moreover have "mset (map mf_path manifest) = mset (gs_files sel)"
    unfolding m mset_map mset_sort using ok by (metis mset_map)
  moreover have "length manifest = length (gs_files sel)"
    using ok m by (metis length_map length_sort)
  moreover have "0 \<le> sl_max_total_bytes limits \<longrightarrow>
      sum_list (map mf_size manifest) \<le> sl_max_total_bytes limits"
  proof -
    have "c = sum_list (map mf_size m)" using ok unfolding copied_ok_def split by blast
    moreover have "0 \<le> sl_max_total_bytes limits \<longrightarrow> c \<le> sl_max_total_bytes limits"
      using ok by blast
    ultimately show ?thesis by (simp only: sum)
  qed
  ultimately show ?thesis using n by (intro exI [of _ source]) simp
qed

section \<open>The stored artifact\<close>

lemma verify_artifact_Inr:
  "verify_artifact manifest_parse artifact content_hash = Inr files \<Longrightarrow>
   \<exists>canonical. sa_manifest artifact = Some canonical \<and> hexdigest canonical = content_hash \<and>
     manifest_parse canonical = Some files \<and> canonical = canonical_manifest files"
  by (auto simp: verify_artifact_def bind_res_Inr split: if_splits option.splits)

lemma verify_files_ok:
  assumes "\<forall>f \<in> set files. \<exists>data file_mode. tree (mf_path f) = Some data \<and>
             f = manifest_entry (mf_path f) data file_mode \<and> accepted_path (mf_path f)"
  shows "verify_files (temporary_artifact tree canonical) files = Inr ()"
  using assms
proof (induction files)
  case (Cons f files)
  then obtain data file_mode where "tree (mf_path f) = Some data"
    "f = manifest_entry (mf_path f) data file_mode" "accepted_path (mf_path f)" by auto
  then show ?case using Cons
    by (cases f) (auto simp: temporary_artifact_def written_stat_def validate_regular_file_def
        manifest_entry_def accepted_path_def safe_posix)
qed simp

lemma temporary_artifact_verifies:
  assumes "copied_ok source (tree, files, copied)" and "\<forall>f \<in> set files. accepted_path (mf_path f)"
    and "manifest_parse (canonical_manifest files) = Some files"
  shows "verify_artifact manifest_parse (temporary_artifact tree (canonical_manifest files))
           (hexdigest (canonical_manifest files)) = Inr files"
proof -
  have "verify_files (temporary_artifact tree (canonical_manifest files)) files = Inr ()"
    by (rule verify_files_ok) (use assms(1,2) in \<open>fastforce simp: copied_ok_def\<close>)
  with assms(3) show ?thesis
    by (simp add: verify_artifact_def temporary_artifact_def validate_regular_file_def written_stat_def)
qed

text \<open>What publishing guarantees, whichever way the rename ends.\<close>

lemma publish_artifact_Inr:
  assumes "publish_artifact manifest_parse outcome content_hash temporary store = (Inr files, store')"
  shows "\<exists>artifact. store' content_hash = Some artifact \<and>
           verify_artifact manifest_parse artifact content_hash = Inr files \<and>
           (store content_hash = None \<and> outcome = Renamed \<longrightarrow> artifact = temporary)"
  using assms
  by (auto simp: publish_artifact_def split: sum.splits option.splits rename_outcome.splits)

lemma publish_artifact_store:
  assumes "publish_artifact manifest_parse outcome content_hash temporary store = (r, store')"
  shows "store \<subseteq>\<^sub>m store' \<and> (\<forall>h. h \<noteq> content_hash \<longrightarrow> store' h = store h)"
  using assms
  by (auto simp: publish_artifact_def map_le_def
      split: sum.splits option.splits rename_outcome.splits)

text \<open>From a successful creation to the pieces it is made of.\<close>

lemma prepare_snapshot_Inr:
  assumes "prepare_snapshot limits path v1 v2 v3 checkpoint request = Inr (sel, tree, files)"
  shows "git_select (rv_git v1) path (sl_max_file_bytes limits) (rv_hashes v1)
           (sr_diff_mode request) (sr_base_ref request) (sr_head_ref request) = Inr sel \<and>
         checkpoint = Inr () \<and> gs_files sel \<noteq> [] \<and>
         copy_selection limits path v2 sel = Inr (tree, files) \<and>
         (gs_diff_mode sel = WORKING_TREE \<longrightarrow>
            git_select (rv_git v3) path (sl_max_file_bytes limits) (rv_hashes v3)
              WORKING_TREE None None = Inr sel)"
  using assms by (auto simp: prepare_snapshot_def Let_def bind_res_Inr split: if_splits)

lemma snapshot_create_Inr:
  assumes "snapshot_create manifest_parse limits root_path root v1 v2 v3 checkpoint outcome sid now
      request store = (Inr snap, store')"
  shows "\<exists>rel sel tree files published.
    resolve_repository root (sr_repository_path request) = Inr rel \<and>
    prepare_snapshot limits (root_path @ ''/'' @ as_posix rel) v1 v2 v3 checkpoint request =
      Inr (sel, tree, files) \<and>
    publish_artifact manifest_parse outcome (hexdigest (canonical_manifest files))
      (temporary_artifact tree (canonical_manifest files)) store = (Inr published, store') \<and>
    sn_content_hash snap = hexdigest (canonical_manifest files) \<and>
    sn_file_count snap = int (length files) \<and> sn_total_bytes snap = sum_list (map mf_size files) \<and>
    sn_diff_mode snap = gs_diff_mode sel \<and> sn_changed_paths snap = gs_changes sel \<and>
    sn_head_commit snap = gs_head_commit sel \<and> sn_run_id snap = sr_run_id request"
  using assms
  by (auto simp: snapshot_create_def Let_def bind_res_Inr
      split: sum.splits prod.splits)

lemma snapshot_create_store:
  assumes "snapshot_create manifest_parse limits root_path root v1 v2 v3 checkpoint outcome sid now
      request store = (r, store')"
  shows "store \<subseteq>\<^sub>m store'"
  using assms publish_artifact_store
  by (fastforce simp: snapshot_create_def Let_def split: sum.splits prod.splits)

lemma verify_files_Inr:
  "verify_files artifact files = Inr () \<Longrightarrow> f \<in> set files \<Longrightarrow>
   \<exists>rel st data. safe_relative_path (mf_path f) = Inr rel \<and>
     validate_regular_file (sa_stats artifact (mf_path f)) = Inr st \<and> st_size st = mf_size f \<and>
     sa_tree artifact (mf_path f) = Some data \<and> hexdigest data = mf_sha256 f"
  by (induction files) (auto simp: bind_res_Inr safe_posix split: option.splits if_splits)

lemma verify_artifact_files:
  "verify_artifact manifest_parse artifact content_hash = Inr files \<Longrightarrow>
   verify_files artifact files = Inr ()"
  by (auto simp: verify_artifact_def bind_res_Inr split: if_splits option.splits)

text \<open>What the reader makes of a file that is listed in a verified artifact.\<close>

definition read_outcome ::
    "repo_snapshot \<Rightarrow> uuid \<Rightarrow> manifest_file \<Rightarrow> bytes \<Rightarrow> int \<Rightarrow> snapshot_text res" where
  "read_outcome snap sid f data max_bytes =
     (if max_bytes < mf_size f
      then Inl (RepositoryInputError ''SNAPSHOT_LIMIT_EXCEEDED'' ''Snapshot read budget exceeded'')
      else case decode data of
             None \<Rightarrow> Inl (RepositoryInputError ''REPOSITORY_FILE_UNSUPPORTED''
                       ''Snapshot file is not UTF-8 text'')
           | Some text \<Rightarrow>
               Inr \<lparr>tx_snapshot_id = sid, tx_relative_path = mf_path f, tx_text = text,
                    tx_content_hash = mf_sha256 f,
                    tx_evidence_id = text_evidence (sn_content_hash snap) (mf_path f) (mf_sha256 f)\<rparr>)"

lemma read_text_verified:
  assumes "verify_artifact manifest_parse artifact (sn_content_hash snap) = Inr files"
    and "f \<in> set files"
  shows "\<exists>data. sa_tree artifact (mf_path f) = Some data \<and> hexdigest data = mf_sha256 f \<and>
           (\<forall>max_bytes. read_text manifest_parse (Some snap) artifact sid (mf_path f) max_bytes =
              read_outcome snap sid f data max_bytes)"
proof -
  obtain canonical where c: "sa_manifest artifact = Some canonical"
    "hexdigest canonical = sn_content_hash snap" "manifest_parse canonical = Some files"
    using verify_artifact_Inr [OF assms(1)] by blast
  note vf = verify_files_Inr [OF verify_artifact_files [OF assms(1)]]
  obtain rel st data where v: "safe_relative_path (mf_path f) = Inr rel"
    "validate_regular_file (sa_stats artifact (mf_path f)) = Inr st" "st_size st = mf_size f"
    "sa_tree artifact (mf_path f) = Some data" "hexdigest data = mf_sha256 f"
    using vf [OF assms(2)] by blast
  obtain f0 where f0: "find (\<lambda>g. mf_path g = mf_path f) files = Some f0"
    using assms(2) by (cases "find (\<lambda>g. mf_path g = mf_path f) files") (auto simp: find_None_iff)
  then have m: "f0 \<in> set files" "mf_path f0 = mf_path f" by (auto simp: find_Some_iff)
  from vf [OF m(1)] v m(2) have "mf_size f0 = mf_size f" "mf_sha256 f0 = mf_sha256 f" by auto
  then show ?thesis using c v f0 m(2) safe_posix [OF v(1)]
    by (auto simp: read_text_def read_outcome_def Let_def split: option.split)
qed

end
