(* ===== verification/SnapshotProperties.thy ===== *)
theory SnapshotProperties
  imports SnapshotFacts
begin

text \<open>
  The properties of selection and snapshots: the commands \<open>git\<close> is given, reading back what was
  stored, and the relation of a snapshot to the repository it was taken from.
\<close>

section \<open>A repository with one file\<close>

definition demo_commit :: string where
  "demo_commit = replicate 40 CHR ''0''"

text \<open>A \<open>git\<close> that knows the commands of a working-tree selection.\<close>

definition demo_git :: git_runner where
  "demo_git command environment =
     (let args = drop 13 command
      in if hd args = ''rev-parse''
         then Some \<lparr>gr_returncode = 0, gr_stdout = encode demo_commit\<rparr>
         else if hd args = ''ls-files'' then Some \<lparr>gr_returncode = 0, gr_stdout = encode ''a'' @ [0]\<rparr>
         else if hd args = ''status'' then Some \<lparr>gr_returncode = 0, gr_stdout = []\<rparr>
         else None)"

definition demo_view :: repo_view where
  "demo_view =
     \<lparr>rv_git = demo_git, rv_hashes = (\<lambda>_. HashNotFile),
      rv_files = (\<lambda>_. \<lparr>fo_lstat = Some (written_stat (encode ''x'')),
                       fo_opened = Some (written_stat (encode ''x'')), fo_chunks = [encode ''x''],
                       fo_completed = written_stat (encode ''x'')\<rparr>)\<rparr>"

definition demo_selection :: git_selection where
  "demo_selection =
     \<lparr>gs_diff_mode = WORKING_TREE, gs_base_commit = None, gs_head_commit = demo_commit,
      gs_dirty_diff_hash = Some (hexdigest (canonical_json_ascii (JList []))), gs_files = [''a''],
      gs_changes = []\<rparr>"

lemma demo_git_runs:
  "resolve_commit demo_git path ''HEAD'' = Inr demo_commit"
  "run_git demo_git path [''ls-files'', ''-z'', ''--cached'', ''--others'', ''--exclude-standard''] =
     Inr (encode ''a'' @ [0])"
  "run_git demo_git path [''status'', ''--porcelain=v1'', ''-z'', ''--untracked-files=all''] = Inr []"
proof -
  have out: "decode_ascii (encode demo_commit) = Some demo_commit" "strip demo_commit = demo_commit"
    "is_commit_id demo_commit" "nul \<notin> set ''HEAD''" by code_simp+
  show "resolve_commit demo_git path ''HEAD'' = Inr demo_commit"
    by (simp add: resolve_commit_def run_result_def demo_git_def git_command_def git_prefix_def
        starts_with_def out [simplified])
qed (simp_all add: run_git_def run_result_def demo_git_def git_command_def git_prefix_def)

lemma demo_select: "git_select demo_git path n obs WORKING_TREE None None = Inr demo_selection"
proof -
  have "decode_paths (encode ''a'' @ [0]) = Inr [''a'']" by code_simp
  then show ?thesis
    by (simp add: git_select_def working_tree_def working_changes_def demo_git_runs
        demo_selection_def sort_changes_def)
qed

definition demo_file :: manifest_file where
  "demo_file = manifest_entry ''a'' (encode ''x'') ''100644''"

definition demo_parse :: "bytes \<Rightarrow> manifest_file list option" where
  "demo_parse data = (if data = canonical_manifest [demo_file] then Some [demo_file] else None)"

definition demo_limits :: snapshot_limits where
  "demo_limits = \<lparr>sl_max_files = 10, sl_max_file_bytes = 100, sl_max_total_bytes = 1000\<rparr>"

definition demo_request :: snapshot_request where
  "demo_request = \<lparr>sr_run_id = 1, sr_repository_path = ''app'', sr_diff_mode = WORKING_TREE,
     sr_base_ref = None, sr_head_ref = None\<rparr>"

definition demo_created :: "repo_snapshot res \<times> artifact_store" where
  "demo_created =
     snapshot_create demo_parse demo_limits ''/repos'' (Some (FsDir [(''app'', FsDir [(''.git'', FsDir [])])]))
       demo_view demo_view demo_view (Inr ()) Renamed 7 0 demo_request Map.empty"

lemma demo_copy:
  "copy_selection demo_limits path demo_view demo_selection = Inr ([''a'' \<mapsto> encode ''x''], [demo_file])"
proof -
  have "safe_relative_path ''a'' = Inr [''a'']" "as_posix [''a''] = ''a''" "length (encode ''x'') = 1"
    "encode ''x'' \<noteq> []" by code_simp+
  then show ?thesis
    by (simp add: copy_selection_def demo_limits_def demo_selection_def selected_file_def
        read_worktree_file_def validate_regular_file_def written_stat_def same_file_def Let_def
        demo_view_def demo_file_def manifest_entry_def del: encode_simps)
qed

lemma demo_prepared:
  "prepare_snapshot demo_limits path demo_view demo_view demo_view (Inr ()) demo_request =
     Inr (demo_selection, [''a'' \<mapsto> encode ''x''], [demo_file])"
proof -
  have "rv_git demo_view = demo_git" by (simp add: demo_view_def)
  then show ?thesis
    by (simp add: prepare_snapshot_def demo_request_def demo_select demo_copy Let_def)
      (simp add: demo_selection_def)
qed

lemma demo_snapshot_created: "\<exists>snap store. demo_created = (Inr snap, store)"
proof -
  have "resolve_repository (Some (FsDir [(''app'', FsDir [(''.git'', FsDir [])])])) ''app'' = Inr [''app'']"
    by code_simp
  moreover have "copied_ok (\<lambda>_. Inr (encode ''x'', ''100644'')) ([''a'' \<mapsto> encode ''x''], [demo_file],
      mf_size demo_file)"
    by (simp add: copied_ok_def demo_file_def manifest_entry_def)
  moreover have "accepted_path (mf_path demo_file)"
  proof -
    have "safe_relative_path ''a'' = Inr [''a''] \<and> \<not> is_excluded [''a'']" by code_simp
    then show ?thesis unfolding accepted_path_def demo_file_def manifest_entry_def by auto
  qed
  ultimately show ?thesis
    using temporary_artifact_verifies [of _ "[''a'' \<mapsto> encode ''x'']" "[demo_file]" _ demo_parse]
    by (simp add: demo_created_def snapshot_create_def demo_request_def [symmetric] demo_prepared
        publish_artifact_def demo_parse_def)
      (simp add: demo_request_def demo_prepared [unfolded demo_request_def] Let_def
        publish_artifact_def demo_parse_def)
qed

section \<open>Properties\<close>

text \<open>
  A selection depends on \<open>git\<close> only through the permitted commands: the two fixed listings,
  \<open>rev-parse\<close> with the caller's ref behind \<open>--end-of-options\<close>, and commands whose variable
  arguments are 40-digit commit ids, all with hooks, file-system monitor and external diff
  switched off and with the fixed environment.  No text of a caller reaches any other command.
\<close>

theorem selection_commands:
  assumes "same_permitted path runner runner'"
  shows "git_select runner path limit observe mode base_ref head_ref =
         git_select runner' path limit observe mode base_ref head_ref"
  using working_tree_same [OF assms] range_selection_same [OF assms]
  by (auto simp: git_select_def split: diff_mode.split option.split)

definition demo_hooked :: git_runner where
  "demo_hooked command environment =
     (if command = [''git'', ''gc''] then None else demo_git command environment)"

theorem selection_commands_witness:
  "git_select demo_hooked ''/r'' 10 (\<lambda>_. HashNotFile) WORKING_TREE None None = Inr demo_selection"
proof -
  have "same_permitted ''/r'' demo_hooked demo_git"
    by (simp add: same_permitted_def demo_hooked_def git_command_def git_prefix_def)
  from selection_commands [OF this] show ?thesis by (simp add: demo_select)
qed

text \<open>
  C33. Reading back.  When a snapshot was created, an artifact is stored under its content hash,
  it passes the integrity check, and for every file its manifest lists the reader returns exactly
  the decoded bytes of the artifact (or says that the file is above the read budget or is no
  text).  Artifacts that were stored before are untouched.
\<close>

theorem snapshot_read_back:
  assumes "snapshot_create manifest_parse limits root_path root v1 v2 v3 checkpoint outcome sid now
             request store = (Inr snap, store')"
  shows "store \<subseteq>\<^sub>m store' \<and>
         (\<exists>artifact files. store' (sn_content_hash snap) = Some artifact \<and>
            verify_artifact manifest_parse artifact (sn_content_hash snap) = Inr files \<and>
            (\<forall>f \<in> set files. \<exists>data. sa_tree artifact (mf_path f) = Some data \<and>
               hexdigest data = mf_sha256 f \<and>
               (\<forall>max_bytes. read_text manifest_parse (Some snap) artifact sid (mf_path f) max_bytes =
                  read_outcome snap sid f data max_bytes)))"
proof -
  obtain files tree published where
    p: "publish_artifact manifest_parse outcome (sn_content_hash snap)
      (temporary_artifact tree (canonical_manifest files)) store = (Inr published, store')"
    using snapshot_create_Inr [OF assms] by metis
  obtain artifact where a: "store' (sn_content_hash snap) = Some artifact"
    "verify_artifact manifest_parse artifact (sn_content_hash snap) = Inr published"
    using publish_artifact_Inr [OF p] by blast
  show ?thesis
    using snapshot_create_store [OF assms] a read_text_verified [OF a(2)] by blast
qed

theorem snapshot_read_back_witness:
  "\<exists>snap store artifact. demo_created = (Inr snap, store) \<and>
     store (sn_content_hash snap) = Some artifact"
proof -
  obtain snap store where created: "demo_created = (Inr snap, store)"
    using demo_snapshot_created by blast
  from snapshot_read_back [OF created [unfolded demo_created_def]] created show ?thesis by blast
qed

lemma copied_budgets:
  assumes "copy_selection limits path v sel = Inr (tree, files)" and "0 \<le> sl_max_total_bytes limits"
  shows "int (length files) \<le> sl_max_files limits" and "sum_list (map mf_size files) \<le> sl_max_total_bytes limits"
  using copy_selection_ok [OF assms(1)] assms(2) by blast+

text \<open>Every selected file of a working tree was read and is in the tree as it was read.\<close>

lemma copied_working_file:
  assumes copy: "copy_selection limits path v sel = Inr (tree, files)" and size: "0 \<le> sl_max_file_bytes limits"
    and wt: "gs_diff_mode sel = WORKING_TREE" and ok: "\<forall>p \<in> set (gs_files sel). accepted_path p"
    and p: "p \<in> set (gs_files sel)"
  shows "\<exists>parts data file_mode. safe_relative_path p = Inr parts \<and> \<not> is_excluded parts \<and>
      read_worktree_file (sl_max_file_bytes limits) (rv_files v parts) = Inr (data, file_mode) \<and>
      tree p = Some data \<and> int (length data) \<le> sl_max_file_bytes limits"
proof -
  obtain source where s: "copied_ok source (tree, files, sum_list (map mf_size files))"
    "\<forall>p data file_mode. source p = Inr (data, file_mode) \<longrightarrow> 0 \<le> sl_max_file_bytes limits \<longrightarrow>
       int (length data) \<le> sl_max_file_bytes limits"
    "\<forall>p data file_mode. source p = Inr (data, file_mode) \<longrightarrow> gs_diff_mode sel = WORKING_TREE \<longrightarrow>
       (\<exists>parts. safe_relative_path p = Inr parts \<and> read_worktree_file
          (sl_max_file_bytes limits) (rv_files v parts) = Inr (data, file_mode))"
    "mset (map mf_path files) = mset (gs_files sel)"
    using copy_selection_ok [OF copy] by blast
  have "p \<in> set (map mf_path files)" using p s(4) by (metis set_mset_mset)
  then obtain f where "f \<in> set files" "mf_path f = p" by auto
  then obtain data file_mode where d: "source p = Inr (data, file_mode)" "tree p = Some data"
    using copied_ok_mem [OF s(1)] by metis
  obtain parts where parts: "safe_relative_path p = Inr parts" "\<not> is_excluded parts"
    using ok p unfolding accepted_path_def by blast
  from s(3) [rule_format, OF d(1) wt] obtain parts' where "safe_relative_path p = Inr parts'"
    "read_worktree_file (sl_max_file_bytes limits) (rv_files v parts') = Inr (data, file_mode)"
    by blast
  moreover from this(1) parts(1) have "parts' = parts" by simp
  moreover have "int (length data) \<le> sl_max_file_bytes limits" by (rule s(2) [rule_format, OF d(1) size])
  ultimately show ?thesis using parts d(2) by blast
qed

text \<open>
  C34. A working-tree snapshot that was stored under a new hash holds, for every selected path,
  the bytes a complete and unchanged read of that file gave during the copy; the selection before
  and after the copy is the same; no path of it is excluded or leaves the repository; and the
  three budgets are kept.
\<close>

theorem working_tree_snapshot:
  assumes "snapshot_create manifest_parse limits root_path root v1 v2 v3 checkpoint Renamed sid now
             request store = (Inr snap, store')"
    and "sr_diff_mode request = WORKING_TREE" and "store (sn_content_hash snap) = None"
    and "0 \<le> sl_max_file_bytes limits" and "0 \<le> sl_max_total_bytes limits"
  shows "\<exists>rel sel artifact. resolve_repository root (sr_repository_path request) = Inr rel \<and>
           (\<forall>v \<in> {v1, v3}. git_select (rv_git v) (root_path @ ''/'' @ as_posix rel)
              (sl_max_file_bytes limits) (rv_hashes v) WORKING_TREE None None = Inr sel) \<and>
           sn_changed_paths snap = gs_changes sel \<and>
           store' (sn_content_hash snap) = Some artifact \<and>
           (\<forall>p \<in> set (gs_files sel). \<exists>parts data file_mode.
              safe_relative_path p = Inr parts \<and> \<not> is_excluded parts \<and>
              read_worktree_file (sl_max_file_bytes limits) (rv_files v2 parts) = Inr (data, file_mode) \<and>
              sa_tree artifact p = Some data \<and> int (length data) \<le> sl_max_file_bytes limits) \<and>
           sn_file_count snap \<le> sl_max_files limits \<and>
           sn_total_bytes snap \<le> sl_max_total_bytes limits"
proof -
  obtain rel sel tree files published where
    rel: "resolve_repository root (sr_repository_path request) = Inr rel"
    and prep: "prepare_snapshot limits (root_path @ ''/'' @ as_posix rel) v1 v2 v3 checkpoint request =
      Inr (sel, tree, files)"
    and pub: "publish_artifact manifest_parse Renamed (hexdigest (canonical_manifest files))
      (temporary_artifact tree (canonical_manifest files)) store = (Inr published, store')"
    and hash: "sn_content_hash snap = hexdigest (canonical_manifest files)"
    and snap: "sn_file_count snap = int (length files)" "sn_total_bytes snap = sum_list (map mf_size files)"
      "sn_changed_paths snap = gs_changes sel"
    using snapshot_create_Inr [OF assms(1)] by blast
  note prep = prepare_snapshot_Inr [OF prep] and pub = pub [folded hash]
  have wt: "gs_diff_mode sel = WORKING_TREE" and ok: "\<forall>p \<in> set (gs_files sel). accepted_path p"
    using git_select_accepted [OF conjunct1 [OF prep]] assms(2) by simp_all
  have sel: "git_select (rv_git v1) (root_path @ ''/'' @ as_posix rel) (sl_max_file_bytes limits)
      (rv_hashes v1) WORKING_TREE None None = Inr sel"
    using conjunct1 [OF prep] assms(2) by (simp add: git_select_def split: if_splits)
  have tree: "store' (sn_content_hash snap) = Some (temporary_artifact tree (canonical_manifest files))"
    using publish_artifact_Inr [OF pub] assms(3) by auto
  have copy: "copy_selection limits (root_path @ ''/'' @ as_posix rel) v2 sel = Inr (tree, files)"
    using prep by blast
  note files = copied_working_file [OF copy assms(4) wt ok] and counts = copied_budgets [OF copy assms(5)]
  have both: "\<forall>v \<in> {v1, v3}. git_select (rv_git v) (root_path @ ''/'' @ as_posix rel)
      (sl_max_file_bytes limits) (rv_hashes v) WORKING_TREE None None = Inr sel"
    using sel prep wt by simp
  have "sa_tree (temporary_artifact tree (canonical_manifest files)) = tree"
    by (simp add: temporary_artifact_def)
  with files have all: "\<forall>p \<in> set (gs_files sel). \<exists>parts data file_mode.
      safe_relative_path p = Inr parts \<and> \<not> is_excluded parts \<and>
      read_worktree_file (sl_max_file_bytes limits) (rv_files v2 parts) = Inr (data, file_mode) \<and>
      sa_tree (temporary_artifact tree (canonical_manifest files)) p = Some data \<and>
      int (length data) \<le> sl_max_file_bytes limits" by simp
  have budgets: "sn_file_count snap \<le> sl_max_files limits" "sn_total_bytes snap \<le> sl_max_total_bytes limits"
    using snap(1,2) counts by simp_all
  show ?thesis by (intro exI conjI) (rule rel both snap(3) tree all budgets)+
qed

theorem working_tree_snapshot_witness:
  "\<exists>snap store. demo_created = (Inr snap, store) \<and> sn_file_count snap \<le> 10"
proof -
  obtain snap store where created: "demo_created = (Inr snap, store)"
    using demo_snapshot_created by blast
  from working_tree_snapshot [OF created [unfolded demo_created_def]]
  have "sn_file_count snap \<le> sl_max_files demo_limits" by (force simp: demo_request_def demo_limits_def)
  then have "sn_file_count snap \<le> 10" by (simp add: demo_limits_def)
  with created show ?thesis by blast
qed

end
