(* ===== verification/RuleEngine.thy ===== *)
theory RuleEngine
  imports Complex_Main RevisionGraph
begin

text \<open>
  \<open>rules/contracts.py\<close> and \<open>rules/engine.py\<close>: the four content rules over the syntax tree of a
  changed revision.  \<open>ast.parse\<close> is the argument \<open>parse\<close>, as in discovery.
\<close>

section \<open>Findings\<close>

datatype severity = INFO | LOW | MEDIUM | HIGH

record static_finding =
  sf_rule_id :: string
  sf_rule_version :: string
  sf_severity :: severity
  sf_confidence :: rat
  sf_relative_path :: "string option"
  sf_line :: int
  sf_column :: int
  sf_message :: string
  sf_remediation :: string
  sf_evidence_ids :: "string list"
  sf_unknowns :: "string list"

text \<open>The field constraints of the contract.\<close>

definition finding_valid :: "static_finding \<Rightarrow> bool" where
  "finding_valid f \<longleftrightarrow>
     0 \<le> sf_confidence f \<and> sf_confidence f \<le> 1 \<and> 1 \<le> sf_line f \<and> 0 \<le> sf_column f \<and>
     sf_evidence_ids f \<noteq> []"

definition finding_evidence :: "string \<Rightarrow> string \<Rightarrow> int \<Rightarrow> int \<Rightarrow> string \<Rightarrow> string" where
  "finding_evidence snapshot_hash path line column rule_id =
     ''evidence:'' @ hexdigest (encode
       (snapshot_hash @ '':'' @ path @ '':'' @ dec_int line @ '':'' @ dec_int column @ '':'' @ rule_id))"

definition make_finding ::
    "string \<Rightarrow> revision_node \<Rightarrow> py_node \<Rightarrow> string \<Rightarrow> severity \<Rightarrow> rat \<Rightarrow> string \<Rightarrow> string \<Rightarrow>
     string list \<Rightarrow> static_finding" where
  "make_finding snapshot_hash node location rule_id severity confidence message remediation unknowns =
     (let line = max 1 (fst (py_location location));
          column = max 0 (snd (py_location location))
      in \<lparr>sf_rule_id = rule_id, sf_rule_version = ''1.0'', sf_severity = severity,
          sf_confidence = confidence, sf_relative_path = Some (rn_relative_path node),
          sf_line = line, sf_column = column, sf_message = message,
          sf_remediation = remediation,
          sf_evidence_ids =
            [finding_evidence snapshot_hash (rn_relative_path node) line column rule_id],
          sf_unknowns = unknowns\<rparr>)"

section \<open>The pattern for destructive SQL\<close>

text \<open>\<open>\w\<close> and upper case for code points below 256.\<close>

definition word_char :: "char \<Rightarrow> bool" where
  "word_char c \<longleftrightarrow>
     (let n = (of_char c :: nat)
      in 48 \<le> n \<and> n \<le> 57 \<or> 65 \<le> n \<and> n \<le> 90 \<or> n = 95 \<or> 97 \<le> n \<and> n \<le> 122 \<or>
         n \<in> set [170, 178, 179, 181, 185, 186, 188, 189, 190] \<or>
         192 \<le> n \<and> n \<noteq> 215 \<and> n \<noteq> 247)"

definition ascii_upper :: "char \<Rightarrow> char" where
  "ascii_upper c =
     (let n = (of_char c :: nat) in if 97 \<le> n \<and> n \<le> 122 then char_of (n - 32) else c)"

text \<open>A keyword at the start of a text, ignoring case, and what follows it.\<close>

definition match_keyword :: "string \<Rightarrow> string \<Rightarrow> string option" where
  "match_keyword keyword text =
     (if map ascii_upper (take (length keyword) text) = keyword
      then Some (drop (length keyword) text) else None)"

definition at_boundary :: "string \<Rightarrow> bool" where
  "at_boundary rest \<longleftrightarrow> rest = [] \<or> \<not> word_char (hd rest)"

definition drop_objects :: "string list" where
  "drop_objects = [''TABLE'', ''COLUMN'', ''INDEX'']"

text \<open>
  \<open>DROP\s+(TABLE|COLUMN|INDEX)\b\<close> at the start of a text: no keyword begins with white space,
  so the greedy \<open>\s+\<close> never has to give characters back.
\<close>

definition match_drop :: "string \<Rightarrow> string option" where
  "match_drop text =
     (case match_keyword ''DROP'' text of
        None \<Rightarrow> None
      | Some rest \<Rightarrow>
          if rest = [] \<or> \<not> py_space (hd rest) then None
          else find (\<lambda>k. case match_keyword k (dropWhile py_space rest) of
                           None \<Rightarrow> False | Some after \<Rightarrow> at_boundary after) drop_objects)"

text \<open>\<open>search\<close>: the first position after a non-word character where the pattern matches.\<close>

fun search_drop :: "bool \<Rightarrow> string \<Rightarrow> string option" where
  "search_drop after_word [] = None"
| "search_drop after_word (c # text) =
     (case (if after_word then None else match_drop (c # text)) of
        Some k \<Rightarrow> Some k
      | None \<Rightarrow> search_drop (word_char c) text)"

definition destructive_sql :: "string \<Rightarrow> string option" where
  "destructive_sql text = search_drop False text"

section \<open>Reading calls\<close>

fun op_call :: "py_node \<Rightarrow> string option" where
  "op_call (PyCall (PyAttribute (PyName name l1) attr l2) xs ks l3) =
     (if name = ''op'' then Some attr else None)"
| "op_call _ = None"

fun call_args :: "py_node \<Rightarrow> py_node list" where
  "call_args (PyCall f xs ks l) = xs"
| "call_args _ = []"

fun call_keywords :: "py_node \<Rightarrow> py_node list" where
  "call_keywords (PyCall f xs ks l) = ks"
| "call_keywords _ = []"

fun keyword_named :: "string \<Rightarrow> py_node list \<Rightarrow> py_node option" where
  "keyword_named name [] = None"
| "keyword_named name (PyKeyword arg v l # ks) =
     (if arg = Some name then Some v else keyword_named name ks)"
| "keyword_named name (k # ks) = keyword_named name ks"

definition keyword_value :: "py_node \<Rightarrow> string \<Rightarrow> py_node option" where
  "keyword_value call name = keyword_named name (call_keywords call)"

text \<open>\<open>candidate.value is value\<close> for the values the rules ask for: \<open>None\<close>, \<open>True\<close>, \<open>False\<close>.\<close>

fun is_const :: "py_const \<Rightarrow> py_node option \<Rightarrow> bool" where
  "is_const c (Some (PyConstant d l)) = (c = d)"
| "is_const c _ = False"

definition keyword_is :: "py_node \<Rightarrow> string \<Rightarrow> py_const \<Rightarrow> bool" where
  "keyword_is call name c = is_const c (keyword_value call name)"

fun is_sa_column :: "py_node \<Rightarrow> bool" where
  "is_sa_column (PyCall (PyAttribute (PyName name l1) attr l2) xs ks l3) =
     (name = ''sa'' \<and> attr = ''Column'')"
| "is_sa_column _ = False"

definition column_argument :: "py_node \<Rightarrow> py_node option" where
  "column_argument call =
     (case (if 1 < length (call_args call) then Some (call_args call ! 1)
            else keyword_value call ''column'') of
        None \<Rightarrow> None
      | Some candidate \<Rightarrow> if is_sa_column candidate then Some candidate else None)"

fun is_not_implemented :: "py_node option \<Rightarrow> bool" where
  "is_not_implemented (Some (PyName name l)) = (name = ''NotImplementedError'')"
| "is_not_implemented (Some (PyCall (PyName name l1) xs ks l2)) = (name = ''NotImplementedError'')"
| "is_not_implemented _ = False"

section \<open>The rules\<close>

definition destructive_calls :: "string list" where
  "destructive_calls = [''drop_table'', ''drop_column'', ''drop_index'']"

text \<open>The operation a call performs and the confidence, \<open>None\<close> when it is not destructive.\<close>

definition destructive_operation :: "py_node \<Rightarrow> (string \<times> rat) option" where
  "destructive_operation call =
     (case op_call call of
        None \<Rightarrow> None
      | Some name \<Rightarrow>
          if name \<in> set destructive_calls then Some (name, 1)
          else if name = ''execute''
          then (case call_args call of
                  PyConstant (CStr sql) l # _ \<Rightarrow>
                    (case destructive_sql sql of
                       None \<Rightarrow> None
                     | Some k \<Rightarrow> Some (''literal DROP '' @ k @ '' SQL'', 95 / 100))
                | _ \<Rightarrow> None)
          else None)"

definition destructive_ddl :: "string \<Rightarrow> revision_node \<Rightarrow> py_node \<Rightarrow> static_finding list" where
  "destructive_ddl snapshot_hash node upgrade =
     List.map_filter (\<lambda>e. map_option (\<lambda>(operation, confidence).
       make_finding snapshot_hash node e ''SOPS001'' HIGH confidence
         (''Upgrade performs destructive operation: '' @ operation)
         (''Use an expand/migrate/contract rollout and retain compatibility until '' @
          ''dependent code and data have been migrated.'')
         [''Production dependencies and retained data are unknown.''])
       (destructive_operation e)) (walk upgrade)"

text \<open>
  For an \<open>add_column\<close> of a column with \<open>nullable=False\<close>: does it have a server default that is
  not the constant \<open>None\<close>?
\<close>

definition not_null_column :: "py_node \<Rightarrow> bool option" where
  "not_null_column e =
     (if op_call e \<noteq> Some ''add_column'' then None
      else case column_argument e of
             None \<Rightarrow> None
           | Some column \<Rightarrow>
               if \<not> keyword_is column ''nullable'' (CBool False) then None
               else let server_default = keyword_value column ''server_default''
                    in Some (server_default \<noteq> None \<and> \<not> is_const CNone server_default))"

definition direct_not_null :: "string \<Rightarrow> revision_node \<Rightarrow> py_node \<Rightarrow> static_finding list" where
  "direct_not_null snapshot_hash node upgrade =
     List.map_filter (\<lambda>e. map_option (\<lambda>has_non_null_default.
       make_finding snapshot_hash node e ''SOPS002''
         (if has_non_null_default then MEDIUM else HIGH) 1
         (if has_non_null_default
          then ''Upgrade directly adds a NOT NULL column with a server default.''
          else ''Upgrade directly adds a NOT NULL column without a server default.'')
         (''Add the column as nullable, backfill in bounded batches, then enforce '' @
          ''NOT NULL in a later migration.'')
         [''Production table size, PostgreSQL rewrite behavior, and lock duration '' @
          ''are unknown.''])
       (not_null_column e)) (walk upgrade)"

definition non_concurrent :: "py_node \<Rightarrow> bool" where
  "non_concurrent e \<longleftrightarrow>
     op_call e = Some ''create_index'' \<and>
     (case keyword_value e ''postgresql_concurrently'' of
        None \<Rightarrow> True
      | Some (PyConstant c l) \<Rightarrow> c \<noteq> CBool True
      | Some _ \<Rightarrow> False)"

definition non_concurrent_index :: "string \<Rightarrow> revision_node \<Rightarrow> py_node \<Rightarrow> static_finding list" where
  "non_concurrent_index snapshot_hash node upgrade =
     List.map_filter (\<lambda>e. if \<not> non_concurrent e then None else Some
       (make_finding snapshot_hash node e ''SOPS003'' MEDIUM 1
          ''Upgrade creates a PostgreSQL index without concurrent mode.''
          (''Use PostgreSQL concurrent index creation with the required Alembic '' @
           ''autocommit handling.'')
          [''Production table size and write-blocking duration are unknown.'']))
       (walk upgrade)"

fun is_docstring :: "py_node \<Rightarrow> bool" where
  "is_docstring (PyExpr (PyConstant (CStr s) l1) l2) = True"
| "is_docstring _ = False"

fun is_pass :: "py_node \<Rightarrow> bool" where
  "is_pass (PyPass l) = True"
| "is_pass _ = False"

fun is_not_implemented_raise :: "py_node \<Rightarrow> bool" where
  "is_not_implemented_raise (PyRaise exc cause l) = is_not_implemented exc"
| "is_not_implemented_raise _ = False"

fun function_body :: "py_node \<Rightarrow> py_node list" where
  "function_body (PyFunction a name args body rest l) = body"
| "function_body _ = []"

text \<open>Where and why a downgrade is irreversible.\<close>

definition irreversible_target :: "py_node option \<Rightarrow> (py_node \<times> string) option" where
  "irreversible_target downgrade =
     (case downgrade of
        None \<Rightarrow> Some (PyPass (1, 0), ''Revision has no downgrade function.'')
      | Some f \<Rightarrow>
          (let body = filter (\<lambda>s. \<not> is_docstring s) (function_body f)
           in if body \<noteq> [] \<and> list_all is_pass body
              then Some (f, ''Revision downgrade contains only pass.'')
              else map_option
                (\<lambda>e. (e, ''Revision downgrade explicitly raises NotImplementedError.''))
                (find is_not_implemented_raise (walk f))))"

definition irreversible_downgrade ::
    "string \<Rightarrow> revision_node \<Rightarrow> py_node option \<Rightarrow> static_finding option" where
  "irreversible_downgrade snapshot_hash node downgrade =
     map_option (\<lambda>(target, message).
       make_finding snapshot_hash node target ''SOPS004'' HIGH 1 message
         ''Implement and test a deterministic downgrade for this revision.''
         [''Rollback behavior has not been dynamically executed.''])
       (irreversible_target downgrade)"

section \<open>The engine\<close>

fun is_function_named :: "string \<Rightarrow> py_node \<Rightarrow> bool" where
  "is_function_named name (PyFunction a n args body rest l) = (n = name)"
| "is_function_named name _ = False"

definition function_named :: "py_node list \<Rightarrow> string \<Rightarrow> py_node option" where
  "function_named body name = find (is_function_named name) body"

definition module_findings :: "string \<Rightarrow> revision_node \<Rightarrow> py_node list \<Rightarrow> static_finding list" where
  "module_findings snapshot_hash node body =
     (case function_named body ''upgrade'' of
        None \<Rightarrow> []
      | Some upgrade \<Rightarrow>
          destructive_ddl snapshot_hash node upgrade @
          direct_not_null snapshot_hash node upgrade @
          non_concurrent_index snapshot_hash node upgrade) @
     opt_list (irreversible_downgrade snapshot_hash node (function_named body ''downgrade''))"

definition evaluate ::
    "(string \<Rightarrow> parse_result) \<Rightarrow> string \<Rightarrow> revision_node \<Rightarrow> string \<Rightarrow> static_finding list res" where
  "evaluate parse snapshot_hash node source =
     (case parse source of
        ParseSyntaxError \<Rightarrow> Inr []
      | ParseValueError \<Rightarrow> Inl (ValueError ''source'')
      | Parsed body \<Rightarrow> Inr (module_findings snapshot_hash node body))"

end
