(* ===== verification/StaticAudit.thy ===== *)
theory StaticAudit
  imports RuleEngine Snapshot
begin

text \<open>
  \<open>rules/service.py\<close>: one static report from a snapshot, its revision graph and the rules.
\<close>

section \<open>Reports\<close>

record graph_summary =
  gm_supported :: bool
  gm_heads :: "string list"
  gm_baseline_revision :: "string option"
  gm_target_chain :: "string list"
  gm_changed_revisions :: "string list"

record static_report =
  sp_id :: uuid
  sp_run_id :: uuid
  sp_snapshot_id :: uuid
  sp_snapshot_hash :: string
  sp_diff_mode :: diff_mode
  sp_base_commit :: "string option"
  sp_head_commit :: string
  sp_revision_graph :: graph_summary
  sp_findings :: "static_finding list"
  sp_unsupported_reasons :: "unsupported_reason list"
  sp_risk_level :: severity
  sp_created_at :: time

fun severity_order :: "severity \<Rightarrow> int" where
  "severity_order INFO = 0"
| "severity_order LOW = 1"
| "severity_order MEDIUM = 2"
| "severity_order HIGH = 3"

text \<open>Severities are compared through \<open>_SEVERITY_ORDER\<close>.\<close>

instantiation severity :: linorder
begin

definition less_eq_severity :: "severity \<Rightarrow> severity \<Rightarrow> bool" where
  "less_eq_severity a b \<longleftrightarrow> severity_order a \<le> severity_order b"

definition less_severity :: "severity \<Rightarrow> severity \<Rightarrow> bool" where
  "less_severity a b \<longleftrightarrow> severity_order a < severity_order b"

instance
proof
  fix a b :: severity
  show "a \<le> b \<Longrightarrow> b \<le> a \<Longrightarrow> a = b"
    by (cases a; cases b) (simp_all add: less_eq_severity_def)
qed (auto simp: less_eq_severity_def less_severity_def)

end

section \<open>Structural findings\<close>

definition structure_evidence :: "string \<Rightarrow> unsupported_reason \<Rightarrow> string" where
  "structure_evidence snapshot_hash r =
     ''evidence:'' @ hexdigest (encode
       (snapshot_hash @ '':'' @ (case ur_relative_path r of None \<Rightarrow> [] | Some p \<Rightarrow> p) @
        '':1:0:STRUCTURE:'' @ ur_code r))"

definition structural_finding :: "string \<Rightarrow> unsupported_reason \<Rightarrow> static_finding" where
  "structural_finding snapshot_hash r =
     \<lparr>sf_rule_id = ''STRUCTURE'', sf_rule_version = ''1.0'', sf_severity = HIGH,
      sf_confidence = 1, sf_relative_path = ur_relative_path r, sf_line = 1, sf_column = 0,
      sf_message = ''Repository structure is unsupported: '' @ ur_detail r,
      sf_remediation =
        ''Resolve the revision graph ambiguity before relying on dynamic audit.'',
      sf_evidence_ids = [structure_evidence snapshot_hash r],
      sf_unknowns = [''No migration execution plan can be trusted for this structure.'']\<rparr>"

definition structural_findings :: "string \<Rightarrow> revision_graph \<Rightarrow> static_finding list" where
  "structural_findings snapshot_hash graph =
     map (structural_finding snapshot_hash) (rg_unsupported_reasons graph)"

section \<open>The report\<close>

definition finding_key :: "static_finding \<Rightarrow> int \<times> string \<times> int \<times> int \<times> string" where
  "finding_key f =
     (- severity_order (sf_severity f),
      (case sf_relative_path f of None \<Rightarrow> [] | Some p \<Rightarrow> p),
      sf_line f, sf_column f, sf_rule_id f)"

text \<open>\<open>max(..., key=_SEVERITY_ORDER.__getitem__)\<close> of a non-empty sequence: the first maximum.\<close>

fun max_severity :: "severity \<Rightarrow> severity list \<Rightarrow> severity" where
  "max_severity best [] = best"
| "max_severity best (s # ss) =
     max_severity (if severity_order best < severity_order s then s else best) ss"

definition risk_of :: "static_finding list \<Rightarrow> severity" where
  "risk_of fs =
     (case map sf_severity fs of [] \<Rightarrow> INFO | s # ss \<Rightarrow> max_severity s ss)"

text \<open>The loop over the changed revisions; \<open>read\<close> is the reader's \<open>read_text\<close> on a path.\<close>

fun content_findings ::
    "(string \<Rightarrow> parse_result) \<Rightarrow> (string \<Rightarrow> snapshot_text res) \<Rightarrow> string \<Rightarrow> string list \<Rightarrow>
     revision_node list \<Rightarrow> static_finding list res" where
  "content_findings parse read snapshot_hash changed [] = Inr []"
| "content_findings parse read snapshot_hash changed (node # nodes) =
     (if rn_revision node \<notin> set changed
      then content_findings parse read snapshot_hash changed nodes
      else bind_res (read (rn_relative_path node)) (\<lambda>source.
           bind_res (evaluate parse snapshot_hash node (tx_text source)) (\<lambda>fs.
           bind_res (content_findings parse read snapshot_hash changed nodes) (\<lambda>more.
             Inr (fs @ more)))))"

definition summary_of :: "revision_graph \<Rightarrow> graph_summary" where
  "summary_of g =
     \<lparr>gm_supported = rg_supported g, gm_heads = rg_heads g,
      gm_baseline_revision = rg_baseline_revision g, gm_target_chain = rg_target_chain g,
      gm_changed_revisions = rg_changed_revisions g\<rparr>"

definition report_of ::
    "uuid \<Rightarrow> time \<Rightarrow> uuid \<Rightarrow> repo_snapshot \<Rightarrow> revision_graph \<Rightarrow> static_finding list \<Rightarrow> static_report"
  where
  "report_of report_id now run_id snapshot graph found =
     (let findings = sort_key finding_key (found @ structural_findings (sn_content_hash snapshot) graph)
      in \<lparr>sp_id = report_id, sp_run_id = run_id, sp_snapshot_id = sn_id snapshot,
          sp_snapshot_hash = sn_content_hash snapshot, sp_diff_mode = sn_diff_mode snapshot,
          sp_base_commit = sn_base_commit snapshot, sp_head_commit = sn_head_commit snapshot,
          sp_revision_graph = summary_of graph, sp_findings = findings,
          sp_unsupported_reasons = rg_unsupported_reasons graph,
          sp_risk_level = risk_of findings, sp_created_at = now\<rparr>)"

definition analyze ::
    "(string \<Rightarrow> parse_result) \<Rightarrow> (bytes \<Rightarrow> manifest_file list option) \<Rightarrow> int \<Rightarrow>
     repo_snapshot option \<Rightarrow> revision_graph option \<Rightarrow> stored_artifact \<Rightarrow> uuid \<Rightarrow> time \<Rightarrow> uuid \<Rightarrow>
     uuid \<Rightarrow> static_report res" where
  "analyze parse manifest_parse max_source_bytes found_snapshot found_graph artifact report_id now
     run_id snapshot_id =
     (let incomplete = Inl (integrity_failed ''Static analysis inputs are incomplete'')
      in case (found_snapshot, found_graph) of
           (Some snapshot, Some graph) \<Rightarrow>
             if sn_run_id snapshot \<noteq> run_id \<or> rg_snapshot_id graph \<noteq> snapshot_id then incomplete
             else bind_res (content_findings parse
                    (\<lambda>path. read_text manifest_parse found_snapshot artifact snapshot_id path
                              max_source_bytes)
                    (sn_content_hash snapshot) (rg_changed_revisions graph) (rg_nodes graph))
                  (\<lambda>found. Inr ((report_of report_id now run_id snapshot graph found)
                    \<lparr>sp_snapshot_id := snapshot_id\<rparr>))
         | _ \<Rightarrow> incomplete)"

end
