(* ===== verification/RuleProperties.thy ===== *)
theory RuleProperties
  imports StaticAudit SnapshotFacts RepoProperties
begin

text \<open>
  The properties of static analysis: the SQL pattern against its specification, the findings
  against the syntax tree, and the report against the findings.
\<close>

section \<open>The SQL pattern\<close>

text \<open>
  What the regular expression means: \<open>DROP\<close>, white space and an object keyword, in any case,
  with a word boundary before and after.
\<close>

inductive drops_here :: "string \<Rightarrow> string \<Rightarrow> bool" where
  drops_hereI: "map ascii_upper d = ''DROP'' \<Longrightarrow> sp \<noteq> [] \<Longrightarrow> list_all py_space sp \<Longrightarrow>
    map ascii_upper kw = k \<Longrightarrow> k \<in> set drop_objects \<Longrightarrow> at_boundary post \<Longrightarrow>
    drops_here (d @ sp @ kw @ post) k"

inductive drops :: "string \<Rightarrow> string \<Rightarrow> bool" where
  dropsI: "drops_here rest k \<Longrightarrow> pre = [] \<or> \<not> word_char (last pre) \<Longrightarrow> drops (pre @ rest) k"

lemma match_keyword_Some:
  "match_keyword k s = Some rest \<longleftrightarrow> (\<exists>w. s = w @ rest \<and> map ascii_upper w = k)"
proof
  assume m: "match_keyword k s = Some rest"
  then have "s = take (length k) s @ rest" "map ascii_upper (take (length k) s) = k"
    by (auto simp: match_keyword_def split: if_splits)
  then show "\<exists>w. s = w @ rest \<and> map ascii_upper w = k" by blast
qed (auto simp: match_keyword_def)

lemma ascii_upper_not_space: "py_space c \<Longrightarrow> ascii_upper c = c"
  by (auto simp: py_space_def ascii_upper_def Let_def)

lemma keyword_not_space:
  assumes "map ascii_upper kw = k" and "k \<in> set drop_objects"
  shows "kw \<noteq> [] \<and> \<not> py_space (hd kw)"
proof -
  have k: "k \<noteq> [] \<and> \<not> py_space (hd k)"
    using assms(2) by (auto simp: drop_objects_def py_space_def)
  then obtain c cs where kw: "kw = c # cs" using assms(1) by (cases kw) auto
  then have "hd k = ascii_upper c" using assms(1) by auto
  with k kw show ?thesis using ascii_upper_not_space [of c] by auto
qed

lemma dropWhile_spaces:
  assumes "list_all py_space sp" and "rest = [] \<or> \<not> py_space (hd rest)"
  shows "dropWhile py_space (sp @ rest) = rest"
  using assms by (induction sp) (auto simp: dropWhile_eq_self_iff)

lemma drops_here_iff: "drops_here s k \<longleftrightarrow>
    (\<exists>rest. match_keyword ''DROP'' s = Some rest \<and> rest \<noteq> [] \<and> py_space (hd rest) \<and>
      k \<in> set drop_objects \<and>
      (\<exists>post. match_keyword k (dropWhile py_space rest) = Some post \<and> at_boundary post))"
  (is "_ \<longleftrightarrow> (\<exists>rest. ?matches rest)")
proof
  assume "drops_here s k"
  then show "\<exists>rest. ?matches rest"
  proof cases
    case (drops_hereI d sp kw post)
    have "match_keyword ''DROP'' s = Some (sp @ kw @ post)"
      unfolding match_keyword_Some by (intro exI [of _ d] conjI drops_hereI)
    moreover have "sp @ kw @ post \<noteq> [] \<and> py_space (hd (sp @ kw @ post))"
      using drops_hereI(3,4) by (cases sp) auto
    moreover have "dropWhile py_space (sp @ kw @ post) = kw @ post"
      by (rule dropWhile_spaces) (use drops_hereI keyword_not_space [of kw k] in auto)
    moreover have "match_keyword k (kw @ post) = Some post"
      unfolding match_keyword_Some by (intro exI [of _ kw] conjI refl drops_hereI)
    ultimately show ?thesis using drops_hereI(6,7) by (intro exI [of _ "sp @ kw @ post"]) simp
  qed
next
  assume "\<exists>rest. ?matches rest"
  then obtain rest where r: "?matches rest" ..
  then obtain post where post: "match_keyword k (dropWhile py_space rest) = Some post"
    "at_boundary post" by blast
  obtain d where d: "s = d @ rest" "map ascii_upper d = ''DROP''"
    using r match_keyword_Some by metis
  obtain kw where kw: "dropWhile py_space rest = kw @ post" "map ascii_upper kw = k"
    using post(1) match_keyword_Some by metis
  have "rest = takeWhile py_space rest @ kw @ post" by (simp flip: kw(1))
  moreover have "takeWhile py_space rest \<noteq> []" using r by (cases rest) auto
  moreover have "list_all py_space (takeWhile py_space rest)"
    by (auto simp: list_all_iff dest: set_takeWhileD)
  ultimately show "drops_here s k"
    using drops_hereI [OF d(2) _ _ kw(2) _ post(2), of "takeWhile py_space rest"] r d(1) by metis
qed

lemma match_drop_None: "match_drop s = None \<longleftrightarrow> (\<forall>k. \<not> drops_here s k)"
  unfolding drops_here_iff match_drop_def
  by (cases "match_keyword ''DROP'' s") (auto simp: find_None_iff split: option.splits)

lemma match_drop_sound: "match_drop s = Some k \<Longrightarrow> drops_here s k"
  unfolding drops_here_iff
  by (auto simp: match_drop_def find_Some_iff split: option.splits if_splits)

lemma drops_here_Nil: "\<not> drops_here [] k"
  by (auto elim: drops_here.cases)

text \<open>Somewhere in the text, given whether a word character stands before it.\<close>

definition drops_within :: "bool \<Rightarrow> string \<Rightarrow> string \<Rightarrow> bool" where
  "drops_within after_word s k \<longleftrightarrow>
     (\<exists>pre rest. s = pre @ rest \<and> drops_here rest k \<and>
        \<not> (if pre = [] then after_word else word_char (last pre)))"

lemma drops_within_Nil: "\<not> drops_within w [] k"
  by (auto simp: drops_within_def drops_here_Nil)

lemma split_Cons:
  "(\<exists>pre rest. c # s = pre @ rest \<and> P pre rest) \<longleftrightarrow>
     P [] (c # s) \<or> (\<exists>xs rest. s = xs @ rest \<and> P (c # xs) rest)"
  by (auto simp: Cons_eq_append_conv)

lemma drops_within_Cons:
  "drops_within w (c # s) k \<longleftrightarrow>
     \<not> w \<and> drops_here (c # s) k \<or> drops_within (word_char c) s k"
proof -
  have "drops_within w (c # s) k \<longleftrightarrow> \<not> w \<and> drops_here (c # s) k \<or>
      (\<exists>xs rest. s = xs @ rest \<and> drops_here rest k \<and> \<not> word_char (last (c # xs)))"
    unfolding drops_within_def split_Cons by auto
  moreover have "word_char (last (c # xs)) = (if xs = [] then word_char c else word_char (last xs))"
    for xs by simp
  ultimately show ?thesis unfolding drops_within_def by presburger
qed

lemma search_drop_correct:
  "(search_drop w s = None \<longrightarrow> (\<forall>k. \<not> drops_within w s k)) \<and>
   (\<forall>k. search_drop w s = Some k \<longrightarrow> drops_within w s k)"
proof (induction w s rule: search_drop.induct)
  case (2 w c t)
  show ?case
  proof (cases "if w then None else match_drop (c # t)")
    case None
    then have "w \<or> (\<forall>k. \<not> drops_here (c # t) k)"
      using match_drop_None [of "c # t"] by (auto split: if_splits)
    with None 2 show ?thesis by (auto simp: drops_within_Cons)
  next
    case (Some k)
    then have "\<not> w \<and> drops_here (c # t) k" using match_drop_sound by (auto split: if_splits)
    with Some show ?thesis by (simp add: drops_within_Cons)
  qed
qed (simp add: drops_within_Nil)

lemma drops_within_False: "drops_within False s k \<longleftrightarrow> drops s k"
proof
  assume "drops_within False s k"
  then obtain pre rest where "s = pre @ rest" "drops_here rest k" "pre = [] \<or> \<not> word_char (last pre)"
    unfolding drops_within_def by (metis (full_types))
  then show "drops s k" by (simp add: dropsI)
next
  assume "drops s k"
  then show "drops_within False s k"
  proof cases
    case (dropsI rest pre)
    then show ?thesis unfolding drops_within_def by (intro exI conjI) (auto split: if_split)
  qed
qed

text \<open>
  C35. The search for destructive SQL in a literal finds something exactly when the text contains
  \<open>DROP\<close>, white space and one of the three object keywords, in any case, between word
  boundaries, and the keyword it names stands in such a place.
\<close>

theorem destructive_sql_spec:
  "((\<exists>k. destructive_sql s = Some k) \<longleftrightarrow> (\<exists>k. drops s k)) \<and>
   (\<forall>k \<in> set_option (destructive_sql s). drops s k)"
proof (cases "destructive_sql s")
  case None
  then show ?thesis using search_drop_correct [of False s]
    by (auto simp: destructive_sql_def drops_within_False)
next
  case (Some k)
  then have "drops s k" using search_drop_correct [of False s]
    by (auto simp: destructive_sql_def drops_within_False)
  with Some show ?thesis by auto
qed

theorem destructive_sql_spec_witness:
  "drops ''-- x; drop   Table users'' ''TABLE'' \<and> \<not> (\<exists>k. drops ''raindrop table'' k)"
proof -
  have "destructive_sql ''-- x; drop   Table users'' = Some ''TABLE''"
    "destructive_sql ''raindrop table'' = None" by code_simp+
  then show ?thesis
    using destructive_sql_spec [of "''-- x; drop   Table users''"] destructive_sql_spec [of "''raindrop table''"]
    by auto
qed

section \<open>Findings\<close>














definition demo_module :: "string \<Rightarrow> py_node list" where
  "demo_module s =
     [PyFunction False ''upgrade'' [PyOther [] (1, 0)]
        [PyExpr (PyCall (PyAttribute (PyName ''op'' (2, 4)) ''drop_table'' (2, 4))
           [PyConstant (CStr ''t'') (2, 18)] [] (2, 4)) (2, 4)] [] (1, 0),
      PyFunction False ''downgrade'' [PyOther [] (3, 0)] [PyPass (4, 4)] [] (3, 0)]"


text \<open>
  Only the first top-level \<open>upgrade\<close> and \<open>downgrade\<close> of a revision are looked at: whatever is
  defined after them, another \<open>upgrade\<close> included, changes no finding.  (The function that runs is
  the last one of its name.)
\<close>

theorem later_definitions_ignored:
  assumes "function_named body ''upgrade'' \<noteq> None" and "function_named body ''downgrade'' \<noteq> None"
  shows "module_findings snapshot_hash node (body @ later) = module_findings snapshot_hash node body"
proof -
  have "find P (xs @ ys) = find P xs" if "find P xs \<noteq> None" for P and xs ys :: "py_node list"
    using that by (induction xs) auto
  then show ?thesis using assms by (simp add: module_findings_def function_named_def)
qed

definition harmless :: "string \<Rightarrow> py_node" where
  "harmless name = PyFunction False name [] [PyExpr (PyCall (PyName ''f'' (2, 4)) [] [] (2, 4)) (2, 4)] [] (1, 0)"

theorem later_definitions_ignored_witness:
  "module_findings ''h'' (demo_node ''1'' [] NEW)
     ([harmless ''upgrade'', harmless ''downgrade''] @ demo_module ''x'') = []"
proof -
  let ?body = "[harmless ''upgrade'', harmless ''downgrade'']"
  have named: "function_named ?body ''upgrade'' = Some (harmless ''upgrade'')"
    "function_named ?body ''downgrade'' = Some (harmless ''downgrade'')"
    "irreversible_target (Some (harmless ''downgrade'')) = None"
    "list_all (\<lambda>e. destructive_operation e = None \<and> not_null_column e = None \<and> \<not> non_concurrent e)
       (walk (harmless ''upgrade''))"
    by code_simp+
  have none: "List.map_filter f xs = []" if "\<forall>x \<in> set xs. f x = None" for f and xs :: "py_node list"
    using that by (induction xs) (simp_all add: List.map_filter_def)
  have "module_findings ''h'' (demo_node ''1'' [] NEW) ?body = []"
    using named
    by (simp add: module_findings_def destructive_ddl_def direct_not_null_def non_concurrent_index_def
        irreversible_downgrade_def opt_list_def none list_all_iff)
  moreover have "function_named ?body ''upgrade'' \<noteq> None" "function_named ?body ''downgrade'' \<noteq> None"
    using named by simp_all
  ultimately show ?thesis by (intro trans [OF later_definitions_ignored])
qed

section \<open>Reports\<close>

lemma max_severity_max:
  "best \<le> max_severity best ss \<and> (\<forall>s \<in> set ss. s \<le> max_severity best ss) \<and>
   max_severity best ss \<in> insert best (set ss)"
proof (induction best ss rule: max_severity.induct)
  case (2 best s ss)
  show ?case
  proof (cases "best < s")
    case True
    with 2 have "s \<le> max_severity s ss" "\<forall>t \<in> set ss. t \<le> max_severity s ss"
      "max_severity s ss \<in> insert s (set ss)" by (simp_all add: less_severity_def)
    moreover from this(1) True have "best \<le> max_severity s ss" by (metis less_imp_le order_trans)
    ultimately show ?thesis using True by (simp add: less_severity_def)
  next
    case False
    with 2 have "best \<le> max_severity best ss" "\<forall>t \<in> set ss. t \<le> max_severity best ss"
      "max_severity best ss \<in> insert best (set ss)" by (simp_all add: less_severity_def)
    moreover from this(1) False have "s \<le> max_severity best ss" by (metis linorder_not_less order_trans)
    ultimately show ?thesis using False by (auto simp: less_severity_def)
  qed
qed simp

lemma risk_of_max:
  "(\<forall>f \<in> set fs. sf_severity f \<le> risk_of fs) \<and> (fs \<noteq> [] \<longrightarrow> (\<exists>f \<in> set fs. sf_severity f = risk_of fs)) \<and>
   (fs = [] \<longrightarrow> risk_of fs = INFO)"
proof (cases fs)
  case (Cons f rest)
  define m where "m = max_severity (sf_severity f) (map sf_severity rest)"
  have "sf_severity f \<le> m" "\<forall>g \<in> set rest. sf_severity g \<le> m"
    "m = sf_severity f \<or> (\<exists>g \<in> set rest. m = sf_severity g)"
    using max_severity_max [of "sf_severity f" "map sf_severity rest"] by (auto simp: m_def)
  moreover have "risk_of fs = m" by (simp add: Cons risk_of_def m_def)
  ultimately show ?thesis unfolding Cons by (metis (no_types) list.set_intros(1) list.set_intros(2)
      list.distinct(1) set_ConsD)
qed (simp add: risk_of_def)

lemma analyze_Inr:
  assumes "analyze parse manifest_parse limit found_snapshot found_graph artifact rid now run sid = Inr rep"
  shows "\<exists>snap g found. found_snapshot = Some snap \<and> found_graph = Some g \<and> sn_run_id snap = run \<and>
           rg_snapshot_id g = sid \<and>
           content_findings parse
             (\<lambda>path. read_text manifest_parse (Some snap) artifact sid path limit)
             (sn_content_hash snap) (rg_changed_revisions g) (rg_nodes g) = Inr found \<and>
           rep = (report_of rid now run snap g found)\<lparr>sp_snapshot_id := sid\<rparr>"
  using assms by (auto simp: analyze_def Let_def bind_res_Inr split: option.splits if_splits)

text \<open>
  The risk level of a report is the greatest severity among its findings and INFO without
  any; the findings are those of the changed revisions and one per unsupported reason, ordered by
  falling severity, then path, line, column and rule; so a graph with an unsupported reason is
  never rated below HIGH.
\<close>

lemma report_risk:
  assumes "analyze parse manifest_parse limit found_snapshot (Some g) artifact rid now run sid = Inr rep"
  shows "sorted (map finding_key (sp_findings rep)) \<and>
         (\<forall>f \<in> set (sp_findings rep). sf_severity f \<le> sp_risk_level rep) \<and>
         (if sp_findings rep = [] then sp_risk_level rep = INFO
          else \<exists>f \<in> set (sp_findings rep). sf_severity f = sp_risk_level rep) \<and>
         (\<forall>r \<in> set (rg_unsupported_reasons g).
            structural_finding (sp_snapshot_hash rep) r \<in> set (sp_findings rep)) \<and>
         (rg_unsupported_reasons g \<noteq> [] \<longrightarrow> sp_risk_level rep = HIGH)"
proof -
  obtain snap found where rep: "rep = (report_of rid now run snap g found)\<lparr>sp_snapshot_id := sid\<rparr>"
    using analyze_Inr [OF assms] by auto
  have fs: "sp_findings rep =
      sort_key finding_key (found @ structural_findings (sn_content_hash snap) g)"
    and risk: "sp_risk_level rep = risk_of (sp_findings rep)"
    and hash: "sp_snapshot_hash rep = sn_content_hash snap"
    by (simp_all add: rep report_of_def Let_def)
  have str: "\<forall>r \<in> set (rg_unsupported_reasons g).
      structural_finding (sp_snapshot_hash rep) r \<in> set (sp_findings rep)"
    by (auto simp: fs hash structural_findings_def)
  have "sp_risk_level rep = HIGH" if "rg_unsupported_reasons g \<noteq> []"
  proof -
    define r where "r = hd (rg_unsupported_reasons g)"
    have "r \<in> set (rg_unsupported_reasons g)" using that by (simp add: r_def)
    with str have "structural_finding (sp_snapshot_hash rep) r \<in> set (sp_findings rep)" by blast
    with risk_of_max [of "sp_findings rep"] have "sf_severity (structural_finding (sp_snapshot_hash rep) r)
        \<le> sp_risk_level rep" unfolding risk by blast
    then show ?thesis
      by (cases "sp_risk_level rep") (simp_all add: structural_finding_def less_eq_severity_def)
  qed
  moreover have "sorted (map finding_key (sp_findings rep))" by (simp add: fs)
  ultimately show ?thesis using str risk_of_max [of "sp_findings rep"] by (simp add: risk)
qed

lemma report_risk_witness:
  "\<exists>rep. analyze (Parsed \<circ> demo_module) (\<lambda>_. None) 10 (Some demo_snapshot)
     (Some (build_graph demo_snapshot [] [] 5 0)) (temporary_artifact Map.empty []) 6 0
     (sn_run_id demo_snapshot) (sn_id demo_snapshot) = Inr rep \<and> sp_risk_level rep = HIGH"
proof -
  let ?g = "build_graph demo_snapshot [] [] 5 0"
  have g: "rg_nodes ?g = []" "rg_snapshot_id ?g = sn_id demo_snapshot" "rg_unsupported_reasons ?g \<noteq> []"
    by code_simp+
  have run: "\<exists>rep. analyze (Parsed \<circ> demo_module) (\<lambda>_. None) 10 (Some demo_snapshot) (Some ?g)
      (temporary_artifact Map.empty []) 6 0 (sn_run_id demo_snapshot) (sn_id demo_snapshot) = Inr rep"
    by (simp add: analyze_def g)
  then show ?thesis using report_risk g(3) by blast
qed

end
