(* ===== verification/PlanContracts.thy ===== *)
theory PlanContracts
  imports Prelude Errors
begin

text \<open>
  \<open>agent/contracts.py\<close> (the plan and its field constraints) and \<open>agent/catalog.py\<close> (the fixed
  capabilities).
\<close>

section \<open>Capabilities\<close>

datatype capability =
    PROVISION_SHADOW_DB | UPGRADE_BASELINE | APPLY_TARGET_MIGRATIONS | LOAD_TEST_DATA
  | RUN_SMOKE_CHECKS | VERIFY_ROLLBACK_ROUNDTRIP | COLLECT_EVIDENCE | CLEANUP_SHADOW_ENVIRONMENT

fun capability_value :: "capability \<Rightarrow> string" where
  "capability_value PROVISION_SHADOW_DB = ''provision_shadow_db''"
| "capability_value UPGRADE_BASELINE = ''upgrade_baseline''"
| "capability_value APPLY_TARGET_MIGRATIONS = ''apply_target_migrations''"
| "capability_value LOAD_TEST_DATA = ''load_test_data''"
| "capability_value RUN_SMOKE_CHECKS = ''run_smoke_checks''"
| "capability_value VERIFY_ROLLBACK_ROUNDTRIP = ''verify_rollback_roundtrip''"
| "capability_value COLLECT_EVIDENCE = ''collect_evidence''"
| "capability_value CLEANUP_SHADOW_ENVIRONMENT = ''cleanup_shadow_environment''"

record capability_spec =
  cs_name :: capability
  cs_version :: string
  cs_mandatory :: bool
  cs_max_timeout_seconds :: int
  cs_prerequisites :: "capability list"

definition spec_of :: "capability \<Rightarrow> int \<Rightarrow> capability list \<Rightarrow> capability_spec" where
  "spec_of name limit prerequisites =
     \<lparr>cs_name = name, cs_version = ''1.0'', cs_mandatory = True, cs_max_timeout_seconds = limit,
      cs_prerequisites = prerequisites\<rparr>"

definition capability_catalog :: "capability_spec list" where
  "capability_catalog =
     [spec_of PROVISION_SHADOW_DB 60 [],
      spec_of UPGRADE_BASELINE 180 [PROVISION_SHADOW_DB],
      spec_of APPLY_TARGET_MIGRATIONS 180 [UPGRADE_BASELINE],
      spec_of LOAD_TEST_DATA 120 [APPLY_TARGET_MIGRATIONS],
      spec_of RUN_SMOKE_CHECKS 120 [LOAD_TEST_DATA],
      spec_of VERIFY_ROLLBACK_ROUNDTRIP 300 [RUN_SMOKE_CHECKS],
      spec_of COLLECT_EVIDENCE 60 [VERIFY_ROLLBACK_ROUNDTRIP],
      spec_of CLEANUP_SHADOW_ENVIRONMENT 60 [COLLECT_EVIDENCE]]"

definition capabilities :: "capability list" where
  "capabilities = map cs_name capability_catalog"

text \<open>\<open>CAPABILITIES_BY_NAME\<close>; every name is a key.\<close>

definition capability_named :: "capability \<Rightarrow> capability_spec" where
  "capability_named c = the (find (\<lambda>s. cs_name s = c) capability_catalog)"

lemma set_capabilities: "set capabilities = UNIV"
proof -
  have "c \<in> set capabilities" for c
    by (cases c) (simp_all add: capabilities_def capability_catalog_def spec_of_def)
  then show ?thesis by blast
qed

lemma distinct_capabilities: "distinct capabilities"
  by code_simp

lemma capability_named_mem: "capability_named c \<in> set capability_catalog \<and> cs_name (capability_named c) = c"
  by (cases c) (simp_all add: capability_named_def capability_catalog_def spec_of_def)

lemma capability_named_eq: "s \<in> set capability_catalog \<Longrightarrow> capability_named (cs_name s) = s"
  by (auto simp: capability_named_def capability_catalog_def spec_of_def)

section \<open>Plans\<close>

record plan_step =
  ps_id :: string
  ps_capability :: capability
  ps_depends_on :: "string list"
  ps_timeout_seconds :: int
  ps_required :: bool
  ps_reason :: string
  ps_evidence_refs :: "string list"

record audit_plan =
  ap_objective :: string
  ap_steps :: "plan_step list"
  ap_coverage_gaps :: "string list"
  ap_assumptions :: "string list"

text \<open>The field constraints; \<open>^[a-z][a-z0-9_]{0,63}$\<close> on the step identifiers.\<close>

definition lower_char :: "char \<Rightarrow> bool" where
  "lower_char c \<longleftrightarrow> c \<in> set ''abcdefghijklmnopqrstuvwxyz''"

definition step_id_valid :: "string \<Rightarrow> bool" where
  "step_id_valid s \<longleftrightarrow>
     (case s of [] \<Rightarrow> False
      | c # cs \<Rightarrow> lower_char c \<and> length cs \<le> 63 \<and>
          list_all (\<lambda>d. lower_char d \<or> d \<in> set ''0123456789_'') cs)"

definition short_statement :: "string \<Rightarrow> bool" where
  "short_statement s \<longleftrightarrow> 1 \<le> length s \<and> length s \<le> 500"

definition evidence_reference :: "string \<Rightarrow> bool" where
  "evidence_reference s \<longleftrightarrow> 1 \<le> length s \<and> length s \<le> 255"

definition plan_step_valid :: "plan_step \<Rightarrow> bool" where
  "plan_step_valid s \<longleftrightarrow>
     step_id_valid (ps_id s) \<and> length (ps_depends_on s) \<le> 16 \<and>
     1 \<le> ps_timeout_seconds s \<and> ps_timeout_seconds s \<le> 600 \<and> short_statement (ps_reason s) \<and>
     length (ps_evidence_refs s) \<le> 32 \<and> list_all evidence_reference (ps_evidence_refs s)"

definition audit_plan_valid :: "audit_plan \<Rightarrow> bool" where
  "audit_plan_valid p \<longleftrightarrow>
     short_statement (ap_objective p) \<and> 1 \<le> length (ap_steps p) \<and> length (ap_steps p) \<le> 32 \<and>
     list_all plan_step_valid (ap_steps p) \<and>
     length (ap_coverage_gaps p) \<le> 16 \<and> list_all short_statement (ap_coverage_gaps p) \<and>
     length (ap_assumptions p) \<le> 16 \<and> list_all short_statement (ap_assumptions p)"

end
