(* ===== verification/PlanValidator.thy ===== *)
theory PlanValidator
  imports PlanContracts CycleSearch
begin

text \<open>
  \<open>agent/validator.py\<close>: the safety check of a plan.  \<open>PlanValidationError\<close> is the left side of
  the result, with its sorted error codes.
\<close>

definition evidence_prefixes :: "string list" where
  "evidence_prefixes = [''evidence:'', ''revision:'', ''finding:'', ''static-report:'']"

definition evidence_ref_ok :: "string \<Rightarrow> bool" where
  "evidence_ref_ok ref = list_ex (starts_with ref) evidence_prefixes"

text \<open>The loop body over the catalog.\<close>

definition catalog_errors ::
    "(capability \<times> plan_step) list \<Rightarrow> capability_spec \<Rightarrow> string list" where
  "catalog_errors by_capability specification =
     (case map_of by_capability (cs_name specification) of
        None \<Rightarrow>
          if cs_mandatory specification
          then [''MANDATORY_CAPABILITY_MISSING:'' @ capability_value (cs_name specification)] else []
      | Some step \<Rightarrow>
          (if \<not> ps_required step then [''MANDATORY_STEP_NOT_REQUIRED:'' @ ps_id step] else []) @
          (if cs_max_timeout_seconds specification < ps_timeout_seconds step
           then [''TIMEOUT_EXCEEDS_CAPABILITY_LIMIT:'' @ ps_id step] else []) @
          (if list_ex (\<lambda>ref. \<not> evidence_ref_ok ref) (ps_evidence_refs step)
           then [''EVIDENCE_REF_INVALID:'' @ ps_id step] else []))"

definition dependency_errors :: "(string \<times> plan_step) list \<Rightarrow> plan_step \<Rightarrow> string list" where
  "dependency_errors by_id step =
     (if ps_id step \<in> set (ps_depends_on step) \<or>
         list_ex (\<lambda>item. map_of by_id item = None) (ps_depends_on step)
      then [''DEPENDENCY_INVALID:'' @ ps_id step] else [])"

text \<open>\<open>visit\<close> of \<open>_has_cycle\<close>: the state is \<open>(visiting, visited)\<close>.\<close>

fun plan_visit ::
    "nat \<Rightarrow> (string \<rightharpoonup> string list) \<Rightarrow> string \<Rightarrow> string set \<times> string set \<Rightarrow>
     (bool \<times> string set \<times> string set) option" where
  "plan_visit 0 by_id step_id st = None"
| "plan_visit (Suc n) by_id step_id (visiting, visited) =
     (if step_id \<in> visiting then Some (True, visiting, visited)
      else if step_id \<in> visited \<or> by_id step_id = None then Some (False, visiting, visited)
      else map_option (\<lambda>(cyclic, visiting', visited').
                (cyclic, visiting' - {step_id}, insert step_id visited'))
             (any_st (plan_visit n by_id) (the (by_id step_id)) (insert step_id visiting, visited)))"

definition plan_has_cycle :: "(string \<times> plan_step) list \<Rightarrow> bool" where
  "plan_has_cycle by_id =
     (case any_st (plan_visit (Suc (length by_id)) (map_option ps_depends_on \<circ> map_of by_id))
             (map fst by_id) ({}, {}) of
        None \<Rightarrow> False
      | Some (cyclic, st) \<Rightarrow> cyclic)"

text \<open>
  The \<open>while\<close> loop of \<open>_ancestor_capabilities\<close>.  The stack is \<open>pending\<close> from its end, where
  \<open>pop\<close> and \<open>extend\<close> work.
\<close>

function ancestors ::
    "(string \<times> plan_step) list \<Rightarrow> string list \<Rightarrow> capability set \<Rightarrow> capability set" where
  "ancestors by_id [] result = result"
| "ancestors by_id (dependency # stack) result =
     (case map_of by_id dependency of
        None \<Rightarrow> ancestors by_id stack result
      | Some step \<Rightarrow>
          if ps_capability step \<in> result then ancestors by_id stack result
          else ancestors by_id (rev (ps_depends_on step) @ stack)
                 (insert (ps_capability step) result))"
  by pat_completeness auto
termination
proof (relation "measures [\<lambda>(by_id, stack, result). length (filter (\<lambda>c. c \<notin> result) capabilities),
      \<lambda>(by_id, stack, result). length stack]", goal_cases)
  case (4 by_id dependency stack result step)
  have "filter (\<lambda>c. c \<notin> insert (ps_capability step) result) capabilities =
      filter (\<lambda>c. c \<noteq> ps_capability step) (filter (\<lambda>c. c \<notin> result) capabilities)"
    unfolding filter_filter by (rule filter_cong) auto
  moreover have "ps_capability step \<in> set (filter (\<lambda>c. c \<notin> result) capabilities)"
    using 4 by (simp add: set_capabilities)
  ultimately have "length (filter (\<lambda>c. c \<notin> insert (ps_capability step) result) capabilities) <
      length (filter (\<lambda>c. c \<notin> result) capabilities)"
    by (simp only:) (rule length_filter_less, auto)
  then show ?case by simp
qed auto

definition ancestor_capabilities :: "string \<Rightarrow> (string \<times> plan_step) list \<Rightarrow> capability set" where
  "ancestor_capabilities step_id by_id =
     ancestors by_id (rev (case map_of by_id step_id of None \<Rightarrow> [] | Some s \<Rightarrow> ps_depends_on s)) {}"

definition prerequisite_errors ::
    "(string \<times> plan_step) list \<Rightarrow> capability \<Rightarrow> plan_step \<Rightarrow> string list" where
  "prerequisite_errors by_id capability step =
     map (\<lambda>p. ''CAPABILITY_PREREQUISITE_MISSING:'' @ capability_value capability @ '':'' @
                capability_value p)
       (filter (\<lambda>p. p \<notin> ancestor_capabilities (ps_id step) by_id)
          (cs_prerequisites (capability_named capability)))"

definition plan_errors :: "audit_plan \<Rightarrow> string list" where
  "plan_errors plan =
     (let steps = ap_steps plan;
          by_id = dict_of (map (\<lambda>s. (ps_id s, s)) steps);
          by_capability = dict_of (map (\<lambda>s. (ps_capability s, s)) steps)
      in (if length by_id \<noteq> length steps then [''DUPLICATE_STEP_ID''] else []) @
         (if length by_capability \<noteq> length steps then [''DUPLICATE_CAPABILITY''] else []) @
         concat (map (catalog_errors by_capability) capability_catalog) @
         concat (map (dependency_errors by_id) steps) @
         (if plan_has_cycle by_id then [''PLAN_CYCLE''] else []) @
         concat (map (\<lambda>(c, s). prerequisite_errors by_id c s) by_capability))"

definition validate_plan :: "audit_plan \<Rightarrow> string list + audit_plan" where
  "validate_plan plan =
     (let errors = plan_errors plan
      in if errors \<noteq> [] then Inl (sorted_set errors) else Inr plan)"

end
