(* ===== verification/PlanFacts.thy ===== *)
theory PlanFacts
  imports PlanValidator
begin

text \<open>
  The specification of an acceptable plan, and the proof that the validator decides it.
\<close>

section \<open>The specification\<close>

definition step_named :: "audit_plan \<Rightarrow> string \<Rightarrow> plan_step \<Rightarrow> bool" where
  "step_named plan i s \<longleftrightarrow> s \<in> set (ap_steps plan) \<and> ps_id s = i"

text \<open>\<open>(a, b)\<close>: step \<open>a\<close> waits for step \<open>b\<close>.\<close>

definition waits_for :: "audit_plan \<Rightarrow> (string \<times> string) set" where
  "waits_for plan =
     {(a, b). \<exists>s \<in> set (ap_steps plan). ps_id s = a \<and> b \<in> set (ps_depends_on s)}"

definition plan_ok :: "audit_plan \<Rightarrow> bool" where
  "plan_ok plan \<longleftrightarrow>
     distinct (map ps_id (ap_steps plan)) \<and> distinct (map ps_capability (ap_steps plan)) \<and>
     ps_capability ` set (ap_steps plan) = UNIV \<and>
     (\<forall>s \<in> set (ap_steps plan).
        ps_required s \<and>
        ps_timeout_seconds s \<le> cs_max_timeout_seconds (capability_named (ps_capability s)) \<and>
        (\<forall>ref \<in> set (ps_evidence_refs s). evidence_ref_ok ref) \<and>
        ps_id s \<notin> set (ps_depends_on s) \<and> set (ps_depends_on s) \<subseteq> ps_id ` set (ap_steps plan)) \<and>
     acyclic (waits_for plan) \<and>
     (\<forall>s \<in> set (ap_steps plan). \<forall>p \<in> set (cs_prerequisites (capability_named (ps_capability s))).
        \<exists>t \<in> set (ap_steps plan). ps_capability t = p \<and> (ps_id s, ps_id t) \<in> (waits_for plan)\<^sup>+)"

section \<open>Indexes\<close>

lemma dict_of_distinct: "distinct (map fst kvs) \<Longrightarrow> dict_of kvs = kvs"
proof -
  have "distinct (map fst (d @ kvs)) \<Longrightarrow> fold (\<lambda>(k, v). dict_set k v) kvs d = d @ kvs" for d
  proof (induction kvs arbitrary: d)
    case (Cons kv kvs)
    obtain k v where kv: "kv = (k, v)" by force
    have "k \<notin> set (map fst d) \<Longrightarrow> dict_set k v d = d @ [(k, v)]"
      by (induction k v d rule: dict_set.induct) auto
    then have "dict_set k v d = d @ [(k, v)]" using Cons.prems by (auto simp: kv)
    then show ?case using Cons.IH [of "d @ [(k, v)]"] Cons.prems by (simp add: kv)
  qed simp
  from this [of "[]"] show "distinct (map fst kvs) \<Longrightarrow> dict_of kvs = kvs" by (simp add: dict_of_def)
qed

lemma length_dict_of: "length (dict_of kvs) = card (fst ` set kvs)"
  using distinct_card [OF distinct_dict_of [of kvs]] keys_dict_of [of kvs] by simp

lemma index_complete:
  "length (dict_of (map (\<lambda>x. (key x, x)) xs)) = length xs \<longleftrightarrow> distinct (map key xs)"
proof -
  have "fst ` set (map (\<lambda>x. (key x, x)) xs) = set (map key xs)" by force
  then show ?thesis by (simp only: length_dict_of) (metis card_distinct distinct_card length_map)
qed

lemma index_distinct:
  "distinct (map key xs) \<Longrightarrow> dict_of (map (\<lambda>x. (key x, x)) xs) = map (\<lambda>x. (key x, x)) xs"
  by (rule dict_of_distinct) (simp add: comp_def)

lemma map_of_index:
  "distinct (map key xs) \<Longrightarrow> map_of (map (\<lambda>x. (key x, x)) xs) k = Some x \<longleftrightarrow> x \<in> set xs \<and> key x = k"
proof (induction xs)
  case (Cons a xs)
  then show ?case by (auto simp: image_iff)
qed simp

section \<open>The cycle search\<close>

abbreviation depends_in :: "(string \<times> plan_step) list \<Rightarrow> string \<rightharpoonup> string list" where
  "depends_in by_id \<equiv> map_option ps_depends_on \<circ> map_of by_id"

interpretation plan_search: cycle_search
  "dom (depends_in by_id)" "\<lambda>i. the (depends_in by_id i)" "\<lambda>n. plan_visit n (depends_in by_id)"
  "\<lambda>(visiting, visited). visiting" "\<lambda>(visiting, visited). visited" "\<lambda>_. True"
  "\<lambda>i (visiting, visited). (insert i visiting, visited)"
  "\<lambda>i (visiting, visited). (visiting - {i}, insert i visited)"
  for by_id
proof (unfold_locales, goal_cases)
  case 1
  show ?case by (rule finite_subset [OF _ finite_dom_map_of [of by_id]]) auto
next
  case (3 n i st)
  then show ?case by (cases st) (auto intro!: option.map_cong0)
qed auto

lemma plan_has_cycle_iff:
  "plan_has_cycle by_id \<longleftrightarrow> (\<exists>x. (x, x) \<in> (plan_search.edges by_id)\<^sup>+)"
proof -
  have nodes: "set (map fst by_id) = dom (depends_in by_id)"
    by (simp add: dom_map_option_comp dom_map_of_conv_image_fst)
  have "card (dom (depends_in by_id)) \<le> length by_id"
    using card_length [of "map fst by_id"] by (simp only: nodes [symmetric] length_map)
  then have "card (dom (depends_in by_id)) < Suc (length by_id)" by simp
  from plan_search.search_correct [OF _ _ _ this nodes, of "({}, {})"]
  show ?thesis by (auto simp: plan_has_cycle_def)
qed

section \<open>Ancestors\<close>

text \<open>The steps that a dependency leads to.\<close>

definition dep_edges :: "(string \<times> plan_step) list \<Rightarrow> (string \<times> string) set" where
  "dep_edges by_id = {(a, b). \<exists>s. map_of by_id a = Some s \<and> b \<in> set (ps_depends_on s)}"

definition caps_from :: "(string \<times> plan_step) list \<Rightarrow> string set \<Rightarrow> capability set" where
  "caps_from by_id starts =
     {ps_capability s | s i j. i \<in> starts \<and> (i, j) \<in> (dep_edges by_id)\<^sup>* \<and> map_of by_id j = Some s}"

lemma ancestors_sound:
  "ancestors by_id stack result \<subseteq> result \<union> caps_from by_id (set stack)"
proof (induction by_id stack result rule: ancestors.induct)
  case (2 by_id d stack result)
  have mono: "caps_from by_id A \<subseteq> caps_from by_id B" if "A \<subseteq> B" for A B
    using that unfolding caps_from_def by blast
  show ?case
  proof (cases "map_of by_id d")
    case None
    with 2(1) mono [of "set stack" "set (d # stack)"] show ?thesis by auto
  next
    case (Some s)
    have self: "ps_capability s \<in> caps_from by_id (set (d # stack))"
      unfolding caps_from_def using Some by auto
    have "caps_from by_id (set (ps_depends_on s)) \<subseteq> caps_from by_id {d}"
    proof -
      have "(d, i) \<in> dep_edges by_id" if "i \<in> set (ps_depends_on s)" for i
        using Some that unfolding dep_edges_def by blast
      then show ?thesis unfolding caps_from_def
        by (auto intro: converse_rtrancl_into_rtrancl)
    qed
    moreover have "caps_from by_id (A \<union> B) = caps_from by_id A \<union> caps_from by_id B" for A B
      unfolding caps_from_def by blast
    ultimately have "caps_from by_id (set (rev (ps_depends_on s) @ stack)) \<subseteq>
        caps_from by_id (set (d # stack))"
      using mono [of "{d}" "set (d # stack)"] mono [of "set stack" "set (d # stack)"] by auto
    with 2(2,3) [OF Some] Some self mono [of "set stack" "set (d # stack)"] show ?thesis
      by (auto split: if_splits)
  qed
qed simp

text \<open>
  Completeness needs that a capability belongs to one step only: the loop marks capabilities, not
  steps.
\<close>

definition caps_unique :: "(string \<times> plan_step) list \<Rightarrow> bool" where
  "caps_unique by_id \<longleftrightarrow>
     (\<forall>i j s t. map_of by_id i = Some s \<longrightarrow> map_of by_id j = Some t \<longrightarrow>
        ps_capability s = ps_capability t \<longrightarrow> s = t)"

definition frontier_ok :: "(string \<times> plan_step) list \<Rightarrow> string set \<Rightarrow> capability set \<Rightarrow> bool" where
  "frontier_ok by_id stack result \<longleftrightarrow>
     (\<forall>i s d t. map_of by_id i = Some s \<longrightarrow> ps_capability s \<in> result \<longrightarrow>
        d \<in> set (ps_depends_on s) \<longrightarrow> map_of by_id d = Some t \<longrightarrow>
        d \<in> stack \<or> ps_capability t \<in> result)"

lemma ancestors_closed:
  assumes "caps_unique by_id" and "frontier_ok by_id (set stack) result"
  shows "result \<subseteq> ancestors by_id stack result \<and>
         (\<forall>d \<in> set stack. \<forall>t. map_of by_id d = Some t \<longrightarrow>
            ps_capability t \<in> ancestors by_id stack result) \<and>
         frontier_ok by_id {} (ancestors by_id stack result)"
  using assms
proof (induction by_id stack result rule: ancestors.induct)
  case (2 by_id d stack result)
  show ?case
  proof (cases "map_of by_id d")
    case None
    then have "frontier_ok by_id (set stack) result" using 2(5) unfolding frontier_ok_def
      by (metis insertE list.simps(15) option.distinct(1))
    with 2(1) [OF None 2(4)] None show ?thesis by simp
  next
    case (Some s)
    show ?thesis
    proof (cases "ps_capability s \<in> result")
      case True
      then have "frontier_ok by_id (set stack) result"
        using 2(5) Some unfolding frontier_ok_def by (metis insertE list.simps(15) option.inject)
      with 2(2) [OF Some True 2(4)] Some True show ?thesis by auto
    next
      case False
      let ?stack = "rev (ps_depends_on s) @ stack" and ?result = "insert (ps_capability s) result"
      have "frontier_ok by_id (set ?stack) ?result"
        unfolding frontier_ok_def
      proof (intro allI impI)
        fix i u e t
        assume u: "map_of by_id i = Some u" "ps_capability u \<in> ?result" "e \<in> set (ps_depends_on u)"
          "map_of by_id e = Some t"
        show "e \<in> set ?stack \<or> ps_capability t \<in> ?result"
        proof (cases "ps_capability u = ps_capability s")
          case True
          with 2(4) u(1) Some have "u = s" unfolding caps_unique_def by blast
          with u(3) show ?thesis by simp
        next
          case False
          with u have "e \<in> set (d # stack) \<or> ps_capability t \<in> result"
            using 2(5) unfolding frontier_ok_def by blast
          with u(4) Some show ?thesis by auto
        qed
      qed
      with 2(3) [OF Some False 2(4)] Some False show ?thesis by simp blast
    qed
  qed
qed simp

lemma ancestor_capabilities_eq:
  assumes "caps_unique by_id" and "map_of by_id i = Some s"
  shows "ancestor_capabilities i by_id =
           {ps_capability t | j t. (i, j) \<in> (dep_edges by_id)\<^sup>+ \<and> map_of by_id j = Some t}"
proof -
  let ?R = "ancestors by_id (rev (ps_depends_on s)) {}"
  have R: "ancestor_capabilities i by_id = ?R" using assms(2) by (simp add: ancestor_capabilities_def)
  have from_i: "caps_from by_id (set (ps_depends_on s)) =
      {ps_capability t | j t. (i, j) \<in> (dep_edges by_id)\<^sup>+ \<and> map_of by_id j = Some t}"
  proof -
    have "(i, j) \<in> (dep_edges by_id)\<^sup>+ \<longleftrightarrow>
        (\<exists>d \<in> set (ps_depends_on s). (d, j) \<in> (dep_edges by_id)\<^sup>*)" for j
      using assms(2) by (auto simp: dep_edges_def tranclD intro: rtrancl_into_trancl2 dest!: tranclD)
    then show ?thesis unfolding caps_from_def by blast
  qed
  have closed: "(\<forall>d \<in> set (ps_depends_on s). \<forall>t. map_of by_id d = Some t \<longrightarrow> ps_capability t \<in> ?R) \<and>
      frontier_ok by_id {} ?R"
    using ancestors_closed [OF assms(1), of "rev (ps_depends_on s)" "{}"]
    by (simp add: frontier_ok_def)
  have "caps_from by_id (set (ps_depends_on s)) \<subseteq> ?R"
  proof
    fix c assume "c \<in> caps_from by_id (set (ps_depends_on s))"
    then obtain t d j where c: "c = ps_capability t" "d \<in> set (ps_depends_on s)"
      "(d, j) \<in> (dep_edges by_id)\<^sup>*" "map_of by_id j = Some t" unfolding caps_from_def by blast
    from c(3,4) have "ps_capability t \<in> ?R"
    proof (induction arbitrary: t rule: rtrancl_induct)
      case base
      with closed c(2) show ?case by blast
    next
      case (step j k)
      from step(2) obtain u where u: "map_of by_id j = Some u" "k \<in> set (ps_depends_on u)"
        unfolding dep_edges_def by blast
      with step(3) have "ps_capability u \<in> ?R" by blast
      with closed u step(4) show ?case unfolding frontier_ok_def by blast
    qed
    with c(1) show "c \<in> ?R" by simp
  qed
  with ancestors_sound [of by_id "rev (ps_depends_on s)" "{}"] show ?thesis
    by (simp add: R from_i)
qed

section \<open>The validator decides the specification\<close>

lemma catalog_errors_Nil:
  assumes "distinct (map ps_capability (ap_steps plan))"
  defines "by_cap \<equiv> map (\<lambda>s. (ps_capability s, s)) (ap_steps plan)"
  shows "concat (map (catalog_errors by_cap) capability_catalog) = [] \<longleftrightarrow>
     ps_capability ` set (ap_steps plan) = UNIV \<and>
     (\<forall>s \<in> set (ap_steps plan). ps_required s \<and>
        ps_timeout_seconds s \<le> cs_max_timeout_seconds (capability_named (ps_capability s)) \<and>
        (\<forall>ref \<in> set (ps_evidence_refs s). evidence_ref_ok ref))"
proof -
  have get: "map_of by_cap c = Some s \<longleftrightarrow> s \<in> set (ap_steps plan) \<and> ps_capability s = c" for c s
    unfolding by_cap_def by (rule map_of_index [OF assms(1)])
  have none: "map_of by_cap c = None \<longleftrightarrow> c \<notin> ps_capability ` set (ap_steps plan)" for c
    using get by (metis imageE image_eqI not_Some_eq)
  have mandatory: "cs_mandatory (capability_named c)" for c
    by (cases c) (simp_all add: capability_named_def capability_catalog_def spec_of_def)
  have spec: "catalog_errors by_cap (capability_named c) = [] \<longleftrightarrow>
      (\<exists>s. map_of by_cap c = Some s \<and> ps_required s \<and>
         ps_timeout_seconds s \<le> cs_max_timeout_seconds (capability_named c) \<and>
         (\<forall>ref \<in> set (ps_evidence_refs s). evidence_ref_ok ref))" for c
    using mandatory [of c] capability_named_mem [of c]
    by (auto simp: catalog_errors_def list_ex_iff split: option.splits)
  have "concat (map (catalog_errors by_cap) capability_catalog) = [] \<longleftrightarrow>
      (\<forall>c. catalog_errors by_cap (capability_named c) = [])"
    using capability_named_mem capability_named_eq by (simp add: concat_eq_Nil_conv) metis
  also have "\<dots> \<longleftrightarrow> (\<forall>c. c \<in> ps_capability ` set (ap_steps plan)) \<and>
      (\<forall>s \<in> set (ap_steps plan). catalog_errors by_cap (capability_named (ps_capability s)) = [])"
  proof -
    have "c \<in> ps_capability ` set (ap_steps plan)" if "catalog_errors by_cap (capability_named c) = []" for c
    proof -
      obtain s where "map_of by_cap c = Some s" using \<open>catalog_errors by_cap (capability_named c) = []\<close>
        unfolding spec by blast
      then show ?thesis using get by auto
    qed
    then show ?thesis by (metis imageE)
  qed
  also have "\<dots> \<longleftrightarrow> ps_capability ` set (ap_steps plan) = UNIV \<and>
      (\<forall>s \<in> set (ap_steps plan). ps_required s \<and>
        ps_timeout_seconds s \<le> cs_max_timeout_seconds (capability_named (ps_capability s)) \<and>
        (\<forall>ref \<in> set (ps_evidence_refs s). evidence_ref_ok ref))"
  proof -
    have "map_of by_cap (ps_capability s) = Some s" if "s \<in> set (ap_steps plan)" for s
      using that get by blast
    then show ?thesis unfolding spec by auto
  qed
  finally show ?thesis .
qed

lemma dependency_errors_Nil:
  assumes "distinct (map ps_id (ap_steps plan))"
  defines "by_id \<equiv> map (\<lambda>s. (ps_id s, s)) (ap_steps plan)"
  shows "concat (map (dependency_errors by_id) (ap_steps plan)) = [] \<longleftrightarrow>
     (\<forall>s \<in> set (ap_steps plan). ps_id s \<notin> set (ps_depends_on s) \<and>
        set (ps_depends_on s) \<subseteq> ps_id ` set (ap_steps plan))"
proof -
  have "map_of by_id i = None \<longleftrightarrow> i \<notin> ps_id ` set (ap_steps plan)" for i
    by (simp add: by_id_def map_of_eq_None_iff image_image)
  then have "dependency_errors by_id s = [] \<longleftrightarrow> ps_id s \<notin> set (ps_depends_on s) \<and>
      set (ps_depends_on s) \<subseteq> ps_id ` set (ap_steps plan)" for s
    by (simp add: dependency_errors_def list_ex_iff subset_iff del: not_None_eq) blast
  then show ?thesis by (simp add: concat_eq_Nil_conv)
qed

lemma plan_edges:
  assumes "distinct (map ps_id (ap_steps plan))"
  shows "dep_edges (map (\<lambda>s. (ps_id s, s)) (ap_steps plan)) = waits_for plan"
  unfolding dep_edges_def waits_for_def map_of_index [OF assms] by auto

lemma plan_has_cycle_waits:
  assumes "distinct (map ps_id (ap_steps plan))"
    and "\<forall>s \<in> set (ap_steps plan). set (ps_depends_on s) \<subseteq> ps_id ` set (ap_steps plan)"
  shows "plan_has_cycle (map (\<lambda>s. (ps_id s, s)) (ap_steps plan)) \<longleftrightarrow> \<not> acyclic (waits_for plan)"
proof -
  let ?by_id = "map (\<lambda>s. (ps_id s, s)) (ap_steps plan)"
  have dom: "i \<in> dom (depends_in ?by_id) \<longleftrightarrow> i \<in> ps_id ` set (ap_steps plan)" for i
    by (simp add: domIff map_of_eq_None_iff image_image)
  have "plan_search.edges ?by_id = waits_for plan"
  proof (intro subset_antisym subrelI)
    fix a b assume "(a, b) \<in> waits_for plan"
    then obtain s where s: "s \<in> set (ap_steps plan)" "ps_id s = a" "b \<in> set (ps_depends_on s)"
      unfolding waits_for_def by blast
    then have "map_of ?by_id a = Some s" using map_of_index [OF assms(1)] by blast
    moreover have "b \<in> dom (depends_in ?by_id)" using assms(2) s dom by blast
    ultimately show "(a, b) \<in> plan_search.edges ?by_id"
      unfolding plan_search.edges_def using s(3) by auto
  next
    fix a b assume "(a, b) \<in> plan_search.edges ?by_id"
    then obtain s where "map_of ?by_id a = Some s" "b \<in> set (ps_depends_on s)"
      unfolding plan_search.edges_def by auto
    then show "(a, b) \<in> waits_for plan" using map_of_index [OF assms(1)]
      unfolding waits_for_def by blast
  qed
  then show ?thesis by (simp add: plan_has_cycle_iff acyclic_def)
qed

lemma prerequisite_errors_Nil:
  assumes "distinct (map ps_id (ap_steps plan))" and "distinct (map ps_capability (ap_steps plan))"
  defines "by_id \<equiv> map (\<lambda>s. (ps_id s, s)) (ap_steps plan)"
  shows "concat (map (\<lambda>s. prerequisite_errors by_id (ps_capability s) s) (ap_steps plan)) = [] \<longleftrightarrow>
     (\<forall>s \<in> set (ap_steps plan). \<forall>p \<in> set (cs_prerequisites (capability_named (ps_capability s))).
        \<exists>t \<in> set (ap_steps plan). ps_capability t = p \<and> (ps_id s, ps_id t) \<in> (waits_for plan)\<^sup>+)"
proof -
  have get: "map_of by_id i = Some s \<longleftrightarrow> s \<in> set (ap_steps plan) \<and> ps_id s = i" for i s
    unfolding by_id_def by (rule map_of_index [OF assms(1)])
  have "caps_unique by_id" unfolding caps_unique_def get using assms(2) by (metis distinct_map inj_onD)
  note anc = ancestor_capabilities_eq [OF this]
  have "p \<in> ancestor_capabilities (ps_id s) by_id \<longleftrightarrow>
      (\<exists>t \<in> set (ap_steps plan). ps_capability t = p \<and> (ps_id s, ps_id t) \<in> (waits_for plan)\<^sup>+)"
    if "s \<in> set (ap_steps plan)" for s p
  proof -
    have s: "map_of by_id (ps_id s) = Some s" using that get by blast
    have edges: "dep_edges by_id = waits_for plan" unfolding by_id_def by (rule plan_edges [OF assms(1)])
    show ?thesis unfolding anc [OF s] get edges by blast
  qed
  then show ?thesis by (auto simp: prerequisite_errors_def concat_eq_Nil_conv filter_empty_conv)
qed

lemma plan_errors_Nil: "plan_errors plan = [] \<longleftrightarrow> plan_ok plan"
proof (cases "distinct (map ps_id (ap_steps plan)) \<and> distinct (map ps_capability (ap_steps plan))")
  case False
  then show ?thesis
    using index_complete [of ps_id "ap_steps plan"] index_complete [of ps_capability "ap_steps plan"]
    by (auto simp: plan_errors_def plan_ok_def Let_def)
next
  case True
  then have d: "distinct (map ps_id (ap_steps plan))" "distinct (map ps_capability (ap_steps plan))"
    by blast+
  note index = index_distinct [OF d(1)] index_distinct [OF d(2)]
  have "map (\<lambda>(c, s). prerequisite_errors by_id c s) (map (\<lambda>s. (ps_capability s, s)) steps) =
      map (\<lambda>s. prerequisite_errors by_id (ps_capability s) s) steps" for by_id steps by simp
  note nil = catalog_errors_Nil [OF d(2)] dependency_errors_Nil [OF d(1)] prerequisite_errors_Nil [OF d]
  have "plan_errors plan = [] \<longleftrightarrow>
     (ps_capability ` set (ap_steps plan) = UNIV \<and>
     (\<forall>s \<in> set (ap_steps plan). ps_required s \<and>
        ps_timeout_seconds s \<le> cs_max_timeout_seconds (capability_named (ps_capability s)) \<and>
        (\<forall>ref \<in> set (ps_evidence_refs s). evidence_ref_ok ref))) \<and>
     (\<forall>s \<in> set (ap_steps plan). ps_id s \<notin> set (ps_depends_on s) \<and>
        set (ps_depends_on s) \<subseteq> ps_id ` set (ap_steps plan)) \<and>
     \<not> plan_has_cycle (map (\<lambda>s. (ps_id s, s)) (ap_steps plan)) \<and>
     (\<forall>s \<in> set (ap_steps plan). \<forall>p \<in> set (cs_prerequisites (capability_named (ps_capability s))).
        \<exists>t \<in> set (ap_steps plan). ps_capability t = p \<and> (ps_id s, ps_id t) \<in> (waits_for plan)\<^sup>+)"
    unfolding plan_errors_def Let_def index nil [symmetric] by (simp add: comp_def)
  then show ?thesis using plan_has_cycle_waits [OF d(1)] d unfolding plan_ok_def by blast
qed

end
