(* ===== verification/AgentGateway.thy ===== *)
theory AgentGateway
  imports StaticAudit PlanContracts
begin

text \<open>
  \<open>agent/gateway.py\<close> and the tool part of \<open>agent/contracts.py\<close>: the read-only tools over the
  stored results of a run.  The rendering of a \<open>datetime\<close> by pydantic is the argument \<open>isotime\<close>.
\<close>

datatype tool_name =
    DISCOVER_MIGRATIONS | READ_REVISION | GET_STATIC_FINDINGS | DESCRIBE_SHADOW_CAPABILITIES
  | GET_TEST_DATA_PROFILE

fun tool_value :: "tool_name \<Rightarrow> string" where
  "tool_value DISCOVER_MIGRATIONS = ''discover_migrations''"
| "tool_value READ_REVISION = ''read_revision''"
| "tool_value GET_STATIC_FINDINGS = ''get_static_findings''"
| "tool_value DESCRIBE_SHADOW_CAPABILITIES = ''describe_shadow_capabilities''"
| "tool_value GET_TEST_DATA_PROFILE = ''get_test_data_profile''"

record tool_observation =
  to_tool_name :: tool_name
  to_tool_version :: string
  to_data :: "(string \<times> json) list"
  to_evidence_ids :: "string list"

text \<open>The arguments the three argument models accept.\<close>

datatype tool_arguments = NoArguments | RunArguments uuid | RevisionArguments uuid string

fun arguments_json :: "tool_arguments \<Rightarrow> json" where
  "arguments_json NoArguments = JObj []"
| "arguments_json (RunArguments r) = JObj [(''run_id'', JStr (uuid_str r))]"
| "arguments_json (RevisionArguments r revision) =
     JObj [(''run_id'', JStr (uuid_str r)), (''revision'', JStr revision)]"

section \<open>JSON of the stored results\<close>

definition strings_json :: "string list \<Rightarrow> json" where
  "strings_json xs = JList (map JStr xs)"

fun change_kind_value :: "change_kind \<Rightarrow> string" where
  "change_kind_value UNCHANGED = ''UNCHANGED''"
| "change_kind_value NEW = ''NEW''"
| "change_kind_value MODIFIED = ''MODIFIED''"

definition node_json :: "revision_node \<Rightarrow> json" where
  "node_json n =
     JObj [(''revision'', JStr (rn_revision n)), (''parent_ids'', strings_json (rn_parent_ids n)),
           (''relative_path'', JStr (rn_relative_path n)),
           (''change_kind'', JStr (change_kind_value (rn_change_kind n))),
           (''has_upgrade'', JBool (rn_has_upgrade n)),
           (''has_downgrade'', JBool (rn_has_downgrade n)),
           (''content_hash'', JStr (rn_content_hash n)), (''evidence_id'', JStr (rn_evidence_id n))]"

definition reason_json :: "unsupported_reason \<Rightarrow> json" where
  "reason_json r =
     JObj [(''code'', JStr (ur_code r)), (''detail'', JStr (ur_detail r)),
           (''relative_path'', opt_json JStr (ur_relative_path r))]"

definition graph_data :: "(time \<Rightarrow> string) \<Rightarrow> revision_graph \<Rightarrow> (string \<times> json) list" where
  "graph_data isotime g =
     [(''schema_version'', JStr ''1.0''), (''id'', JStr (uuid_str (rg_id g))),
      (''run_id'', JStr (uuid_str (rg_run_id g))),
      (''snapshot_id'', JStr (uuid_str (rg_snapshot_id g))),
      (''diff_mode'', JStr (diff_mode_value (rg_diff_mode g))),
      (''base_commit'', opt_json JStr (rg_base_commit g)),
      (''head_commit'', JStr (rg_head_commit g)), (''nodes'', JList (map node_json (rg_nodes g))),
      (''heads'', strings_json (rg_heads g)),
      (''baseline_revision'', opt_json JStr (rg_baseline_revision g)),
      (''target_chain'', strings_json (rg_target_chain g)),
      (''changed_revisions'', strings_json (rg_changed_revisions g)),
      (''supported'', JBool (rg_supported g)),
      (''unsupported_reasons'', JList (map reason_json (rg_unsupported_reasons g))),
      (''created_at'', JStr (isotime (rg_created_at g)))]"

fun severity_value :: "severity \<Rightarrow> string" where
  "severity_value INFO = ''INFO''"
| "severity_value LOW = ''LOW''"
| "severity_value MEDIUM = ''MEDIUM''"
| "severity_value HIGH = ''HIGH''"

text \<open>\<open>repr\<close> of a float between 0 and 1 with at most two decimals.\<close>

definition confidence_text :: "rat \<Rightarrow> string" where
  "confidence_text c =
     (let n = nat \<lfloor>100 * c\<rfloor>
      in dec_nat (n div 100) @ ''.'' @
         (if n mod 10 = 0 then dec_nat (n mod 100 div 10)
          else dec_nat (n mod 100 div 10) @ dec_nat (n mod 10)))"

definition finding_json :: "static_finding \<Rightarrow> json" where
  "finding_json f =
     JObj [(''schema_version'', JStr ''1.0''), (''rule_id'', JStr (sf_rule_id f)),
           (''rule_version'', JStr (sf_rule_version f)),
           (''severity'', JStr (severity_value (sf_severity f))),
           (''confidence'', JNum (confidence_text (sf_confidence f))),
           (''relative_path'', opt_json JStr (sf_relative_path f)), (''line'', JInt (sf_line f)),
           (''column'', JInt (sf_column f)), (''message'', JStr (sf_message f)),
           (''remediation'', JStr (sf_remediation f)),
           (''evidence_ids'', strings_json (sf_evidence_ids f)),
           (''observation_scope'', JStr ''static_source''),
           (''unknowns'', strings_json (sf_unknowns f))]"

definition spec_json :: "capability_spec \<Rightarrow> json" where
  "spec_json s =
     JObj [(''name'', JStr (capability_value (cs_name s))), (''version'', JStr (cs_version s)),
           (''mandatory'', JBool (cs_mandatory s)),
           (''max_timeout_seconds'', JInt (cs_max_timeout_seconds s)),
           (''prerequisites'', strings_json (map capability_value (cs_prerequisites s))),
           (''effect_scope'', JStr ''future_shadow_environment'')]"

definition observation_json :: "tool_observation \<Rightarrow> json" where
  "observation_json obs =
     JObj [(''schema_version'', JStr ''1.0''), (''tool_name'', JStr (tool_value (to_tool_name obs))),
           (''tool_version'', JStr (to_tool_version obs)), (''data'', JObj (to_data obs)),
           (''evidence_ids'', strings_json (to_evidence_ids obs))]"

section \<open>The tools\<close>

text \<open>What the tools can reach: the results of a run, the snapshot lookup, the artifacts.\<close>

record agent_context =
  ac_graph :: "uuid \<Rightarrow> revision_graph option"
  ac_snapshot :: "uuid \<Rightarrow> repo_snapshot option"
  ac_report :: "uuid \<Rightarrow> static_report option"
  ac_lookup :: "uuid \<Rightarrow> repo_snapshot option"
  ac_artifact :: "uuid \<Rightarrow> stored_artifact"
  ac_parse_manifest :: "bytes \<Rightarrow> manifest_file list option"
  ac_max_revision_bytes :: int

definition context_missing :: exn where
  "context_missing = RepositoryInputError ''AGENT_CONTEXT_NOT_READY'' ''Agent context is not ready''"

definition observation ::
    "tool_name \<Rightarrow> (string \<times> json) list \<Rightarrow> string list \<Rightarrow> tool_observation" where
  "observation tool data evidence =
     \<lparr>to_tool_name = tool, to_tool_version = ''1.0'', to_data = data, to_evidence_ids = evidence\<rparr>"

definition discover_tool :: "(time \<Rightarrow> string) \<Rightarrow> agent_context \<Rightarrow> uuid \<Rightarrow> tool_observation res" where
  "discover_tool isotime ctx run_id =
     (case ac_graph ctx run_id of
        None \<Rightarrow> Inl context_missing
      | Some g \<Rightarrow> Inr (observation DISCOVER_MIGRATIONS (graph_data isotime g)
                       (map rn_evidence_id (rg_nodes g))))"

definition read_revision_tool :: "agent_context \<Rightarrow> uuid \<Rightarrow> string \<Rightarrow> tool_observation res" where
  "read_revision_tool ctx run_id revision =
     (case (ac_graph ctx run_id, ac_snapshot ctx run_id) of
        (Some g, Some snapshot) \<Rightarrow>
          (case find (\<lambda>n. rn_revision n = revision) (rg_nodes g) of
             None \<Rightarrow> Inl (RepositoryInputError ''TOOL_ARGUMENT_INVALID''
                       ''Revision is not in the run graph'')
           | Some node \<Rightarrow>
               bind_res (read_text (ac_parse_manifest ctx) (ac_lookup ctx (sn_id snapshot))
                           (ac_artifact ctx (sn_id snapshot)) (sn_id snapshot)
                           (rn_relative_path node) (ac_max_revision_bytes ctx)) (\<lambda>source.
                 Inr (observation READ_REVISION
                   [(''revision'', JStr revision), (''relative_path'', JStr (rn_relative_path node)),
                    (''content_hash'', JStr (tx_content_hash source)),
                    (''text'', JStr (tx_text source))]
                   [rn_evidence_id node, tx_evidence_id source])))
      | _ \<Rightarrow> Inl context_missing)"

definition static_findings_tool :: "agent_context \<Rightarrow> uuid \<Rightarrow> tool_observation res" where
  "static_findings_tool ctx run_id =
     (case ac_report ctx run_id of
        None \<Rightarrow> Inl context_missing
      | Some report \<Rightarrow>
          Inr (observation GET_STATIC_FINDINGS
            [(''risk_level'', JStr (severity_value (sp_risk_level report))),
             (''findings'', JList (map finding_json (sp_findings report))),
             (''unsupported_reasons'', JList (map reason_json (sp_unsupported_reasons report)))]
            (concat (map sf_evidence_ids (sp_findings report)))))"

definition gateway_call ::
    "(time \<Rightarrow> string) \<Rightarrow> agent_context \<Rightarrow> tool_name \<Rightarrow> tool_arguments \<Rightarrow> tool_observation res" where
  "gateway_call isotime ctx tool arguments =
     (case (tool, arguments) of
        (DISCOVER_MIGRATIONS, RunArguments r) \<Rightarrow> discover_tool isotime ctx r
      | (READ_REVISION, RevisionArguments r revision) \<Rightarrow> read_revision_tool ctx r revision
      | (GET_STATIC_FINDINGS, RunArguments r) \<Rightarrow> static_findings_tool ctx r
      | (DESCRIBE_SHADOW_CAPABILITIES, NoArguments) \<Rightarrow>
          Inr (observation DESCRIBE_SHADOW_CAPABILITIES
            [(''capabilities'', JList (map spec_json capability_catalog))] [])
      | (GET_TEST_DATA_PROFILE, RunArguments r) \<Rightarrow>
          Inr (observation GET_TEST_DATA_PROFILE
            [(''run_id'', JStr (uuid_str r)), (''profile'', JStr ''none''),
             (''available'', JBool False),
             (''coverage_gap'', JStr ''M3 has no fixture manifest or synthetic data generator.'')]
            [])
      | _ \<Rightarrow> Inl (ValueError ''tool arguments''))"

end
