(* ===== verification/Uuid5.thy ===== *)
theory Uuid5
  imports Canonical
begin

text \<open>
  \<open>uuid.uuid5\<close>: the name-based identifiers of planning and execution records, from the SHA-1
  digest of the namespace and the name.
\<close>

definition rotl :: "nat \<Rightarrow> 32 word \<Rightarrow> 32 word" where
  "rotl n x = word_rotl n x"

definition sha1_init :: "32 word list" where
  "sha1_init = [1732584193, 4023233417, 2562383102, 271733878, 3285377520]"

text \<open>The message schedule, newest word first.\<close>

fun sha1_schedule :: "nat \<Rightarrow> 32 word list \<Rightarrow> 32 word list" where
  "sha1_schedule 0 ws = ws"
| "sha1_schedule (Suc k) ws =
     sha1_schedule k (rotl 1 (ws ! 2 XOR ws ! 7 XOR ws ! 13 XOR ws ! 15) # ws)"

definition sha1_f :: "nat \<Rightarrow> 32 word \<Rightarrow> 32 word \<Rightarrow> 32 word \<Rightarrow> 32 word \<times> 32 word" where
  "sha1_f t b c d =
     (if t < 20 then ((b AND c) OR (NOT b AND d), 1518500249)
      else if t < 40 then (b XOR c XOR d, 1859775393)
      else if t < 60 then ((b AND c) OR (b AND d) OR (c AND d), 2400959708)
      else (b XOR c XOR d, 3395469782))"

fun sha1_round :: "32 word list \<Rightarrow> nat \<times> 32 word \<Rightarrow> 32 word list" where
  "sha1_round [a, b, c, d, e] (t, w) =
     (let (f, k) = sha1_f t b c d in [rotl 5 a + f + e + k + w, a, rotl 30 b, c, d])"
| "sha1_round st _ = st"

definition sha1_block :: "32 word list \<Rightarrow> bytes \<Rightarrow> 32 word list" where
  "sha1_block h block =
     (let ws = rev (sha1_schedule 64 (rev (map word_of_bytes (chunks 4 block))))
      in map2 (+) h (foldl sha1_round h (zip [0..<80] ws)))"

definition sha1 :: "bytes \<Rightarrow> 32 word list" where
  "sha1 m = foldl sha1_block sha1_init (chunks 64 (sha_pad m))"

definition namespace_url :: uuid where
  "namespace_url = 143098242483405524118141958906375844040"

definition uuid5 :: "uuid \<Rightarrow> string \<Rightarrow> uuid" where
  "uuid5 namespace name =
     (let digest = sha1 (be_bytes 16 (unat namespace) @ encode name);
          raw = foldl (\<lambda>a w. push_bit 32 a OR ucast w) (0 :: 128 word) (take 4 digest);
          variant = (raw AND NOT (push_bit 48 0xC000)) OR push_bit 48 0x8000
      in (variant AND NOT (push_bit 64 0xF000)) OR push_bit 76 5)"

end
