(* ===== verification/AgentPlanner.thy ===== *)
theory AgentPlanner
  imports AgentGateway PlanValidator Uuid5
begin

text \<open>
  \<open>agent/provider.py\<close> and \<open>agent/runtime.py\<close>: the reference provider, and the bounded planning
  loop of context, proposal, validation and one repair.  \<open>json.loads\<close> with the validation of
  \<open>AuditPlanV1\<close> is the argument \<open>parse\<close>; a provider is a function of the attempt and the request,
  so that it may answer the same request differently.
\<close>

section \<open>Requests and records\<close>

record planner_request =
  pq_run_id :: uuid
  pq_prompt_version :: string
  pq_tool_schema_version :: string
  pq_input_hash :: string
  pq_observations :: "tool_observation list"
  pq_repair_errors :: "string list"
  pq_prior_output_hash :: "string option"
  pq_prior_output :: "string option"

datatype invocation_status = InvocationSucceeded | InvocationFailed

record agent_invocation =
  ai_id :: uuid
  ai_run_id :: uuid
  ai_provider :: string
  ai_model :: string
  ai_prompt_version :: string
  ai_tool_schema_version :: string
  ai_input_hash :: string
  ai_output_hash :: "string option"
  ai_status :: invocation_status
  ai_repair_attempts :: int
  ai_error_code :: "string option"
  ai_error_detail :: "string option"
  ai_started_at :: time
  ai_completed_at :: time

record tool_call =
  tc_id :: uuid
  tc_invocation_id :: uuid
  tc_run_id :: uuid
  tc_sequence :: int
  tc_tool_name :: tool_name
  tc_tool_version :: string
  tc_arguments_hash :: string
  tc_result_hash :: string
  tc_duration_ms :: int
  tc_correlation_id :: string
  tc_observation :: tool_observation

record audit_plan_record =
  pp_id :: uuid
  pp_run_id :: uuid
  pp_invocation_id :: uuid
  pp_input_hash :: string
  pp_plan :: audit_plan
  pp_created_at :: time

record planning_result =
  pr_invocation :: agent_invocation
  pr_tool_calls :: "tool_call list"
  pr_plan :: "audit_plan_record option"

definition tool_schema_version :: string where
  "tool_schema_version = ''m3.read-only-tools.v1''"

definition prompt_version :: string where
  "prompt_version = ''m3.planner.v1''"

section \<open>The reference provider\<close>

text \<open>The loop over the catalog: each step waits for the one before it.\<close>

fun reference_steps :: "string list \<Rightarrow> string option \<Rightarrow> capability_spec list \<Rightarrow> plan_step list" where
  "reference_steps evidence prior [] = []"
| "reference_steps evidence prior (s # ss) =
     \<lparr>ps_id = capability_value (cs_name s), ps_capability = cs_name s,
      ps_depends_on = (case prior of None \<Rightarrow> [] | Some p \<Rightarrow> [p]),
      ps_timeout_seconds = cs_max_timeout_seconds s, ps_required = True,
      ps_reason = ''Execute fixed capability '' @ capability_value (cs_name s) @ '' safely.'',
      ps_evidence_refs = take 4 evidence\<rparr>
     # reference_steps evidence (Some (capability_value (cs_name s))) ss"

definition reference_plan :: "uuid \<Rightarrow> tool_observation list \<Rightarrow> audit_plan" where
  "reference_plan run_id observations =
     \<lparr>ap_objective = ''Audit migration evidence for run '' @ uuid_str run_id,
      ap_steps = reference_steps (sorted_set (concat (map to_evidence_ids observations))) None
                   capability_catalog,
      ap_coverage_gaps = [''M3 plans capabilities but does not execute a shadow database.''],
      ap_assumptions = [''PostgreSQL 16 is the only declared compatibility profile.'']\<rparr>"

definition plan_step_json :: "plan_step \<Rightarrow> json" where
  "plan_step_json s =
     JObj [(''id'', JStr (ps_id s)), (''capability'', JStr (capability_value (ps_capability s))),
           (''depends_on'', strings_json (ps_depends_on s)),
           (''timeout_seconds'', JInt (ps_timeout_seconds s)), (''required'', JBool (ps_required s)),
           (''reason'', JStr (ps_reason s)), (''evidence_refs'', strings_json (ps_evidence_refs s))]"

definition audit_plan_json :: "audit_plan \<Rightarrow> json" where
  "audit_plan_json p =
     JObj [(''schema_version'', JStr ''1.0''), (''objective'', JStr (ap_objective p)),
           (''steps'', JList (map plan_step_json (ap_steps p))),
           (''coverage_gaps'', strings_json (ap_coverage_gaps p)),
           (''assumptions'', strings_json (ap_assumptions p))]"

text \<open>\<open>FakeAgentProvider.invoke\<close>: scripted outputs first; the remaining ones are the new state.\<close>

fun fake_invoke :: "string list \<Rightarrow> planner_request \<Rightarrow> string \<times> string list" where
  "fake_invoke (output # rest) request = (output, rest)"
| "fake_invoke [] request =
     (dumps True (audit_plan_json (reference_plan (pq_run_id request) (pq_observations request))), [])"

text \<open>The provider without scripted outputs, as the planner sees it.\<close>

definition reference_provider :: "nat \<Rightarrow> planner_request \<Rightarrow> string res" where
  "reference_provider attempt request = Inr (fst (fake_invoke [] request))"

section \<open>Gathering the context\<close>

definition json_hash :: "json \<Rightarrow> string" where
  "json_hash v = hexdigest (canonical_json v)"

text \<open>\<open>call\<close> inside \<open>_gather_context\<close>; \<open>durations\<close> gives the rounded milliseconds per call.\<close>

definition record_call ::
    "uuid \<Rightarrow> (int \<Rightarrow> int) \<Rightarrow> tool_call list \<Rightarrow> tool_name \<Rightarrow> tool_arguments \<Rightarrow> tool_observation \<Rightarrow>
     tool_call" where
  "record_call run_id durations calls tool arguments obs =
     (let number = int (length calls) + 1; arguments_hash = json_hash (arguments_json arguments)
      in \<lparr>tc_id = uuid5 namespace_url
            (''shadowops:'' @ uuid_str run_id @ '':tool:'' @ dec_int number @ '':'' @
             tool_value tool @ '':'' @ arguments_hash),
          tc_invocation_id = 0, tc_run_id = run_id, tc_sequence = number, tc_tool_name = tool,
          tc_tool_version = to_tool_version obs, tc_arguments_hash = arguments_hash,
          tc_result_hash = json_hash (observation_json obs),
          tc_duration_ms = max 0 (durations number), tc_correlation_id = uuid_str run_id,
          tc_observation = obs\<rparr>)"

fun call_tools ::
    "(tool_name \<Rightarrow> tool_arguments \<Rightarrow> tool_observation res) \<Rightarrow> uuid \<Rightarrow> (int \<Rightarrow> int) \<Rightarrow>
     (tool_name \<times> tool_arguments) list \<Rightarrow> tool_call list \<Rightarrow> tool_call list res" where
  "call_tools gateway run_id durations [] calls = Inr calls"
| "call_tools gateway run_id durations ((tool, arguments) # later) calls =
     bind_res (gateway tool arguments) (\<lambda>obs.
       call_tools gateway run_id durations later
         (calls @ [record_call run_id durations calls tool arguments obs]))"

fun json_strings :: "json \<Rightarrow> string list" where
  "json_strings (JList (JStr s # js)) = s # json_strings (JList js)"
| "json_strings (JList (j # js)) = json_strings (JList js)"
| "json_strings _ = []"

text \<open>\<open>sorted(item for item in data.get("changed_revisions", []) if isinstance(item, str))\<close>.\<close>

definition changed_revisions_of :: "tool_observation \<Rightarrow> string list" where
  "changed_revisions_of obs =
     (case map_of (to_data obs) ''changed_revisions'' of
        None \<Rightarrow> [] | Some j \<Rightarrow> sort (json_strings j))"

definition fixed_tools :: "uuid \<Rightarrow> (tool_name \<times> tool_arguments) list" where
  "fixed_tools run_id =
     [(DISCOVER_MIGRATIONS, RunArguments run_id), (GET_STATIC_FINDINGS, RunArguments run_id),
      (DESCRIBE_SHADOW_CAPABILITIES, NoArguments), (GET_TEST_DATA_PROFILE, RunArguments run_id)]"

definition gather_context ::
    "(tool_name \<Rightarrow> tool_arguments \<Rightarrow> tool_observation res) \<Rightarrow> nat \<Rightarrow> (int \<Rightarrow> int) \<Rightarrow> uuid \<Rightarrow>
     tool_call list res" where
  "gather_context gateway max_revision_reads durations run_id =
     bind_res (call_tools gateway run_id durations (fixed_tools run_id) []) (\<lambda>calls.
       call_tools gateway run_id durations
         (map (\<lambda>revision. (READ_REVISION, RevisionArguments run_id revision))
            (take max_revision_reads (changed_revisions_of (tc_observation (hd calls)))))
         calls)"

section \<open>The planning loop\<close>

text \<open>
  What reading the provider's text as a plan gives: a plan, \<open>JSONDecodeError\<close>, \<open>ValidationError\<close>
  with the type and location of each error, or any other exception.
\<close>

datatype parsed_output =
    ParsedPlan audit_plan | JsonInvalid | SchemaInvalid "(string \<times> string) list" | ParseRaises exn

text \<open>The \<open>try\<close> block and \<open>_safe_errors\<close>: the errors, or the accepted plan.\<close>

definition check_output ::
    "(string \<Rightarrow> parsed_output) \<Rightarrow> int \<Rightarrow> string \<Rightarrow> (string list + audit_plan) res" where
  "check_output parse max_output_bytes text =
     (if max_output_bytes < int (length (encode text)) then Inr (Inl [''OUTPUT_TOO_LARGE''])
      else case parse text of
             ParsedPlan p \<Rightarrow> Inr (validate_plan p)
           | JsonInvalid \<Rightarrow> Inr (Inl [''JSON_INVALID''])
           | SchemaInvalid es \<Rightarrow>
               Inr (Inl (sorted_set (map (\<lambda>(kind, loc). ''SCHEMA_INVALID:'' @ kind @ '':'' @ loc) es)))
           | ParseRaises e \<Rightarrow> Inl e)"

record planner_config =
  pc_provider_name :: string
  pc_model_name :: string
  pc_max_revision_reads :: nat
  pc_max_output_bytes :: int
  pc_started_at :: time
  pc_completed_at :: time

definition make_invocation ::
    "planner_config \<Rightarrow> uuid \<Rightarrow> uuid \<Rightarrow> string \<Rightarrow> string \<Rightarrow> invocation_status \<Rightarrow> int \<Rightarrow>
     string option \<Rightarrow> string option \<Rightarrow> agent_invocation" where
  "make_invocation cfg invocation_id run_id input_hash output_hash status repairs code detail =
     \<lparr>ai_id = invocation_id, ai_run_id = run_id, ai_provider = pc_provider_name cfg,
      ai_model = pc_model_name cfg, ai_prompt_version = prompt_version,
      ai_tool_schema_version = tool_schema_version, ai_input_hash = input_hash,
      ai_output_hash = Some output_hash, ai_status = status, ai_repair_attempts = repairs,
      ai_error_code = code, ai_error_detail = detail, ai_started_at = pc_started_at cfg,
      ai_completed_at = pc_completed_at cfg\<rparr>"

definition max_repair_output_chars :: nat where
  "max_repair_output_chars = 262144"

definition output_hash_of :: "string \<Rightarrow> string" where
  "output_hash_of text = hexdigest (encode text)"

text \<open>The request of the first attempt, and the one that asks for a repair.\<close>

definition first_request :: "uuid \<Rightarrow> string \<Rightarrow> tool_observation list \<Rightarrow> planner_request" where
  "first_request run_id input_hash observations =
     \<lparr>pq_run_id = run_id, pq_prompt_version = prompt_version,
      pq_tool_schema_version = tool_schema_version, pq_input_hash = input_hash,
      pq_observations = observations, pq_repair_errors = [], pq_prior_output_hash = None,
      pq_prior_output = None\<rparr>"

definition repair_request :: "planner_request \<Rightarrow> string list \<Rightarrow> string \<Rightarrow> planner_request" where
  "repair_request request errors output =
     request\<lparr>pq_repair_errors := errors, pq_prior_output_hash := Some (output_hash_of output),
             pq_prior_output := Some (take max_repair_output_chars output)\<rparr>"

text \<open>The two results of the loop.\<close>

definition failed_result ::
    "planner_config \<Rightarrow> uuid \<Rightarrow> tool_call list \<Rightarrow> planner_request \<Rightarrow> string \<Rightarrow> string list \<Rightarrow>
     planning_result" where
  "failed_result cfg invocation_id calls request output errors =
     \<lparr>pr_invocation = make_invocation cfg invocation_id (pq_run_id request) (pq_input_hash request)
        (output_hash_of output) InvocationFailed 1 (Some ''PLAN_INVALID'')
        (Some (join_with '';'' errors)),
      pr_tool_calls = calls, pr_plan = None\<rparr>"

definition plan_result ::
    "planner_config \<Rightarrow> uuid \<Rightarrow> tool_call list \<Rightarrow> planner_request \<Rightarrow> string \<Rightarrow> nat \<Rightarrow> audit_plan \<Rightarrow>
     planning_result" where
  "plan_result cfg invocation_id calls request output attempt p =
     \<lparr>pr_invocation = make_invocation cfg invocation_id (pq_run_id request) (pq_input_hash request)
        (output_hash_of output) InvocationSucceeded (int attempt) None None,
      pr_tool_calls = calls,
      pr_plan = Some \<lparr>pp_id = uuid5 namespace_url
          (''shadowops:'' @ uuid_str (pq_run_id request) @ '':plan:'' @ pq_input_hash request),
        pp_run_id = pq_run_id request, pp_invocation_id = invocation_id,
        pp_input_hash = pq_input_hash request, pp_plan = p,
        pp_created_at = pc_completed_at cfg\<rparr>\<rparr>"

text \<open>
  \<open>for attempt in range(2)\<close>: \<open>remaining\<close> counts the iterations left, and the request carries the
  errors and the output of the attempt before.
\<close>

fun plan_attempts ::
    "(nat \<Rightarrow> planner_request \<Rightarrow> string res) \<Rightarrow> (string \<Rightarrow> parsed_output) \<Rightarrow> planner_config \<Rightarrow>
     uuid \<Rightarrow> tool_call list \<Rightarrow> nat \<Rightarrow> nat \<Rightarrow> planner_request \<Rightarrow> planning_result res" where
  "plan_attempts provider parse cfg invocation_id calls 0 attempt request =
     Inl (AssertionError ''Planner repair budget loop did not return'')"
| "plan_attempts provider parse cfg invocation_id calls (Suc remaining) attempt request =
     bind_res (provider attempt request) (\<lambda>text.
     bind_res (check_output parse (pc_max_output_bytes cfg) text) (\<lambda>checked.
       case checked of
         Inl errors \<Rightarrow>
           if attempt = 0
           then plan_attempts provider parse cfg invocation_id calls remaining (attempt + 1)
                  (repair_request request errors text)
           else Inr (failed_result cfg invocation_id calls request text errors)
       | Inr p \<Rightarrow> Inr (plan_result cfg invocation_id calls request text attempt p)))"

definition planner_plan ::
    "(tool_name \<Rightarrow> tool_arguments \<Rightarrow> tool_observation res) \<Rightarrow>
     (nat \<Rightarrow> planner_request \<Rightarrow> string res) \<Rightarrow> (string \<Rightarrow> parsed_output) \<Rightarrow> planner_config \<Rightarrow>
     (int \<Rightarrow> int) \<Rightarrow> uuid \<Rightarrow> planning_result res" where
  "planner_plan gateway provider parse cfg durations run_id =
     bind_res (gather_context gateway (pc_max_revision_reads cfg) durations run_id) (\<lambda>calls.
       let observations = map tc_observation calls;
           input_hash = json_hash (JList (map observation_json observations));
           invocation_id = uuid5 namespace_url
             (''shadowops:'' @ uuid_str run_id @ '':PLANNER:'' @ input_hash);
           calls' = map (\<lambda>c. c\<lparr>tc_invocation_id := invocation_id\<rparr>) calls
       in plan_attempts provider parse cfg invocation_id calls' 2 0
            (first_request run_id input_hash observations))"

end
