(* ===== verification/PlanProperties.thy ===== *)
theory PlanProperties
  imports PlanFacts AgentPlanner RevisionFacts
begin

text \<open>
  Properties of the planning components: the validator, the order its plans are carried out in, the
  reference planner, and the planning loop with its records.
\<close>

section \<open>The order of a plan\<close>

text \<open>An order in which every step comes after the steps it depends on.\<close>

definition execution_order :: "audit_plan \<Rightarrow> plan_step list \<Rightarrow> bool" where
  "execution_order plan order \<longleftrightarrow>
     distinct order \<and> set order = set (ap_steps plan) \<and>
     (\<forall>i < length order. \<forall>d \<in> set (ps_depends_on (order ! i)). \<exists>j < i. ps_id (order ! j) = d)"

lemma order_waits:
  assumes order: "execution_order plan order" and ids: "distinct (map ps_id (ap_steps plan))"
    and path: "(a, b) \<in> (waits_for plan)\<^sup>+"
  shows "i < length order \<Longrightarrow> ps_id (order ! i) = a \<Longrightarrow> \<exists>j < i. ps_id (order ! j) = b"
  using path
proof (induction arbitrary: rule: trancl_induct)
  case (base b)
  then obtain s where s: "s \<in> set (ap_steps plan)" "ps_id s = a" "b \<in> set (ps_depends_on s)"
    unfolding waits_for_def by blast
  from order base.prems(1) have "order ! i \<in> set (ap_steps plan)"
    unfolding execution_order_def by (metis nth_mem)
  with s ids base.prems(2) have "order ! i = s" by (metis unique_by_eq)
  with order base.prems(1) s(3) show ?case unfolding execution_order_def by blast
next
  case (step b c)
  then obtain j where j: "j < i" "ps_id (order ! j) = b" by blast
  from step(2) obtain s where s: "s \<in> set (ap_steps plan)" "ps_id s = b" "c \<in> set (ps_depends_on s)"
    unfolding waits_for_def by blast
  from j(1) step.prems have j': "j < length order" by simp
  with order have "order ! j \<in> set (ap_steps plan)" unfolding execution_order_def by (metis nth_mem)
  with s ids j(2) have "order ! j = s" by (metis unique_by_eq)
  with order j' s(3) obtain k where "k < j" "ps_id (order ! k) = c" unfolding execution_order_def by blast
  with j(1) show ?case by (metis less_trans)
qed

lemma list_eq_by_position:
  assumes "distinct xs" and "distinct ys" and "set xs = set ys"
    and pos: "\<And>i k. i < length xs \<Longrightarrow> k < length ys \<Longrightarrow> xs ! i = ys ! k \<Longrightarrow> k \<le> i"
  shows "xs = ys"
proof -
  have len: "length xs = length ys" using assms(1-3) by (metis distinct_card)
  have "xs ! i = ys ! i" if "i < length xs" for i
    using that
  proof (induction i rule: less_induct)
    case (less i)
    obtain k where k: "k < length ys" "xs ! i = ys ! k"
      using less.prems assms(3) by (metis in_set_conv_nth)
    with pos less.prems have "k \<le> i" by blast
    moreover have "\<not> k < i"
    proof
      assume "k < i"
      with less have "xs ! k = ys ! k" by simp
      with k(2) have "xs ! i = xs ! k" by simp
      with assms(1) less.prems \<open>k < i\<close> show False
        using nth_eq_iff_index_eq [of xs i k] by simp
    qed
    ultimately show ?case using k(2) by simp
  qed
  with len show ?thesis by (rule nth_equalityI)
qed

lemma capabilities_eq:
  "capabilities = [PROVISION_SHADOW_DB, UPGRADE_BASELINE, APPLY_TARGET_MIGRATIONS, LOAD_TEST_DATA,
     RUN_SMOKE_CHECKS, VERIFY_ROLLBACK_ROUNDTRIP, COLLECT_EVIDENCE, CLEANUP_SHADOW_ENVIRONMENT]"
  by (simp add: capabilities_def capability_catalog_def spec_of_def)

lemma prerequisites_eq:
  "cs_prerequisites (capability_named c) =
     (case c of PROVISION_SHADOW_DB \<Rightarrow> [] | UPGRADE_BASELINE \<Rightarrow> [PROVISION_SHADOW_DB]
      | APPLY_TARGET_MIGRATIONS \<Rightarrow> [UPGRADE_BASELINE] | LOAD_TEST_DATA \<Rightarrow> [APPLY_TARGET_MIGRATIONS]
      | RUN_SMOKE_CHECKS \<Rightarrow> [LOAD_TEST_DATA] | VERIFY_ROLLBACK_ROUNDTRIP \<Rightarrow> [RUN_SMOKE_CHECKS]
      | COLLECT_EVIDENCE \<Rightarrow> [VERIFY_ROLLBACK_ROUNDTRIP]
      | CLEANUP_SHADOW_ENVIRONMENT \<Rightarrow> [COLLECT_EVIDENCE])"
  by (cases c) (simp_all add: capability_named_def capability_catalog_def spec_of_def)

lemma catalog_chain:
  assumes "Suc k < length capabilities"
  shows "capabilities ! k \<in> set (cs_prerequisites (capability_named (capabilities ! Suc k)))"
  using assms by (auto simp: prerequisites_eq capabilities_eq less_Suc_eq)

lemma ordered_capabilities:
  assumes ok: "plan_ok plan" and order: "execution_order plan order"
  shows "map ps_capability order = capabilities"
proof (rule list_eq_by_position)
  have ids: "distinct (map ps_id (ap_steps plan))" and caps: "distinct (map ps_capability (ap_steps plan))"
    and all: "ps_capability ` set (ap_steps plan) = UNIV"
    and pre: "\<forall>s \<in> set (ap_steps plan). \<forall>p \<in> set (cs_prerequisites (capability_named (ps_capability s))).
        \<exists>t \<in> set (ap_steps plan). ps_capability t = p \<and> (ps_id s, ps_id t) \<in> (waits_for plan)\<^sup>+"
    using ok unfolding plan_ok_def by blast+
  have set_order: "set order = set (ap_steps plan)" and dist: "distinct order"
    using order unfolding execution_order_def by blast+
  show "distinct (map ps_capability order)"
    using dist set_order caps by (simp add: distinct_map)
  show "distinct capabilities" by (rule distinct_capabilities)
  show "set (map ps_capability order) = set capabilities" by (simp add: set_order all set_capabilities)
  fix i k
  assume "i < length (map ps_capability order)" "k < length capabilities"
    "map ps_capability order ! i = capabilities ! k"
  then show "k \<le> i"
  proof (induction k arbitrary: i)
    case (Suc k)
    let ?s = "order ! i"
    from Suc.prems(1) have i: "i < length order" by simp
    then have s: "?s \<in> set (ap_steps plan)" unfolding set_order [symmetric] by (rule nth_mem)
    from Suc.prems(3) i have "ps_capability ?s = capabilities ! Suc k" by simp
    with catalog_chain [OF Suc.prems(2)]
    have "capabilities ! k \<in> set (cs_prerequisites (capability_named (ps_capability ?s)))" by simp
    from bspec [OF bspec [OF pre s] this] obtain t
      where t: "t \<in> set (ap_steps plan)" "ps_capability t = capabilities ! k"
        "(ps_id ?s, ps_id t) \<in> (waits_for plan)\<^sup>+" by blast
    obtain j where j: "j < i" "ps_id (order ! j) = ps_id t"
      using order_waits [OF order ids t(3) i] by blast
    with i set_order have "order ! j \<in> set (ap_steps plan)" by (metis less_trans nth_mem)
    with t(1) j(2) ids have "order ! j = t" by (metis unique_by_eq)
    with j i t(2) Suc.prems Suc.IH [of j] show ?case by simp
  qed simp
qed

text \<open>
  C38. The validator accepts a plan exactly when it meets the specification: step names and
  capabilities are unique, every capability of the catalog is planned, is required, within its
  time limit and with evidence of a known kind, the dependencies name other steps of the plan and
  are free of cycles, and every step waits, directly or not, for the steps of its prerequisites;
  an accepted plan is returned as it is, and a refused one comes with at least one error, sorted
  and without repetition.
\<close>

theorem validator_decides:
  "case validate_plan plan of
     Inr p \<Rightarrow> p = plan \<and> plan_ok plan
   | Inl errors \<Rightarrow> \<not> plan_ok plan \<and> errors \<noteq> [] \<and> sorted errors \<and> distinct errors"
proof (cases "plan_errors plan = []")
  case True
  then show ?thesis by (simp add: validate_plan_def plan_errors_Nil)
next
  case False
  then have "sorted_set (plan_errors plan) \<noteq> []" by (metis set_sorted_set set_empty)
  with False show ?thesis by (simp add: validate_plan_def flip: plan_errors_Nil)
qed

text \<open>
  An accepted plan leaves no freedom in the order of its work: whichever way its steps are
  carried out, each after the steps it depends on, the capabilities run exactly once each and in
  the order of the catalog, from provisioning the shadow database to its cleanup.
\<close>

theorem catalog_order:
  assumes "validate_plan plan = Inr p" and "execution_order p order"
  shows "map ps_capability order = capabilities"
proof -
  have "p = plan \<and> plan_ok plan"
    using assms(1) plan_errors_Nil [of plan] by (auto simp: validate_plan_def Let_def split: if_splits)
  with assms(2) show ?thesis using ordered_capabilities by blast
qed

section \<open>The reference planner\<close>

definition demo_evidence :: "tool_observation list" where
  "demo_evidence = [observation GET_STATIC_FINDINGS [] [''finding:b'', ''evidence:a'', ''finding:b'']]"

theorem catalog_order_witness:
  "map ps_capability (ap_steps (reference_plan 7 demo_evidence)) = capabilities"
proof (rule catalog_order)
  show "validate_plan (reference_plan 7 demo_evidence) = Inr (reference_plan 7 demo_evidence)"
    by code_simp
  show "execution_order (reference_plan 7 demo_evidence) (ap_steps (reference_plan 7 demo_evidence))"
    unfolding execution_order_def by code_simp
qed


text \<open>The reference step of a capability waits for the steps of its prerequisites.\<close>

definition reference_step :: "string list \<Rightarrow> capability \<Rightarrow> plan_step" where
  "reference_step evidence c =
     \<lparr>ps_id = capability_value c, ps_capability = c,
      ps_depends_on = map capability_value (cs_prerequisites (capability_named c)),
      ps_timeout_seconds = cs_max_timeout_seconds (capability_named c), ps_required = True,
      ps_reason = ''Execute fixed capability '' @ capability_value c @ '' safely.'',
      ps_evidence_refs = take 4 evidence\<rparr>"

lemma reference_plan_steps:
  "ap_steps (reference_plan run_id observations) =
     map (reference_step (sorted_set (concat (map to_evidence_ids observations)))) capabilities"
  unfolding reference_step_def
  by (simp add: reference_plan_def capabilities_eq capability_catalog_def spec_of_def
      capability_named_def)

lemma capability_facts:
  "step_id_valid (capability_value c)" "length (capability_value c) \<le> 100"
  "length (cs_prerequisites (capability_named c)) \<le> 1"
  "1 \<le> cs_max_timeout_seconds (capability_named c)"
  "cs_max_timeout_seconds (capability_named c) \<le> 600"
  by (induction c; code_simp)+

lemma capability_value_eq [simp]: "capability_value c = capability_value d \<longleftrightarrow> c = d"
  by (cases c; cases d) simp_all

text \<open>The edges of a relation that lead to smaller numbers form no cycle.\<close>

lemma acyclic_by_measure:
  fixes f :: "'a \<Rightarrow> nat"
  assumes "\<And>a b. (a, b) \<in> R \<Longrightarrow> f b < f a"
  shows "acyclic R"
proof -
  have "R\<inverse> \<subseteq> measure f" using assms by auto
  then have "wf (R\<inverse>)" using wf_measure wf_subset by blast
  then show ?thesis using wf_acyclic acyclic_converse by blast
qed

definition evidence_ok :: "string \<Rightarrow> bool" where
  "evidence_ok e \<longleftrightarrow> evidence_ref_ok e \<and> evidence_reference e"

lemma reference_evidence:
  assumes "\<forall>obs \<in> set observations. list_all evidence_ok (to_evidence_ids obs)"
    and "e \<in> set (take 4 (sorted_set (concat (map to_evidence_ids observations))))"
  shows "evidence_ref_ok e \<and> evidence_reference e"
proof -
  from assms(2) have "e \<in> set (sorted_set (concat (map to_evidence_ids observations)))"
    by (rule in_set_takeD)
  with assms(1) show ?thesis by (auto simp: evidence_ok_def list_all_iff)
qed

lemma reference_plan_typed:
  assumes "\<forall>obs \<in> set observations. list_all evidence_ok (to_evidence_ids obs)"
  shows "audit_plan_valid (reference_plan run_id observations)"
proof -
  have "short_statement (''Execute fixed capability '' @ capability_value c @ '' safely.'')" for c
    using capability_facts(2) [of c] by (simp add: short_statement_def)
  moreover have "list_all evidence_reference (take 4 (sorted_set (concat (map to_evidence_ids observations))))"
    using reference_evidence [OF assms] by (simp add: list_all_iff)
  ultimately have "plan_step_valid (reference_step (sorted_set (concat (map to_evidence_ids observations))) c)"
    for c
    using capability_facts(3) [of c] by (simp add: plan_step_valid_def reference_step_def capability_facts)
  then have "list_all plan_step_valid (ap_steps (reference_plan run_id observations))"
    by (simp add: reference_plan_steps list_all_iff)
  moreover have "length (ap_steps (reference_plan run_id observations)) = 8"
    by (simp add: reference_plan_steps capabilities_eq)
  ultimately show ?thesis
    by (simp add: audit_plan_valid_def) (simp add: reference_plan_def short_statement_def)
qed

definition catalog_position :: "string \<Rightarrow> nat" where
  "catalog_position i = length (takeWhile (\<lambda>j. j \<noteq> i) (map capability_value capabilities))"

lemma prerequisite_position:
  "p \<in> set (cs_prerequisites (capability_named c)) \<Longrightarrow>
   catalog_position (capability_value p) < catalog_position (capability_value c)"
  by (cases c) (auto simp: prerequisites_eq catalog_position_def capabilities_eq)

lemma reference_plan_accepted:
  assumes "\<forall>obs \<in> set observations. list_all evidence_ok (to_evidence_ids obs)"
  shows "plan_ok (reference_plan run_id observations)"
proof -
  let ?plan = "reference_plan run_id observations"
  let ?step = "reference_step (sorted_set (concat (map to_evidence_ids observations)))"
  note step = reference_step_def
  have steps: "set (ap_steps ?plan) = range ?step"
    by (simp add: reference_plan_steps set_capabilities)
  have edge: "(a, b) \<in> waits_for ?plan \<longleftrightarrow> (\<exists>c. \<exists>p \<in> set (cs_prerequisites (capability_named c)).
      a = capability_value c \<and> b = capability_value p)" for a b
    unfolding waits_for_def steps by (auto simp: step)
  have "acyclic (waits_for ?plan)"
    by (rule acyclic_by_measure [of _ catalog_position]) (auto simp: edge prerequisite_position)
  moreover have ids: "ps_id ` set (ap_steps ?plan) = range capability_value"
    and caps: "ps_capability ` set (ap_steps ?plan) = UNIV"
    by (simp_all add: steps step image_image)
  moreover have "distinct (map ps_id (ap_steps ?plan))" "distinct (map ps_capability (ap_steps ?plan))"
    by (simp_all add: reference_plan_steps step distinct_map inj_on_def distinct_capabilities)
  moreover have "capability_value c \<notin> capability_value ` set (cs_prerequisites (capability_named c))" for c
    using prerequisite_position by fastforce
  moreover have "(capability_value c, capability_value p) \<in> (waits_for ?plan)\<^sup>+"
    if "p \<in> set (cs_prerequisites (capability_named c))" for c p
    using that edge by blast
  ultimately show ?thesis
    unfolding plan_ok_def ids caps using reference_evidence [OF assms]
    by (auto simp: steps step)
qed


text \<open>
  The reference planner can always propose: whatever the observations, as long as their
  evidence identifiers are evidence references of a known kind, its plan satisfies the field
  constraints of \<open>AuditPlanV1\<close> and the validator accepts it.
\<close>

theorem reference_plan_valid:
  assumes "\<forall>obs \<in> set observations. list_all evidence_ok (to_evidence_ids obs)"
  shows "audit_plan_valid (reference_plan run_id observations) \<and>
         validate_plan (reference_plan run_id observations) = Inr (reference_plan run_id observations)"
proof -
  have "plan_errors (reference_plan run_id observations) = []"
    unfolding plan_errors_Nil by (rule reference_plan_accepted [OF assms])
  with reference_plan_typed [OF assms] show ?thesis by (simp add: validate_plan_def)
qed

theorem reference_plan_valid_witness:
  "audit_plan_valid (reference_plan 7 demo_evidence) \<and>
   validate_plan (reference_plan 7 demo_evidence) = Inr (reference_plan 7 demo_evidence)"
proof (rule reference_plan_valid)
  show "\<forall>obs \<in> set demo_evidence. list_all evidence_ok (to_evidence_ids obs)" by code_simp
qed

section \<open>The planning loop\<close>

text \<open>The output is small enough and reads as the plan.\<close>

definition reads_as :: "(string \<Rightarrow> parsed_output) \<Rightarrow> planner_config \<Rightarrow> string \<Rightarrow> audit_plan \<Rightarrow> bool" where
  "reads_as parse cfg answer p \<longleftrightarrow>
     int (length (encode answer)) \<le> pc_max_output_bytes cfg \<and> parse answer = ParsedPlan p"

definition refused ::
    "(string \<Rightarrow> parsed_output) \<Rightarrow> planner_config \<Rightarrow> string \<Rightarrow> string list \<Rightarrow> bool" where
  "refused parse cfg answer errors \<longleftrightarrow>
     check_output parse (pc_max_output_bytes cfg) answer = Inr (Inl errors)"

lemma check_output_accepted:
  "check_output parse (pc_max_output_bytes cfg) answer = Inr (Inr p) \<Longrightarrow>
   reads_as parse cfg answer p \<and> plan_ok p"
  using plan_errors_Nil [of p]
  by (auto simp: check_output_def reads_as_def validate_plan_def Let_def
      split: if_splits parsed_output.splits)

lemma plan_attempts_cases:
  assumes "plan_attempts provider parse cfg invocation_id calls 2 0 request = Inr r"
  obtains (planned) answer p where "provider 0 request = Inr answer"
      "check_output parse (pc_max_output_bytes cfg) answer = Inr (Inr p)"
      "r = plan_result cfg invocation_id calls request answer 0 p"
  | (repaired) answer errors again p where "provider 0 request = Inr answer"
      "refused parse cfg answer errors"
      "provider 1 (repair_request request errors answer) = Inr again"
      "check_output parse (pc_max_output_bytes cfg) again = Inr (Inr p)"
      "r = plan_result cfg invocation_id calls (repair_request request errors answer) again 1 p"
  | (failed) answer errors again errors' where "provider 0 request = Inr answer"
      "refused parse cfg answer errors"
      "provider 1 (repair_request request errors answer) = Inr again"
      "refused parse cfg again errors'"
      "r = failed_result cfg invocation_id calls (repair_request request errors answer) again errors'"
proof -
  let ?check = "check_output parse (pc_max_output_bytes cfg)"
  note run = assms [unfolded numeral_2_eq_2]
  from run obtain answer where answer: "provider 0 request = Inr answer"
    by (auto simp: bind_res_Inr)
  with run obtain checked where checked: "?check answer = Inr checked"
    by (auto simp: bind_res_Inr)
  show thesis
  proof (cases checked)
    case (Inr p)
    with run answer checked planned [OF answer] show ?thesis by simp
  next
    case (Inl errors)
    let ?repair = "repair_request request errors answer"
    from Inl checked have refused: "refused parse cfg answer errors" by (simp add: refused_def)
    from run answer checked Inl have second:
      "plan_attempts provider parse cfg invocation_id calls (Suc 0) 1 ?repair = Inr r" by simp
    then obtain again where again: "provider 1 ?repair = Inr again"
      by (auto simp: bind_res_Inr)
    with second obtain checked' where checked': "?check again = Inr checked'"
      by (auto simp: bind_res_Inr)
    show ?thesis
    proof (cases checked')
      case (Inr p)
      with second again checked' repaired [OF answer refused again] show ?thesis by simp
    next
      case (Inl errors')
      with second again checked' failed [OF answer refused again] show ?thesis
        by (simp add: refused_def)
    qed
  qed
qed

lemma planner_plan_Inr:
  assumes "planner_plan gateway provider parse cfg durations run_id = Inr r"
  obtains calls input_hash invocation_id where
    "gather_context gateway (pc_max_revision_reads cfg) durations run_id = Inr calls"
    "input_hash = json_hash (JList (map observation_json (map tc_observation calls)))"
    "invocation_id = uuid5 namespace_url (''shadowops:'' @ uuid_str run_id @ '':PLANNER:'' @ input_hash)"
    "plan_attempts provider parse cfg invocation_id
       (map (\<lambda>c. c\<lparr>tc_invocation_id := invocation_id\<rparr>) calls) 2 0
       (first_request run_id input_hash (map tc_observation calls)) = Inr r"
  using assms by (auto simp: planner_plan_def Let_def bind_res_Inr simp del: append.simps)

text \<open>
  C39. The planning loop asks at most twice, and only an accepted plan leaves it.  A stored plan is
  what the provider wrote, within the size limit, and meets the specification of the validator:
  it is the first answer, or the answer to one repair request that carries the errors, the hash
  and the beginning of the refused first answer.  Without a plan the invocation has failed with
  \<open>PLAN_INVALID\<close> after one repair, both answers refused, and reports the errors of the second.
\<close>

theorem planner_outcome:
  assumes "planner_plan gateway provider parse cfg durations run_id = Inr r"
  shows "\<exists>request answer. provider 0 request = Inr answer \<and> pq_run_id request = run_id \<and>
     pq_input_hash request = ai_input_hash (pr_invocation r) \<and>
     pq_observations request = map tc_observation (pr_tool_calls r) \<and>
     (case pr_plan r of
        Some stored \<Rightarrow>
          plan_ok (pp_plan stored) \<and> ai_status (pr_invocation r) = InvocationSucceeded \<and>
          (ai_repair_attempts (pr_invocation r) = 0 \<and> reads_as parse cfg answer (pp_plan stored) \<or>
           ai_repair_attempts (pr_invocation r) = 1 \<and>
           (\<exists>errors again. refused parse cfg answer errors \<and>
              provider 1 (repair_request request errors answer) = Inr again \<and>
              reads_as parse cfg again (pp_plan stored)))
      | None \<Rightarrow>
          ai_status (pr_invocation r) = InvocationFailed \<and> ai_repair_attempts (pr_invocation r) = 1 \<and>
          ai_error_code (pr_invocation r) = Some ''PLAN_INVALID'' \<and>
          (\<exists>errors again errors'. refused parse cfg answer errors \<and>
             provider 1 (repair_request request errors answer) = Inr again \<and>
             refused parse cfg again errors' \<and>
             ai_error_detail (pr_invocation r) = Some (join_with '';'' errors')))"
proof -
  from assms obtain calls input_hash invocation_id where run: "plan_attempts provider parse cfg invocation_id
       (map (\<lambda>c. c\<lparr>tc_invocation_id := invocation_id\<rparr>) calls) 2 0
       (first_request run_id input_hash (map tc_observation calls)) = Inr r"
    by (rule planner_plan_Inr)
  let ?request = "first_request run_id input_hash (map tc_observation calls)"
  note result_simps = plan_result_def failed_result_def make_invocation_def repair_request_def
    first_request_def comp_def
  have "pr_tool_calls r = map (\<lambda>c. c\<lparr>tc_invocation_id := invocation_id\<rparr>) calls \<and>
      ai_input_hash (pr_invocation r) = input_hash"
    using run by (cases rule: plan_attempts_cases) (simp_all add: result_simps)
  then have request: "pq_run_id ?request = run_id"
    "pq_input_hash ?request = ai_input_hash (pr_invocation r)"
    "pq_observations ?request = map tc_observation (pr_tool_calls r)"
    by (simp_all add: first_request_def comp_def)
  show ?thesis
    using run
  proof (cases rule: plan_attempts_cases)
    case (planned answer p)
    with request check_output_accepted [OF planned(2)] show ?thesis
      by (intro exI [of _ ?request] exI [of _ answer]) (simp add: plan_result_def make_invocation_def)
  next
    case (repaired answer errors again p)
    with request check_output_accepted [OF repaired(4)] show ?thesis
      by (intro exI [of _ ?request] exI [of _ answer]) (auto simp: plan_result_def make_invocation_def)
  next
    case (failed answer errors again errors')
    with request show ?thesis
      by (intro exI [of _ ?request] exI [of _ answer]) (auto simp: failed_result_def make_invocation_def)
  qed
qed


definition demo_gateway :: "tool_name \<Rightarrow> tool_arguments \<Rightarrow> tool_observation res" where
  "demo_gateway tool arguments =
     Inr (observation tool
       (if tool = DISCOVER_MIGRATIONS then [(''changed_revisions'', JList [JStr ''b'', JInt 1, JStr ''a''])] else [])
       [''evidence:a''])"

definition demo_provider :: "nat \<Rightarrow> planner_request \<Rightarrow> string res" where
  "demo_provider attempt request = Inr (if attempt = 0 then ''no plan'' else ''plan'')"

definition demo_parse :: "string \<Rightarrow> parsed_output" where
  "demo_parse answer =
     (if answer = ''plan'' then ParsedPlan (reference_plan 7 demo_evidence) else JsonInvalid)"

definition demo_config :: planner_config where
  "demo_config = \<lparr>pc_provider_name = ''fake'', pc_model_name = ''demo'', pc_max_revision_reads = 16,
     pc_max_output_bytes = 100, pc_started_at = 0, pc_completed_at = 1\<rparr>"

lemma demo_checks:
  "check_output demo_parse 100 ''no plan'' = Inr (Inl [''JSON_INVALID''])"
  "check_output demo_parse 100 ''plan'' = Inr (Inr (reference_plan 7 demo_evidence))"
proof -
  have sizes: "int (length (encode ''no plan'')) \<le> 100" "int (length (encode ''plan'')) \<le> 100"
    by code_simp+
  have "plan_errors (reference_plan 7 demo_evidence) = []"
    unfolding plan_errors_Nil by (rule reference_plan_accepted) code_simp
  then show "check_output demo_parse 100 ''no plan'' = Inr (Inl [''JSON_INVALID''])"
    "check_output demo_parse 100 ''plan'' = Inr (Inr (reference_plan 7 demo_evidence))"
    using sizes by (simp_all add: check_output_def demo_parse_def validate_plan_def)
qed

lemma demo_context:
  "\<exists>calls. gather_context demo_gateway n durations run_id = Inr calls"
proof -
  have tools: "\<exists>calls'. call_tools demo_gateway run_id durations reqs calls = Inr calls'" for reqs calls
  proof (induction reqs arbitrary: calls)
    case (Cons req reqs)
    obtain tool arguments where req: "req = (tool, arguments)" by force
    obtain obs where "demo_gateway tool arguments = Inr obs" unfolding demo_gateway_def by blast
    then show ?case using Cons by (simp add: req)
  qed simp
  obtain calls where "call_tools demo_gateway run_id durations (fixed_tools run_id) [] = Inr calls"
    using tools by blast
  then show ?thesis unfolding gather_context_def using tools by simp
qed

lemma demo_plan_attempts:
  "plan_attempts demo_provider demo_parse demo_config invocation_id calls 2 0 request =
     Inr (plan_result demo_config invocation_id calls
            (repair_request request [''JSON_INVALID''] ''no plan'') ''plan'' 1
            (reference_plan 7 demo_evidence))"
proof -
  have "pc_max_output_bytes demo_config = 100" by (simp add: demo_config_def)
  then show ?thesis
    by (simp add: numeral_2_eq_2 demo_checks demo_provider_def)
qed

lemma demo_planning:
  "\<exists>r. planner_plan demo_gateway demo_provider demo_parse demo_config durations 7 = Inr r \<and>
       ai_repair_attempts (pr_invocation r) = 1"
proof -
  obtain calls where "gather_context demo_gateway (pc_max_revision_reads demo_config) durations 7 = Inr calls"
    using demo_context by blast
  then show ?thesis
    unfolding planner_plan_def Let_def demo_plan_attempts
    by (intro exI conjI)
      (simp only: bind_res_simps, simp only: plan_result_def make_invocation_def
        planning_result.select_convs agent_invocation.select_convs of_nat_1)
qed

theorem planner_outcome_witness:
  "\<exists>r. planner_plan demo_gateway demo_provider demo_parse demo_config id 7 = Inr r \<and>
       ai_repair_attempts (pr_invocation r) = 1 \<and>
       (\<forall>stored. pr_plan r = Some stored \<longrightarrow> plan_ok (pp_plan stored))"
proof -
  obtain r where r: "planner_plan demo_gateway demo_provider demo_parse demo_config id 7 = Inr r"
    "ai_repair_attempts (pr_invocation r) = 1" using demo_planning by blast
  from planner_outcome [OF r(1)] have "\<forall>stored. pr_plan r = Some stored \<longrightarrow> plan_ok (pp_plan stored)"
    by (auto split: option.splits)
  with r show ?thesis by blast
qed

section \<open>The recorded calls\<close>

lemma call_tools_Inr:
  "call_tools gateway run_id durations reqs calls = Inr calls' \<Longrightarrow>
   \<exists>added. calls' = calls @ added \<and> map tc_tool_name added = map fst reqs \<and>
     map tc_sequence added = map (\<lambda>i. int i + 1) [length calls..<length calls'] \<and>
     (\<forall>c \<in> set added. tc_run_id c = run_id \<and>
        (\<exists>arguments. gateway (tc_tool_name c) arguments = Inr (tc_observation c)))"
proof (induction gateway run_id durations reqs calls rule: call_tools.induct)
  case (2 gateway run_id durations tool arguments later calls)
  from 2(2) obtain obs where obs: "gateway tool arguments = Inr obs"
    "call_tools gateway run_id durations later
       (calls @ [record_call run_id durations calls tool arguments obs]) = Inr calls'"
    by (auto simp: bind_res_Inr)
  let ?c = "record_call run_id durations calls tool arguments obs"
  have c: "tc_tool_name ?c = tool" "tc_sequence ?c = int (length calls) + 1" "tc_run_id ?c = run_id"
    "tc_observation ?c = obs" by (simp_all add: record_call_def Let_def)
  from 2(1) [OF obs(2)] obtain added where added: "calls' = (calls @ [?c]) @ added"
    "map tc_tool_name added = map fst later"
    "map tc_sequence added = map (\<lambda>i. int i + 1) [length (calls @ [?c])..<length calls']"
    "\<forall>c \<in> set added. tc_run_id c = run_id \<and>
       (\<exists>arguments. gateway (tc_tool_name c) arguments = Inr (tc_observation c))" by blast
  have "map tc_sequence (?c # added) = map (\<lambda>i. int i + 1) [length calls..<length calls']"
  proof -
    have "length calls < length calls'" by (simp add: added(1))
    then have "[length calls..<length calls'] = length calls # [length (calls @ [?c])..<length calls']"
      by (simp add: upt_conv_Cons)
    with added(3) c(2) show ?thesis by simp
  qed
  with added c obs(1) show ?case by (intro exI [of _ "?c # added"]) auto
qed simp

definition read_requests :: "nat \<Rightarrow> uuid \<Rightarrow> tool_observation \<Rightarrow> (tool_name \<times> tool_arguments) list" where
  "read_requests n run_id discovery =
     map (\<lambda>revision. (READ_REVISION, RevisionArguments run_id revision))
       (take n (changed_revisions_of discovery))"


lemma gather_context_Inr:
  assumes "gather_context gateway n durations run_id = Inr calls"
  shows "\<exists>discovery. map tc_tool_name calls = map fst (fixed_tools run_id @ read_requests n run_id discovery) \<and>
     map tc_sequence calls = map (\<lambda>i. int i + 1) [0..<length calls] \<and>
     (\<forall>c \<in> set calls. tc_run_id c = run_id \<and>
        (\<exists>arguments. gateway (tc_tool_name c) arguments = Inr (tc_observation c)))"
proof -
  obtain fixed where fixed: "call_tools gateway run_id durations (fixed_tools run_id) [] = Inr fixed"
    "call_tools gateway run_id durations (read_requests n run_id (tc_observation (hd fixed))) fixed = Inr calls"
    using assms by (auto simp: gather_context_def read_requests_def bind_res_Inr)
  from call_tools_Inr [OF fixed(1)] have 1: "map tc_tool_name fixed = map fst (fixed_tools run_id)"
    "map tc_sequence fixed = map (\<lambda>i. int i + 1) [0..<length fixed]"
    "\<forall>c \<in> set fixed. tc_run_id c = run_id \<and>
        (\<exists>arguments. gateway (tc_tool_name c) arguments = Inr (tc_observation c))" by auto
  from call_tools_Inr [OF fixed(2)] obtain added where 2: "calls = fixed @ added"
    "map tc_tool_name added = map fst (read_requests n run_id (tc_observation (hd fixed)))"
    "map tc_sequence added = map (\<lambda>i. int i + 1) [length fixed..<length calls]"
    "\<forall>c \<in> set added. tc_run_id c = run_id \<and>
        (\<exists>arguments. gateway (tc_tool_name c) arguments = Inr (tc_observation c))" by blast
  have "[0..<length calls] = [0..<length fixed] @ [length fixed..<length calls]"
    unfolding 2(1) length_append by (rule upt_add_eq_append) simp
  with 1(2) 2(3) have "map tc_sequence calls = map (\<lambda>i. int i + 1) [0..<length calls]"
    unfolding 2(1) by (simp only: map_append)
  moreover have "map tc_tool_name calls =
      map fst (fixed_tools run_id @ read_requests n run_id (tc_observation (hd fixed)))"
    unfolding 2(1) map_append 1(1) 2(2) ..
  moreover have "\<forall>c \<in> set calls. tc_run_id c = run_id \<and>
        (\<exists>arguments. gateway (tc_tool_name c) arguments = Inr (tc_observation c))"
    unfolding 2(1) set_append ball_Un using 1(3) 2(4) ..
  ultimately show ?thesis by blast
qed

lemma planner_plan_calls:
  assumes "plan_attempts provider parse cfg invocation_id calls 2 0 request = Inr r"
  shows "pr_tool_calls r = calls \<and> ai_id (pr_invocation r) = invocation_id \<and>
         ai_input_hash (pr_invocation r) = pq_input_hash request \<and>
         (\<forall>stored. pr_plan r = Some stored \<longrightarrow> pp_id stored = uuid5 namespace_url
            (''shadowops:'' @ uuid_str (pq_run_id request) @ '':plan:'' @ pq_input_hash request))"
  using assms
  by (cases rule: plan_attempts_cases)
    (simp_all add: plan_result_def failed_result_def make_invocation_def repair_request_def)

text \<open>
  The record of a planning run is complete and read-only: the calls are numbered 1, 2, 3, ...
  without a gap, they are the four fixed tools in their order followed by at most the configured
  number of revision reads, and each one carries the run, the invocation and the observation that
  the gateway returned for that tool.
\<close>

theorem recorded_calls:
  assumes "planner_plan gateway provider parse cfg durations run_id = Inr r"
  shows "map tc_sequence (pr_tool_calls r) = map (\<lambda>i. int i + 1) [0..<length (pr_tool_calls r)] \<and>
     (\<exists>k \<le> pc_max_revision_reads cfg. map tc_tool_name (pr_tool_calls r) =
        [DISCOVER_MIGRATIONS, GET_STATIC_FINDINGS, DESCRIBE_SHADOW_CAPABILITIES, GET_TEST_DATA_PROFILE] @
        replicate k READ_REVISION) \<and>
     (\<forall>c \<in> set (pr_tool_calls r).
        tc_run_id c = run_id \<and> tc_invocation_id c = ai_id (pr_invocation r) \<and>
        (\<exists>arguments. gateway (tc_tool_name c) arguments = Inr (tc_observation c)))"
proof -
  from assms obtain calls input_hash invocation_id where
    calls: "gather_context gateway (pc_max_revision_reads cfg) durations run_id = Inr calls"
    and run: "plan_attempts provider parse cfg invocation_id
       (map (\<lambda>c. c\<lparr>tc_invocation_id := invocation_id\<rparr>) calls) 2 0
       (first_request run_id input_hash (map tc_observation calls)) = Inr r"
    by (rule planner_plan_Inr)
  from planner_plan_calls [OF run] have r: "pr_tool_calls r = map (\<lambda>c. c\<lparr>tc_invocation_id := invocation_id\<rparr>) calls"
    "ai_id (pr_invocation r) = invocation_id" by blast+
  from gather_context_Inr [OF calls] obtain discovery where
    g: "map tc_tool_name calls =
          map fst (fixed_tools run_id @ read_requests (pc_max_revision_reads cfg) run_id discovery)"
      "map tc_sequence calls = map (\<lambda>i. int i + 1) [0..<length calls]"
      "\<forall>c \<in> set calls. tc_run_id c = run_id \<and>
        (\<exists>arguments. gateway (tc_tool_name c) arguments = Inr (tc_observation c))" by blast
  let ?k = "length (take (pc_max_revision_reads cfg) (changed_revisions_of discovery))"
  have "map fst (read_requests (pc_max_revision_reads cfg) run_id discovery) = replicate ?k READ_REVISION"
    unfolding read_requests_def by (simp only: map_map comp_def fst_conv map_replicate_const)
  then have "map tc_tool_name (pr_tool_calls r) =
        [DISCOVER_MIGRATIONS, GET_STATIC_FINDINGS, DESCRIBE_SHADOW_CAPABILITIES, GET_TEST_DATA_PROFILE] @
        replicate ?k READ_REVISION"
    using g(1) by (simp add: r fixed_tools_def comp_def)
  moreover have "?k \<le> pc_max_revision_reads cfg" by simp
  moreover have "map tc_sequence (pr_tool_calls r) = map (\<lambda>i. int i + 1) [0..<length (pr_tool_calls r)]"
    using g(2) by (simp add: r comp_def)
  moreover have "\<forall>c \<in> set (pr_tool_calls r).
        tc_run_id c = run_id \<and> tc_invocation_id c = ai_id (pr_invocation r) \<and>
        (\<exists>arguments. gateway (tc_tool_name c) arguments = Inr (tc_observation c))"
    using g(3) by (simp add: r)
  ultimately show ?thesis by blast
qed

theorem recorded_calls_witness:
  "\<exists>r. planner_plan demo_gateway demo_provider demo_parse demo_config id 7 = Inr r \<and>
       map tc_sequence (pr_tool_calls r) = map (\<lambda>i. int i + 1) [0..<length (pr_tool_calls r)]"
proof -
  obtain r where "planner_plan demo_gateway demo_provider demo_parse demo_config id 7 = Inr r"
    using demo_planning by blast
  with recorded_calls [OF this] show ?thesis by blast
qed

section \<open>Repeating a planning run\<close>

definition timeless :: "tool_call \<Rightarrow> tool_call" where
  "timeless c = c\<lparr>tc_duration_ms := 0\<rparr>"

lemma call_tools_timeless:
  "call_tools gateway run_id d reqs calls = Inr a \<Longrightarrow> call_tools gateway run_id d' reqs calls' = Inr b \<Longrightarrow>
   map timeless calls = map timeless calls' \<Longrightarrow> map timeless a = map timeless b"
proof (induction gateway run_id d reqs calls arbitrary: calls' rule: call_tools.induct)
  case (2 gateway run_id d tool arguments later calls)
  from 2(2) obtain obs where obs: "gateway tool arguments = Inr obs"
    "call_tools gateway run_id d later (calls @ [record_call run_id d calls tool arguments obs]) = Inr a"
    by (auto simp: bind_res_Inr)
  with 2(3) have b: "call_tools gateway run_id d' later
      (calls' @ [record_call run_id d' calls' tool arguments obs]) = Inr b" by simp
  have "length calls = length calls'" using 2(4) by (rule map_eq_imp_length_eq)
  then have "timeless (record_call run_id d calls tool arguments obs) =
      timeless (record_call run_id d' calls' tool arguments obs)"
    by (simp only: timeless_def record_call_def Let_def tool_call.simps)
  with 2(4) have "map timeless (calls @ [record_call run_id d calls tool arguments obs]) =
      map timeless (calls' @ [record_call run_id d' calls' tool arguments obs])" by simp
  with 2(1) [OF obs(2) b] show ?case by simp
qed simp

lemma gather_context_timeless:
  assumes "gather_context gateway n d run_id = Inr a" and "gather_context gateway n d' run_id = Inr b"
  shows "map timeless a = map timeless b"
proof -
  obtain fa fb where f: "call_tools gateway run_id d (fixed_tools run_id) [] = Inr fa"
    "call_tools gateway run_id d' (fixed_tools run_id) [] = Inr fb"
    and r: "call_tools gateway run_id d (read_requests n run_id (tc_observation (hd fa))) fa = Inr a"
    "call_tools gateway run_id d' (read_requests n run_id (tc_observation (hd fb))) fb = Inr b"
    using assms by (auto simp: gather_context_def read_requests_def bind_res_Inr)
  from call_tools_timeless [OF f] have eq: "map timeless fa = map timeless fb" by simp
  moreover from call_tools_Inr [OF f(1)] have "fa \<noteq> []" by (auto simp: fixed_tools_def)
  ultimately have "timeless (hd fa) = timeless (hd fb)" by (metis hd_map map_is_Nil_conv)
  then have "tc_observation (hd fa) = tc_observation (hd fb)"
    by (metis timeless_def tool_call.select_convs(11) tool_call.surjective tool_call.update_convs(9))
  with r have "call_tools gateway run_id d (read_requests n run_id (tc_observation (hd fa))) fa = Inr a"
    "call_tools gateway run_id d' (read_requests n run_id (tc_observation (hd fa))) fb = Inr b" by simp_all
  then show ?thesis using eq by (rule call_tools_timeless)
qed

lemma timeless_map:
  assumes "map timeless a = map timeless b" and f: "\<And>c. f (timeless c) = f c"
  shows "map f a = map f b"
proof -
  have "map f xs = map f (map timeless xs)" for xs using f by simp
  with assms(1) show ?thesis by metis
qed

lemma timeless_fields:
  assumes "map timeless a = map timeless b"
  shows "map tc_id a = map tc_id b" "map tc_observation a = map tc_observation b"
    "map tc_arguments_hash a = map tc_arguments_hash b" "map tc_result_hash a = map tc_result_hash b"
  by (rule timeless_map [OF assms]; simp add: timeless_def)+

text \<open>
  Repeating a planning run is idempotent for the store: as long as the tools answer the same,
  another attempt of the run has the same input hash, invocation identifier, call identifiers and
  hashes and, when both attempts end in a plan, the same plan identifier, whatever the provider
  answers and however long the calls take.
\<close>

theorem replayed_identifiers:
  assumes "planner_plan gateway provider parse cfg durations run_id = Inr r"
    and "planner_plan gateway provider' parse' cfg' durations' run_id = Inr r'"
    and "pc_max_revision_reads cfg = pc_max_revision_reads cfg'"
  shows "ai_id (pr_invocation r) = ai_id (pr_invocation r') \<and>
     ai_input_hash (pr_invocation r) = ai_input_hash (pr_invocation r') \<and>
     map tc_id (pr_tool_calls r) = map tc_id (pr_tool_calls r') \<and>
     map tc_arguments_hash (pr_tool_calls r) = map tc_arguments_hash (pr_tool_calls r') \<and>
     map tc_result_hash (pr_tool_calls r) = map tc_result_hash (pr_tool_calls r') \<and>
     (\<forall>stored stored'. pr_plan r = Some stored \<longrightarrow> pr_plan r' = Some stored' \<longrightarrow>
        pp_id stored = pp_id stored')"
proof -
  from assms(1) obtain calls h i where c:
    "gather_context gateway (pc_max_revision_reads cfg) durations run_id = Inr calls"
    "h = json_hash (JList (map observation_json (map tc_observation calls)))"
    "i = uuid5 namespace_url (''shadowops:'' @ uuid_str run_id @ '':PLANNER:'' @ h)"
    "plan_attempts provider parse cfg i (map (\<lambda>c. c\<lparr>tc_invocation_id := i\<rparr>) calls) 2 0
       (first_request run_id h (map tc_observation calls)) = Inr r"
    by (rule planner_plan_Inr)
  from assms(2) obtain calls' h' i' where c':
    "gather_context gateway (pc_max_revision_reads cfg') durations' run_id = Inr calls'"
    "h' = json_hash (JList (map observation_json (map tc_observation calls')))"
    "i' = uuid5 namespace_url (''shadowops:'' @ uuid_str run_id @ '':PLANNER:'' @ h')"
    "plan_attempts provider' parse' cfg' i' (map (\<lambda>c. c\<lparr>tc_invocation_id := i'\<rparr>) calls') 2 0
       (first_request run_id h' (map tc_observation calls')) = Inr r'"
    by (rule planner_plan_Inr)
  note same = timeless_fields [OF gather_context_timeless [OF c(1) c'(1) [folded assms(3)]]]
  have "h = h'" unfolding c(2) c'(2) same(2) ..
  moreover from this have "i = i'" unfolding c(3) c'(3) by (rule arg_cong)
  moreover note planner_plan_calls [OF c(4)] planner_plan_calls [OF c'(4)]
  ultimately show ?thesis using same
    by (simp only: first_request_def planner_request.select_convs) (simp add: comp_def)
qed

theorem replayed_identifiers_witness:
  "\<exists>r r'. planner_plan demo_gateway demo_provider demo_parse demo_config id 7 = Inr r \<and>
     planner_plan demo_gateway demo_provider demo_parse demo_config (\<lambda>_. 5) 7 = Inr r' \<and>
     ai_id (pr_invocation r) = ai_id (pr_invocation r') \<and> map tc_id (pr_tool_calls r) = map tc_id (pr_tool_calls r')"
proof -
  obtain r r' where r: "planner_plan demo_gateway demo_provider demo_parse demo_config id 7 = Inr r"
    "planner_plan demo_gateway demo_provider demo_parse demo_config (\<lambda>_. 5) 7 = Inr r'"
    using demo_planning by blast
  with replayed_identifiers [OF r] show ?thesis by blast
qed


section \<open>The searches return\<close>




end
