(* ===== verification/SandboxContracts.thy ===== *)
theory SandboxContracts
  imports RunService
begin

text \<open>
  \<open>sandbox/contracts.py\<close> and \<open>evidence/contracts.py\<close>: the values exchanged with the fixed runner,
  the shadow environment, and the metadata of the evidence, with their field constraints and
  model validators.
\<close>

section \<open>Requests\<close>

datatype runner_action =
    UPGRADE_BASELINE_ACTION | APPLY_TARGET | LOAD_TEST_DATA_ACTION | RUN_SMOKE_CHECKS_ACTION
  | VERIFY_ROLLBACK_ROUNDTRIP_ACTION

fun action_value :: "runner_action \<Rightarrow> string" where
  "action_value UPGRADE_BASELINE_ACTION = ''UPGRADE_BASELINE''"
| "action_value APPLY_TARGET = ''APPLY_TARGET''"
| "action_value LOAD_TEST_DATA_ACTION = ''LOAD_TEST_DATA''"
| "action_value RUN_SMOKE_CHECKS_ACTION = ''RUN_SMOKE_CHECKS''"
| "action_value VERIFY_ROLLBACK_ROUNDTRIP_ACTION = ''VERIFY_ROLLBACK_ROUNDTRIP''"

definition runner_actions :: "runner_action list" where
  "runner_actions = [UPGRADE_BASELINE_ACTION, APPLY_TARGET, LOAD_TEST_DATA_ACTION,
     RUN_SMOKE_CHECKS_ACTION, VERIFY_ROLLBACK_ROUNDTRIP_ACTION]"

record runner_request =
  rq_action :: runner_action
  rq_revision :: string
  rq_baseline_revision :: "string option"
  rq_statement_timeout_ms :: int
  rq_output_limit_bytes :: int

text \<open>\<open>^[A-Za-z0-9_.-]+$\<close>\<close>

definition revision_char :: "char \<Rightarrow> bool" where
  "revision_char c \<longleftrightarrow>
     c \<in> set ''ABCDEFGHIJKLMNOPQRSTUVWXYZabcdefghijklmnopqrstuvwxyz0123456789_.-''"

definition revision_text :: "string \<Rightarrow> bool" where
  "revision_text s \<longleftrightarrow> s \<noteq> [] \<and> length s \<le> 255 \<and> list_all revision_char s"

text \<open>\<open>validate_action_fields\<close>\<close>

definition needs_baseline :: "runner_action \<Rightarrow> bool" where
  "needs_baseline a \<longleftrightarrow> a \<in> {LOAD_TEST_DATA_ACTION, VERIFY_ROLLBACK_ROUNDTRIP_ACTION}"

definition runner_request_valid :: "runner_request \<Rightarrow> bool" where
  "runner_request_valid r \<longleftrightarrow>
     revision_text (rq_revision r) \<and>
     (case rq_baseline_revision r of None \<Rightarrow> True | Some b \<Rightarrow> revision_text b) \<and>
     100 \<le> rq_statement_timeout_ms r \<and> rq_statement_timeout_ms r \<le> 120000 \<and>
     1024 \<le> rq_output_limit_bytes r \<and> rq_output_limit_bytes r \<le> 262144 \<and>
     (needs_baseline (rq_action r) \<longleftrightarrow> rq_baseline_revision r \<noteq> None)"

text \<open>The constructor: \<open>ValidationError\<close> is a \<open>ValueError\<close>.\<close>

definition make_request :: "runner_request \<Rightarrow> runner_request res" where
  "make_request r =
     (if runner_request_valid r then Inr r else Inl (ValueError ''RunnerRequestV1''))"

section \<open>Results\<close>

datatype runner_status = RunnerSucceeded | RunnerFailed

record bounded_artifact =
  ba_byte_count :: int
  ba_sha256 :: string
  ba_truncated :: bool
  ba_text :: string

definition bounded_artifact_valid :: "bounded_artifact \<Rightarrow> bool" where
  "bounded_artifact_valid a \<longleftrightarrow>
     0 \<le> ba_byte_count a \<and> is_sha256_hex (ba_sha256 a) \<and>
     int (length (encode (ba_text a))) = ba_byte_count a \<and>
     hexdigest (encode (ba_text a)) = ba_sha256 a"

datatype observation_kind = SEED_SUMMARY | SCHEMA_FINGERPRINT | SMOKE_SUMMARY | ROLLBACK_ROUNDTRIP

fun observation_value :: "observation_kind \<Rightarrow> string" where
  "observation_value SEED_SUMMARY = ''SEED_SUMMARY''"
| "observation_value SCHEMA_FINGERPRINT = ''SCHEMA_FINGERPRINT''"
| "observation_value SMOKE_SUMMARY = ''SMOKE_SUMMARY''"
| "observation_value ROLLBACK_ROUNDTRIP = ''ROLLBACK_ROUNDTRIP''"

record runner_observation =
  ro_kind :: observation_kind
  ro_sha256 :: string
  ro_data :: "(string \<times> json) list"

definition runner_observation_valid :: "runner_observation \<Rightarrow> bool" where
  "runner_observation_valid ob \<longleftrightarrow>
     is_sha256_hex (ro_sha256 ob) \<and>
     length (canonical_json (JObj (ro_data ob))) \<le> 65536 \<and>
     hexdigest (canonical_json (JObj (ro_data ob))) = ro_sha256 ob"

record runner_result =
  rr_action :: runner_action
  rr_status :: runner_status
  rr_error_code :: "string option"
  rr_error_detail :: "string option"
  rr_current_revision :: "string option"
  rr_duration_ms :: int
  rr_coverage_gaps :: "string list"
  rr_observations :: "runner_observation list"
  rr_stdout :: bounded_artifact
  rr_stderr :: bounded_artifact

definition max_length :: "nat \<Rightarrow> string option \<Rightarrow> bool" where
  "max_length n v \<longleftrightarrow> (case v of None \<Rightarrow> True | Some s \<Rightarrow> length s \<le> n)"

definition runner_result_valid :: "runner_result \<Rightarrow> bool" where
  "runner_result_valid r \<longleftrightarrow>
     max_length 64 (rr_error_code r) \<and> max_length 500 (rr_error_detail r) \<and>
     max_length 255 (rr_current_revision r) \<and> 0 \<le> rr_duration_ms r \<and>
     length (rr_coverage_gaps r) \<le> 64 \<and> length (rr_observations r) \<le> 16 \<and>
     list_all runner_observation_valid (rr_observations r) \<and>
     bounded_artifact_valid (rr_stdout r) \<and> bounded_artifact_valid (rr_stderr r)"

section \<open>Environments and executions\<close>

datatype environment_status = ACTIVE | CLEANED | CLEANUP_FAILED

record shadow_environment =
  se_id :: uuid
  se_run_id :: uuid
  se_generation :: int
  se_status :: environment_status
  se_postgres_container_id :: string
  se_network_id :: string
  se_volume_name :: string
  se_snapshot_volume_name :: string
  se_postgres_image :: string
  se_postgres_image_id :: string
  se_runner_image :: string
  se_runner_image_id :: string
  se_lease_expires_at :: time
  se_created_at :: time
  se_cleaned_at :: "time option"

text \<open>\<open>sha256:[a-f0-9]{64}\<close>\<close>

definition image_id_valid :: "string \<Rightarrow> bool" where
  "image_id_valid s \<longleftrightarrow> starts_with s ''sha256:'' \<and> is_sha256_hex (drop 7 s)"

definition shadow_environment_valid :: "shadow_environment \<Rightarrow> bool" where
  "shadow_environment_valid e \<longleftrightarrow>
     1 \<le> se_generation e \<and> length (se_postgres_container_id e) \<le> 128 \<and>
     length (se_network_id e) \<le> 128 \<and> length (se_volume_name e) \<le> 255 \<and>
     length (se_snapshot_volume_name e) \<le> 255 \<and> length (se_postgres_image e) \<le> 255 \<and>
     image_id_valid (se_postgres_image_id e) \<and> length (se_runner_image e) \<le> 255 \<and>
     image_id_valid (se_runner_image_id e)"

record environment_lease =
  el_environment :: shadow_environment
  el_database_password :: string

record runner_execution =
  re_id :: uuid
  re_environment_id :: uuid
  re_run_id :: uuid
  re_generation :: int
  re_request :: runner_request
  re_result :: runner_result
  re_created_at :: time

section \<open>Evidence\<close>

datatype evidence_kind =
    RUNNER_STDOUT | RUNNER_STDERR | ObservationEvidence observation_kind | COVERAGE_GAPS

fun evidence_value :: "evidence_kind \<Rightarrow> string" where
  "evidence_value RUNNER_STDOUT = ''RUNNER_STDOUT''"
| "evidence_value RUNNER_STDERR = ''RUNNER_STDERR''"
| "evidence_value (ObservationEvidence k) = observation_value k"
| "evidence_value COVERAGE_GAPS = ''COVERAGE_GAPS''"

datatype observation_scope = ObservedInShadow | UnknownInProduction

datatype media_type = ApplicationJson | TextPlain

datatype redaction_status = Redacted | RedactionNotRequired

record evidence_item =
  ev_id :: uuid
  ev_run_id :: uuid
  ev_execution_id :: uuid
  ev_kind :: evidence_kind
  ev_producer :: string
  ev_observation_scope :: observation_scope
  ev_artifact_uri :: string
  ev_sha256 :: string
  ev_byte_count :: int
  ev_media_type :: media_type
  ev_redaction_status :: redaction_status
  ev_created_at :: time

definition evidence_item_valid :: "evidence_item \<Rightarrow> bool" where
  "evidence_item_valid e \<longleftrightarrow>
     length_between 1 128 (ev_producer e) \<and>
     starts_with (ev_artifact_uri e) ''artifact://sha256/'' \<and>
     is_sha256_hex (drop 18 (ev_artifact_uri e)) \<and> is_sha256_hex (ev_sha256 e) \<and>
     0 \<le> ev_byte_count e \<and> ev_byte_count e \<le> 1048576"

record dynamic_audit_view =
  dv_run_id :: uuid
  dv_generation :: int
  dv_environment :: shadow_environment
  dv_executions :: "runner_execution list"
  dv_evidence_items :: "evidence_item list"

end
