(* ===== verification/ResultStore.thy ===== *)
theory ResultStore
  imports ControlDb AgentPlanner SandboxContracts
begin

text \<open>
  The tables of the stages (\<open>persistence/models.py\<close>, from \<open>repo_snapshots\<close> on) and their
  repositories in \<open>persistence/repositories.py\<close>: results are written once and read many times.
  The JSON columns hold the values whose dump they store; the column lengths are those of the
  field constraints.
\<close>

section \<open>Tables\<close>

text \<open>The graph table does not repeat the selection: it is read from the snapshot row.\<close>

record graph_row =
  gw_id :: uuid
  gw_run_id :: uuid
  gw_snapshot_id :: uuid
  gw_supported :: bool
  gw_nodes :: "revision_node list"
  gw_heads :: "string list"
  gw_baseline_revision :: "string option"
  gw_target_chain :: "string list"
  gw_changed_revisions :: "string list"
  gw_unsupported_reasons :: "unsupported_reason list"
  gw_created_at :: time

record result_db = control_db +
  repo_snapshots :: "repo_snapshot list"
  revision_graphs :: "graph_row list"
  static_reports :: "static_report list"
  agent_invocations :: "agent_invocation list"
  agent_tool_calls :: "tool_call list"
  audit_plans :: "audit_plan_record list"
  shadow_environments :: "environment_lease list"
  runner_executions :: "runner_execution list"
  evidence_items :: "evidence_item list"

section \<open>\<open>INSERT ... ON CONFLICT DO NOTHING\<close>\<close>

text \<open>
  A row check is evaluated first; then a row with the key of the conflict target makes the
  statement do nothing; then the primary key and the foreign keys (\<open>refs\<close>) are checked.
\<close>

definition insert_absent ::
    "string option \<Rightarrow> ('r \<Rightarrow> 'k) \<Rightarrow> ('r \<Rightarrow> uuid) \<Rightarrow> string option \<Rightarrow> 'r \<Rightarrow> 'r list \<Rightarrow> 'r list res" where
  "insert_absent check key pk refs row t =
     (case check of
        Some c \<Rightarrow> Inl (IntegrityError c)
      | None \<Rightarrow>
          if exists_row (\<lambda>r. key r = key row) t then Inr t
          else if exists_row (\<lambda>r. pk r = pk row) t then Inl (IntegrityError ''pkey'')
          else case refs of
                 Some c \<Rightarrow> Inl (IntegrityError c)
               | None \<Rightarrow> Inr (t @ [row]))"

text \<open>
  The read after the insert, as every \<open>create_or_get\<close> does it: \<open>core\<close> is the dump without the
  identifier and the creation time.
\<close>

definition resolve_existing ::
    "string \<Rightarrow> string \<Rightarrow> ('r \<Rightarrow> 'c) \<Rightarrow> 'r \<Rightarrow> 'r option \<Rightarrow> 'r res" where
  "resolve_existing missing label core row found =
     (case found of
        None \<Rightarrow> Inl (RuntimeError missing)
      | Some existing \<Rightarrow>
          if core existing \<noteq> core row then Inl (ImmutableResultConflict label) else Inr existing)"

definition run_stored :: "uuid \<Rightarrow> 'z control_db_scheme \<Rightarrow> bool" where
  "run_stored run_id db \<longleftrightarrow> exists_row (\<lambda>r. ar_id r = run_id) (audit_runs db)"

definition unless :: "bool \<Rightarrow> string \<Rightarrow> string option" where
  "unless b c = (if b then None else Some c)"

section \<open>SqlAlchemyRepoSnapshotRepository\<close>

definition snapshots_get :: "uuid \<Rightarrow> 'z result_db_scheme \<Rightarrow> repo_snapshot option" where
  "snapshots_get snapshot_id db = select_one (\<lambda>s. sn_id s = snapshot_id) (repo_snapshots db)"

definition snapshots_get_for_run :: "uuid \<Rightarrow> 'z result_db_scheme \<Rightarrow> repo_snapshot option" where
  "snapshots_get_for_run run_id db = select_one (\<lambda>s. sn_run_id s = run_id) (repo_snapshots db)"

text \<open>\<open>model_dump(exclude={"id", "created_at"})\<close>\<close>

definition snapshot_core :: "repo_snapshot \<Rightarrow> repo_snapshot" where
  "snapshot_core s = s\<lparr>sn_id := 0, sn_created_at := 0\<rparr>"

definition snapshot_check :: "repo_snapshot \<Rightarrow> string option" where
  "snapshot_check s =
     (if sn_file_count s \<le> 0 then Some ''ck_repo_snapshots_file_count_positive''
      else if sn_total_bytes s < 0 then Some ''ck_repo_snapshots_total_bytes_nonnegative''
      else None)"

definition snapshots_create_or_get ::
    "repo_snapshot \<Rightarrow> 'z result_db_scheme \<Rightarrow> (repo_snapshot \<times> 'z result_db_scheme) res" where
  "snapshots_create_or_get s db =
     bind_res (insert_absent (snapshot_check s) sn_run_id sn_id
                 (unless (run_stored (sn_run_id s) db) ''repo_snapshots_run_id_fkey'') s
                 (repo_snapshots db)) (\<lambda>rows.
     let db' = db\<lparr>repo_snapshots := rows\<rparr>
     in bind_res (resolve_existing ''Snapshot upsert did not expose a durable result''
                    ''repository snapshot'' snapshot_core s
                    (snapshots_get_for_run (sn_run_id s) db')) (\<lambda>existing.
          Inr (existing, db')))"

section \<open>SqlAlchemyRevisionGraphRepository\<close>

definition row_of_graph :: "revision_graph \<Rightarrow> graph_row" where
  "row_of_graph g =
     \<lparr>gw_id = rg_id g, gw_run_id = rg_run_id g, gw_snapshot_id = rg_snapshot_id g,
      gw_supported = rg_supported g, gw_nodes = rg_nodes g, gw_heads = rg_heads g,
      gw_baseline_revision = rg_baseline_revision g, gw_target_chain = rg_target_chain g,
      gw_changed_revisions = rg_changed_revisions g,
      gw_unsupported_reasons = rg_unsupported_reasons g, gw_created_at = rg_created_at g\<rparr>"

definition graph_of_row :: "graph_row \<Rightarrow> repo_snapshot \<Rightarrow> revision_graph" where
  "graph_of_row r s =
     \<lparr>rg_id = gw_id r, rg_run_id = gw_run_id r, rg_snapshot_id = gw_snapshot_id r,
      rg_diff_mode = sn_diff_mode s, rg_base_commit = sn_base_commit s,
      rg_head_commit = sn_head_commit s, rg_nodes = gw_nodes r, rg_heads = gw_heads r,
      rg_baseline_revision = gw_baseline_revision r, rg_target_chain = gw_target_chain r,
      rg_changed_revisions = gw_changed_revisions r, rg_supported = gw_supported r,
      rg_unsupported_reasons = gw_unsupported_reasons r, rg_created_at = gw_created_at r\<rparr>"

definition graphs_get_for_run :: "uuid \<Rightarrow> 'z result_db_scheme \<Rightarrow> revision_graph option res" where
  "graphs_get_for_run run_id db =
     (case select_one (\<lambda>r. gw_run_id r = run_id) (revision_graphs db) of
        None \<Rightarrow> Inr None
      | Some row \<Rightarrow>
          (case snapshots_get (gw_snapshot_id row) db of
             None \<Rightarrow> Inl (RuntimeError ''Revision graph references a missing snapshot'')
           | Some s \<Rightarrow> Inr (Some (graph_of_row row s))))"

definition graph_core :: "revision_graph \<Rightarrow> revision_graph" where
  "graph_core g = g\<lparr>rg_id := 0, rg_created_at := 0\<rparr>"

definition graph_refs :: "revision_graph \<Rightarrow> 'z result_db_scheme \<Rightarrow> string option" where
  "graph_refs g db =
     (if \<not> run_stored (rg_run_id g) db then Some ''revision_graphs_run_id_fkey''
      else unless (snapshots_get (rg_snapshot_id g) db \<noteq> None) ''revision_graphs_snapshot_id_fkey'')"

definition graphs_create_or_get ::
    "revision_graph \<Rightarrow> 'z result_db_scheme \<Rightarrow> (revision_graph \<times> 'z result_db_scheme) res" where
  "graphs_create_or_get g db =
     bind_res (insert_absent None gw_run_id gw_id (graph_refs g db) (row_of_graph g)
                 (revision_graphs db)) (\<lambda>rows.
     let db' = db\<lparr>revision_graphs := rows\<rparr>
     in bind_res (graphs_get_for_run (rg_run_id g) db') (\<lambda>found.
        bind_res (resolve_existing ''Revision graph upsert did not expose a durable result''
                    ''revision graph'' graph_core g found) (\<lambda>existing.
          Inr (existing, db'))))"

section \<open>SqlAlchemyStaticReportRepository\<close>

definition reports_get_for_run :: "uuid \<Rightarrow> 'z result_db_scheme \<Rightarrow> static_report option" where
  "reports_get_for_run run_id db = select_one (\<lambda>r. sp_run_id r = run_id) (static_reports db)"

definition report_core :: "static_report \<Rightarrow> static_report" where
  "report_core r = r\<lparr>sp_id := 0, sp_created_at := 0\<rparr>"

definition report_refs :: "static_report \<Rightarrow> 'z result_db_scheme \<Rightarrow> string option" where
  "report_refs r db =
     (if \<not> run_stored (sp_run_id r) db then Some ''static_reports_run_id_fkey''
      else unless (snapshots_get (sp_snapshot_id r) db \<noteq> None) ''static_reports_snapshot_id_fkey'')"

definition reports_create_or_get ::
    "static_report \<Rightarrow> 'z result_db_scheme \<Rightarrow> (static_report \<times> 'z result_db_scheme) res" where
  "reports_create_or_get r db =
     bind_res (insert_absent None sp_run_id sp_id (report_refs r db) r (static_reports db)) (\<lambda>rows.
     let db' = db\<lparr>static_reports := rows\<rparr>
     in bind_res (resolve_existing ''Static report upsert did not expose a durable result''
                    ''static report'' report_core r (reports_get_for_run (sp_run_id r) db'))
          (\<lambda>existing. Inr (existing, db')))"

section \<open>SqlAlchemyAgentPlanningRepository\<close>

definition plans_get_for_run :: "uuid \<Rightarrow> 'z result_db_scheme \<Rightarrow> audit_plan_record option" where
  "plans_get_for_run run_id db = select_one (\<lambda>p. pp_run_id p = run_id) (audit_plans db)"

definition plan_core :: "audit_plan_record \<Rightarrow> audit_plan_record" where
  "plan_core p = p\<lparr>pp_id := 0, pp_created_at := 0\<rparr>"

text \<open>The phase is always \<open>PLANNER\<close>, so \<open>uq_agent_run_phase\<close> is the run.\<close>

definition insert_invocation ::
    "agent_invocation \<Rightarrow> 'z result_db_scheme \<Rightarrow> 'z result_db_scheme res" where
  "insert_invocation i db =
     bind_res (insert_absent None ai_run_id ai_id
                 (unless (run_stored (ai_run_id i) db) ''agent_invocations_run_id_fkey'') i
                 (agent_invocations db))
       (\<lambda>rows. Inr (db\<lparr>agent_invocations := rows\<rparr>))"

definition has_invocation :: "uuid \<Rightarrow> 'z result_db_scheme \<Rightarrow> bool" where
  "has_invocation iid db \<longleftrightarrow> exists_row (\<lambda>i. ai_id i = iid) (agent_invocations db)"

definition insert_tool_call :: "tool_call \<Rightarrow> 'z result_db_scheme \<Rightarrow> 'z result_db_scheme res" where
  "insert_tool_call c db =
     bind_res (insert_absent None (\<lambda>c. (tc_invocation_id c, tc_sequence c)) tc_id
                 (if \<not> has_invocation (tc_invocation_id c) db
                  then Some ''agent_tool_calls_invocation_id_fkey''
                  else unless (run_stored (tc_run_id c) db) ''agent_tool_calls_run_id_fkey'') c
                 (agent_tool_calls db))
       (\<lambda>rows. Inr (db\<lparr>agent_tool_calls := rows\<rparr>))"

fun insert_tool_calls :: "tool_call list \<Rightarrow> 'z result_db_scheme \<Rightarrow> 'z result_db_scheme res" where
  "insert_tool_calls [] db = Inr db"
| "insert_tool_calls (c # cs) db = bind_res (insert_tool_call c db) (insert_tool_calls cs)"

definition insert_plan :: "audit_plan_record \<Rightarrow> 'z result_db_scheme \<Rightarrow> 'z result_db_scheme res" where
  "insert_plan p db =
     bind_res (insert_absent None pp_run_id pp_id
                 (if \<not> run_stored (pp_run_id p) db then Some ''audit_plans_run_id_fkey''
                  else unless (has_invocation (pp_invocation_id p) db)
                         ''audit_plans_invocation_id_fkey'') p
                 (audit_plans db))
       (\<lambda>rows. Inr (db\<lparr>audit_plans := rows\<rparr>))"

definition planning_save_result ::
    "planning_result \<Rightarrow> 'z result_db_scheme \<Rightarrow>
     (audit_plan_record option \<times> 'z result_db_scheme) res" where
  "planning_save_result result db =
     bind_res (insert_invocation (pr_invocation result) db) (\<lambda>db1.
     bind_res (insert_tool_calls (pr_tool_calls result) db1) (\<lambda>db2.
     bind_res (case pr_plan result of None \<Rightarrow> Inr db2 | Some p \<Rightarrow> insert_plan p db2) (\<lambda>db3.
       let existing = plans_get_for_run (ai_run_id (pr_invocation result)) db3
       in case pr_plan result of
            None \<Rightarrow> Inr (existing, db3)
          | Some p \<Rightarrow>
              bind_res (resolve_existing ''Agent planning upsert did not expose a durable plan''
                          ''audit plan'' plan_core p existing) (\<lambda>stored.
                Inr (Some stored, db3)))))"

section \<open>SqlAlchemySandboxRepository\<close>

definition environment_key :: "environment_lease \<Rightarrow> uuid \<times> int" where
  "environment_key l = (se_run_id (el_environment l), se_generation (el_environment l))"

definition sandbox_get_environment ::
    "uuid \<Rightarrow> int \<Rightarrow> 'z result_db_scheme \<Rightarrow> environment_lease option" where
  "sandbox_get_environment run_id generation db =
     select_one (\<lambda>l. environment_key l = (run_id, generation)) (shadow_environments db)"

text \<open>The password is not part of the comparison.\<close>

definition environment_core :: "environment_lease \<Rightarrow> shadow_environment" where
  "environment_core l = (el_environment l)\<lparr>se_id := 0, se_created_at := 0\<rparr>"

definition sandbox_create_or_get_environment ::
    "shadow_environment \<Rightarrow> string \<Rightarrow> 'z result_db_scheme \<Rightarrow>
     (environment_lease \<times> 'z result_db_scheme) res" where
  "sandbox_create_or_get_environment e password db =
     (let row = \<lparr>el_environment = e, el_database_password = password\<rparr>
      in bind_res (insert_absent
                     (unless (1 \<le> se_generation e) ''ck_shadow_generation_positive'')
                     environment_key (\<lambda>l. se_id (el_environment l))
                     (unless (run_stored (se_run_id e) db) ''shadow_environments_run_id_fkey'') row
                     (shadow_environments db)) (\<lambda>rows.
         let db' = db\<lparr>shadow_environments := rows\<rparr>
         in bind_res (resolve_existing
                        ''Shadow environment upsert did not expose a durable result''
                        ''shadow environment'' environment_core row
                        (sandbox_get_environment (se_run_id e) (se_generation e) db'))
              (\<lambda>existing. Inr (existing, db'))))"

definition sandbox_set_environment_status ::
    "uuid \<Rightarrow> environment_status \<Rightarrow> time option \<Rightarrow> 'z result_db_scheme \<Rightarrow>
     bool \<times> 'z result_db_scheme" where
  "sandbox_set_environment_status environment_id status cleaned_at db =
     (let (rows, n) = update_where (\<lambda>l. se_id (el_environment l) = environment_id)
            (\<lambda>l. l\<lparr>el_environment := (el_environment l)\<lparr>se_status := status,
                                                        se_cleaned_at := cleaned_at\<rparr>\<rparr>)
            (shadow_environments db)
      in (n = 1, db\<lparr>shadow_environments := rows\<rparr>))"

definition execution_key :: "runner_execution \<Rightarrow> uuid \<times> runner_action" where
  "execution_key x = (re_environment_id x, rq_action (re_request x))"

definition sandbox_get_execution ::
    "uuid \<Rightarrow> runner_action \<Rightarrow> 'z result_db_scheme \<Rightarrow> runner_execution option" where
  "sandbox_get_execution environment_id action db =
     select_one (\<lambda>x. execution_key x = (environment_id, action)) (runner_executions db)"

definition execution_core :: "runner_execution \<Rightarrow> runner_execution" where
  "execution_core x = x\<lparr>re_id := 0, re_created_at := 0\<rparr>"

definition execution_refs :: "runner_execution \<Rightarrow> 'z result_db_scheme \<Rightarrow> string option" where
  "execution_refs x db =
     (if \<not> exists_row (\<lambda>l. se_id (el_environment l) = re_environment_id x) (shadow_environments db)
      then Some ''runner_executions_environment_id_fkey''
      else unless (run_stored (re_run_id x) db) ''runner_executions_run_id_fkey'')"

definition sandbox_create_or_get_execution ::
    "runner_execution \<Rightarrow> 'z result_db_scheme \<Rightarrow> (runner_execution \<times> 'z result_db_scheme) res" where
  "sandbox_create_or_get_execution x db =
     bind_res (insert_absent None execution_key re_id (execution_refs x db) x
                 (runner_executions db)) (\<lambda>rows.
     let db' = db\<lparr>runner_executions := rows\<rparr>
     in bind_res (resolve_existing ''Runner execution upsert did not expose a durable result''
                    ''runner execution'' execution_core x
                    (sandbox_get_execution (re_environment_id x) (rq_action (re_request x)) db'))
          (\<lambda>existing. Inr (existing, db')))"

definition sandbox_list_executions ::
    "uuid \<Rightarrow> 'z result_db_scheme \<Rightarrow> runner_execution list" where
  "sandbox_list_executions environment_id db =
     sort_key (\<lambda>x. (re_created_at x, re_id x))
       (filter (\<lambda>x. re_environment_id x = environment_id) (runner_executions db))"

section \<open>SqlAlchemyEvidenceRepository\<close>

definition evidence_key :: "evidence_item \<Rightarrow> uuid \<times> evidence_kind \<times> string" where
  "evidence_key e = (ev_execution_id e, ev_kind e, ev_sha256 e)"

definition evidence_get ::
    "uuid \<times> evidence_kind \<times> string \<Rightarrow> 'z result_db_scheme \<Rightarrow> evidence_item option" where
  "evidence_get key db = select_one (\<lambda>e. evidence_key e = key) (evidence_items db)"

definition evidence_core :: "evidence_item \<Rightarrow> evidence_item" where
  "evidence_core e = e\<lparr>ev_id := 0, ev_created_at := 0\<rparr>"

definition evidence_refs :: "evidence_item \<Rightarrow> 'z result_db_scheme \<Rightarrow> string option" where
  "evidence_refs e db =
     (if \<not> run_stored (ev_run_id e) db then Some ''evidence_items_run_id_fkey''
      else unless (exists_row (\<lambda>x. re_id x = ev_execution_id e) (runner_executions db))
             ''evidence_items_execution_id_fkey'')"

definition evidence_create_or_get ::
    "evidence_item \<Rightarrow> 'z result_db_scheme \<Rightarrow> (evidence_item \<times> 'z result_db_scheme) res" where
  "evidence_create_or_get e db =
     bind_res (insert_absent None evidence_key ev_id (evidence_refs e db) e (evidence_items db)) (\<lambda>rows.
     let db' = db\<lparr>evidence_items := rows\<rparr>
     in bind_res (resolve_existing ''Evidence upsert did not expose a durable item''
                    ''dynamic evidence'' evidence_core e (evidence_get (evidence_key e) db'))
          (\<lambda>existing. Inr (existing, db')))"

definition evidence_list_for_run :: "uuid \<Rightarrow> 'z result_db_scheme \<Rightarrow> evidence_item list" where
  "evidence_list_for_run run_id db =
     sort_key (\<lambda>e. (ev_created_at e, ev_id e))
       (filter (\<lambda>e. ev_run_id e = run_id) (evidence_items db))"

end
