(* ===== verification/ResultFacts.thy ===== *)
theory ResultFacts
  imports ResultStore
begin

text \<open>
  The contract of the result repositories: a store that is written once per key.  The contract is
  a locale; each repository interprets it.
\<close>

section \<open>The contract\<close>

text \<open>
  The abstract store is a map.  The first value of a key stays; writing a value with the same
  content returns the stored one, other content is refused.
\<close>

definition put_once ::
    "('r \<Rightarrow> 'k) \<Rightarrow> ('r \<Rightarrow> 'c) \<Rightarrow> 'r \<Rightarrow> ('k \<rightharpoonup> 'r) \<Rightarrow> ('r \<times> ('k \<rightharpoonup> 'r)) option" where
  "put_once key core r m =
     (case m (key r) of
        None \<Rightarrow> Some (r, m(key r \<mapsto> r))
      | Some q \<Rightarrow> if core q = core r then Some (q, m) else None)"

lemma put_once_Some:
  "put_once key core r m = Some (q, m') \<longleftrightarrow>
     m (key r) = None \<and> q = r \<and> m' = m(key r \<mapsto> r) \<or>
     m (key r) = Some q \<and> core q = core r \<and> m' = m"
  by (auto simp: put_once_def split: option.splits)

text \<open>A sequence of writes; a refused one is rolled back.\<close>

fun attempt_all :: "('r \<Rightarrow> 's \<Rightarrow> ('r \<times> 's) res) \<Rightarrow> 'r list \<Rightarrow> 's \<Rightarrow> 's" where
  "attempt_all put [] s = s"
| "attempt_all put (r # rs) s =
     attempt_all put rs (case put r s of Inl e \<Rightarrow> s | Inr (q, s') \<Rightarrow> s')"

locale write_once =
  fixes wf :: "'s \<Rightarrow> bool"
    and view :: "'s \<Rightarrow> 'k \<rightharpoonup> 'r"
    and put :: "'r \<Rightarrow> 's \<Rightarrow> ('r \<times> 's) res"
    and key :: "'r \<Rightarrow> 'k"
    and core :: "'r \<Rightarrow> 'c"
  assumes accepted: "wf s \<Longrightarrow> put r s = Inr (q, s') \<Longrightarrow>
      wf s' \<and> put_once key core r (view s) = Some (q, view s')"
    and replayed: "wf s \<Longrightarrow> view s (key r) = Some q \<Longrightarrow> core q = core r \<Longrightarrow> put r s = Inr (q, s)"
begin

lemma accepted_cases:
  assumes "wf s" and "put r s = Inr (q, s')"
  obtains (fresh) "view s (key r) = None" "q = r" "view s' = (view s)(key r \<mapsto> r)"
  | (replay) "view s (key r) = Some q" "core q = core r" "view s' = view s"
proof -
  from accepted [OF assms] show thesis
    unfolding put_once_Some by (elim conjE disjE) (erule (2) fresh, erule (2) replay)
qed

lemma stored: "wf s \<Longrightarrow> put r s = Inr (q, s') \<Longrightarrow> view s' (key r) = Some q \<and> core q = core r"
  by (erule (1) accepted_cases) simp_all

lemma unchanged: "wf s \<Longrightarrow> put r s = Inr (q, s') \<Longrightarrow> view s k = Some p \<Longrightarrow> view s' k = Some p"
  by (erule (1) accepted_cases) auto

lemma elsewhere: "wf s \<Longrightarrow> put r s = Inr (q, s') \<Longrightarrow> k \<noteq> key r \<Longrightarrow> view s' k = view s k"
  by (erule (1) accepted_cases) simp_all

lemma conflicting:
  assumes "wf s" and "view s (key r) = Some q" and "core q \<noteq> core r"
  shows "\<exists>e. put r s = Inl e"
proof (cases "put r s")
  case (Inr x)
  obtain p s' where x: "x = (p, s')" by force
  from assms(1) Inr [unfolded x] show ?thesis
    by (rule accepted_cases) (use assms in simp_all)
qed simp

lemma attempts:
  "wf s \<Longrightarrow> wf (attempt_all put rs s) \<and>
     (\<forall>k p. view s k = Some p \<longrightarrow> view (attempt_all put rs s) k = Some p)"
proof (induction rs arbitrary: s)
  case (Cons r rs)
  show ?case
  proof (cases "put r s")
    case (Inl e)
    with Cons show ?thesis by simp
  next
    case (Inr x)
    obtain q s' where x: "x = (q, s')" by force
    with Inr Cons.prems accepted have "wf s'" by blast
    from Cons.IH [OF this] unchanged [OF Cons.prems] Inr show ?thesis by (simp add: x)
  qed
qed simp

text \<open>Whatever happens in between, every later success under the key returns the first value.\<close>

lemma first_wins:
  assumes "wf s" and "put r s = Inr (q, s1)"
    and "put r' (attempt_all put rs s1) = Inr (q', s2)" and "key r' = key r"
  shows "q' = q \<and> core r' = core r"
proof -
  have s1: "wf s1" "view s1 (key r) = Some q" "core q = core r"
    using accepted stored assms(1,2) by blast+
  with attempts have "wf (attempt_all put rs s1)" "view (attempt_all put rs s1) (key r) = Some q"
    by blast+
  with unchanged stored assms(3,4) s1(3) show ?thesis by (metis option.inject)
qed

end

section \<open>Tables\<close>

lemma insert_absent_Inr:
  "insert_absent check key pk refs row t = Inr t' \<longleftrightarrow>
     check = None \<and>
     (if \<exists>r \<in> set t. key r = key row then t' = t
      else (\<forall>r \<in> set t. pk r \<noteq> pk row) \<and> refs = None \<and> t' = t @ [row])"
  by (auto simp: insert_absent_def split: option.splits)

lemma resolve_existing_Inr:
  "resolve_existing missing label core row found = Inr q \<longleftrightarrow> found = Some q \<and> core q = core row"
  by (auto simp: resolve_existing_def split: option.splits if_splits)

abbreviation by_key :: "('r \<Rightarrow> 'k) \<Rightarrow> 'r list \<Rightarrow> 'k \<rightharpoonup> 'r" where
  "by_key key t \<equiv> \<lambda>k. select_one (\<lambda>r. key r = k) t"

lemma select_one_snoc:
  "select_one P (t @ [row]) =
     (case select_one P t of Some r \<Rightarrow> Some r | None \<Rightarrow> if P row then Some row else None)"
  unfolding select_one_def by (induction t) auto

lemma select_one_kept: "select_one P t = Some r \<Longrightarrow> select_one P (t @ [row]) = Some r"
  by (simp add: select_one_snoc)

lemma table_put:
  assumes "insert_absent check key pk refs row t = Inr t'"
    and "by_key key t' (key row) = Some q" and "core q = core row"
  shows "put_once key core row (by_key key t) = Some (q, by_key key t')"
proof (cases "\<exists>r \<in> set t. key r = key row")
  case True
  with assms(1) have "t' = t" by (simp add: insert_absent_Inr)
  with assms(2,3) show ?thesis by (simp add: put_once_def)
next
  case False
  with assms(1) have t': "t' = t @ [row]" by (simp add: insert_absent_Inr)
  from False have none: "by_key key t (key row) = None" by (simp add: select_one_None)
  have "by_key key t' = (by_key key t)(key row \<mapsto> row)"
  proof
    fix k show "by_key key t' k = ((by_key key t)(key row \<mapsto> row)) k"
      using none by (cases "by_key key t k") (auto simp: t' select_one_snoc simp del: select_one_None)
  qed
  moreover from fun_cong [OF this, of "key row"] assms(2) have "q = row" by simp
  ultimately show ?thesis using none unfolding put_once_Some by blast
qed

lemma table_replay:
  assumes "by_key key t (key row) = Some q" and "check = None"
  shows "insert_absent check key pk refs row t = Inr t"
  using select_one_Some [OF assms(1)] assms(2) by (auto simp: insert_absent_Inr)

lemma insert_absent_rows:
  assumes "insert_absent check key pk refs row t = Inr t'"
  shows "t' = t \<or> t' = t @ [row]"
  using assms by (auto simp: insert_absent_Inr split: if_splits)

lemma insert_absent_kept:
  "insert_absent check key pk refs row t = Inr t' \<Longrightarrow> select_one P t = Some r \<Longrightarrow>
   select_one P t' = Some r"
  using insert_absent_rows select_one_kept by metis

section \<open>The repositories\<close>

text \<open>The row checks and the foreign key that reading a graph relies on.\<close>

definition results_wf :: "'z result_db_scheme \<Rightarrow> bool" where
  "results_wf db \<longleftrightarrow>
     (\<forall>s \<in> set (repo_snapshots db). snapshot_check s = None) \<and>
     (\<forall>r \<in> set (revision_graphs db). snapshots_get (gw_snapshot_id r) db \<noteq> None) \<and>
     (\<forall>l \<in> set (shadow_environments db). 1 \<le> se_generation (el_environment l))"

abbreviation snapshot_view :: "'z result_db_scheme \<Rightarrow> uuid \<rightharpoonup> repo_snapshot" where
  "snapshot_view db \<equiv> by_key sn_run_id (repo_snapshots db)"

abbreviation report_view :: "'z result_db_scheme \<Rightarrow> uuid \<rightharpoonup> static_report" where
  "report_view db \<equiv> by_key sp_run_id (static_reports db)"

abbreviation environment_view :: "'z result_db_scheme \<Rightarrow> uuid \<times> int \<rightharpoonup> environment_lease" where
  "environment_view db \<equiv> by_key environment_key (shadow_environments db)"

abbreviation execution_view :: "'z result_db_scheme \<Rightarrow> uuid \<times> runner_action \<rightharpoonup> runner_execution" where
  "execution_view db \<equiv> by_key execution_key (runner_executions db)"

abbreviation evidence_view ::
    "'z result_db_scheme \<Rightarrow> uuid \<times> evidence_kind \<times> string \<rightharpoonup> evidence_item" where
  "evidence_view db \<equiv> by_key evidence_key (evidence_items db)"

definition graph_view :: "'z result_db_scheme \<Rightarrow> uuid \<rightharpoonup> revision_graph" where
  "graph_view db run_id =
     (case graphs_get_for_run run_id db of Inl e \<Rightarrow> None | Inr found \<Rightarrow> found)"

lemma snapshots_get_snoc:
  "snapshots_get i db \<noteq> None \<Longrightarrow> rows = repo_snapshots db \<or> rows = repo_snapshots db @ [s] \<Longrightarrow>
   snapshots_get i (db\<lparr>repo_snapshots := rows\<rparr>) = snapshots_get i db"
  by (auto simp: snapshots_get_def select_one_snoc simp del: select_one_None split: option.splits)

lemma snapshots_get_other [simp]:
  "snapshots_get i (db\<lparr>revision_graphs := gs\<rparr>) = snapshots_get i db"
  "snapshots_get i (db\<lparr>static_reports := rs\<rparr>) = snapshots_get i db"
  "snapshots_get i (db\<lparr>shadow_environments := es\<rparr>) = snapshots_get i db"
  "snapshots_get i (db\<lparr>runner_executions := xs\<rparr>) = snapshots_get i db"
  "snapshots_get i (db\<lparr>evidence_items := vs\<rparr>) = snapshots_get i db"
  by (simp_all add: snapshots_get_def)

lemma snapshots_create_Inr:
  "snapshots_create_or_get s db = Inr (q, db') \<longleftrightarrow>
     (\<exists>rows. insert_absent (snapshot_check s) sn_run_id sn_id
        (unless (run_stored (sn_run_id s) db) ''repo_snapshots_run_id_fkey'') s (repo_snapshots db) = Inr rows \<and>
        db' = db\<lparr>repo_snapshots := rows\<rparr> \<and> by_key sn_run_id rows (sn_run_id s) = Some q \<and>
        snapshot_core q = snapshot_core s)"
  by (auto simp: snapshots_create_or_get_def snapshots_get_for_run_def bind_res_Inr Let_def
      resolve_existing_Inr simp del: select_one_None)

interpretation snapshot_store: write_once results_wf snapshot_view snapshots_create_or_get
  sn_run_id snapshot_core
proof (unfold_locales, goal_cases)
  case (1 db s q db')
  then obtain rows where rows: "insert_absent (snapshot_check s) sn_run_id sn_id
        (unless (run_stored (sn_run_id s) db) ''repo_snapshots_run_id_fkey'') s (repo_snapshots db) = Inr rows"
    "db' = db\<lparr>repo_snapshots := rows\<rparr>" "by_key sn_run_id rows (sn_run_id s) = Some q"
    "snapshot_core q = snapshot_core s" unfolding snapshots_create_Inr by blast
  note snoc = insert_absent_rows [OF rows(1)]
  have "snapshot_check s = None" using rows(1) by (simp add: insert_absent_Inr)
  with 1(1) snoc have "results_wf db'"
    unfolding results_wf_def rows(2) by (auto simp: snapshots_get_snoc simp del: not_None_eq)
  with table_put [OF rows(1,3,4)] show ?case by (simp add: rows(2))
next
  case (2 db s q)
  have "snapshot_check q = snapshot_check s"
    using 2(3) by (simp add: snapshot_core_def snapshot_check_def)
      (metis repo_snapshot.select_convs repo_snapshot.surjective repo_snapshot.update_convs)
  moreover have "q \<in> set (repo_snapshots db)" using select_one_Some [OF 2(2)] by blast
  ultimately have "snapshot_check s = None" using 2(1) unfolding results_wf_def by metis
  from table_replay [OF 2(2) this] 2(2,3) show ?case
    unfolding snapshots_create_Inr by (intro exI [of _ "repo_snapshots db"]) simp
qed

lemma report_create_Inr:
  "reports_create_or_get r db = Inr (q, db') \<longleftrightarrow>
     (\<exists>rows. insert_absent None sp_run_id sp_id (report_refs r db) r (static_reports db) = Inr rows \<and>
        db' = db\<lparr>static_reports := rows\<rparr> \<and> by_key sp_run_id rows (sp_run_id r) = Some q \<and>
        report_core q = report_core r)"
  by (auto simp: reports_create_or_get_def reports_get_for_run_def bind_res_Inr Let_def resolve_existing_Inr simp del: select_one_None)

interpretation report_store: write_once results_wf report_view reports_create_or_get sp_run_id report_core
proof (unfold_locales, goal_cases)
  case (1 db r q db')
  then obtain rows where rows: "insert_absent None sp_run_id sp_id (report_refs r db) r (static_reports db) = Inr rows"
    "db' = db\<lparr>static_reports := rows\<rparr>" "by_key sp_run_id rows (sp_run_id r) = Some q"
    "report_core q = report_core r" unfolding report_create_Inr by blast
  have "results_wf db'" using 1(1) by (simp add: results_wf_def rows(2))
  with table_put [OF rows(1,3,4)] show ?case by (simp add: rows(2))
next
  case (2 db r q)
  from table_replay [OF 2(2), of None] 2(2,3) show ?case
    unfolding report_create_Inr by (intro exI [of _ "static_reports db"]) simp
qed

lemma execution_create_Inr:
  "sandbox_create_or_get_execution r db = Inr (q, db') \<longleftrightarrow>
     (\<exists>rows. insert_absent None execution_key re_id (execution_refs r db) r (runner_executions db) = Inr rows \<and>
        db' = db\<lparr>runner_executions := rows\<rparr> \<and> by_key execution_key rows (execution_key r) = Some q \<and>
        execution_core q = execution_core r)"
  by (auto simp: sandbox_create_or_get_execution_def sandbox_get_execution_def execution_key_def bind_res_Inr Let_def resolve_existing_Inr simp del: select_one_None)

interpretation execution_store: write_once results_wf execution_view sandbox_create_or_get_execution execution_key execution_core
proof (unfold_locales, goal_cases)
  case (1 db r q db')
  then obtain rows where rows: "insert_absent None execution_key re_id (execution_refs r db) r (runner_executions db) = Inr rows"
    "db' = db\<lparr>runner_executions := rows\<rparr>" "by_key execution_key rows (execution_key r) = Some q"
    "execution_core q = execution_core r" unfolding execution_create_Inr by blast
  have "results_wf db'" using 1(1) by (simp add: results_wf_def rows(2))
  with table_put [OF rows(1,3,4)] show ?case by (simp add: rows(2))
next
  case (2 db r q)
  from table_replay [OF 2(2), of None] 2(2,3) show ?case
    unfolding execution_create_Inr by (intro exI [of _ "runner_executions db"]) simp
qed

lemma evidence_create_Inr:
  "evidence_create_or_get r db = Inr (q, db') \<longleftrightarrow>
     (\<exists>rows. insert_absent None evidence_key ev_id (evidence_refs r db) r (evidence_items db) = Inr rows \<and>
        db' = db\<lparr>evidence_items := rows\<rparr> \<and> by_key evidence_key rows (evidence_key r) = Some q \<and>
        evidence_core q = evidence_core r)"
  by (auto simp: evidence_create_or_get_def evidence_get_def bind_res_Inr Let_def resolve_existing_Inr simp del: select_one_None)

interpretation evidence_store: write_once results_wf evidence_view evidence_create_or_get evidence_key evidence_core
proof (unfold_locales, goal_cases)
  case (1 db r q db')
  then obtain rows where rows: "insert_absent None evidence_key ev_id (evidence_refs r db) r (evidence_items db) = Inr rows"
    "db' = db\<lparr>evidence_items := rows\<rparr>" "by_key evidence_key rows (evidence_key r) = Some q"
    "evidence_core q = evidence_core r" unfolding evidence_create_Inr by blast
  have "results_wf db'" using 1(1) by (simp add: results_wf_def rows(2))
  with table_put [OF rows(1,3,4)] show ?case by (simp add: rows(2))
next
  case (2 db r q)
  from table_replay [OF 2(2), of None] 2(2,3) show ?case
    unfolding evidence_create_Inr by (intro exI [of _ "evidence_items db"]) simp
qed

text \<open>A lease is the environment with its password; the password is not compared.\<close>

definition store_lease ::
    "environment_lease \<Rightarrow> 'z result_db_scheme \<Rightarrow> (environment_lease \<times> 'z result_db_scheme) res" where
  "store_lease l = sandbox_create_or_get_environment (el_environment l) (el_database_password l)"

lemma environment_create_Inr:
  "store_lease l db = Inr (q, db') \<longleftrightarrow>
     (\<exists>rows. insert_absent (unless (1 \<le> se_generation (el_environment l)) ''ck_shadow_generation_positive'')
        environment_key (\<lambda>l. se_id (el_environment l))
        (unless (run_stored (se_run_id (el_environment l)) db) ''shadow_environments_run_id_fkey'') l
        (shadow_environments db) = Inr rows \<and>
        db' = db\<lparr>shadow_environments := rows\<rparr> \<and> by_key environment_key rows (environment_key l) = Some q \<and>
        environment_core q = environment_core l)"
proof -
  have same: "\<lparr>el_environment = el_environment l, el_database_password = el_database_password l\<rparr> = l" by simp
  show ?thesis
    unfolding store_lease_def sandbox_create_or_get_environment_def sandbox_get_environment_def same Let_def
    by (auto simp: environment_key_def bind_res_Inr resolve_existing_Inr simp del: select_one_None)
qed

interpretation environment_store: write_once results_wf environment_view store_lease
  environment_key environment_core
proof (unfold_locales, goal_cases)
  case (1 db l q db')
  then obtain rows where rows:
    "insert_absent (unless (1 \<le> se_generation (el_environment l)) ''ck_shadow_generation_positive'')
        environment_key (\<lambda>l. se_id (el_environment l))
        (unless (run_stored (se_run_id (el_environment l)) db) ''shadow_environments_run_id_fkey'') l
        (shadow_environments db) = Inr rows"
    "db' = db\<lparr>shadow_environments := rows\<rparr>" "by_key environment_key rows (environment_key l) = Some q"
    "environment_core q = environment_core l" unfolding environment_create_Inr by blast
  have "1 \<le> se_generation (el_environment l)"
    using rows(1) by (simp add: insert_absent_Inr unless_def split: if_splits)
  with 1(1) insert_absent_rows [OF rows(1)] have "results_wf db'"
    by (auto simp: results_wf_def rows(2))
  with table_put [OF rows(1,3,4)] show ?case by (simp add: rows(2))
next
  case (2 db l q)
  have "environment_key q = environment_key l" using select_one_Some [OF 2(2)] by blast
  then have "se_generation (el_environment q) = se_generation (el_environment l)"
    by (simp add: environment_key_def)
  moreover have "q \<in> set (shadow_environments db)" using select_one_Some [OF 2(2)] by blast
  ultimately have "1 \<le> se_generation (el_environment l)" using 2(1) unfolding results_wf_def by metis
  with table_replay [OF 2(2), of "unless (1 \<le> se_generation (el_environment l)) ''ck_shadow_generation_positive''"]
    2(2,3) show ?case
    unfolding environment_create_Inr by (intro exI [of _ "shadow_environments db"]) (simp add: unless_def)
qed

subsection \<open>Revision graphs\<close>

lemma graph_fields_of_row [simp]:
  "rg_run_id (graph_of_row r s) = gw_run_id r" "rg_snapshot_id (graph_of_row r s) = gw_snapshot_id r"
  by (simp_all add: graph_of_row_def)

lemma graph_row_fields [simp]:
  "gw_run_id (row_of_graph g) = rg_run_id g" "gw_snapshot_id (row_of_graph g) = rg_snapshot_id g"
  "gw_id (row_of_graph g) = rg_id g"
  by (simp_all add: row_of_graph_def)

lemma graph_core_row:
  "graph_core (graph_of_row (row_of_graph g) s) = graph_core g \<Longrightarrow> graph_of_row (row_of_graph g) s = g"
  by (cases g) (simp add: graph_core_def graph_of_row_def row_of_graph_def)

lemma graph_view_eq:
  assumes "results_wf db"
  shows "graph_view db k = map_option (\<lambda>r. graph_of_row r (the (snapshots_get (gw_snapshot_id r) db)))
           (by_key gw_run_id (revision_graphs db) k)"
proof (cases "by_key gw_run_id (revision_graphs db) k")
  case (Some r)
  with select_one_Some [OF Some] assms have "snapshots_get (gw_snapshot_id r) db \<noteq> None"
    unfolding results_wf_def by blast
  with Some show ?thesis by (auto simp: graph_view_def graphs_get_for_run_def simp del: not_None_eq select_one_None)
next
  case None
  then show ?thesis by (simp add: graph_view_def graphs_get_for_run_def del: select_one_None)
qed

lemma graphs_get_view:
  assumes "results_wf db"
  shows "graphs_get_for_run k db = Inr (graph_view db k)"
proof (cases "by_key gw_run_id (revision_graphs db) k")
  case (Some r)
  with select_one_Some [OF Some] assms have "snapshots_get (gw_snapshot_id r) db \<noteq> None"
    unfolding results_wf_def by blast
  with Some show ?thesis by (auto simp: graph_view_def graphs_get_for_run_def)
next
  case None
  then show ?thesis by (simp add: graph_view_def graphs_get_for_run_def del: select_one_None)
qed

lemma graph_rows_wf:
  assumes "results_wf db"
    and "insert_absent None gw_run_id gw_id (graph_refs g db) (row_of_graph g) (revision_graphs db) = Inr rows"
  shows "results_wf (db\<lparr>revision_graphs := rows\<rparr>)"
proof (cases "rows = revision_graphs db")
  case False
  with assms(2) have "graph_refs g db = None" "rows = revision_graphs db @ [row_of_graph g]"
    by (auto simp: insert_absent_Inr split: if_splits)
  with assms(1) show ?thesis
    by (auto simp: results_wf_def graph_refs_def unless_def split: if_splits)
qed (use assms(1) in simp)

interpretation graph_store: write_once results_wf graph_view graphs_create_or_get rg_run_id graph_core
proof (unfold_locales, goal_cases)
  case (1 db g q db')
  then obtain rows where rows:
    "insert_absent None gw_run_id gw_id (graph_refs g db) (row_of_graph g) (revision_graphs db) = Inr rows"
    "db' = db\<lparr>revision_graphs := rows\<rparr>" "graphs_get_for_run (rg_run_id g) db' = Inr (Some q)"
    "graph_core q = graph_core g"
    by (auto simp: graphs_create_or_get_def bind_res_Inr Let_def resolve_existing_Inr)
  from graph_rows_wf [OF 1(1) rows(1)] have wf: "results_wf db'" by (simp add: rows(2))
  have q: "graph_view db' (rg_run_id g) = Some q" using rows(3) graphs_get_view [OF wf] by simp
  show ?case
  proof (cases "\<exists>r \<in> set (revision_graphs db). gw_run_id r = rg_run_id g")
    case True
    with rows(1) have "db' = db" by (simp add: insert_absent_Inr rows(2))
    with q rows(4) wf show ?thesis unfolding put_once_Some by blast
  next
    case False
    with rows(1) have new: "rows = revision_graphs db @ [row_of_graph g]" by (simp add: insert_absent_Inr)
    from False have none: "by_key gw_run_id (revision_graphs db) (rg_run_id g) = None" by simp
    then have none': "graph_view db (rg_run_id g) = None" by (simp add: graph_view_eq [OF 1(1)])
    have step: "graph_view db' k = (if k = rg_run_id g
        then Some (graph_of_row (row_of_graph g) (the (snapshots_get (rg_snapshot_id g) db)))
        else graph_view db k)" for k
      unfolding graph_view_eq [OF wf] graph_view_eq [OF 1(1)] using none
      by (cases "by_key gw_run_id (revision_graphs db) k")
        (auto simp: rows(2) new select_one_snoc simp del: select_one_None)
    with q rows(4) have "q = g" using graph_core_row by fastforce
    moreover from this q step have "graph_view db' = (graph_view db)(rg_run_id g \<mapsto> g)" by (auto simp: fun_eq_iff)
    ultimately show ?thesis using none' wf unfolding put_once_Some by blast
  qed
next
  case (2 db g q)
  then obtain r where r: "by_key gw_run_id (revision_graphs db) (rg_run_id g) = Some r"
    unfolding graph_view_eq [OF 2(1)] by blast
  have "insert_absent None gw_run_id gw_id (graph_refs g db) (row_of_graph g) (revision_graphs db) =
      Inr (revision_graphs db)"
    by (rule table_replay [where q = r]) (use r in simp_all)
  with 2 graphs_get_view [OF 2(1), of "rg_run_id g"] show ?case
    by (simp add: graphs_create_or_get_def resolve_existing_def)
qed

end
