(* ===== verification/Effects.thy ===== *)
theory Effects
  imports Errors
begin

text \<open>
  Code that talks to the outside: an action takes a world and returns a value or an exception with
  the new world; what was done before an exception stays done.
\<close>

type_synonym ('w, 'a) act = "'w \<Rightarrow> 'a res \<times> 'w"

definition ret :: "'a \<Rightarrow> ('w, 'a) act" where
  "ret x w = (Inr x, w)"

definition raise_act :: "exn \<Rightarrow> ('w, 'a) act" where
  "raise_act e w = (Inl e, w)"

definition of_res :: "'a res \<Rightarrow> ('w, 'a) act" where
  "of_res r w = (r, w)"

definition bind_act :: "('w, 'a) act \<Rightarrow> ('a \<Rightarrow> ('w, 'b) act) \<Rightarrow> ('w, 'b) act" where
  "bind_act m f w = (case m w of (Inl e, w') \<Rightarrow> (Inl e, w') | (Inr x, w') \<Rightarrow> f x w')"

definition then_act :: "('w, 'a) act \<Rightarrow> ('w, 'b) act \<Rightarrow> ('w, 'b) act" where
  "then_act m k = bind_act m (\<lambda>_. k)"

text \<open>\<open>try: m except: h\<close>, where the handler decides by the exception.\<close>

definition catch_act :: "('w, 'a) act \<Rightarrow> (exn \<Rightarrow> ('w, 'a) act) \<Rightarrow> ('w, 'a) act" where
  "catch_act m h w = (case m w of (Inl e, w') \<Rightarrow> h e w' | (Inr x, w') \<Rightarrow> (Inr x, w'))"

text \<open>\<open>try: m finally: c\<close>: an exception of the clean-up replaces the outcome.\<close>

definition finally_act :: "('w, 'a) act \<Rightarrow> ('w, 'b) act \<Rightarrow> ('w, 'a) act" where
  "finally_act m c w =
     (case m w of (r, w') \<Rightarrow>
        (case c w' of (Inl e, w'') \<Rightarrow> (Inl e, w'') | (Inr _, w'') \<Rightarrow> (r, w'')))"

text \<open>\<open>except BaseException: c; raise\<close>\<close>

definition on_error :: "('w, 'a) act \<Rightarrow> ('w, 'b) act \<Rightarrow> ('w, 'a) act" where
  "on_error m c = catch_act m (\<lambda>e. then_act c (raise_act e))"

text \<open>\<open>with suppress(...): m\<close>\<close>

definition suppress_act :: "(exn \<Rightarrow> bool) \<Rightarrow> ('w, 'a) act \<Rightarrow> ('w, unit) act" where
  "suppress_act P m w =
     (case m w of (Inl e, w') \<Rightarrow> (if P e then Inr () else Inl e, w') | (Inr x, w') \<Rightarrow> (Inr (), w'))"

definition when_act :: "bool \<Rightarrow> ('w, unit) act \<Rightarrow> ('w, unit) act" where
  "when_act b m = (if b then m else ret ())"

fun each_act :: "('a \<Rightarrow> ('w, unit) act) \<Rightarrow> 'a list \<Rightarrow> ('w, unit) act" where
  "each_act f [] = ret ()"
| "each_act f (x # xs) = then_act (f x) (each_act f xs)"

fun map_act :: "('a \<Rightarrow> ('w, 'b) act) \<Rightarrow> 'a list \<Rightarrow> ('w, 'b list) act" where
  "map_act f [] = ret []"
| "map_act f (x # xs) = bind_act (f x) (\<lambda>y. bind_act (map_act f xs) (\<lambda>ys. ret (y # ys)))"

section \<open>Rules\<close>

lemma ret_run [simp]: "ret x w = (Inr x, w)"
  by (simp add: ret_def)

lemma raise_run [simp]: "raise_act e w = (Inl e, w)"
  by (simp add: raise_act_def)

lemma of_res_run [simp]: "of_res r w = (r, w)"
  by (simp add: of_res_def)

lemma bind_act_Inr:
  "bind_act m f w = (Inr y, w'') \<longleftrightarrow> (\<exists>x w'. m w = (Inr x, w') \<and> f x w' = (Inr y, w''))"
  by (auto simp: bind_act_def split: prod.splits sum.splits)

lemma bind_act_Inl:
  "bind_act m f w = (Inl e, w'') \<longleftrightarrow>
     m w = (Inl e, w'') \<or> (\<exists>x w'. m w = (Inr x, w') \<and> f x w' = (Inl e, w''))"
  by (auto simp: bind_act_def split: prod.splits sum.splits)

lemma then_act_Inr:
  "then_act m k w = (Inr y, w'') \<longleftrightarrow> (\<exists>x w'. m w = (Inr x, w') \<and> k w' = (Inr y, w''))"
  by (simp add: then_act_def bind_act_Inr)

lemma then_act_Inl:
  "then_act m k w = (Inl e, w'') \<longleftrightarrow>
     m w = (Inl e, w'') \<or> (\<exists>x w'. m w = (Inr x, w') \<and> k w' = (Inl e, w''))"
  by (simp add: then_act_def bind_act_Inl)

lemma on_error_Inr: "on_error m c w = (Inr x, w') \<longleftrightarrow> m w = (Inr x, w')"
  by (auto simp: on_error_def catch_act_def then_act_Inr split: prod.splits sum.splits)

lemma on_error_Inl:
  "on_error m c w = (Inl e, w'') \<longleftrightarrow>
     (\<exists>e0 w'. m w = (Inl e0, w') \<and>
        (c w' = (Inl e, w'') \<or> e = e0 \<and> (\<exists>x. c w' = (Inr x, w''))))"
  by (auto simp: on_error_def catch_act_def then_act_Inl split: prod.splits sum.splits)

section \<open>Relations kept by actions\<close>

text \<open>An action keeps a relation when every outcome, exceptions included, is related to the start.\<close>

definition keeps :: "('w \<Rightarrow> 'w \<Rightarrow> bool) \<Rightarrow> ('w, 'a) act \<Rightarrow> bool" where
  "keeps R m \<longleftrightarrow> (\<forall>w. R w (snd (m w)))"

lemma keepsD: "keeps R m \<Longrightarrow> m w = (r, w') \<Longrightarrow> R w w'"
  unfolding keeps_def by (metis snd_conv)

lemma keepsI: "(\<And>w r w'. m w = (r, w') \<Longrightarrow> R w w') \<Longrightarrow> keeps R m"
  unfolding keeps_def by (metis prod.collapse)

text \<open>A preorder on worlds is kept by a composition when its parts keep it.\<close>

locale world_order =
  fixes R :: "'w \<Rightarrow> 'w \<Rightarrow> bool"
  assumes R_refl: "R w w"
    and R_trans: "R u v \<Longrightarrow> R v w \<Longrightarrow> R u w"
begin

lemma keeps_pure: "keeps R (ret x)" "keeps R (raise_act e)" "keeps R (of_res r)"
  by (simp_all add: keeps_def R_refl)

lemma keeps_bind:
  assumes "keeps R m" and "\<And>x. keeps R (f x)"
  shows "keeps R (bind_act m f)"
proof (rule keepsI)
  fix w r w' assume "bind_act m f w = (r, w')"
  then show "R w w'"
    by (auto simp: bind_act_def split: prod.splits sum.splits)
      (meson assms keepsD R_trans)+
qed

lemma keeps_then: "keeps R m \<Longrightarrow> keeps R k \<Longrightarrow> keeps R (then_act m k)"
  unfolding then_act_def by (rule keeps_bind)

lemma keeps_catch:
  assumes "keeps R m" and "\<And>e. keeps R (h e)"
  shows "keeps R (catch_act m h)"
proof (rule keepsI)
  fix w r w' assume "catch_act m h w = (r, w')"
  then show "R w w'"
    by (auto simp: catch_act_def split: prod.splits sum.splits)
      (meson assms keepsD R_trans)+
qed

lemma keeps_finally:
  assumes "keeps R m" and "keeps R c"
  shows "keeps R (finally_act m c)"
proof (rule keepsI)
  fix w r w' assume "finally_act m c w = (r, w')"
  then show "R w w'"
    by (auto simp: finally_act_def split: prod.splits sum.splits)
      (meson assms keepsD R_trans)+
qed

lemma keeps_on_error: "keeps R m \<Longrightarrow> keeps R c \<Longrightarrow> keeps R (on_error m c)"
  unfolding on_error_def by (intro keeps_catch keeps_then keeps_pure)

lemma keeps_suppress:
  assumes "keeps R m"
  shows "keeps R (suppress_act P m)"
proof (rule keepsI)
  fix w r w' assume "suppress_act P m w = (r, w')"
  then show "R w w'"
    using keepsD [OF assms] by (auto simp: suppress_act_def split: prod.splits sum.splits)
qed

lemma keeps_when: "keeps R m \<Longrightarrow> keeps R (when_act b m)"
  by (simp add: when_act_def keeps_pure)

lemma keeps_each: "(\<And>x. keeps R (f x)) \<Longrightarrow> keeps R (each_act f xs)"
  by (induction xs) (simp_all add: keeps_pure keeps_then)

lemma keeps_map: "(\<And>x. keeps R (f x)) \<Longrightarrow> keeps R (map_act f xs)"
  by (induction xs) (simp_all add: keeps_pure keeps_bind)

lemmas keeps_rules = keeps_pure keeps_bind keeps_then keeps_catch keeps_finally keeps_on_error
  keeps_suppress keeps_when keeps_each keeps_map

end

end
