(* ===== verification/ResultOrder.thy ===== *)
theory ResultOrder
  imports ResultFacts Effects
begin

text \<open>
  What every operation of the result repositories keeps: a stored result is never changed.  Only
  the status of an environment may move.
\<close>

section \<open>The order\<close>

abbreviation plan_view :: "'z result_db_scheme \<Rightarrow> uuid \<rightharpoonup> audit_plan_record" where
  "plan_view db \<equiv> by_key pp_run_id (audit_plans db)"

abbreviation invocation_view :: "'z result_db_scheme \<Rightarrow> uuid \<rightharpoonup> agent_invocation" where
  "invocation_view db \<equiv> by_key ai_run_id (agent_invocations db)"

abbreviation tool_call_view :: "'z result_db_scheme \<Rightarrow> uuid \<times> int \<rightharpoonup> tool_call" where
  "tool_call_view db \<equiv> by_key (\<lambda>c. (tc_invocation_id c, tc_sequence c)) (agent_tool_calls db)"

definition lease_identity :: "environment_lease \<Rightarrow> environment_lease" where
  "lease_identity l =
     l\<lparr>el_environment := (el_environment l)\<lparr>se_status := ACTIVE, se_cleaned_at := None\<rparr>\<rparr>"

abbreviation lease_view :: "'z result_db_scheme \<Rightarrow> uuid \<times> int \<rightharpoonup> environment_lease" where
  "lease_view db \<equiv> \<lambda>k. map_option lease_identity (environment_view db k)"

definition results_kept :: "'z result_db_scheme \<Rightarrow> 'z result_db_scheme \<Rightarrow> bool" where
  "results_kept db db' \<longleftrightarrow>
     snapshot_view db \<subseteq>\<^sub>m snapshot_view db' \<and> graph_view db \<subseteq>\<^sub>m graph_view db' \<and>
     report_view db \<subseteq>\<^sub>m report_view db' \<and> invocation_view db \<subseteq>\<^sub>m invocation_view db' \<and>
     tool_call_view db \<subseteq>\<^sub>m tool_call_view db' \<and> plan_view db \<subseteq>\<^sub>m plan_view db' \<and>
     lease_view db \<subseteq>\<^sub>m lease_view db' \<and> execution_view db \<subseteq>\<^sub>m execution_view db' \<and>
     evidence_view db \<subseteq>\<^sub>m evidence_view db'"

definition results_advance :: "'z result_db_scheme \<Rightarrow> 'z result_db_scheme \<Rightarrow> bool" where
  "results_advance db db' \<longleftrightarrow> (results_wf db \<longrightarrow> results_wf db' \<and> results_kept db db')"

lemma results_kept_refl: "results_kept db db"
  by (simp add: results_kept_def)

lemma results_kept_trans: "results_kept a b \<Longrightarrow> results_kept b c \<Longrightarrow> results_kept a c"
  unfolding results_kept_def by (blast intro: map_le_trans)

interpretation results_order: world_order results_advance
  by unfold_locales (auto simp: results_advance_def results_kept_refl intro: results_kept_trans)

section \<open>The operations\<close>

text \<open>A table that only grows at its end keeps its view.\<close>

lemma rows_kept: "t' = t \<or> t' = t @ [row] \<Longrightarrow> by_key key t \<subseteq>\<^sub>m by_key key t'"
  unfolding map_le_def dom_def by (elim disjE) (force simp: select_one_kept simp del: select_one_None)+

lemma graph_view_other [simp]:
  "graph_view (db\<lparr>static_reports := rs\<rparr>) = graph_view db"
  "graph_view (db\<lparr>agent_invocations := is\<rparr>) = graph_view db"
  "graph_view (db\<lparr>agent_tool_calls := cs\<rparr>) = graph_view db"
  "graph_view (db\<lparr>audit_plans := ps\<rparr>) = graph_view db"
  "graph_view (db\<lparr>shadow_environments := es\<rparr>) = graph_view db"
  "graph_view (db\<lparr>runner_executions := xs\<rparr>) = graph_view db"
  "graph_view (db\<lparr>evidence_items := vs\<rparr>) = graph_view db"
  by (simp_all add: fun_eq_iff graph_view_def graphs_get_for_run_def snapshots_get_def cong: option.case_cong)

lemma results_wf_other [simp]:
  "results_wf (db\<lparr>static_reports := rs\<rparr>) = results_wf db"
  "results_wf (db\<lparr>agent_invocations := is\<rparr>) = results_wf db"
  "results_wf (db\<lparr>agent_tool_calls := cs\<rparr>) = results_wf db"
  "results_wf (db\<lparr>audit_plans := ps\<rparr>) = results_wf db"
  "results_wf (db\<lparr>runner_executions := xs\<rparr>) = results_wf db"
  "results_wf (db\<lparr>evidence_items := vs\<rparr>) = results_wf db"
  by (simp_all add: results_wf_def snapshots_get_def)

lemma graph_view_snapshots:
  assumes "results_wf db" and "results_wf (db\<lparr>repo_snapshots := rows\<rparr>)"
    and "rows = repo_snapshots db \<or> rows = repo_snapshots db @ [s]"
  shows "graph_view (db\<lparr>repo_snapshots := rows\<rparr>) = graph_view db"
proof
  fix k
  have "snapshots_get (gw_snapshot_id r) (db\<lparr>repo_snapshots := rows\<rparr>) = snapshots_get (gw_snapshot_id r) db"
    if "by_key gw_run_id (revision_graphs db) k = Some r" for r
    using that select_one_Some [OF that] assms(1,3)
    by (intro snapshots_get_snoc) (auto simp: results_wf_def)
  then show "graph_view (db\<lparr>repo_snapshots := rows\<rparr>) k = graph_view db k"
    unfolding graph_view_eq [OF assms(1)] graph_view_eq [OF assms(2)]
    by (cases "by_key gw_run_id (revision_graphs db) k") (simp_all del: select_one_None)
qed

lemma snapshot_advance:
  assumes "snapshots_create_or_get s db = Inr (q, db')"
  shows "results_advance db db'"
  unfolding results_advance_def
proof
  assume wf: "results_wf db"
  then have wf': "results_wf db'" using snapshot_store.accepted assms by blast
  from assms obtain rows where rows: "db' = db\<lparr>repo_snapshots := rows\<rparr>"
      "rows = repo_snapshots db \<or> rows = repo_snapshots db @ [s]"
    unfolding snapshots_create_Inr by (elim exE conjE) (drule insert_absent_rows, blast)
  have "graph_view db' = graph_view db"
    using graph_view_snapshots [OF wf wf' [unfolded rows(1)] rows(2)] by (simp add: rows(1))
  with wf' rows_kept [OF rows(2)] show "results_wf db' \<and> results_kept db db'"
    by (simp add: results_kept_def rows(1))
qed

lemma report_advance:
  assumes "reports_create_or_get r db = Inr (q, db')"
  shows "results_advance db db'"
proof -
  from assms obtain rows where "db' = db\<lparr>static_reports := rows\<rparr>"
      "rows = static_reports db \<or> rows = static_reports db @ [r]"
    unfolding report_create_Inr by (elim exE conjE) (drule insert_absent_rows, blast)
  then show ?thesis by (simp add: results_advance_def results_kept_def rows_kept)
qed

lemma execution_advance:
  assumes "sandbox_create_or_get_execution x db = Inr (q, db')"
  shows "results_advance db db'"
proof -
  from assms obtain rows where "db' = db\<lparr>runner_executions := rows\<rparr>"
      "rows = runner_executions db \<or> rows = runner_executions db @ [x]"
    unfolding execution_create_Inr by (elim exE conjE) (drule insert_absent_rows, blast)
  then show ?thesis by (simp add: results_advance_def results_kept_def rows_kept)
qed

lemma evidence_advance:
  assumes "evidence_create_or_get e db = Inr (q, db')"
  shows "results_advance db db'"
proof -
  from assms obtain rows where "db' = db\<lparr>evidence_items := rows\<rparr>"
      "rows = evidence_items db \<or> rows = evidence_items db @ [e]"
    unfolding evidence_create_Inr by (elim exE conjE) (drule insert_absent_rows, blast)
  then show ?thesis by (simp add: results_advance_def results_kept_def rows_kept)
qed

lemma graph_advance:
  assumes "graphs_create_or_get g db = Inr (q, db')"
  shows "results_advance db db'"
  unfolding results_advance_def
proof
  assume wf: "results_wf db"
  from graph_store.unchanged [OF wf assms] have "graph_view db \<subseteq>\<^sub>m graph_view db'"
    by (auto simp: map_le_def dom_def)
  moreover obtain rows where "db' = db\<lparr>revision_graphs := rows\<rparr>"
    using assms by (auto simp: graphs_create_or_get_def bind_res_Inr Let_def)
  moreover have "results_wf db'" using graph_store.accepted [OF wf assms] by blast
  ultimately show "results_wf db' \<and> results_kept db db'" by (simp add: results_kept_def)
qed

lemma environment_advance:
  assumes "sandbox_create_or_get_environment e password db = Inr (q, db')"
  shows "results_advance db db'"
  unfolding results_advance_def
proof
  assume wf: "results_wf db"
  define l where "l = \<lparr>el_environment = e, el_database_password = password\<rparr>"
  have put: "store_lease l db = Inr (q, db')" using assms by (simp add: store_lease_def l_def)
  from environment_store.unchanged [OF wf put] have "lease_view db \<subseteq>\<^sub>m lease_view db'"
    by (auto simp: map_le_def dom_def simp del: select_one_None)
  moreover obtain rows where "db' = db\<lparr>shadow_environments := rows\<rparr>"
    using put unfolding environment_create_Inr by blast
  moreover have "results_wf db'" using environment_store.accepted [OF wf put] by blast
  ultimately show "results_wf db' \<and> results_kept db db'" by (simp add: results_kept_def)
qed

text \<open>An update of the status keeps the identity of every lease.\<close>

lemma select_one_map:
  "(\<And>r. P (f r) = P r) \<Longrightarrow> select_one P (map f t) = map_option f (select_one P t)"
  by (induction t) (simp_all add: select_one_def)

lemma status_advance:
  assumes "sandbox_set_environment_status i st cat db = (ok, db')"
  shows "results_advance db db'"
proof -
  define upd :: "environment_lease \<Rightarrow> environment_lease" where "upd = (\<lambda>l. if se_id (el_environment l) = i
    then l\<lparr>el_environment := (el_environment l)\<lparr>se_status := st, se_cleaned_at := cat\<rparr>\<rparr> else l)"
  have db': "db' = db\<lparr>shadow_environments := map upd (shadow_environments db)\<rparr>"
    using assms by (auto simp: sandbox_set_environment_status_def update_where_def upd_def)
  have upd: "environment_key (upd l) = environment_key l" "lease_identity (upd l) = lease_identity l"
    "se_generation (el_environment (upd l)) = se_generation (el_environment l)" for l
    by (simp_all add: upd_def environment_key_def lease_identity_def)
  have "lease_view db' = lease_view db"
    by (simp add: fun_eq_iff db' select_one_map upd option.map_comp comp_def)
  moreover have "results_wf db \<Longrightarrow> results_wf db'" by (auto simp: results_wf_def db' upd)
  ultimately show ?thesis by (simp add: results_advance_def results_kept_def db')
qed

text \<open>Saving a planning result appends to three tables.\<close>

lemma invocation_advance: "insert_invocation i db = Inr db' \<Longrightarrow> results_advance db db'"
proof -
  assume "insert_invocation i db = Inr db'"
  then obtain rows where "db' = db\<lparr>agent_invocations := rows\<rparr>"
      "rows = agent_invocations db \<or> rows = agent_invocations db @ [i]"
    unfolding insert_invocation_def bind_res_Inr using insert_absent_rows by fastforce
  then show ?thesis by (simp add: results_advance_def results_kept_def rows_kept)
qed

lemma tool_call_advance: "insert_tool_call c db = Inr db' \<Longrightarrow> results_advance db db'"
proof -
  assume "insert_tool_call c db = Inr db'"
  then obtain rows where "db' = db\<lparr>agent_tool_calls := rows\<rparr>"
      "rows = agent_tool_calls db \<or> rows = agent_tool_calls db @ [c]"
    unfolding insert_tool_call_def bind_res_Inr using insert_absent_rows by fastforce
  then show ?thesis by (simp add: results_advance_def results_kept_def rows_kept)
qed

lemma tool_calls_advance: "insert_tool_calls cs db = Inr db' \<Longrightarrow> results_advance db db'"
  by (induction cs arbitrary: db)
    (auto simp: bind_res_Inr results_order.R_refl intro: results_order.R_trans tool_call_advance)

lemma plan_advance: "insert_plan p db = Inr db' \<Longrightarrow> results_advance db db'"
proof -
  assume "insert_plan p db = Inr db'"
  then obtain rows where "db' = db\<lparr>audit_plans := rows\<rparr>"
      "rows = audit_plans db \<or> rows = audit_plans db @ [p]"
    unfolding insert_plan_def bind_res_Inr using insert_absent_rows by fastforce
  then show ?thesis by (simp add: results_advance_def results_kept_def rows_kept)
qed

lemma planning_save_steps:
  assumes "planning_save_result result db = Inr (found, db')"
  obtains db1 db2 where "insert_invocation (pr_invocation result) db = Inr db1"
    "insert_tool_calls (pr_tool_calls result) db1 = Inr db2"
    "(case pr_plan result of None \<Rightarrow> Inr db2 | Some p \<Rightarrow> insert_plan p db2) = Inr db'"
    "found = plans_get_for_run (ai_run_id (pr_invocation result)) db'"
    "\<And>p. pr_plan result = Some p \<Longrightarrow> \<exists>q. found = Some q \<and> plan_core q = plan_core p"
  using assms unfolding planning_save_result_def bind_res_Inr Let_def
  by (auto simp: bind_res_Inr resolve_existing_Inr split: option.splits)

lemma planning_advance:
  assumes "planning_save_result result db = Inr (found, db')"
  shows "results_advance db db'"
  using planning_save_steps [OF assms]
proof cases
  case (1 db1 db2)
  have "results_advance db2 db'" using 1(3) plan_advance
    by (auto simp: results_order.R_refl split: option.splits)
  with 1(1,2) show ?thesis
    by (meson invocation_advance tool_calls_advance results_order.R_trans)
qed

section \<open>Any sequence of operations\<close>

datatype result_op =
    StoreSnapshot repo_snapshot
  | StoreGraph revision_graph
  | StoreReport static_report
  | StorePlanning planning_result
  | StoreEnvironment shadow_environment string
  | SetEnvironmentStatus uuid environment_status "time option"
  | StoreExecution runner_execution
  | StoreEvidence evidence_item

text \<open>One transaction: what raises is rolled back.\<close>

definition committed :: "'s \<Rightarrow> ('a \<times> 's) res \<Rightarrow> 's" where
  "committed s r = (case r of Inl e \<Rightarrow> s | Inr (x, s') \<Rightarrow> s')"

fun result_step :: "result_op \<Rightarrow> 'z result_db_scheme \<Rightarrow> 'z result_db_scheme" where
  "result_step (StoreSnapshot s) db = committed db (snapshots_create_or_get s db)"
| "result_step (StoreGraph g) db = committed db (graphs_create_or_get g db)"
| "result_step (StoreReport r) db = committed db (reports_create_or_get r db)"
| "result_step (StorePlanning p) db = committed db (planning_save_result p db)"
| "result_step (StoreEnvironment e pw) db =
     committed db (sandbox_create_or_get_environment e pw db)"
| "result_step (SetEnvironmentStatus i st t) db = snd (sandbox_set_environment_status i st t db)"
| "result_step (StoreExecution x) db = committed db (sandbox_create_or_get_execution x db)"
| "result_step (StoreEvidence e) db = committed db (evidence_create_or_get e db)"

lemma committed_advance:
  "(\<And>x db'. r = Inr (x, db') \<Longrightarrow> results_advance db db') \<Longrightarrow> results_advance db (committed db r)"
  by (auto simp: committed_def results_order.R_refl split: sum.splits prod.splits)

lemma step_advance: "results_advance db (result_step op db)"
proof (cases op)
  case (SetEnvironmentStatus i st t)
  then show ?thesis by (simp add: status_advance [OF surjective_pairing])
qed (simp_all add: committed_advance snapshot_advance graph_advance report_advance planning_advance
  environment_advance execution_advance evidence_advance)

lemma steps_advance: "results_advance db (fold result_step ops db)"
  by (induction ops arbitrary: db)
    (auto simp: results_order.R_refl intro: results_order.R_trans step_advance)

end
