(* ===== verification/World.thy ===== *)
theory World
  imports ResultOrder Snapshot
begin

text \<open>
  What a worker process acts on: the database, the Docker engine, the artifact directories, the
  clocks and the random identifiers.  A transaction of this process runs between transactions of
  other processes: what those did since the last one is \<open>wd_others\<close>.
\<close>

text \<open>How writing a file under a temporary name and renaming it ends.\<close>

datatype write_outcome = Written | WriteFailed | WrittenNotSynced

record 'd world =
  wd_db :: result_db
  wd_others :: "nat \<Rightarrow> result_db \<Rightarrow> result_db"
  wd_transactions :: nat
  wd_docker :: 'd
  wd_client :: bool
  wd_snapshots :: artifact_store
  wd_evidence :: "string \<rightharpoonup> bytes"
  wd_disk :: "nat \<Rightarrow> write_outcome"
  wd_writes :: nat
  wd_clock :: "nat \<Rightarrow> time"
  wd_readings :: nat
  wd_monotonic :: "nat \<Rightarrow> int"
  wd_polls :: nat
  wd_ids :: "nat \<Rightarrow> uuid"
  wd_drawn :: nat
  wd_tokens :: "nat \<Rightarrow> string"
  wd_secrets :: nat

section \<open>Inputs\<close>

text \<open>\<open>datetime.now(UTC)\<close>, \<open>time.monotonic()\<close> in milliseconds, \<open>uuid4()\<close>, \<open>secrets.token_urlsafe(24)\<close>\<close>

definition clock :: "('d world, time) act" where
  "clock w = (Inr (wd_clock w (wd_readings w)), w\<lparr>wd_readings := wd_readings w + 1\<rparr>)"

definition monotonic :: "('d world, int) act" where
  "monotonic w = (Inr (wd_monotonic w (wd_polls w)), w\<lparr>wd_polls := wd_polls w + 1\<rparr>)"

definition fresh_id :: "('d world, uuid) act" where
  "fresh_id w = (Inr (wd_ids w (wd_drawn w)), w\<lparr>wd_drawn := wd_drawn w + 1\<rparr>)"

definition fresh_token :: "('d world, string) act" where
  "fresh_token w = (Inr (wd_tokens w (wd_secrets w)), w\<lparr>wd_secrets := wd_secrets w + 1\<rparr>)"

section \<open>Units of work\<close>

text \<open>
  \<open>with uow_factory() as uow: ...; uow.commit()\<close>: an exception rolls the transaction back
  (\<open>SqlAlchemyUnitOfWork.__exit__\<close>), what other processes committed stays.
\<close>

definition transaction :: "(result_db \<Rightarrow> ('a \<times> result_db) res) \<Rightarrow> ('d world, 'a) act" where
  "transaction f w =
     (let db = wd_others w (wd_transactions w) (wd_db w);
          w' = w\<lparr>wd_db := db, wd_transactions := wd_transactions w + 1\<rparr>
      in case f db of
           Inl e \<Rightarrow> (Inl e, w')
         | Inr (x, db') \<Rightarrow> (Inr x, w'\<lparr>wd_db := db'\<rparr>))"

text \<open>Units of work without a commit.\<close>

definition read_db :: "(result_db \<Rightarrow> 'a) \<Rightarrow> ('d world, 'a) act" where
  "read_db f = transaction (\<lambda>db. Inr (f db, db))"

definition query_db :: "(result_db \<Rightarrow> 'a res) \<Rightarrow> ('d world, 'a) act" where
  "query_db f = transaction (\<lambda>db. bind_res (f db) (\<lambda>x. Inr (x, db)))"

text \<open>An operation that cannot violate a constraint.\<close>

definition update_db :: "(result_db \<Rightarrow> 'a \<times> result_db) \<Rightarrow> ('d world, 'a) act" where
  "update_db f = transaction (\<lambda>db. Inr (f db))"

text \<open>An action of the Docker engine.\<close>

definition with_docker :: "('d, 'a) act \<Rightarrow> ('d world, 'a) act" where
  "with_docker m w = (case m (wd_docker w) of (r, d) \<Rightarrow> (r, w\<lparr>wd_docker := d\<rparr>))"

section \<open>Orders on worlds\<close>

text \<open>
  A preorder on databases that every other process follows is a preorder on worlds: the databases
  are related, and the other processes are the same.
\<close>

definition follows :: "(result_db \<Rightarrow> result_db \<Rightarrow> bool) \<Rightarrow> 'd world \<Rightarrow> bool" where
  "follows R w \<longleftrightarrow> (\<forall>n db. R db (wd_others w n db))"

definition lifted :: "(result_db \<Rightarrow> result_db \<Rightarrow> bool) \<Rightarrow> 'd world \<Rightarrow> 'd world \<Rightarrow> bool" where
  "lifted R w w' \<longleftrightarrow> wd_others w' = wd_others w \<and> (follows R w \<longrightarrow> R (wd_db w) (wd_db w'))"

lemma follows_cong: "wd_others w' = wd_others w \<Longrightarrow> follows R w' = follows R w"
  by (simp add: follows_def)

locale database_order = world_order R for R :: "result_db \<Rightarrow> result_db \<Rightarrow> bool"
begin

lemma lifted_order: "world_order (lifted R :: 'd world \<Rightarrow> 'd world \<Rightarrow> bool)"
proof
  show "lifted R w w" for w :: "'d world" by (simp add: lifted_def R_refl)
  show "lifted R u w" if "lifted R u v" "lifted R v w" for u v w :: "'d world"
    using that follows_cong [of v u R] R_trans unfolding lifted_def by metis
qed

lemma keeps_same: "(\<And>w. wd_db (snd (m w)) = wd_db w) \<Longrightarrow> (\<And>w. wd_others (snd (m w)) = wd_others w) \<Longrightarrow>
    keeps (lifted R) m"
  by (simp add: keeps_def lifted_def R_refl)

lemma keeps_clock: "keeps (lifted R) clock"
  by (rule keeps_same) (simp_all add: clock_def)

lemma keeps_monotonic: "keeps (lifted R) monotonic"
  by (rule keeps_same) (simp_all add: monotonic_def)

lemma keeps_fresh_id: "keeps (lifted R) fresh_id"
  by (rule keeps_same) (simp_all add: fresh_id_def)

lemma keeps_fresh_token: "keeps (lifted R) fresh_token"
  by (rule keeps_same) (simp_all add: fresh_token_def)

lemma keeps_docker: "keeps (lifted R) (with_docker m)"
  by (rule keeps_same) (simp_all add: with_docker_def case_prod_beta)

lemmas keeps_inputs = keeps_clock keeps_monotonic keeps_fresh_id keeps_fresh_token keeps_docker

lemma keeps_transaction:
  assumes "\<And>db x db'. f db = Inr (x, db') \<Longrightarrow> R db db'"
  shows "keeps (lifted R) (transaction f :: ('d world, 'a) act)"
proof -
  have "follows R w \<longrightarrow> R (wd_db w) (wd_db (snd (transaction f w)))" for w :: "'d world"
  proof
    assume "follows R w"
    then have "R (wd_db w) (wd_others w (wd_transactions w) (wd_db w))"
      by (simp add: follows_def)
    then show "R (wd_db w) (wd_db (snd (transaction f w)))"
      by (auto simp: transaction_def Let_def split: sum.splits prod.splits intro: R_trans assms)
  qed
  moreover have "wd_others (snd (transaction f w)) = wd_others w" for w :: "'d world"
    by (simp add: transaction_def Let_def split: sum.splits prod.splits)
  ultimately show ?thesis by (simp add: keeps_def lifted_def)
qed

lemma keeps_reads: "keeps (lifted R) (read_db g)" "keeps (lifted R) (query_db h)"
  unfolding read_db_def query_db_def
  by (auto intro!: keeps_transaction simp: R_refl bind_res_Inr)

lemma keeps_update: "(\<And>db x db'. f db = (x, db') \<Longrightarrow> R db db') \<Longrightarrow> keeps (lifted R) (update_db f)"
  unfolding update_db_def by (rule keeps_transaction) simp

sublocale lifted: world_order "lifted R"
  by (rule lifted_order)

lemmas keeps_world = keeps_inputs keeps_reads lifted.keeps_rules

end

interpretation results: database_order results_advance
  by (simp add: database_order_def results_order.world_order_axioms)

end
