(* ===== verification/Redaction.thy ===== *)
theory Redaction
  imports SandboxContracts "HOL-Library.Sublist"
begin

text \<open>
  The redaction of \<open>DockerResourceManager._redacted_result\<close>: \<open>str.replace(password, ...)\<close>, then
  the substitution of \<open>_SECRET_PATTERN\<close>.
\<close>

definition redacted_mark :: string where
  "redacted_mark = ''[REDACTED]''"

text \<open>\<open>value.replace(old, new)\<close> for a non-empty \<open>old\<close>: left to right, without overlaps.\<close>

function replace_all :: "string \<Rightarrow> string \<Rightarrow> string \<Rightarrow> string" where
  "replace_all old new [] = []"
| "replace_all old new (c # cs) =
     (if old \<noteq> [] \<and> starts_with (c # cs) old
      then new @ replace_all old new (drop (length old) (c # cs))
      else c # replace_all old new cs)"
  by pat_completeness auto

termination
  by (relation "measure (\<lambda>(old, new, s). length s)") auto

text \<open>\<open>(?i)(password|token|secret)=([^\s&]+)\<close>: the number of characters of the keyword.\<close>

definition ascii_lower :: "char \<Rightarrow> char" where
  "ascii_lower c =
     (let n = (of_char c :: nat) in if 65 \<le> n \<and> n \<le> 90 then char_of (n + 32) else c)"

definition secret_words :: "string list" where
  "secret_words = [''password'', ''token'', ''secret'']"

definition secret_stop :: "char \<Rightarrow> bool" where
  "secret_stop c \<longleftrightarrow> py_space c \<or> c = CHR ''&''"

definition keyword_at :: "string \<Rightarrow> string \<Rightarrow> bool" where
  "keyword_at s word \<longleftrightarrow>
     map ascii_lower (take (length word) s) = word \<and>
     (case drop (length word) s of
        e # c # _ \<Rightarrow> e = CHR ''='' \<and> \<not> secret_stop c
      | _ \<Rightarrow> False)"

definition secret_at :: "string \<Rightarrow> nat option" where
  "secret_at s = map_option length (find (keyword_at s) secret_words)"

lemma length_dropWhile_le_drop: "length (dropWhile P (drop (n + 1) (c # cs))) < length (c # cs)"
  using length_dropWhile_le [of P "drop (n + 1) (c # cs)"] by simp

function redact_secrets :: "string \<Rightarrow> string" where
  "redact_secrets [] = []"
| "redact_secrets (c # cs) =
     (case secret_at (c # cs) of
        Some n \<Rightarrow>
          take n (c # cs) @ ''='' @ redacted_mark @
          redact_secrets (dropWhile (\<lambda>x. \<not> secret_stop x) (drop (n + 1) (c # cs)))
      | None \<Rightarrow> c # redact_secrets cs)"
  by pat_completeness auto

termination
  by (relation "measure length") (simp_all add: length_dropWhile_le le_imp_less_Suc
      order.trans [OF length_dropWhile_le])

definition redact :: "string \<Rightarrow> string \<Rightarrow> string" where
  "redact password value = redact_secrets (replace_all password redacted_mark value)"

section \<open>Texts with marks\<close>

text \<open>\<open>out\<close> is \<open>s\<close> with some pieces replaced by the mark.\<close>

inductive marked :: "string \<Rightarrow> string \<Rightarrow> bool" where
  marked_Nil: "marked [] []"
| marked_keep: "marked out s \<Longrightarrow> marked (c # out) (c # s)"
| marked_hide: "marked out s \<Longrightarrow> marked (redacted_mark @ out) (hidden @ s)"

inductive_cases marked_NilE: "marked [] s"

lemma marked_prefix: "marked out s \<Longrightarrow> marked (p @ out) (p @ s)"
  by (induction p) (auto intro: marked_keep)

lemma marked_refl: "marked s s"
  using marked_prefix [OF marked_Nil, of s] by simp

lemma marked_replace: "marked (replace_all old redacted_mark s) s"
proof (induction old redacted_mark s rule: replace_all.induct)
  case (2 old c cs)
  show ?case
  proof (cases "old \<noteq> [] \<and> starts_with (c # cs) old")
    case True
    then have "c # cs = take (length old) (c # cs) @ drop (length old) (c # cs)" by simp
    with 2(1) [OF True] True marked_hide show ?thesis by (metis replace_all.simps(2))
  next
    case False
    then have "replace_all old redacted_mark (c # cs) = c # replace_all old redacted_mark cs" by auto
    then show ?thesis using 2(2) [OF False] marked_keep by simp
  qed
qed (auto intro: marked_Nil)

lemma secret_at_split:
  assumes "secret_at s = Some n"
  shows "s = take n s @ ''='' @ drop (n + 1) s"
proof -
  from assms obtain word where "keyword_at s word" "n = length word"
    by (auto simp: secret_at_def find_Some_iff)
  then obtain c rest where "drop n s = CHR ''='' # c # rest"
    by (auto simp: keyword_at_def split: list.splits)
  then have "drop n s = ''='' @ drop (n + 1) s" by (metis append_Cons append_Nil drop_Suc_Cons drop0 drop_drop plus_1_eq_Suc)
  then show ?thesis by (metis append_take_drop_id)
qed

lemma marked_secrets: "marked (redact_secrets s) s"
proof (induction s rule: redact_secrets.induct)
  case (2 c cs)
  show ?case
  proof (cases "secret_at (c # cs)")
    case None
    then show ?thesis using marked_keep [OF 2(1) [OF None]] by simp
  next
    case (Some n)
    let ?s = "c # cs" and ?stop = "\<lambda>x. \<not> secret_stop x"
    have "?s = take n ?s @ ''='' @ takeWhile ?stop (drop (n + 1) ?s) @ dropWhile ?stop (drop (n + 1) ?s)"
      using secret_at_split [OF Some] by simp
    moreover have "redact_secrets ?s = take n ?s @ ''='' @ redacted_mark @
        redact_secrets (dropWhile ?stop (drop (n + 1) ?s))" using Some by simp
    ultimately show ?thesis using marked_prefix marked_hide 2(2) [OF Some] by metis
  qed
qed (auto intro: marked_Nil)

section \<open>What the redaction hides\<close>

text \<open>A text without brackets that is longer than the inside of the mark.\<close>

definition markless :: "string \<Rightarrow> bool" where
  "markless p \<longleftrightarrow> 8 < length p \<and> CHR ''['' \<notin> set p \<and> CHR '']'' \<notin> set p"

lemma length_redacted_mark: "length redacted_mark = 10"
  by (simp add: redacted_mark_def)

lemma markless_not_in_mark:
  assumes "markless p" and "prefix p (drop n redacted_mark @ out)" and "n < 10"
  shows False
proof (cases n)
  case 0
  obtain c q where "p = c # q" using assms(1) by (cases p) (auto simp: markless_def)
  with assms(1,2) 0 show False by (auto simp: redacted_mark_def markless_def)
next
  case (Suc k)
  let ?d = "drop n redacted_mark"
  have "length ?d \<le> 9" using length_redacted_mark Suc by simp
  then have "length ?d \<le> length p" using assms(1) by (simp add: markless_def)
  then have "prefix ?d p" using assms(2) by (meson prefix_length_prefix prefixI)
  then have "set ?d \<subseteq> set p" by (auto simp: prefix_def)
  moreover have "last redacted_mark \<in> set ?d"
    using assms(3) length_redacted_mark by (metis last_drop last_in_set drop_eq_Nil not_le)
  ultimately show False using assms(1) by (auto simp: markless_def redacted_mark_def)
qed

lemma sublist_at: "sublist p xs \<Longrightarrow> \<exists>n. prefix p (drop n xs)"
proof -
  assume "sublist p xs"
  then obtain us vs where "xs = us @ p @ vs" unfolding sublist_def by blast
  then have "drop (length us) xs = p @ vs" by simp
  then show ?thesis using prefixI by blast
qed

lemma marked_prefixE:
  "marked out s \<Longrightarrow> prefix p out \<Longrightarrow> CHR ''['' \<notin> set p \<Longrightarrow> prefix p s"
proof (induction arbitrary: p rule: marked.induct)
  case (marked_keep out s c)
  then show ?case by (cases p) auto
next
  case (marked_hide out s hidden)
  then show ?case by (cases p) (auto simp: redacted_mark_def)
qed simp

text \<open>What occurs in the redacted text occurred in the text.\<close>

lemma marked_sublist:
  "marked out s \<Longrightarrow> markless p \<Longrightarrow> sublist p out \<Longrightarrow> sublist p s"
proof (induction rule: marked.induct)
  case (marked_keep out s c)
  from marked_keep(4) consider "prefix p (c # out)" | "sublist p out"
    by (auto simp: sublist_Cons_right)
  then show ?case
  proof cases
    case 1
    from marked_prefixE [OF marked.marked_keep [OF marked_keep(1)] 1] marked_keep(3)
    show ?thesis by (simp add: markless_def)
  next
    case 2
    with marked_keep(2,3) show ?thesis by (simp add: sublist_Cons_right)
  qed
next
  case (marked_hide out s hidden)
  from sublist_at [OF marked_hide(4)] obtain n where n: "prefix p (drop n (redacted_mark @ out))" by blast
  show ?case
  proof (cases "n < 10")
    case True
    then have "drop n (redacted_mark @ out) = drop n redacted_mark @ out"
      by (simp add: length_redacted_mark)
    with n have "prefix p (drop n redacted_mark @ out)" by (simp only:)
    from markless_not_in_mark [OF marked_hide(3) this True] show ?thesis ..
  next
    case False
    then have "drop n (redacted_mark @ out) = drop (n - 10) out" by (simp add: length_redacted_mark)
    with n have "sublist p out"
      using prefix_imp_sublist sublist_drop sublist_order.order.trans by metis
    with marked_hide(2,3) have "sublist p s" by blast
    then show ?thesis using sublist_order.order.trans sublist_append_leftI by blast
  qed
qed simp

text \<open>After the replacement the password is gone.\<close>

lemma replaced_absent:
  assumes "markless old"
  shows "\<not> sublist old (replace_all old redacted_mark s)"
proof (induction "length s" arbitrary: s rule: less_induct)
  case less
  have ne: "old \<noteq> []" using assms by (auto simp: markless_def)
  show ?case
  proof (cases s)
    case Nil
    with ne show ?thesis by simp
  next
    case (Cons c cs)
    show ?thesis
    proof (cases "starts_with s old")
      case True
      let ?rest = "replace_all old redacted_mark (drop (length old) s)"
      have eq: "replace_all old redacted_mark s = redacted_mark @ ?rest"
        using True ne by (simp add: Cons)
      have "\<not> sublist old ?rest" using less ne Cons by simp
      moreover have "marked (redacted_mark @ ?rest) ([] @ ?rest)"
        by (rule marked_hide [OF marked_refl])
      ultimately show ?thesis using marked_sublist [OF _ assms] eq by fastforce
    next
      case False
      let ?rest = "replace_all old redacted_mark cs"
      have eq: "replace_all old redacted_mark s = c # ?rest" using False by (simp add: Cons)
      have "\<not> sublist old ?rest" using less Cons by simp
      moreover have "\<not> prefix old (c # ?rest)"
      proof
        assume "prefix old (c # ?rest)"
        with marked_prefixE [OF marked_keep [OF marked_replace]] assms have "prefix old (c # cs)"
          by (auto simp: markless_def)
        with False Cons show False by (auto simp: starts_with_def prefix_def)
      qed
      ultimately show ?thesis by (simp add: eq sublist_Cons_right)
    qed
  qed
qed

lemma redact_absent: "markless password \<Longrightarrow> \<not> sublist password (redact password s)"
  unfolding redact_def using marked_sublist [OF marked_secrets] replaced_absent by blast

end
