(* ===== verification/Docker.thy ===== *)
theory Docker
  imports World Redaction
begin

text \<open>
  The Docker client library is not part of the repository: an engine is a record of actions on its
  own state, an argument of every definition that talks to it.  This theory also holds the values
  \<open>sandbox/docker_manager.py\<close> sends to it and reads from it.
\<close>

section \<open>The engine\<close>

type_synonym labels = "(string \<times> string) list"

record container_spec =
  cs_image :: string
  cs_name :: "string option"
  cs_entrypoint :: "string list"
  cs_command :: "string list"
  cs_user :: "string option"
  cs_read_only :: bool
  cs_cap_drop :: "string list"
  cs_security_opt :: "string list"
  cs_network :: "string option"
  cs_network_mode :: "string option"
  cs_hostname :: "string option"
  cs_labels :: labels
  cs_environment :: "(string \<times> string) list"
  cs_volumes :: "(string \<times> string \<times> string) list"
  cs_tmpfs :: "(string \<times> string) list"
  cs_mem_limit :: "string option"
  cs_nano_cpus :: "int option"
  cs_pids_limit :: "int option"

text \<open>What the keyword arguments of \<open>containers.create\<close> default to.\<close>

definition plain_container :: "string \<Rightarrow> labels \<Rightarrow> container_spec" where
  "plain_container img labels =
     \<lparr>cs_image = img, cs_name = None, cs_entrypoint = [], cs_command = [], cs_user = None,
      cs_read_only = False, cs_cap_drop = [], cs_security_opt = [], cs_network = None,
      cs_network_mode = None, cs_hostname = None, cs_labels = labels, cs_environment = [],
      cs_volumes = [], cs_tmpfs = [], cs_mem_limit = None, cs_nano_cpus = None,
      cs_pids_limit = None\<rparr>"

text \<open>
  A listed object with \<open>attrs["Labels"]\<close> (no entry is the empty list) and
  \<open>attrs["Config"]["Labels"]\<close> (\<open>None\<close> for null).
\<close>

record resource =
  dr_id :: string
  dr_labels :: labels
  dr_config_labels :: "labels option"

text \<open>Networks and volumes are created with a name; volumes are known by it.\<close>

record 'd docker =
  dk_from_env :: "('d, unit) act"
  dk_ping :: "('d, unit) act"
  dk_image_id :: "string \<Rightarrow> ('d, string) act"
  dk_create_network :: "string \<Rightarrow> labels \<Rightarrow> ('d, string) act"
  dk_network_name :: "string \<Rightarrow> ('d, string) act"
  dk_connect :: "string \<Rightarrow> string \<Rightarrow> string list \<Rightarrow> ('d, unit) act"
  dk_create_volume :: "string \<Rightarrow> labels \<Rightarrow> ('d, string) act"
  dk_create_container :: "container_spec \<Rightarrow> ('d, string) act"
  dk_start :: "string \<Rightarrow> ('d, unit) act"
  dk_exec :: "string \<Rightarrow> string list \<Rightarrow> ('d, int) act"
  dk_put_archive :: "string \<Rightarrow> string \<Rightarrow> (string \<times> bytes) list \<Rightarrow> ('d, bool) act"
  dk_wait :: "string \<Rightarrow> int \<Rightarrow> ('d, int option) act"
  dk_logs :: "string \<Rightarrow> ('d, string) act"
  dk_kill :: "string \<Rightarrow> ('d, unit) act"
  dk_list_containers :: "string list \<Rightarrow> ('d, resource list) act"
  dk_list_networks :: "string list \<Rightarrow> ('d, resource list) act"
  dk_list_volumes :: "string list \<Rightarrow> ('d, resource list) act"
  dk_remove_container :: "string \<Rightarrow> ('d, unit) act"
  dk_remove_network :: "string \<Rightarrow> ('d, unit) act"
  dk_remove_volume :: "string \<Rightarrow> ('d, unit) act"

text \<open>\<open>APIError\<close> and \<open>ImageNotFound\<close> are \<open>DockerException\<close>s.\<close>

fun is_docker_exception :: "exn \<Rightarrow> bool" where
  "is_docker_exception (DockerException m) = True"
| "is_docker_exception _ = False"

text \<open>\<open>requests\<close> raises subclasses of \<open>OSError\<close>.\<close>

fun is_os_error :: "exn \<Rightarrow> bool" where
  "is_os_error (OSError m) = True"
| "is_os_error _ = False"

fun is_value_error :: "exn \<Rightarrow> bool" where
  "is_value_error (ValueError m) = True"
| "is_value_error _ = False"

section \<open>Labels\<close>

definition managed_label :: string where "managed_label = ''shadowops.managed''"
definition run_label :: string where "run_label = ''shadowops.run_id''"
definition generation_label :: string where "generation_label = ''shadowops.generation''"
definition lease_label :: string where "lease_label = ''shadowops.lease_expires_epoch''"
definition role_label :: string where "role_label = ''shadowops.role''"

text \<open>\<open>int(t.timestamp())\<close> of a time in microseconds: truncation towards zero.\<close>

definition epoch_seconds :: "time \<Rightarrow> int" where
  "epoch_seconds t = (if t < 0 then - (- t div 1000000) else t div 1000000)"

definition make_labels :: "uuid \<Rightarrow> int \<Rightarrow> time \<Rightarrow> labels" where
  "make_labels run_id generation lease =
     [(managed_label, ''true''), (run_label, uuid_str run_id),
      (generation_label, dec_int generation), (lease_label, dec_int (epoch_seconds lease))]"

text \<open>\<open>labels | {_ROLE_LABEL: role}\<close>\<close>

definition with_role :: "labels \<Rightarrow> string \<Rightarrow> labels" where
  "with_role labels role = dict_set role_label role labels"

definition managed_filter :: "string list" where
  "managed_filter = [managed_label @ ''=true'']"

definition run_filter :: "uuid \<Rightarrow> int \<Rightarrow> string list" where
  "run_filter run_id generation =
     [managed_label @ ''=true'', run_label @ ''='' @ uuid_str run_id,
      generation_label @ ''='' @ dec_int generation]"

text \<open>\<open>f"shadowops-{run_id.hex[:12]}-{generation}"\<close>\<close>

definition resource_stem :: "uuid \<Rightarrow> int \<Rightarrow> string" where
  "resource_stem run_id generation =
     ''shadowops-'' @ take 12 (uuid_hex run_id) @ ''-'' @ dec_int generation"

section \<open>Reading labels back\<close>

text \<open>\<open>int(s, 16)\<close> after the sign and the prefix.\<close>

definition hex_value :: "char \<Rightarrow> int option" where
  "hex_value c =
     (let n = (of_char c :: int)
      in if 48 \<le> n \<and> n \<le> 57 then Some (n - 48)
         else if 97 \<le> n \<and> n \<le> 102 then Some (n - 87)
         else if 65 \<le> n \<and> n \<le> 70 then Some (n - 55)
         else None)"

fun hex_digits_value :: "string \<Rightarrow> int \<Rightarrow> bool \<Rightarrow> int option" where
  "hex_digits_value [] acc after_digit = (if after_digit then Some acc else None)"
| "hex_digits_value (c # cs) acc after_digit =
     (case hex_value c of
        Some d \<Rightarrow> hex_digits_value cs (16 * acc + d) True
      | None \<Rightarrow> if c = CHR ''_'' \<and> after_digit then hex_digits_value cs acc False else None)"

text \<open>A prefix \<open>0x\<close> may be followed by an underscore.\<close>

definition hex_unsigned :: "string \<Rightarrow> int option" where
  "hex_unsigned s =
     (case s of
        z # x # cs \<Rightarrow>
          if z = CHR ''0'' \<and> (x = CHR ''x'' \<or> x = CHR ''X'')
          then hex_digits_value (case cs of u # ds \<Rightarrow> if u = CHR ''_'' then ds else cs | [] \<Rightarrow> cs) 0 False
          else hex_digits_value s 0 False
      | _ \<Rightarrow> hex_digits_value s 0 False)"

definition py_int_16 :: "string \<Rightarrow> int option" where
  "py_int_16 text =
     (case strip text of
        [] \<Rightarrow> None
      | c # cs \<Rightarrow>
          if c = CHR ''-'' then map_option uminus (hex_unsigned cs)
          else if c = CHR ''+'' then hex_unsigned cs
          else hex_unsigned (c # cs))"

text \<open>
  \<open>UUID(hex)\<close>: \<open>hex.replace('urn:', '').replace('uuid:', '')\<close>, \<open>strip('{}')\<close>, the hyphens
  removed, 32 characters left.
\<close>

definition strip_braces :: "string \<Rightarrow> string" where
  "strip_braces s =
     (let brace = (\<lambda>c. c = CHR ''{'' \<or> c = CHR ''}'')
      in rev (dropWhile brace (rev (dropWhile brace s))))"

definition parse_uuid :: "string \<Rightarrow> uuid option" where
  "parse_uuid s =
     (let h = filter (\<lambda>c. c \<noteq> CHR ''-'')
            (strip_braces (replace_all ''uuid:'' [] (replace_all ''urn:'' [] s)))
      in if length h \<noteq> 32 then None
         else case py_int_16 h of
                None \<Rightarrow> None
              | Some v \<Rightarrow> if 0 \<le> v \<and> v < 2 ^ 128 then Some (word_of_int v) else None)"

text \<open>The body of the loop of \<open>sweep_expired\<close>: an error of the parsing skips the object.\<close>

definition resource_labels :: "resource \<Rightarrow> labels option" where
  "resource_labels r = (if dr_labels r \<noteq> [] then Some (dr_labels r) else dr_config_labels r)"

definition expired_pair :: "int \<Rightarrow> resource \<Rightarrow> (uuid \<times> int) option" where
  "expired_pair now_epoch r =
     (case resource_labels r of
        None \<Rightarrow> None
      | Some labels \<Rightarrow>
          (case map_of labels lease_label of
             None \<Rightarrow> None
           | Some lease_text \<Rightarrow>
               (case py_int lease_text of
                  None \<Rightarrow> None
                | Some lease \<Rightarrow>
                    if now_epoch < lease then None
                    else (case (map_of labels run_label, map_of labels generation_label) of
                            (Some run_value, Some generation_value) \<Rightarrow>
                              (case (parse_uuid run_value, py_int generation_value) of
                                 (Some run_id, Some generation) \<Rightarrow> Some (run_id, generation)
                               | _ \<Rightarrow> None)
                          | _ \<Rightarrow> None))))"

end
