(* ===== verification/Sandbox.thy ===== *)
theory Sandbox
  imports Docker
begin

text \<open>
  \<open>sandbox/docker_manager.py\<close>: one shadow environment per run and generation.  The checkpoint
  and the engine are arguments; every other effect is on the world.
\<close>

record sandbox_config =
  sc_postgres_image :: string
  sc_runner_image :: string
  sc_lease_duration :: int
  sc_readiness_timeout :: nat
  sc_execution_timeout :: int

definition sandbox_unavailable :: "string \<Rightarrow> exn" where
  "sandbox_unavailable detail = RepositoryInputError ''SANDBOX_UNAVAILABLE'' detail"

text \<open>\<open>_docker\<close>: the client object is kept even when the ping fails.\<close>

definition docker_client :: "'d docker \<Rightarrow> ('d world, unit) act" where
  "docker_client dk w =
     (if wd_client w then (Inr (), w)
      else catch_act
             (then_act (with_docker (dk_from_env dk))
               (then_act (\<lambda>w. (Inr (), w\<lparr>wd_client := True\<rparr>)) (with_docker (dk_ping dk))))
             (\<lambda>e. if is_docker_exception e
                  then raise_act (sandbox_unavailable
                         ''Docker Engine is unavailable to the trusted Worker'')
                  else raise_act e) w)"

definition get_environment :: "uuid \<Rightarrow> int \<Rightarrow> ('d world, environment_lease option) act" where
  "get_environment run_id generation = read_db (sandbox_get_environment run_id generation)"

definition require_active :: "uuid \<Rightarrow> int \<Rightarrow> ('d world, environment_lease) act" where
  "require_active run_id generation =
     bind_act (get_environment run_id generation) (\<lambda>found.
       case found of
         None \<Rightarrow> raise_act (sandbox_unavailable ''No active shadow generation exists'')
       | Some lease \<Rightarrow>
           if se_status (el_environment lease) \<noteq> ACTIVE
           then raise_act (sandbox_unavailable ''No active shadow generation exists'')
           else ret lease)"

section \<open>Removing what carries the labels\<close>

definition remove_each :: "(string \<Rightarrow> ('d, unit) act) \<Rightarrow> resource list \<Rightarrow> ('d world, unit) act" where
  "remove_each remove rs =
     each_act (\<lambda>r. suppress_act is_docker_exception (with_docker (remove (dr_id r)))) rs"

text \<open>\<open>a or b or c\<close> over the three listings: whether something is left.\<close>

definition something_left :: "'d docker \<Rightarrow> string list \<Rightarrow> ('d world, bool) act" where
  "something_left dk flt =
     bind_act (with_docker (dk_list_containers dk flt)) (\<lambda>cs.
       if cs \<noteq> [] then ret True
       else bind_act (with_docker (dk_list_networks dk flt)) (\<lambda>ns.
         if ns \<noteq> [] then ret True
         else bind_act (with_docker (dk_list_volumes dk flt)) (\<lambda>vs. ret (vs \<noteq> []))))"

fun cleanup_rounds :: "'d docker \<Rightarrow> string list \<Rightarrow> nat \<Rightarrow> ('d world, bool) act" where
  "cleanup_rounds dk flt 0 = ret False"
| "cleanup_rounds dk flt (Suc n) =
     bind_act (with_docker (dk_list_containers dk flt)) (\<lambda>cs.
     then_act (remove_each (dk_remove_container dk) cs)
     (bind_act (with_docker (dk_list_networks dk flt)) (\<lambda>ns.
     then_act (remove_each (dk_remove_network dk) ns)
     (bind_act (with_docker (dk_list_volumes dk flt)) (\<lambda>vs.
     then_act (remove_each (dk_remove_volume dk) vs)
     (bind_act (something_left dk flt) (\<lambda>left.
       if left then cleanup_rounds dk flt n else ret True)))))))"

definition cleanup_by_labels :: "'d docker \<Rightarrow> uuid \<Rightarrow> int \<Rightarrow> ('d world, bool) act" where
  "cleanup_by_labels dk run_id generation =
     catch_act
       (then_act (docker_client dk) (cleanup_rounds dk (run_filter run_id generation) 5))
       (\<lambda>e. if is_repository_input_error e \<or> is_docker_exception e then ret False else raise_act e)"

section \<open>Provisioning\<close>

definition validate_image_id :: "string \<Rightarrow> ('w, unit) act" where
  "validate_image_id image_id =
     (if image_id_valid image_id then ret ()
      else raise_act (sandbox_unavailable
             ''An allowlisted image has no content-addressed image ID''))"

text \<open>
  The files of the artifact tree in the order of \<open>sorted(source.rglob("*"))\<close>; how a tree is listed
  is an argument.
\<close>

definition populate_snapshot ::
    "'d docker \<Rightarrow> ((string \<rightharpoonup> bytes) \<Rightarrow> (string \<times> bytes) list) \<Rightarrow> repo_snapshot \<Rightarrow> string \<Rightarrow>
     string \<Rightarrow> labels \<Rightarrow> ('d world, unit) act" where
  "populate_snapshot dk list_tree snapshot volume image_id labels w =
     (case wd_snapshots w (sn_content_hash snapshot) of
        None \<Rightarrow> (Inl (integrity_failed ''Snapshot tree is unavailable''), w)
      | Some artifact \<Rightarrow>
          then_act (docker_client dk)
            (bind_act (with_docker (dk_create_container dk
                ((plain_container image_id (with_role labels ''snapshot-loader''))
                  \<lparr>cs_entrypoint := [''/bin/sh'', ''-c''], cs_command := [''sleep 30''],
                   cs_user := Some ''0:0'', cs_network_mode := Some ''none'',
                   cs_volumes := [(volume, ''/repository'', ''rw'')]\<rparr>))) (\<lambda>loader.
             finally_act
               (then_act (with_docker (dk_start dk loader))
                 (bind_act (with_docker (dk_put_archive dk loader ''/repository''
                              (list_tree (sa_tree artifact)))) (\<lambda>copied.
                   if copied then ret ()
                   else raise_act (integrity_failed
                          ''Snapshot could not be copied into its volume''))))
               (suppress_act is_docker_exception (with_docker (dk_remove_container dk loader))))) w)"

definition pg_isready :: "string list" where
  "pg_isready = [''pg_isready'', ''-U'', ''shadow'', ''-d'', ''shadow'', ''-h'', ''127.0.0.1'']"

text \<open>
  The readiness loop; the first argument bounds the number of polls (each sleeps a quarter of a
  second, so the time-out is reached first).
\<close>

fun wait_rounds ::
    "nat \<Rightarrow> 'd docker \<Rightarrow> string \<Rightarrow> ('d world, unit) act \<Rightarrow> int \<Rightarrow> ('d world, unit) act" where
  "wait_rounds 0 dk container checkpoint deadline =
     raise_act (AssertionError ''readiness polls'')"
| "wait_rounds (Suc n) dk container checkpoint deadline =
     bind_act monotonic (\<lambda>now.
       if deadline \<le> now
       then raise_act (sandbox_unavailable ''Shadow PostgreSQL readiness timed out'')
       else then_act checkpoint
              (bind_act (with_docker (dk_exec dk container pg_isready)) (\<lambda>exit_code.
                if exit_code = 0 then ret ()
                else wait_rounds n dk container checkpoint deadline)))"

definition wait_ready ::
    "'d docker \<Rightarrow> sandbox_config \<Rightarrow> string \<Rightarrow> ('d world, unit) act \<Rightarrow> ('d world, unit) act" where
  "wait_ready dk cfg container checkpoint =
     bind_act monotonic (\<lambda>start.
       wait_rounds (4 * sc_readiness_timeout cfg + 1) dk container checkpoint
         (start + 1000 * int (sc_readiness_timeout cfg)))"

definition postgres_container :: "string \<Rightarrow> string \<Rightarrow> string \<Rightarrow> string \<Rightarrow> labels \<Rightarrow> container_spec" where
  "postgres_container image_id stem volume password labels =
     (plain_container image_id (with_role labels ''postgres''))
       \<lparr>cs_name := Some (stem @ ''-postgres''),
        cs_environment := [(''POSTGRES_DB'', ''shadow''), (''POSTGRES_USER'', ''shadow''),
                           (''POSTGRES_PASSWORD'', password)],
        cs_hostname := Some ''shadow-postgres'',
        cs_volumes := [(volume, ''/var/lib/postgresql/data'', ''rw'')],
        cs_mem_limit := Some ''384m'', cs_nano_cpus := Some 750000000,
        cs_pids_limit := Some 128\<rparr>"

definition store_environment ::
    "shadow_environment \<Rightarrow> string \<Rightarrow> ('d world, environment_lease) act" where
  "store_environment e password =
     (if shadow_environment_valid e
      then transaction (sandbox_create_or_get_environment e password)
      else raise_act (ValueError ''ShadowEnvironmentV1''))"

text \<open>The body of the \<open>try\<close> of \<open>provision\<close>.\<close>

definition provision_resources ::
    "'d docker \<Rightarrow> ((string \<rightharpoonup> bytes) \<Rightarrow> (string \<times> bytes) list) \<Rightarrow> sandbox_config \<Rightarrow> uuid \<Rightarrow> int \<Rightarrow>
     repo_snapshot \<Rightarrow> time \<Rightarrow> string \<Rightarrow> ('d world, unit) act \<Rightarrow> ('d world, environment_lease) act" where
  "provision_resources dk list_tree cfg run_id generation snapshot now password checkpoint =
     (let lease = now + sc_lease_duration cfg;
          stem = resource_stem run_id generation;
          labels = make_labels run_id generation lease
      in bind_act (with_docker (dk_image_id dk (sc_postgres_image cfg))) (\<lambda>postgres_image.
         bind_act (with_docker (dk_image_id dk (sc_runner_image cfg))) (\<lambda>runner_image.
         then_act (validate_image_id postgres_image)
         (then_act (validate_image_id runner_image)
         (bind_act (with_docker (dk_create_network dk (stem @ ''-network'')
                                  (with_role labels ''network''))) (\<lambda>network.
         bind_act (with_docker (dk_create_volume dk (stem @ ''-pgdata'')
                                  (with_role labels ''postgres-data''))) (\<lambda>data_volume.
         bind_act (with_docker (dk_create_volume dk (stem @ ''-snapshot'')
                                  (with_role labels ''snapshot''))) (\<lambda>snapshot_volume.
         then_act (populate_snapshot dk list_tree snapshot snapshot_volume runner_image labels)
         (then_act checkpoint
         (bind_act (with_docker (dk_create_container dk
              (postgres_container postgres_image stem data_volume password labels))) (\<lambda>postgres.
         then_act (with_docker (dk_connect dk network postgres [''shadow-postgres'']))
         (then_act (with_docker (dk_start dk postgres))
         (then_act (wait_ready dk cfg postgres checkpoint)
         (bind_act fresh_id (\<lambda>environment_id.
            store_environment
              \<lparr>se_id = environment_id, se_run_id = run_id, se_generation = generation,
               se_status = ACTIVE, se_postgres_container_id = postgres, se_network_id = network,
               se_volume_name = data_volume, se_snapshot_volume_name = snapshot_volume,
               se_postgres_image = sc_postgres_image cfg, se_postgres_image_id = postgres_image,
               se_runner_image = sc_runner_image cfg, se_runner_image_id = runner_image,
               se_lease_expires_at = lease, se_created_at = now, se_cleaned_at = None\<rparr>
              password)))))))))))))))"

definition provision ::
    "'d docker \<Rightarrow> ((string \<rightharpoonup> bytes) \<Rightarrow> (string \<times> bytes) list) \<Rightarrow> sandbox_config \<Rightarrow> uuid \<Rightarrow> int \<Rightarrow>
     repo_snapshot \<Rightarrow> ('d world, unit) act \<Rightarrow> ('d world, environment_lease) act" where
  "provision dk list_tree cfg run_id generation snapshot checkpoint =
     bind_act (get_environment run_id generation) (\<lambda>existing.
       case existing of
         Some lease \<Rightarrow>
           if se_status (el_environment lease) \<noteq> ACTIVE
           then raise_act (sandbox_unavailable
                  ''The requested shadow generation was already finalized'')
           else ret lease
       | None \<Rightarrow>
           then_act (docker_client dk)
             (bind_act clock (\<lambda>now.
              bind_act fresh_token (\<lambda>password.
              catch_act
                (provision_resources dk list_tree cfg run_id generation snapshot now password
                   checkpoint)
                (\<lambda>e. if is_repository_input_error e
                     then then_act (cleanup_by_labels dk run_id generation) (raise_act e)
                     else if is_docker_exception e \<or> is_os_error e
                     then then_act (cleanup_by_labels dk run_id generation)
                            (raise_act (sandbox_unavailable
                               ''The fixed shadow environment could not be provisioned''))
                     else raise_act e)))))"

section \<open>Running one action\<close>

text \<open>\<open>request.model_dump_json()\<close>: the fields in the order of the class.\<close>

definition json_member :: "string \<times> string \<Rightarrow> string" where
  "json_member kv = json_string False (fst kv) @ '':'' @ snd kv"

definition request_text :: "runner_request \<Rightarrow> string" where
  "request_text r =
     ''{'' @ join_with '','' (map json_member
       [(''schema_version'', json_string False ''1.0''),
        (''action'', json_string False (action_value (rq_action r))),
        (''revision'', json_string False (rq_revision r)),
        (''baseline_revision'', (case rq_baseline_revision r of None \<Rightarrow> ''null''
                                 | Some b \<Rightarrow> json_string False b)),
        (''database_alias'', json_string False ''shadow-postgres''),
        (''statement_timeout_ms'', dec_int (rq_statement_timeout_ms r)),
        (''output_limit_bytes'', dec_int (rq_output_limit_bytes r))]) @ ''}''"

definition runner_container ::
    "shadow_environment \<Rightarrow> string \<Rightarrow> string \<Rightarrow> string \<Rightarrow> runner_request \<Rightarrow> labels \<Rightarrow> container_spec" where
  "runner_container e name network password request labels =
     (plain_container (se_runner_image_id e) labels)
       \<lparr>cs_name := Some name, cs_user := Some ''10002:10002'', cs_read_only := True,
        cs_cap_drop := [''ALL''], cs_security_opt := [''no-new-privileges:true''],
        cs_network := Some network,
        cs_environment := [(''SHADOWOPS_DB_USER'', ''shadow''), (''SHADOWOPS_DB_PASSWORD'', password),
          (''SHADOWOPS_DB_NAME'', ''shadow''), (''SHADOWOPS_RUNNER_REQUEST'', request_text request)],
        cs_volumes := [(se_snapshot_volume_name e, ''/repository'', ''ro'')],
        cs_tmpfs := [(''/tmp'', ''rw,noexec,nosuid,nodev,size=16m'')],
        cs_mem_limit := Some ''256m'', cs_nano_cpus := Some 500000000, cs_pids_limit := Some 64\<rparr>"

text \<open>\<open>str.splitlines()\<close> and its last element; \<open>None\<close> for no line.\<close>

definition line_break :: "char \<Rightarrow> bool" where
  "line_break c \<longleftrightarrow> (of_char c :: nat) \<in> set [10, 11, 12, 13, 28, 29, 30, 133]"

definition last_line :: "string \<Rightarrow> string option" where
  "last_line s = (if s = [] then None else Some (rev (takeWhile (\<lambda>c. \<not> line_break c) (rev s))))"

text \<open>\<open>json.loads\<close> with \<open>model_validate\<close> is the argument \<open>parse_result\<close>.\<close>

definition redact_artifact :: "string \<Rightarrow> bounded_artifact \<Rightarrow> bounded_artifact" where
  "redact_artifact password item =
     (let text = redact password (ba_text item)
      in \<lparr>ba_byte_count = int (length (encode text)), ba_sha256 = hexdigest (encode text),
          ba_truncated = ba_truncated item, ba_text = text\<rparr>)"

definition redact_result :: "string \<Rightarrow> runner_result \<Rightarrow> runner_result" where
  "redact_result password r =
     r\<lparr>rr_error_detail := (case rr_error_detail r of
          None \<Rightarrow> None
        | Some detail \<Rightarrow> if detail = [] then None else Some (redact password detail)),
       rr_stdout := redact_artifact password (rr_stdout r),
       rr_stderr := redact_artifact password (rr_stderr r)\<rparr>"

definition redacted_result ::
    "(string \<Rightarrow> runner_result option) \<Rightarrow> string \<Rightarrow> string \<Rightarrow> runner_result res" where
  "redacted_result parse_result raw password =
     (case last_line (strip raw) of
        None \<Rightarrow> Inl (IndexError ''list index out of range'')
      | Some line \<Rightarrow>
          (case parse_result line of
             None \<Rightarrow> Inl (ValueError ''RunnerResultV1'')
           | Some result \<Rightarrow> Inr (redact_result password result)))"

text \<open>The \<open>except\<close> clauses of \<open>execute\<close>.\<close>

definition collect_errors :: "('w, 'a) act \<Rightarrow> ('w, 'a) act" where
  "collect_errors m =
     catch_act m (\<lambda>e.
       if is_docker_exception e \<or> is_value_error e
       then raise_act (sandbox_unavailable ''The fixed Runner result could not be collected'')
       else raise_act e)"

definition await_container :: "'d docker \<Rightarrow> sandbox_config \<Rightarrow> string \<Rightarrow> ('d world, int option) act" where
  "await_container dk cfg container =
     catch_act (with_docker (dk_wait dk container (sc_execution_timeout cfg)))
       (\<lambda>e. then_act (with_docker (dk_kill dk container))
              (raise_act (RepositoryInputError ''CHECK_TIMEOUT''
                 ''The fixed Runner exceeded its wall-clock budget'')))"

text \<open>From the start of the container to the execution record.\<close>

definition observe_container ::
    "'d docker \<Rightarrow> (string \<Rightarrow> runner_result option) \<Rightarrow> sandbox_config \<Rightarrow> environment_lease \<Rightarrow> uuid \<Rightarrow>
     int \<Rightarrow> runner_request \<Rightarrow> string \<Rightarrow> ('d world, runner_execution) act" where
  "observe_container dk parse_result cfg lease run_id generation request container =
     then_act (with_docker (dk_start dk container))
     (bind_act (await_container dk cfg container) (\<lambda>status.
      bind_act (with_docker (dk_logs dk container)) (\<lambda>raw.
        if (case status of None \<Rightarrow> 1 | Some code \<Rightarrow> code) \<noteq> 0 \<and> raw = []
        then raise_act (RepositoryInputError ''MIGRATION_FAILED'' ''The fixed Runner exited abnormally'')
        else bind_act (of_res (redacted_result parse_result raw (el_database_password lease))) (\<lambda>result.
             bind_act fresh_id (\<lambda>execution_id.
             bind_act clock (\<lambda>now.
             ret \<lparr>re_id = execution_id, re_environment_id = se_id (el_environment lease),
                  re_run_id = run_id, re_generation = generation, re_request = request,
                  re_result = result, re_created_at = now\<rparr>))))))"

definition run_container ::
    "'d docker \<Rightarrow> (string \<Rightarrow> runner_result option) \<Rightarrow> sandbox_config \<Rightarrow> environment_lease \<Rightarrow> uuid \<Rightarrow>
     int \<Rightarrow> runner_request \<Rightarrow> ('d world, unit) act \<Rightarrow> string \<Rightarrow>
     ('d world, runner_execution) act" where
  "run_container dk parse_result cfg lease run_id generation request checkpoint container =
     bind_act (observe_container dk parse_result cfg lease run_id generation request container)
       (\<lambda>execution. then_act checkpoint (transaction (sandbox_create_or_get_execution execution)))"

definition execution_name :: "uuid \<Rightarrow> int \<Rightarrow> runner_action \<Rightarrow> string" where
  "execution_name run_id generation action =
     resource_stem run_id generation @ ''-'' @ map ascii_lower (action_value action)"

text \<open>An action without a stored execution.\<close>

definition execute_fresh ::
    "'d docker \<Rightarrow> (string \<Rightarrow> runner_result option) \<Rightarrow> sandbox_config \<Rightarrow> environment_lease \<Rightarrow> uuid \<Rightarrow>
     int \<Rightarrow> runner_request \<Rightarrow> ('d world, unit) act \<Rightarrow> ('d world, runner_execution) act" where
  "execute_fresh dk parse_result cfg lease run_id generation request checkpoint =
     (let e = el_environment lease;
          labels = with_role (make_labels run_id generation (se_lease_expires_at e)) ''runner'';
          name = execution_name run_id generation (rq_action request)
      in then_act (docker_client dk)
         (bind_act (collect_errors
            (bind_act (with_docker (dk_network_name dk (se_network_id e))) (\<lambda>network.
               with_docker (dk_create_container dk
                 (runner_container e name network (el_database_password lease) request labels)))))
          (\<lambda>container.
            finally_act
              (collect_errors (run_container dk parse_result cfg lease run_id generation request
                 checkpoint container))
              (suppress_act is_docker_exception (with_docker (dk_remove_container dk container))))))"

definition sandbox_execute ::
    "'d docker \<Rightarrow> (string \<Rightarrow> runner_result option) \<Rightarrow> sandbox_config \<Rightarrow> uuid \<Rightarrow> int \<Rightarrow>
     runner_request \<Rightarrow> ('d world, unit) act \<Rightarrow> ('d world, runner_execution) act" where
  "sandbox_execute dk parse_result cfg run_id generation request checkpoint =
     bind_act (require_active run_id generation) (\<lambda>lease.
     bind_act (read_db (sandbox_get_execution (se_id (el_environment lease)) (rq_action request)))
       (\<lambda>existing.
       case existing of
         Some execution \<Rightarrow> ret execution
       | None \<Rightarrow> execute_fresh dk parse_result cfg lease run_id generation request checkpoint))"

section \<open>Finalizing\<close>

definition mark_environment ::
    "uuid \<Rightarrow> environment_status \<Rightarrow> time option \<Rightarrow> ('d world, bool) act" where
  "mark_environment environment_id status cleaned_at =
     update_db (sandbox_set_environment_status environment_id status cleaned_at)"

definition finalize_run :: "'d docker \<Rightarrow> uuid \<Rightarrow> int \<Rightarrow> ('d world, bool) act" where
  "finalize_run dk run_id generation =
     bind_act (get_environment run_id generation) (\<lambda>found.
       case found of
         None \<Rightarrow> ret True
       | Some lease \<Rightarrow>
           if se_status (el_environment lease) = CLEANED then ret True
           else bind_act (cleanup_by_labels dk run_id generation) (\<lambda>cleaned.
                bind_act clock (\<lambda>now.
                then_act (mark_environment (se_id (el_environment lease))
                            (if cleaned then CLEANED else CLEANUP_FAILED)
                            (if cleaned then Some now else None))
                  (if cleaned then ret True
                   else raise_act (RepositoryInputError ''CLEANUP_FAILED''
                          ''One or more labeled shadow resources could not be removed'')))))"

text \<open>The generation argument of \<open>finalize_run\<close> is 1 unless given.\<close>

definition sweep_pair :: "'d docker \<Rightarrow> uuid \<times> int \<Rightarrow> ('d world, int) act" where
  "sweep_pair dk pair =
     (case pair of (run_id, generation) \<Rightarrow>
        bind_act (cleanup_by_labels dk run_id generation) (\<lambda>cleaned.
          if \<not> cleaned then ret 0
          else bind_act (get_environment run_id generation) (\<lambda>found.
            case found of
              None \<Rightarrow> ret 1
            | Some lease \<Rightarrow>
                bind_act clock (\<lambda>now.
                then_act (mark_environment (se_id (el_environment lease)) CLEANED (Some now))
                  (ret 1)))))"

text \<open>The iteration order of the set of pairs is an argument.\<close>

definition sweep_expired ::
    "'d docker \<Rightarrow> ((uuid \<times> int) list \<Rightarrow> (uuid \<times> int) list) \<Rightarrow> ('d world, int) act" where
  "sweep_expired dk set_order =
     then_act (docker_client dk)
     (bind_act clock (\<lambda>now.
      bind_act (with_docker (dk_list_containers dk managed_filter)) (\<lambda>cs.
      bind_act (with_docker (dk_list_networks dk managed_filter)) (\<lambda>ns.
      bind_act (with_docker (dk_list_volumes dk managed_filter)) (\<lambda>vs.
      bind_act (map_act (sweep_pair dk)
        (set_order (remdups (List.map_filter (expired_pair (epoch_seconds now)) (cs @ ns @ vs)))))
        (\<lambda>counts. ret (sum_list counts)))))))"

end
