(* ===== verification/SandboxFacts.thy ===== *)
theory SandboxFacts
  imports Sandbox
begin

text \<open>
  What the operations of the sandbox keep, and how they end: an order on databases that the result
  repositories follow is kept by every operation, whatever the engine does.
\<close>

section \<open>Orders the result repositories follow\<close>

locale result_order = database_order R for R :: "result_db \<Rightarrow> result_db \<Rightarrow> bool" +
  assumes step_kept: "R db (result_step op db)"
begin

lemma store_kept:
  assumes "\<And>db :: result_db. result_step op db = committed db (f db)"
  shows "keeps (lifted R) (transaction f)"
proof (rule keeps_transaction)
  fix db x db' assume "f db = Inr (x, db')"
  with assms [of db] step_kept [of db op] show "R db db'" by (simp add: committed_def)
qed

lemma stores_kept:
  "keeps (lifted R) (transaction (snapshots_create_or_get s))"
  "keeps (lifted R) (transaction (graphs_create_or_get g))"
  "keeps (lifted R) (transaction (reports_create_or_get r))"
  "keeps (lifted R) (transaction (planning_save_result p))"
  "keeps (lifted R) (transaction (sandbox_create_or_get_environment e pw))"
  "keeps (lifted R) (transaction (sandbox_create_or_get_execution x))"
  by (rule store_kept, rule result_step.simps)+

lemma mark_environment_kept: "keeps (lifted R) (mark_environment i st t)"
  unfolding mark_environment_def
proof (rule keeps_update)
  fix db x and db' :: result_db assume "sandbox_set_environment_status i st t db = (x, db')"
  with step_kept [of db "SetEnvironmentStatus i st t"] show "R db db'" by simp
qed

lemma pair_kept: "keeps (lifted R) (Pair r)"
  by (simp add: keeps_def lifted.R_refl)

lemmas kept = pair_kept stores_kept mark_environment_kept keeps_inputs keeps_reads lifted.keeps_rules

lemma remove_each_kept: "keeps (lifted R) (remove_each remove rs)"
  unfolding remove_each_def by (intro kept)

lemma docker_client_kept: "keeps (lifted R) (docker_client dk)"
proof -
  let ?connect = "catch_act (then_act (with_docker (dk_from_env dk))
      (then_act (\<lambda>w. (Inr (), w\<lparr>wd_client := True\<rparr>)) (with_docker (dk_ping dk))))
    (\<lambda>e. if is_docker_exception e
         then raise_act (sandbox_unavailable ''Docker Engine is unavailable to the trusted Worker'')
         else raise_act e)"
  have "keeps (lifted R) (\<lambda>w. (Inr (), w\<lparr>wd_client := True\<rparr>))" by (rule keeps_same) simp_all
  then have "keeps (lifted R) ?connect" by (auto intro!: kept)
  then show ?thesis
    unfolding keeps_def docker_client_def using lifted.R_refl by auto
qed

lemma something_left_kept: "keeps (lifted R) (something_left dk flt)"
  unfolding something_left_def by (auto intro!: kept)

lemma cleanup_rounds_kept: "keeps (lifted R) (cleanup_rounds dk flt n)"
  by (induction n) (auto intro!: kept remove_each_kept something_left_kept)

lemma cleanup_kept: "keeps (lifted R) (cleanup_by_labels dk run_id generation)"
  unfolding cleanup_by_labels_def by (auto intro!: kept cleanup_rounds_kept docker_client_kept)

lemma get_environment_kept: "keeps (lifted R) (get_environment run_id generation)"
  unfolding get_environment_def by (rule keeps_reads)

lemma require_active_kept: "keeps (lifted R) (require_active run_id generation)"
  unfolding require_active_def by (auto intro!: kept get_environment_kept split: option.split)

lemma finalize_run_kept: "keeps (lifted R) (finalize_run dk run_id generation)"
  unfolding finalize_run_def
  by (auto intro!: kept get_environment_kept cleanup_kept split: option.split)

lemma sweep_kept: "keeps (lifted R) (sweep_expired dk set_order)"
proof -
  have "keeps (lifted R) (sweep_pair dk pair)" for pair
    unfolding sweep_pair_def
    by (auto intro!: kept get_environment_kept cleanup_kept split: option.split prod.split)
  then show ?thesis unfolding sweep_expired_def by (auto intro!: kept docker_client_kept)
qed

lemma wait_ready_kept:
  assumes "keeps (lifted R) checkpoint"
  shows "keeps (lifted R) (wait_ready dk cfg container checkpoint)"
proof -
  have "keeps (lifted R) (wait_rounds n dk container checkpoint deadline)" for n deadline
    by (induction n) (auto intro!: kept assms)
  then show ?thesis unfolding wait_ready_def by (intro kept)
qed

lemma store_environment_kept: "keeps (lifted R) (store_environment e password)"
  unfolding store_environment_def by (auto intro!: kept)

lemma artifact_kept:
  "(\<And>a. keeps (lifted R) (f a)) \<Longrightarrow>
   keeps (lifted R) (\<lambda>w. case wd_snapshots w h of None \<Rightarrow> (Inl e, w) | Some a \<Rightarrow> f a w)"
  using lifted.R_refl by (auto simp: keeps_def split: option.split)

lemma populate_kept: "keeps (lifted R) (populate_snapshot dk list_tree snapshot volume img labels)"
  unfolding populate_snapshot_def
  by (rule artifact_kept) (auto intro!: kept docker_client_kept)

lemma provision_kept:
  assumes "keeps (lifted R) checkpoint"
  shows "keeps (lifted R) (provision dk list_tree cfg run_id generation snapshot checkpoint)"
proof -
  have "keeps (lifted R) (validate_image_id i)" for i
    unfolding validate_image_id_def by (auto intro!: kept)
  then have "keeps (lifted R) (provision_resources dk list_tree cfg run_id generation snapshot now
      password checkpoint)" for now password
    unfolding provision_resources_def Let_def
    by (intro kept assms wait_ready_kept populate_kept store_environment_kept)
  then show ?thesis
    unfolding provision_def
    by (auto intro!: kept get_environment_kept docker_client_kept cleanup_kept split: option.split)
qed

lemma observe_kept: "keeps (lifted R) (observe_container dk parse cfg lease run_id generation request c)"
  unfolding observe_container_def await_container_def by (auto intro!: kept)

lemma execute_fresh_kept:
  assumes "keeps (lifted R) checkpoint"
  shows "keeps (lifted R) (execute_fresh dk parse cfg lease run_id generation request checkpoint)"
  unfolding execute_fresh_def run_container_def collect_errors_def Let_def
  by (auto intro!: kept docker_client_kept observe_kept assms)

lemma execute_kept:
  assumes "keeps (lifted R) checkpoint"
  shows "keeps (lifted R) (sandbox_execute dk parse cfg run_id generation request checkpoint)"
  unfolding sandbox_execute_def
  by (auto intro!: kept require_active_kept execute_fresh_kept assms split: option.split)

end

interpretation results: result_order results_advance
  by (intro result_order.intro result_order_axioms.intro results.database_order_axioms step_advance)

end
