(* ===== verification/SandboxLabels.thy ===== *)
theory SandboxLabels
  imports Sandbox
begin

text \<open>
  The labels the manager writes are the ones the sweeper reads: \<open>str\<close> and \<open>int\<close> of integers,
  \<open>str\<close> and \<open>UUID\<close> of identifiers.
\<close>

section \<open>Texts without white space\<close>

lemma dropWhile_none: "(\<And>x. x \<in> set s \<Longrightarrow> \<not> P x) \<Longrightarrow> dropWhile P s = s"
  by (cases s) auto

lemma strip_clean: "(\<And>c. c \<in> set s \<Longrightarrow> \<not> py_space c) \<Longrightarrow> strip s = s"
  using dropWhile_none [of s py_space] dropWhile_none [of "rev s" py_space] by (simp add: strip_def)

section \<open>Decimal\<close>

definition digit_of :: "char \<Rightarrow> int" where
  "digit_of c = of_char c - 48"

definition is_digit_char :: "char \<Rightarrow> bool" where
  "is_digit_char c \<longleftrightarrow> (of_char c :: int) \<in> {48..57}"

lemma digit_chars:
  assumes "n < 10"
  shows "is_digit_char (''0123456789'' ! n)" "digit_of (''0123456789'' ! n) = int n"
    "\<not> py_space (''0123456789'' ! n)" "''0123456789'' ! n \<noteq> CHR ''-''" "''0123456789'' ! n \<noteq> CHR ''+''"
proof -
  have "list_all (\<lambda>m. let c = ''0123456789'' ! m; i = (of_char c :: int) in
      48 \<le> i \<and> i \<le> 57 \<and> digit_of c = int m \<and> \<not> py_space c \<and> c \<noteq> CHR ''-'' \<and> c \<noteq> CHR ''+'') [0..<10]"
    by code_simp
  then show "is_digit_char (''0123456789'' ! n)" "digit_of (''0123456789'' ! n) = int n"
    "\<not> py_space (''0123456789'' ! n)" "''0123456789'' ! n \<noteq> CHR ''-''" "''0123456789'' ! n \<noteq> CHR ''+''"
    using assms by (simp_all only: list_all_iff set_upt atLeastLessThan_iff Let_def is_digit_char_def) auto
qed

lemma digits_value_append:
  "list_all is_digit_char s \<Longrightarrow>
   digits_value (s @ t) acc b =
     digits_value t (fold (\<lambda>c a. 10 * a + digit_of c) s acc) (b \<or> s \<noteq> [])"
  by (induction s arbitrary: acc b) (simp_all add: is_digit_char_def digit_of_def Let_def)

lemma dec_nat_text:
  "list_all is_digit_char (dec_nat n) \<and> dec_nat n \<noteq> [] \<and>
   fold (\<lambda>c a. 10 * a + digit_of c) (dec_nat n) 0 = int n \<and>
   (\<forall>c \<in> set (dec_nat n). \<not> py_space c \<and> c \<noteq> CHR ''-'' \<and> c \<noteq> CHR ''+'')"
proof (induction n rule: dec_nat.induct)
  case (1 n)
  have step: "dec_nat n = (if n < 10 then [''0123456789'' ! n]
      else dec_nat (n div 10) @ [''0123456789'' ! (n mod 10)])" by (rule dec_nat.simps)
  have q: "int (n div 10) * 10 + int (n mod 10) = int n" by presburger
  show ?case
  proof (cases "n < 10")
    case True
    with digit_chars [OF True] show ?thesis by (simp add: step del: nth_Cons_numeral)
  next
    case False
    with digit_chars [of "n mod 10"] 1 q show ?thesis by (simp add: step)
  qed
qed

lemmas dec_nat_digits = dec_nat_text [THEN conjunct1] dec_nat_text [THEN conjunct2, THEN conjunct1]
  dec_nat_text [THEN conjunct2, THEN conjunct2, THEN conjunct1]
  dec_nat_text [THEN conjunct2, THEN conjunct2, THEN conjunct2, rule_format]

lemma digits_value_dec_nat: "digits_value (dec_nat n) 0 False = Some (int n)"
  using digits_value_append [OF dec_nat_digits(1), of n "[]" 0 False] dec_nat_digits(2,3) by simp

lemma py_int_dec_int: "py_int (dec_int i) = Some i"
proof (cases "i < 0")
  case True
  then have "strip (dec_int i) = CHR ''-'' # dec_nat (nat (- i))"
    using dec_nat_digits(4) by (subst strip_clean) (auto simp: dec_int_def py_space_def)
  with True digits_value_dec_nat show ?thesis by (simp add: py_int_def)
next
  case False
  obtain c cs where c: "dec_nat (nat i) = c # cs" using dec_nat_digits(2) by (cases "dec_nat (nat i)") auto
  then have "c \<noteq> CHR ''-''" "c \<noteq> CHR ''+''" using dec_nat_digits(4) [of c "nat i"] by auto
  moreover from False have "strip (dec_int i) = dec_nat (nat i)"
    using dec_nat_digits(4) by (subst strip_clean) (auto simp: dec_int_def)
  moreover have "digits_value (c # cs) 0 False = Some i"
    using digits_value_dec_nat [of "nat i"] False c by simp
  ultimately show ?thesis unfolding py_int_def by (simp add: c del: digits_value.simps)
qed

section \<open>Hexadecimal\<close>

lemma hex_digit_facts:
  "hex_value (hex_digit n) = Some (int (n mod 16))" "\<not> py_space (hex_digit n)"
  "hex_digit n \<notin> set ''-+xXu{}''"
proof -
  have "list_all (\<lambda>m. let c = ''0123456789abcdef'' ! m in
      hex_value c = Some (int m) \<and> \<not> py_space c \<and> c \<notin> set ''-+xXu{}'') [0..<16]"
    by code_simp
  then have all: "m < 16 \<Longrightarrow> hex_value (''0123456789abcdef'' ! m) = Some (int m) \<and>
      \<not> py_space (''0123456789abcdef'' ! m) \<and> ''0123456789abcdef'' ! m \<notin> set ''-+xXu{}''" for m
    by (simp only: list_all_iff set_upt atLeastLessThan_iff Let_def) auto
  have "n mod 16 < 16" by simp
  from all [OF this] show "hex_value (hex_digit n) = Some (int (n mod 16))"
    "\<not> py_space (hex_digit n)" "hex_digit n \<notin> set ''-+xXu{}''"
    unfolding hex_digit_def by blast+
qed

lemma hex_fixed_clean: "c \<in> set (hex_fixed w n) \<Longrightarrow> \<not> py_space c \<and> c \<notin> set ''-+xXu{}''"
  by (induction w arbitrary: n) (use hex_digit_facts in auto)

lemma hex_digits_append:
  "(\<And>c. c \<in> set s \<Longrightarrow> hex_value c \<noteq> None) \<Longrightarrow>
   hex_digits_value (s @ t) acc b =
     hex_digits_value t (fold (\<lambda>c a. 16 * a + the (hex_value c)) s acc) (b \<or> s \<noteq> [])"
proof (induction s arbitrary: acc b)
  case (Cons c s)
  then obtain d where "hex_value c = Some d" by fastforce
  with Cons show ?case by simp
qed simp

lemma hex_fixed_values:
  "c \<in> set (hex_fixed w n) \<Longrightarrow> hex_value c \<noteq> None"
  "fold (\<lambda>c a. 16 * a + the (hex_value c)) (hex_fixed w n) 0 = int (n mod 16 ^ w)"
proof (induction w arbitrary: n c)
  case (Suc w)
  have q: "16 * int (n div 16 mod 16 ^ w) + int (n mod 16) = int (n mod 16 ^ Suc w)" for n
  proof -
    have "16 * (n div 16 mod 16 ^ w) + n mod 16 = n mod 16 ^ Suc w"
      using mod_mult2_eq [of n 16 "16 ^ w"] by simp
    then show ?thesis by (metis of_nat_add of_nat_mult of_nat_numeral)
  qed
  { case 1 then show ?case using Suc(1) hex_digit_facts(1) by auto
  next case 2 show ?case using Suc(2) [of "n div 16"] q hex_digit_facts(1) [of n] by simp }
qed auto

lemma py_int_16_hex_fixed:
  assumes "2 \<le> w"
  shows "py_int_16 (hex_fixed w n) = Some (int (n mod 16 ^ w))"
proof -
  let ?h = "hex_fixed w n"
  have "length ?h = w" by simp
  with assms obtain a b cs where h: "?h = a # b # cs" by (cases ?h; cases "tl ?h") auto
  have "a \<noteq> CHR ''-''" "a \<noteq> CHR ''+''" "b \<noteq> CHR ''x''" "b \<noteq> CHR ''X''"
    using hex_fixed_clean [of _ w n] unfolding h by auto
  moreover have "strip ?h = ?h" using hex_fixed_clean by (intro strip_clean) blast
  moreover have "hex_digits_value ?h 0 False = Some (int (n mod 16 ^ w))"
  proof -
    have "hex_digits_value (?h @ []) 0 False = Some (fold (\<lambda>c a. 16 * a + the (hex_value c)) ?h 0)"
      by (subst hex_digits_append) (use hex_fixed_values(1) [of _ w n] in blast, use h in simp)
    then show ?thesis by (simp only: append_Nil2 hex_fixed_values(2))
  qed
  ultimately show ?thesis unfolding py_int_16_def hex_unsigned_def h by (simp del: hex_digits_value.simps)
qed

section \<open>Identifiers\<close>

lemma replace_all_absent: "u \<notin> set s \<Longrightarrow> replace_all (u # us) new s = s"
  by (induction "u # us" new s rule: replace_all.induct) (auto simp: starts_with_def)

lemma uuid_str_hex: "filter (\<lambda>c. c \<noteq> CHR ''-'') (uuid_str u) = uuid_hex u"
proof -
  define h where "h = uuid_hex u"
  have clean: "filter (\<lambda>c. c \<noteq> CHR ''-'') t = t" if "set t \<subseteq> set h" for t
    using that hex_fixed_clean unfolding h_def uuid_hex_def by (intro filter_True) auto
  have "set (take n (drop m h)) \<subseteq> set h" "set (drop m h) \<subseteq> set h" "set (take n h) \<subseteq> set h" for n m
    by (meson order.trans set_drop_subset set_take_subset)+
  with clean have "filter (\<lambda>c. c \<noteq> CHR ''-'') (uuid_str u) =
      take 8 h @ take 4 (drop 8 h) @ take 4 (drop 12 h) @ take 4 (drop 16 h) @ drop 20 h"
    by (simp add: uuid_str_def Let_def h_def [symmetric])
  also have "\<dots> = h"
    using append_take_drop_id [of 8 h] append_take_drop_id [of 4 "drop 8 h"]
      append_take_drop_id [of 4 "drop 12 h"] append_take_drop_id [of 4 "drop 16 h"] by simp
  finally show ?thesis by (simp add: h_def)
qed

lemma set_uuid_str: "set (uuid_str u) \<subseteq> insert (CHR ''-'') (set (uuid_hex u))"
  by (auto simp: uuid_str_def Let_def dest: in_set_takeD in_set_dropD)

lemma parse_uuid_str: "parse_uuid (uuid_str u) = Some u"
proof -
  have clean: "c \<in> set (uuid_str u) \<Longrightarrow> c \<noteq> CHR ''u'' \<and> c \<noteq> CHR ''{'' \<and> c \<noteq> CHR ''}''" for c
    using set_uuid_str [of u] hex_fixed_clean unfolding uuid_hex_def by fastforce
  then have r: "replace_all ''urn:'' [] (uuid_str u) = uuid_str u" "replace_all ''uuid:'' [] (uuid_str u) = uuid_str u"
    by (auto intro: replace_all_absent)
  have b: "strip_braces (uuid_str u) = uuid_str u"
  proof -
    let ?brace = "\<lambda>c. c = CHR ''{'' \<or> c = CHR ''}''"
    have "dropWhile ?brace (uuid_str u) = uuid_str u" "dropWhile ?brace (rev (uuid_str u)) = rev (uuid_str u)"
      by (rule dropWhile_none; use clean in auto)+
    then show ?thesis by (simp add: strip_braces_def)
  qed
  have len: "length (uuid_hex u) = 32" by (simp add: uuid_hex_def)
  have "unat u < 2 ^ 128" using unsigned_less [of u, where 'a = nat] by simp
  then have "unat u mod 16 ^ 32 = unat u" by simp
  then have "py_int_16 (uuid_hex u) = Some (int (unat u))"
    unfolding uuid_hex_def by (subst py_int_16_hex_fixed) (simp_all only: numeral_le_iff semiring_norm)
  moreover have "uint u < 2 ^ 128" using unsigned_less [of u, where 'a = int] by simp
  ultimately show ?thesis
    unfolding parse_uuid_def r b uuid_str_hex Let_def len by simp
qed

section \<open>The sweeper\<close>

lemma map_of_make_labels:
  "map_of (with_role (make_labels run_id generation lease) role) lease_label =
     Some (dec_int (epoch_seconds lease))"
  "map_of (with_role (make_labels run_id generation lease) role) run_label = Some (uuid_str run_id)"
  "map_of (with_role (make_labels run_id generation lease) role) generation_label =
     Some (dec_int generation)"
  by (simp_all add: with_role_def map_of_dict_set make_labels_def managed_label_def run_label_def
      generation_label_def lease_label_def role_label_def)

lemma expired_pair_labels:
  assumes "dr_labels r = with_role (make_labels run_id generation lease) role"
  shows "expired_pair now_epoch r =
    (if now_epoch < epoch_seconds lease then None else Some (run_id, generation))"
proof -
  have "with_role (make_labels run_id generation lease) role \<noteq> []"
    by (simp add: with_role_def make_labels_def)
  then have "resource_labels r = Some (with_role (make_labels run_id generation lease) role)"
    using assms by (simp add: resource_labels_def)
  then show ?thesis
    by (simp add: expired_pair_def map_of_make_labels py_int_dec_int parse_uuid_str)
qed

end
