(* ===== verification/SandboxOutcomes.thy ===== *)
theory SandboxOutcomes
  imports SandboxFacts SandboxLabels
begin

text \<open>How the operations of the sandbox end.\<close>

section \<open>Running actions\<close>

lemma read_db_run:
  "read_db f w =
     (let db = wd_others w (wd_transactions w) (wd_db w)
      in (Inr (f db), w\<lparr>wd_db := db, wd_transactions := wd_transactions w + 1\<rparr>))"
  by (simp add: read_db_def transaction_def Let_def)

lemma read_db_eq:
  "read_db f w = (r, w') \<Longrightarrow> r = Inr (f (wd_db w')) \<and> wd_docker w' = wd_docker w"
  by (auto simp: read_db_run Let_def)

lemma update_db_run:
  "update_db f w =
     (let (x, db') = f (wd_others w (wd_transactions w) (wd_db w))
      in (Inr x, w\<lparr>wd_db := db', wd_transactions := wd_transactions w + 1\<rparr>))"
  by (auto simp: update_db_def transaction_def Let_def split: prod.splits)

lemma then_act_cases:
  assumes "then_act m k w = (r, w'')"
  obtains (raised) e where "m w = (Inl e, w'')" "r = Inl e"
  | (continued) x w' where "m w = (Inr x, w')" "k w' = (r, w'')"
  using assms by (auto simp: then_act_def bind_act_def split: prod.splits sum.splits)

lemma bind_act_cases:
  assumes "bind_act m f w = (r, w'')"
  obtains (raised) e where "m w = (Inl e, w'')" "r = Inl e"
  | (continued) x w' where "m w = (Inr x, w')" "f x w' = (r, w'')"
  using assms by (auto simp: bind_act_def split: prod.splits sum.splits)

lemma clock_keeps_db: "clock w = (r, w') \<Longrightarrow> wd_db w' = wd_db w \<and> wd_others w' = wd_others w"
  by (auto simp: clock_def)

section \<open>Cleanup\<close>

text \<open>A clean-up reports success only after three empty listings in a row.\<close>

lemma something_left_none:
  assumes "something_left dk flt w = (Inr False, w')"
  shows "\<exists>d1 d2. dk_list_containers dk flt (wd_docker w) = (Inr [], d1) \<and>
     dk_list_networks dk flt d1 = (Inr [], d2) \<and>
     dk_list_volumes dk flt d2 = (Inr [], wd_docker w')"
proof -
  from assms obtain cs w1 where c: "with_docker (dk_list_containers dk flt) w = (Inr cs, w1)"
    and r1: "(if cs \<noteq> [] then ret True
       else bind_act (with_docker (dk_list_networks dk flt)) (\<lambda>ns.
         if ns \<noteq> [] then ret True
         else bind_act (with_docker (dk_list_volumes dk flt)) (\<lambda>vs. ret (vs \<noteq> [])))) w1 = (Inr False, w')"
    unfolding something_left_def bind_act_Inr by blast
  then have "cs = []" by (auto split: if_splits)
  with r1 obtain ns w2 where n: "with_docker (dk_list_networks dk flt) w1 = (Inr ns, w2)"
    and r2: "(if ns \<noteq> [] then ret True
         else bind_act (with_docker (dk_list_volumes dk flt)) (\<lambda>vs. ret (vs \<noteq> []))) w2 = (Inr False, w')"
    by (auto simp: bind_act_Inr)
  then have "ns = []" by (auto split: if_splits)
  with r2 obtain vs where v: "with_docker (dk_list_volumes dk flt) w2 = (Inr vs, w')" "vs = []"
    by (auto simp: bind_act_Inr)
  from c n v \<open>cs = []\<close> \<open>ns = []\<close> show ?thesis
    by (auto simp: with_docker_def split: prod.splits)
qed

lemma cleanup_rounds_true:
  "cleanup_rounds dk flt n w = (Inr True, w') \<Longrightarrow> \<exists>w0. something_left dk flt w0 = (Inr False, w')"
proof (induction n arbitrary: w)
  case (Suc n)
  then obtain w0 left w1 where left: "something_left dk flt w0 = (Inr left, w1)"
    and rest: "(if left then cleanup_rounds dk flt n else ret True) w1 = (Inr True, w')"
    by (auto simp: bind_act_Inr then_act_Inr)
  show ?case
  proof (cases left)
    case True
    with rest Suc.IH show ?thesis by simp
  next
    case False
    with left rest show ?thesis by auto
  qed
qed simp

lemma cleanup_true:
  assumes "cleanup_by_labels dk run_id generation w = (Inr True, w')"
  shows "\<exists>d0 d1 d2. dk_list_containers dk (run_filter run_id generation) d0 = (Inr [], d1) \<and>
     dk_list_networks dk (run_filter run_id generation) d1 = (Inr [], d2) \<and>
     dk_list_volumes dk (run_filter run_id generation) d2 = (Inr [], wd_docker w')"
proof -
  from assms obtain w1 where "cleanup_rounds dk (run_filter run_id generation) 5 w1 = (Inr True, w')"
    by (auto simp: cleanup_by_labels_def catch_act_def then_act_Inr split: prod.splits sum.splits if_splits)
  from cleanup_rounds_true [OF this] something_left_none show ?thesis by blast
qed

section \<open>Finalizing\<close>

text \<open>A clean-up never raises a repository error: it returns false instead.\<close>

lemma cleanup_error:
  "cleanup_by_labels dk run_id generation w = (Inl e, w') \<Longrightarrow> \<not> is_repository_input_error e"
  by (auto simp: cleanup_by_labels_def catch_act_def split: prod.splits sum.splits if_splits)

lemma get_after_status:
  assumes "sandbox_set_environment_status i st t db = (ok, db')"
  shows "sandbox_get_environment run_id generation db' =
    map_option (\<lambda>l. if se_id (el_environment l) = i
      then l\<lparr>el_environment := (el_environment l)\<lparr>se_status := st, se_cleaned_at := t\<rparr>\<rparr> else l)
    (sandbox_get_environment run_id generation db)"
proof -
  have db': "db' = db\<lparr>shadow_environments := map (\<lambda>l. if se_id (el_environment l) = i
      then l\<lparr>el_environment := (el_environment l)\<lparr>se_status := st, se_cleaned_at := t\<rparr>\<rparr> else l)
      (shadow_environments db)\<rparr>"
    using assms by (auto simp: sandbox_set_environment_status_def update_where_def)
  show ?thesis
    unfolding db' sandbox_get_environment_def
    by simp (rule select_one_map, simp add: environment_key_def)
qed

lemma map_le_Some: "m k = Some v \<Longrightarrow> m \<subseteq>\<^sub>m m' \<Longrightarrow> m' k = Some v"
  by (simp add: map_le_def dom_def)

lemma lease_kept:
  assumes "results_kept db db'" and "sandbox_get_environment run_id generation db = Some l"
  shows "\<exists>l'. sandbox_get_environment run_id generation db' = Some l' \<and> lease_identity l' = lease_identity l"
proof -
  have "lease_view db (run_id, generation) = Some (lease_identity l)"
    using assms(2) by (simp add: sandbox_get_environment_def)
  moreover have "lease_view db \<subseteq>\<^sub>m lease_view db'"
    using assms(1) unfolding results_kept_def by (elim conjE)
  ultimately have "lease_view db' (run_id, generation) = Some (lease_identity l)"
    by (rule map_le_Some)
  then show ?thesis by (auto simp: sandbox_get_environment_def)
qed

lemma lease_identity_id: "lease_identity l' = lease_identity l \<Longrightarrow>
    se_id (el_environment l') = se_id (el_environment l)"
proof -
  assume "lease_identity l' = lease_identity l"
  then have "se_id (el_environment (lease_identity l')) = se_id (el_environment (lease_identity l))" by simp
  then show ?thesis by (simp add: lease_identity_def)
qed

text \<open>Marking an environment that was read earlier sets its status, whatever happened in between.\<close>

lemma mark_after:
  assumes w: "results_wf (wd_db w1)" "follows results_advance w1"
    and l: "sandbox_get_environment run_id generation (wd_db w1) = Some l"
    and w2: "lifted results_advance w1 w2"
    and m: "mark_environment (se_id (el_environment l)) st t w2 = (r, w')"
  shows "\<exists>l'. sandbox_get_environment run_id generation (wd_db w') = Some l' \<and>
    se_status (el_environment l') = st"
proof -
  define db where "db = wd_others w2 (wd_transactions w2) (wd_db w2)"
  have adv: "results_advance (wd_db w1) (wd_db w2)" "wd_others w2 = wd_others w1"
    using w2 w(2) by (simp_all add: lifted_def)
  moreover have "results_advance (wd_db w2) db"
    using w(2) adv(2) by (simp add: follows_def db_def)
  ultimately have "results_kept (wd_db w1) db"
    using w(1) results_kept_trans unfolding results_advance_def by blast
  from lease_kept [OF this l] obtain l2 where
    l2: "sandbox_get_environment run_id generation db = Some l2" "lease_identity l2 = lease_identity l" by blast
  from m obtain ok' where "sandbox_set_environment_status (se_id (el_environment l)) st t db = (ok', wd_db w')"
    by (auto simp: mark_environment_def update_db_run db_def [symmetric] Let_def split: prod.splits)
  from get_after_status [OF this, of run_id generation] l2 lease_identity_id [OF l2(2)]
  show ?thesis by simp
qed

lemma read_wf:
  assumes "results_wf (wd_db w)" and "follows results_advance w" and "read_db f w = (r, w')"
  shows "results_wf (wd_db w') \<and> follows results_advance w'"
proof -
  have "lifted results_advance w w'" using results.keeps_reads(1) assms(3) by (rule keepsD)
  then have "wd_others w' = wd_others w" "results_advance (wd_db w) (wd_db w')"
    using assms(2) unfolding lifted_def by blast+
  then show ?thesis
    using assms(1,2) follows_cong [of w' w results_advance] unfolding results_advance_def by blast
qed

lemma finalize_status:
  assumes w: "results_wf (wd_db w)" "follows results_advance w"
    and fin: "finalize_run dk run_id generation w = (r, w')"
    and r: "\<And>e. r = Inl e \<Longrightarrow> is_repository_input_error e"
    and l: "sandbox_get_environment run_id generation (wd_db w') = Some l"
  shows "se_status (el_environment l) = (case r of Inr _ \<Rightarrow> CLEANED | Inl _ \<Rightarrow> CLEANUP_FAILED)"
  using fin unfolding finalize_run_def
proof (cases rule: bind_act_cases)
  case (raised e)
  then show ?thesis by (auto simp: get_environment_def dest: read_db_eq)
next
  case (continued found w1)
  have found: "found = sandbox_get_environment run_id generation (wd_db w1)"
    using continued(1) by (auto simp: get_environment_def dest: read_db_eq)
  have w1: "results_wf (wd_db w1)" "follows results_advance w1"
    using read_wf [OF w] continued(1) by (auto simp: get_environment_def)
  show ?thesis
  proof (cases found)
    case None
    with continued(2) found l show ?thesis by simp
  next
    case (Some l1)
    show ?thesis
    proof (cases "se_status (el_environment l1) = CLEANED")
      case True
      with continued(2) Some found l show ?thesis by auto
    next
      case False
      with continued(2) Some have "bind_act (cleanup_by_labels dk run_id generation) (\<lambda>cleaned.
          bind_act clock (\<lambda>now.
            then_act (mark_environment (se_id (el_environment l1))
                (if cleaned then CLEANED else CLEANUP_FAILED) (if cleaned then Some now else None))
              (if cleaned then ret True
               else raise_act (RepositoryInputError ''CLEANUP_FAILED''
                 ''One or more labeled shadow resources could not be removed'')))) w1 = (r, w')" by simp
      then show ?thesis
      proof (cases rule: bind_act_cases)
        case (raised e)
        with r cleanup_error show ?thesis by blast
      next
        case (continued cleaned w2)
        have w2: "lifted results_advance w1 w2"
          using results.cleanup_kept continued(1) by (rule keepsD)
        obtain now w3 where w3: "clock w2 = (Inr now, w3)" by (simp add: clock_def)
        then have "lifted results_advance w2 w3"
          using results.keeps_clock by (rule keepsD [rotated])
        with w2 have w13: "lifted results_advance w1 w3" by (rule results.lifted.R_trans)
        obtain r4 w4 where m: "mark_environment (se_id (el_environment l1))
            (if cleaned then CLEANED else CLEANUP_FAILED) (if cleaned then Some now else None) w3 = (r4, w4)"
          by force
        from mark_after [OF w1 _ w13 m] found Some obtain l' where
          l': "sandbox_get_environment run_id generation (wd_db w4) = Some l'"
            "se_status (el_environment l') = (if cleaned then CLEANED else CLEANUP_FAILED)" by blast
        have "r4 = Inr (case r4 of Inr b \<Rightarrow> b | Inl e \<Rightarrow> False)"
          using m by (auto simp: mark_environment_def update_db_run Let_def split: prod.splits)
        with continued(2) w3 m have "w' = w4 \<and> r = (if cleaned then Inr True
            else Inl (RepositoryInputError ''CLEANUP_FAILED''
                 ''One or more labeled shadow resources could not be removed''))"
          by (auto simp: bind_act_def then_act_def split: sum.splits if_splits)
        with l l' show ?thesis by (auto split: if_splits)
      qed
    qed
  qed
qed

section \<open>Execution\<close>

text \<open>An action that has a stored result is not run again.\<close>

lemma lifted_wf:
  assumes "results_wf (wd_db w)" and "follows results_advance w" and "lifted results_advance w w'"
  shows "results_wf (wd_db w') \<and> follows results_advance w' \<and> results_kept (wd_db w) (wd_db w')"
proof -
  have "wd_others w' = wd_others w" "results_advance (wd_db w) (wd_db w')"
    using assms(2,3) unfolding lifted_def by blast+
  then show ?thesis
    using assms(1,2) follows_cong [of w' w results_advance] unfolding results_advance_def by blast
qed

lemma require_active_Inr:
  assumes "require_active run_id generation w = (Inr l, w')"
  shows "sandbox_get_environment run_id generation (wd_db w') = Some l"
  using assms read_db_eq [of "sandbox_get_environment run_id generation" w]
  by (auto simp: require_active_def bind_act_Inr get_environment_def split: option.splits if_splits)

lemma collect_errors_Inr: "collect_errors m w = (Inr x, w') \<Longrightarrow> m w = (Inr x, w')"
  by (auto simp: collect_errors_def catch_act_def split: prod.splits sum.splits if_splits)

lemma finally_act_Inr:
  "finally_act m c w = (Inr x, w') \<Longrightarrow> \<exists>w1 y. m w = (Inr x, w1) \<and> c w1 = (Inr y, w')"
  by (auto simp: finally_act_def split: prod.splits sum.splits)

lemma removed_same_db:
  "suppress_act P (with_docker m) w = (r, w') \<Longrightarrow> wd_db w' = wd_db w"
  by (auto simp: suppress_act_def with_docker_def split: prod.splits sum.splits)

lemma transaction_Inr:
  "transaction f w = (Inr x, w') \<Longrightarrow>
   f (wd_others w (wd_transactions w) (wd_db w)) = Inr (x, wd_db w')"
  by (auto simp: transaction_def Let_def split: sum.splits prod.splits)

lemma observe_Inr:
  assumes "observe_container dk parse cfg lease run_id generation request c w = (Inr x, w')"
  shows "execution_key x = (se_id (el_environment lease), rq_action request) \<and>
    (\<exists>raw. redacted_result parse raw (el_database_password lease) = Inr (re_result x))"
  using assms unfolding observe_container_def
  by (auto simp: then_act_Inr bind_act_Inr execution_key_def split: if_splits)

lemma run_container_Inr:
  assumes run: "run_container dk parse cfg lease run_id generation request checkpoint c w = (Inr x, w')"
    and w: "results_wf (wd_db w)" "follows results_advance w" "keeps (lifted results_advance) checkpoint"
  shows "execution_view (wd_db w') (se_id (el_environment lease), rq_action request) = Some x"
proof -
  from run obtain y w1 u w2 where
    obs: "observe_container dk parse cfg lease run_id generation request c w = (Inr y, w1)"
    and cp: "checkpoint w1 = (Inr u, w2)" and t: "transaction (sandbox_create_or_get_execution y) w2 = (Inr x, w')"
    unfolding run_container_def by (auto simp: bind_act_Inr then_act_Inr)
  have key: "execution_key y = (se_id (el_environment lease), rq_action request)"
    using observe_Inr [OF obs] by blast
  have "lifted results_advance w w2"
    by (rule results.lifted.R_trans [OF keepsD [OF results.observe_kept obs] keepsD [OF w(3) cp]])
  from lifted_wf [OF w(1,2) this] have w2: "results_wf (wd_db w2)" "follows results_advance w2" by blast+
  then have "results_wf (wd_others w2 (wd_transactions w2) (wd_db w2))"
    by (simp add: follows_def results_advance_def)
  from execution_store.stored [OF this transaction_Inr [OF t]] show ?thesis by (simp only: key)
qed

lemma kept_execution:
  "results_kept db db' \<Longrightarrow> execution_view db k = Some x \<Longrightarrow> execution_view db' k = Some x"
  unfolding results_kept_def by (elim conjE) (rule map_le_Some)

lemma execute_fresh_Inr:
  assumes w: "results_wf (wd_db w)" "follows results_advance w" "keeps (lifted results_advance) checkpoint"
    and run: "execute_fresh dk parse cfg lease run_id generation request checkpoint w = (Inr x, w')"
  shows "execution_view (wd_db w') (se_id (el_environment lease), rq_action request) = Some x"
proof -
  let ?create = "bind_act (with_docker (dk_network_name dk (se_network_id (el_environment lease)))) (\<lambda>network.
      with_docker (dk_create_container dk
        (runner_container (el_environment lease) (execution_name run_id generation (rq_action request))
          network (el_database_password lease) request
          (with_role (make_labels run_id generation (se_lease_expires_at (el_environment lease))) ''runner''))))"
  from run obtain u w1 container w2 where client: "docker_client dk w = (Inr u, w1)"
    and create: "collect_errors ?create w1 = (Inr container, w2)"
    and fin: "finally_act
        (collect_errors (run_container dk parse cfg lease run_id generation request checkpoint container))
        (suppress_act is_docker_exception (with_docker (dk_remove_container dk container))) w2 = (Inr x, w')"
    unfolding execute_fresh_def Let_def then_act_Inr bind_act_Inr [of "collect_errors _"]
    by (elim exE conjE) (rule that; assumption)
  have "lifted results_advance w w2"
    by (rule results.lifted.R_trans [OF keepsD [OF results.docker_client_kept client]
          keepsD [OF results.lifted.keeps_bind [OF results.keeps_docker results.keeps_docker]
            collect_errors_Inr [OF create]]])
  note w2 = lifted_wf [OF w(1,2) this]
  from finally_act_Inr [OF fin] obtain w3 y where
    r: "collect_errors (run_container dk parse cfg lease run_id generation request checkpoint container) w2 = (Inr x, w3)"
    and s: "suppress_act is_docker_exception (with_docker (dk_remove_container dk container)) w3 = (Inr y, w')"
    by (elim exE conjE) (rule that; assumption)
  have "execution_view (wd_db w3) (se_id (el_environment lease), rq_action request) = Some x"
    by (rule run_container_Inr [OF collect_errors_Inr [OF r] _ _ w(3)]) (use w2 in simp_all)
  then show ?thesis by (simp only: removed_same_db [OF s])
qed

lemma execute_stored:
  assumes w: "results_wf (wd_db w)" "follows results_advance w" "keeps (lifted results_advance) checkpoint"
    and run: "sandbox_execute dk parse cfg run_id generation request checkpoint w = (Inr x, w')"
  shows "\<exists>l. sandbox_get_environment run_id generation (wd_db w') = Some l \<and>
    execution_view (wd_db w') (se_id (el_environment l), rq_action request) = Some x"
proof -
  from run obtain lease w1 existing w2 where a: "require_active run_id generation w = (Inr lease, w1)"
    and e: "read_db (sandbox_get_execution (se_id (el_environment lease)) (rq_action request)) w1 = (Inr existing, w2)"
    and rest: "(case existing of Some execution \<Rightarrow> ret execution
       | None \<Rightarrow> execute_fresh dk parse cfg lease run_id generation request checkpoint) w2 = (Inr x, w')"
    unfolding sandbox_execute_def bind_act_Inr by blast
  have k1: "lifted results_advance w w1" using results.require_active_kept a by (rule keepsD)
  note wf1 = lifted_wf [OF w(1,2) k1]
  have k2: "lifted results_advance w1 w2" using results.keeps_reads(1) e by (rule keepsD)
  note wf2 = lifted_wf [OF _ _ k2] wf1
  have k3: "lifted results_advance w2 w'"
    using rest keepsD [OF results.execute_fresh_kept [OF w(3)]] results.lifted.R_refl
    by (cases existing) auto
  have "execution_view (wd_db w') (se_id (el_environment lease), rq_action request) = Some x"
  proof (cases existing)
    case None
    with rest have fresh: "execute_fresh dk parse cfg lease run_id generation request checkpoint w2 = (Inr x, w')"
      by simp
    show ?thesis by (rule execute_fresh_Inr [OF _ _ w(3) fresh]) (use wf2 in simp_all)
  next
    case (Some y)
    with rest have "y = x" "w' = w2" by auto
    with read_db_eq [OF e] Some show ?thesis by (simp add: sandbox_get_execution_def)
  qed
  note stored = this
  have "results_kept (wd_db w1) (wd_db w')"
    using lifted_wf [OF _ _ results.lifted.R_trans [OF k2 k3]] wf1 by blast
  from lease_kept [OF this require_active_Inr [OF a]] obtain l' where
    "sandbox_get_environment run_id generation (wd_db w') = Some l'"
    and "lease_identity l' = lease_identity lease" by blast
  moreover from this(2) have "se_id (el_environment l') = se_id (el_environment lease)"
    by (rule lease_identity_id)
  ultimately show ?thesis using stored by (intro exI [of _ l'] conjI) (simp_all only:)
qed

text \<open>A second request for the same action finds the first execution and leaves the engine alone.\<close>

lemma execute_again:
  assumes w: "results_wf (wd_db w)" "follows results_advance w" "keeps (lifted results_advance) checkpoint"
    and run: "sandbox_execute dk parse cfg run_id generation request checkpoint w = (Inr x, w')"
    and again: "rq_action request' = rq_action request"
      "sandbox_execute dk parse cfg run_id generation request' checkpoint' w' = (r, w'')"
  shows "wd_docker w'' = wd_docker w' \<and>
    (r = Inr x \<or> r = Inl (sandbox_unavailable ''No active shadow generation exists''))"
proof -
  have k: "lifted results_advance w w'" using results.execute_kept [OF w(3)] run by (rule keepsD)
  note wf = lifted_wf [OF w(1,2) k]
  from execute_stored [OF w run] obtain l where
    l: "sandbox_get_environment run_id generation (wd_db w') = Some l"
      "execution_view (wd_db w') (se_id (el_environment l), rq_action request) = Some x" by blast
  from again(2) show ?thesis unfolding sandbox_execute_def
  proof (cases rule: bind_act_cases)
    case (raised e)
    then show ?thesis
      using read_db_eq [of "sandbox_get_environment run_id generation" w']
      by (auto simp: require_active_def get_environment_def bind_act_def
          split: prod.splits sum.splits option.splits if_splits)
  next
    case (continued lease w1)
    have d1: "wd_docker w1 = wd_docker w'"
      using continued(1) read_db_eq [of "sandbox_get_environment run_id generation" w']
      by (auto simp: require_active_def get_environment_def bind_act_def
          split: prod.splits sum.splits option.splits if_splits)
    have k1: "lifted results_advance w' w1" using results.require_active_kept continued(1) by (rule keepsD)
    note wf1 = lifted_wf [OF _ _ k1]
    from lease_kept [OF _ l(1)] wf wf1 require_active_Inr [OF continued(1)]
    have id: "se_id (el_environment lease) = se_id (el_environment l)"
      using lease_identity_id by (metis option.inject)
    obtain found w2 where e: "read_db (sandbox_get_execution (se_id (el_environment lease))
        (rq_action request')) w1 = (Inr found, w2)"
      by (simp add: read_db_run Let_def)
    have k2: "lifted results_advance w1 w2" using results.keeps_reads(1) e by (rule keepsD)
    then have "results_kept (wd_db w') (wd_db w2)"
      using lifted_wf [OF _ _ results.lifted.R_trans [OF k1 k2]] wf by blast
    from kept_execution [OF this l(2)] read_db_eq [OF e] have "found = Some x"
      by (simp add: sandbox_get_execution_def id again(1))
    with continued(2) e read_db_eq [OF e] d1 show ?thesis by (simp add: bind_act_def)
  qed
qed

section \<open>Readiness\<close>

text \<open>A checkpoint does not touch the monotonic clock of the loop.\<close>

definition same_polls :: "'d world \<Rightarrow> 'd world \<Rightarrow> bool" where
  "same_polls w w' \<longleftrightarrow> wd_monotonic w' = wd_monotonic w \<and> wd_polls w' = wd_polls w"

interpretation polls: world_order same_polls
  by unfold_locales (simp_all add: same_polls_def)

lemma docker_polls: "keeps same_polls (with_docker m)"
  by (simp add: keeps_def same_polls_def with_docker_def case_prod_beta)

lemma bind_act_cong:
  "m w = m' w \<Longrightarrow> (\<And>x w'. m w = (Inr x, w') \<Longrightarrow> f x w' = g x w') \<Longrightarrow> bind_act m f w = bind_act m' g w"
  by (simp add: bind_act_def split: prod.split sum.split)

lemma wait_rounds_more:
  assumes "keeps same_polls checkpoint"
    and "\<And>i. wd_polls w \<le> i \<Longrightarrow> wd_monotonic w i + 250 \<le> wd_monotonic w (Suc i)"
    and "deadline \<le> wd_monotonic w (wd_polls w) + 250 * int n"
  shows "wait_rounds (Suc n + k) dk container checkpoint deadline w =
    wait_rounds (Suc n) dk container checkpoint deadline w"
  using assms(2,3)
proof (induction n arbitrary: w)
  case 0
  then show ?case by (simp add: bind_act_def monotonic_def)
next
  case (Suc n)
  show ?case
    unfolding add_Suc wait_rounds.simps(2) [of "Suc (n + k)"] wait_rounds.simps(2) [of "Suc n"]
  proof (rule bind_act_cong)
    fix now w1 assume "monotonic w = (Inr now, w1)"
    then have now: "now = wd_monotonic w (wd_polls w)" and
      w1: "wd_monotonic w1 = wd_monotonic w" "wd_polls w1 = Suc (wd_polls w)"
      by (auto simp: monotonic_def)
    have rest: "wait_rounds (Suc (n + k)) dk container checkpoint deadline v =
        wait_rounds (Suc n) dk container checkpoint deadline v"
      if "same_polls w1 v" for v
    proof (rule Suc.IH [unfolded add_Suc])
      show "wd_monotonic v i + 250 \<le> wd_monotonic v (Suc i)" if "wd_polls v \<le> i" for i
        using that \<open>same_polls w1 v\<close> Suc.prems(1) w1 by (simp add: same_polls_def)
      show "deadline \<le> wd_monotonic v (wd_polls v) + 250 * int n"
        using \<open>same_polls w1 v\<close> Suc.prems(1) [of "wd_polls w"] Suc.prems(2) w1
        by (simp add: same_polls_def)
    qed
    have "then_act checkpoint (bind_act (with_docker (dk_exec dk container pg_isready))
        (\<lambda>exit_code. if exit_code = 0 then ret () else wait_rounds (Suc (n + k)) dk container checkpoint deadline)) w1 =
      then_act checkpoint (bind_act (with_docker (dk_exec dk container pg_isready))
        (\<lambda>exit_code. if exit_code = 0 then ret () else wait_rounds (Suc n) dk container checkpoint deadline)) w1"
      unfolding then_act_def
    proof (rule bind_act_cong, rule refl, rule bind_act_cong, rule refl)
      fix u w2 c w3
      assume "checkpoint w1 = (Inr u, w2)" "with_docker (dk_exec dk container pg_isready) w2 = (Inr c, w3)"
      then have "same_polls w1 w3"
        using polls.R_trans keepsD [OF assms(1)] keepsD [OF docker_polls] by blast
      from rest [OF this] show "(if c = 0 then ret () else wait_rounds (Suc (n + k)) dk container checkpoint deadline) w3 =
        (if c = 0 then ret () else wait_rounds (Suc n) dk container checkpoint deadline) w3" by simp
    qed
    then show "(if deadline \<le> now then raise_act (sandbox_unavailable ''Shadow PostgreSQL readiness timed out'')
        else then_act checkpoint (bind_act (with_docker (dk_exec dk container pg_isready))
          (\<lambda>exit_code. if exit_code = 0 then ret () else wait_rounds (Suc (n + k)) dk container checkpoint deadline))) w1 =
      (if deadline \<le> now then raise_act (sandbox_unavailable ''Shadow PostgreSQL readiness timed out'')
        else then_act checkpoint (bind_act (with_docker (dk_exec dk container pg_isready))
          (\<lambda>exit_code. if exit_code = 0 then ret () else wait_rounds (Suc n) dk container checkpoint deadline))) w1"
      by simp
  qed simp
qed

text \<open>
  When the clock of the loop advances by the quarter of a second each poll sleeps, the bound on the
  polls is never what ends the loop.
\<close>

lemma wait_ready_polls:
  assumes "keeps same_polls checkpoint"
    and "wd_monotonic w (wd_polls w) \<le> wd_monotonic w (Suc (wd_polls w))"
    and "\<And>i. wd_polls w < i \<Longrightarrow> wd_monotonic w i + 250 \<le> wd_monotonic w (Suc i)"
  shows "wait_ready dk cfg container checkpoint w =
    bind_act monotonic (\<lambda>start.
       wait_rounds (4 * sc_readiness_timeout cfg + 1 + k) dk container checkpoint
         (start + 1000 * int (sc_readiness_timeout cfg))) w"
  unfolding wait_ready_def
proof (rule bind_act_cong, rule refl)
  fix start w1 assume "monotonic w = (Inr start, w1)"
  then have "start = wd_monotonic w (wd_polls w)" "wd_monotonic w1 = wd_monotonic w"
    "wd_polls w1 = Suc (wd_polls w)" by (auto simp: monotonic_def)
  then show "wait_rounds (4 * sc_readiness_timeout cfg + 1) dk container checkpoint
      (start + 1000 * int (sc_readiness_timeout cfg)) w1 =
    wait_rounds (4 * sc_readiness_timeout cfg + 1 + k) dk container checkpoint
      (start + 1000 * int (sc_readiness_timeout cfg)) w1"
    using wait_rounds_more [OF assms(1), of w1 "start + 1000 * int (sc_readiness_timeout cfg)"
        "4 * sc_readiness_timeout cfg" k dk container] assms(2,3)
    by (simp add: less_eq_Suc_le)
qed


text \<open>The errors of the wait.\<close>

definition wait_error :: "'d docker \<Rightarrow> string \<Rightarrow> ('d world, unit) act \<Rightarrow> exn \<Rightarrow> bool" where
  "wait_error dk container checkpoint e \<longleftrightarrow>
     e = sandbox_unavailable ''Shadow PostgreSQL readiness timed out'' \<or>
     (\<exists>v v'. checkpoint v = (Inl e, v')) \<or> (\<exists>d d'. dk_exec dk container pg_isready d = (Inl e, d'))"

lemma with_docker_Inl: "with_docker m w = (Inl e, w') \<Longrightarrow> \<exists>d d'. m d = (Inl e, d')"
  by (auto simp: with_docker_def split: prod.splits)

lemma wait_rounds_error:
  assumes "keeps same_polls checkpoint"
    and "\<And>i. wd_polls w \<le> i \<Longrightarrow> wd_monotonic w i + 250 \<le> wd_monotonic w (Suc i)"
    and "deadline \<le> wd_monotonic w (wd_polls w) + 250 * int n"
    and "wait_rounds (Suc n) dk container checkpoint deadline w = (Inl e, w')"
  shows "wait_error dk container checkpoint e"
  using assms(2-)
proof (induction n arbitrary: w)
  case 0
  then show ?case by (auto simp: bind_act_def monotonic_def wait_error_def)
next
  case (Suc n)
  define w1 where "w1 = w\<lparr>wd_polls := wd_polls w + 1\<rparr>"
  from Suc.prems(3) consider "wait_error dk container checkpoint e"
    | c w2 u w3 where "checkpoint w1 = (Inr u, w2)" "with_docker (dk_exec dk container pg_isready) w2 = (Inr c, w3)"
        "wait_rounds (Suc n) dk container checkpoint deadline w3 = (Inl e, w')"
    unfolding wait_rounds.simps(2) [of "Suc n"] bind_act_Inl
    by (auto simp: monotonic_def w1_def then_act_Inl bind_act_Inl wait_error_def dest!: with_docker_Inl
        split: if_splits)
  then show ?case
  proof cases
    case (2 c w2 u w3)
    have same: "same_polls w1 w3"
      using polls.R_trans keepsD [OF assms(1) 2(1)] keepsD [OF docker_polls 2(2)] by blast
    show ?thesis
    proof (rule Suc.IH [OF _ _ 2(3)])
      show "wd_monotonic w3 i + 250 \<le> wd_monotonic w3 (Suc i)" if "wd_polls w3 \<le> i" for i
        using that same Suc.prems(1) by (simp add: same_polls_def w1_def)
      show "deadline \<le> wd_monotonic w3 (wd_polls w3) + 250 * int n"
        using same Suc.prems(1) [of "wd_polls w"] Suc.prems(2) by (simp add: same_polls_def w1_def)
    qed
  qed
qed

lemma wait_ready_error:
  assumes "keeps same_polls checkpoint"
    and "wd_monotonic w (wd_polls w) \<le> wd_monotonic w (Suc (wd_polls w))"
    and "\<And>i. wd_polls w < i \<Longrightarrow> wd_monotonic w i + 250 \<le> wd_monotonic w (Suc i)"
    and "wait_ready dk cfg container checkpoint w = (Inl e, w')"
  shows "wait_error dk container checkpoint e"
proof -
  let ?w1 = "w\<lparr>wd_polls := wd_polls w + 1\<rparr>"
  let ?deadline = "wd_monotonic w (wd_polls w) + 1000 * int (sc_readiness_timeout cfg)"
  have "wait_rounds (Suc (4 * sc_readiness_timeout cfg)) dk container checkpoint ?deadline ?w1 = (Inl e, w')"
    using assms(4) by (simp add: wait_ready_def bind_act_def [of monotonic] monotonic_def)
  with assms(2,3) show ?thesis
    by (intro wait_rounds_error [OF assms(1), of ?w1 ?deadline]) (simp_all add: less_eq_Suc_le)
qed

text \<open>A database that never answers is not ready.\<close>

lemma wait_rounds_not_ready:
  assumes "\<And>d. dk_exec dk container pg_isready d = (Inr 1, d)"
  shows "wait_rounds n dk container checkpoint deadline w \<noteq> (Inr (), w')"
proof (induction n arbitrary: w)
  case (Suc n)
  then show ?case
    using assms by (auto simp: bind_act_Inr then_act_Inr with_docker_def split: if_splits)
qed simp

lemma wait_ready_not_ready:
  assumes "\<And>d. dk_exec dk container pg_isready d = (Inr 1, d)"
  shows "wait_ready dk cfg container checkpoint w \<noteq> (Inr (), w')"
  unfolding wait_ready_def bind_act_Inr using wait_rounds_not_ready [OF assms] by blast

end
