(* ===== verification/Evidence.thy ===== *)
theory Evidence
  imports SandboxOutcomes
begin

text \<open>
  \<open>evidence/store.py\<close> and \<open>evidence/collector.py\<close>: the content-addressed artifact directory and
  the collection of the stored runner results into evidence items.
\<close>

section \<open>LocalArtifactStore\<close>

record evidence_artifact =
  ea_uri :: string
  ea_sha256 :: string
  ea_byte_count :: int

definition artifact_ref :: "bytes \<Rightarrow> evidence_artifact" where
  "artifact_ref data =
     \<lparr>ea_uri = ''artifact://sha256/'' @ hexdigest data, ea_sha256 = hexdigest data,
      ea_byte_count = int (length data)\<rparr>"

definition max_artifact_bytes :: int where
  "max_artifact_bytes = 1048576"

text \<open>The outcome \<open>WrittenNotSynced\<close>: the file is in place, the \<open>fsync\<close> of its directory fails.\<close>

definition artifact_put :: "bytes \<Rightarrow> ('d world, evidence_artifact) act" where
  "artifact_put data w =
     (if max_artifact_bytes < int (length data)
      then (Inl (ValueError ''artifact exceeds the fixed store budget''), w)
      else let digest = hexdigest data
           in case wd_evidence w digest of
                Some existing \<Rightarrow>
                  (if hexdigest existing \<noteq> digest
                   then Inl (RuntimeError ''content-addressed artifact is corrupt'')
                   else Inr (artifact_ref data), w)
              | None \<Rightarrow>
                  let w' = w\<lparr>wd_writes := wd_writes w + 1\<rparr>;
                      stored = w'\<lparr>wd_evidence := (wd_evidence w)(digest \<mapsto> data)\<rparr>
                  in (case wd_disk w (wd_writes w) of
                        WriteFailed \<Rightarrow> (Inl (OSError ''write''), w')
                      | Written \<Rightarrow> (Inr (artifact_ref data), stored)
                      | WrittenNotSynced \<Rightarrow> (Inl (OSError ''fsync''), stored)))"

definition put_text :: "string \<Rightarrow> ('d world, evidence_artifact) act" where
  "put_text value = artifact_put (encode value)"

definition put_json :: "json \<Rightarrow> ('d world, evidence_artifact) act" where
  "put_json value = artifact_put (canonical_json value)"

section \<open>DynamicEvidenceCollector\<close>

definition make_item ::
    "uuid \<Rightarrow> uuid \<Rightarrow> evidence_kind \<Rightarrow> string \<Rightarrow> media_type \<Rightarrow> observation_scope \<Rightarrow>
     redaction_status \<Rightarrow> evidence_artifact \<Rightarrow> ('d world, evidence_item) act" where
  "make_item run_id execution_id kind producer media scope redaction artifact =
     bind_act fresh_id (\<lambda>item_id.
     bind_act clock (\<lambda>now.
       let item = \<lparr>ev_id = item_id, ev_run_id = run_id, ev_execution_id = execution_id,
             ev_kind = kind, ev_producer = producer, ev_observation_scope = scope,
             ev_artifact_uri = ea_uri artifact, ev_sha256 = ea_sha256 artifact,
             ev_byte_count = ea_byte_count artifact, ev_media_type = media,
             ev_redaction_status = redaction, ev_created_at = now\<rparr>
       in if evidence_item_valid item then ret item
          else raise_act (ValueError ''EvidenceItemV1'')))"

definition execution_producer :: "runner_execution \<Rightarrow> string" where
  "execution_producer x =
     ''runner.'' @ map ascii_lower (action_value (rq_action (re_request x))) @ ''.v1''"

text \<open>One captured stream, when it is not empty.\<close>

definition stream_items ::
    "uuid \<Rightarrow> runner_execution \<Rightarrow> evidence_kind \<Rightarrow> bounded_artifact \<Rightarrow>
     ('d world, evidence_item list) act" where
  "stream_items run_id x kind stream =
     (if ba_text stream = [] then ret []
      else bind_act (put_text (ba_text stream)) (\<lambda>artifact.
           bind_act (make_item run_id (re_id x) kind (execution_producer x) TextPlain
             ObservedInShadow Redacted artifact) (\<lambda>item. ret [item])))"

definition observation_item ::
    "uuid \<Rightarrow> runner_execution \<Rightarrow> runner_observation \<Rightarrow> ('d world, evidence_item) act" where
  "observation_item run_id x obs =
     bind_act (put_json (JObj (ro_data obs)))
       (make_item run_id (re_id x) (ObservationEvidence (ro_kind obs)) (execution_producer x)
          ApplicationJson ObservedInShadow RedactionNotRequired)"

definition gap_items :: "uuid \<Rightarrow> runner_execution \<Rightarrow> ('d world, evidence_item list) act" where
  "gap_items run_id x =
     (let gaps = rr_coverage_gaps (re_result x)
      in if gaps = [] then ret []
         else bind_act (put_json (JObj [(''coverage_gaps'', strings_json gaps)])) (\<lambda>artifact.
              bind_act (make_item run_id (re_id x) COVERAGE_GAPS (execution_producer x)
                ApplicationJson UnknownInProduction RedactionNotRequired artifact)
                (\<lambda>item. ret [item])))"

definition execution_items ::
    "uuid \<Rightarrow> runner_execution \<Rightarrow> ('d world, evidence_item list) act" where
  "execution_items run_id x =
     bind_act (stream_items run_id x RUNNER_STDOUT (rr_stdout (re_result x))) (\<lambda>out.
     bind_act (stream_items run_id x RUNNER_STDERR (rr_stderr (re_result x))) (\<lambda>err.
     bind_act (map_act (observation_item run_id x) (rr_observations (re_result x))) (\<lambda>obs.
     bind_act (gap_items run_id x) (\<lambda>gaps. ret (out @ err @ obs @ gaps)))))"

fun store_items :: "evidence_item list \<Rightarrow> result_db \<Rightarrow> (evidence_item list \<times> result_db) res" where
  "store_items [] db = Inr ([], db)"
| "store_items (item # items) db =
     bind_res (evidence_create_or_get item db) (\<lambda>(durable, db1).
     bind_res (store_items items db1) (\<lambda>(rest, db2). Inr (durable # rest, db2)))"

text \<open>The executions of the environment, read in one unit of work.\<close>

definition executions_of :: "uuid \<Rightarrow> int \<Rightarrow> result_db \<Rightarrow> runner_execution list res" where
  "executions_of run_id generation db =
     (case sandbox_get_environment run_id generation db of
        None \<Rightarrow> Inl (RuntimeError ''dynamic evidence requires a persisted shadow environment'')
      | Some lease \<Rightarrow> Inr (sandbox_list_executions (se_id (el_environment lease)) db))"

definition collect_evidence :: "uuid \<Rightarrow> int \<Rightarrow> ('d world, evidence_item list) act" where
  "collect_evidence run_id generation =
     bind_act (query_db (executions_of run_id generation)) (\<lambda>executions.
     bind_act (map_act (execution_items run_id) executions) (\<lambda>candidates.
       transaction (store_items (concat candidates))))"

section \<open>The directory\<close>

definition artifacts_ok :: "(string \<rightharpoonup> bytes) \<Rightarrow> bool" where
  "artifacts_ok m \<longleftrightarrow> (\<forall>h data. m h = Some data \<longrightarrow> hexdigest data = h)"

definition artifacts_grow :: "'d world \<Rightarrow> 'd world \<Rightarrow> bool" where
  "artifacts_grow w w' \<longleftrightarrow>
     wd_evidence w \<subseteq>\<^sub>m wd_evidence w' \<and> (artifacts_ok (wd_evidence w) \<longrightarrow> artifacts_ok (wd_evidence w'))"

interpretation artifacts: world_order artifacts_grow
  by unfold_locales (auto simp: artifacts_grow_def intro: map_le_trans)

lemma same_artifacts: "wd_evidence w' = wd_evidence w \<Longrightarrow> artifacts_grow w w'"
  by (simp add: artifacts_grow_def)

lemma artifacts_inputs:
  "keeps artifacts_grow clock" "keeps artifacts_grow fresh_id" "keeps artifacts_grow (with_docker m)"
  "keeps artifacts_grow (transaction f)" "keeps artifacts_grow (query_db g)"
  by (auto intro!: keepsI same_artifacts simp: clock_def fresh_id_def with_docker_def transaction_def
      query_db_def Let_def split: prod.splits sum.splits)

text \<open>What is stored under a digest has that digest, and a stored artifact is never replaced.\<close>

lemma put_grows: "keeps artifacts_grow (artifact_put data)"
proof (rule keepsI)
  fix w r w' assume "artifact_put data w = (r, w')"
  then show "artifacts_grow w w'"
    by (auto simp: artifact_put_def Let_def artifacts_grow_def artifacts_ok_def map_le_def
        split: if_splits option.splits write_outcome.splits)
qed

lemma put_stored:
  assumes "artifact_put data w = (Inr a, w')"
  shows "a = artifact_ref data \<and> int (length data) \<le> max_artifact_bytes \<and>
    (\<exists>d. wd_evidence w' (hexdigest data) = Some d \<and> hexdigest d = hexdigest data)"
  using assms
  by (auto simp: artifact_put_def Let_def split: if_splits option.splits write_outcome.splits)

definition item_stored :: "(string \<rightharpoonup> bytes) \<Rightarrow> evidence_item \<Rightarrow> bool" where
  "item_stored m e \<longleftrightarrow> (\<exists>d. m (ev_sha256 e) = Some d \<and> hexdigest d = ev_sha256 e)"

lemma item_stored_grows:
  "artifacts_grow w w' \<Longrightarrow> item_stored (wd_evidence w) e \<Longrightarrow> item_stored (wd_evidence w') e"
  by (auto simp: item_stored_def artifacts_grow_def intro: map_le_Some)

lemma items_stored_grows:
  "artifacts_grow w w' \<Longrightarrow> list_all (item_stored (wd_evidence w)) es \<Longrightarrow>
   list_all (item_stored (wd_evidence w')) es"
  by (induction es) (simp_all add: item_stored_grows)

lemma make_item_grows: "keeps artifacts_grow (make_item r x k p m s d a)"
  unfolding make_item_def Let_def
  by (auto intro!: artifacts.keeps_rules artifacts_inputs simp del: ret_run raise_run)

lemma make_item_stored:
  "make_item r x k p m s d a w = (Inr e, w') \<Longrightarrow> ev_sha256 e = ea_sha256 a"
  by (auto simp: make_item_def bind_act_Inr Let_def split: if_splits)

lemma put_then_item:
  assumes "artifact_put data w = (Inr a, w1)" and "make_item r x k p m s d a w1 = (Inr e, w')"
  shows "item_stored (wd_evidence w') e"
proof -
  have "item_stored (wd_evidence w1) e"
    using put_stored [OF assms(1)] make_item_stored [OF assms(2)]
    by (simp add: item_stored_def artifact_ref_def)
  then show ?thesis using item_stored_grows keepsD [OF make_item_grows assms(2)] by blast
qed

lemmas grow_rules = artifacts.keeps_rules artifacts_inputs put_grows make_item_grows

lemma stream_items_stored:
  "keeps artifacts_grow (stream_items run_id x kind stream)"
  "stream_items run_id x kind stream w = (Inr items, w') \<Longrightarrow> e \<in> set items \<Longrightarrow> item_stored (wd_evidence w') e"
  unfolding stream_items_def put_text_def
   apply (auto intro!: grow_rules simp del: ret_run)[1]
  by (auto simp: bind_act_Inr split: if_splits intro: put_then_item)

lemma observation_item_stored:
  "keeps artifacts_grow (observation_item run_id x obs)"
  "observation_item run_id x obs w = (Inr e, w') \<Longrightarrow> item_stored (wd_evidence w') e"
  unfolding observation_item_def put_json_def
  by (intro grow_rules) (auto simp: bind_act_Inr intro: put_then_item)

lemma gap_items_stored:
  "keeps artifacts_grow (gap_items run_id x)"
  "gap_items run_id x w = (Inr items, w') \<Longrightarrow> e \<in> set items \<Longrightarrow> item_stored (wd_evidence w') e"
  unfolding gap_items_def put_json_def Let_def
   apply (auto intro!: grow_rules simp del: ret_run)[1]
  by (auto simp: bind_act_Inr split: if_splits intro: put_then_item)

lemma map_items_stored:
  fixes f :: "'a \<Rightarrow> ('d world, 'b) act"
  assumes grow: "\<And>x. keeps artifacts_grow (f x)"
    and stored: "\<And>x w y w'. f x w = (Inr y, w') \<Longrightarrow> ok (wd_evidence w') y"
    and mono: "\<And>(w :: 'd world) w' y. artifacts_grow w w' \<Longrightarrow> ok (wd_evidence w) y \<Longrightarrow> ok (wd_evidence w') y"
  shows "map_act f xs w = (Inr ys, w') \<Longrightarrow> y \<in> set ys \<Longrightarrow> ok (wd_evidence w') y"
proof (induction xs arbitrary: w ys)
  case (Cons x xs)
  then obtain z w1 zs where z: "f x w = (Inr z, w1)" and zs: "map_act f xs w1 = (Inr zs, w')"
    and ys: "ys = z # zs" by (auto simp: bind_act_Inr)
  have "artifacts_grow w1 w'" by (rule keepsD [OF artifacts.keeps_map zs]) (rule grow)
  then have "ok (wd_evidence w') z" using mono stored [OF z] by blast
  with Cons.IH [OF zs] Cons.prems(2) ys show ?case by auto
qed simp

lemma execution_items_stored:
  "keeps artifacts_grow (execution_items run_id x)"
  "execution_items run_id x w = (Inr items, w') \<Longrightarrow> list_all (item_stored (wd_evidence w')) items"
proof -
  show "keeps artifacts_grow (execution_items run_id x)"
    unfolding execution_items_def
    by (intro grow_rules stream_items_stored(1) observation_item_stored(1) gap_items_stored(1))
  assume "execution_items run_id x w = (Inr items, w')"
  then obtain a w1 b w2 c w3 d where
    a: "stream_items run_id x RUNNER_STDOUT (rr_stdout (re_result x)) w = (Inr a, w1)"
    and b: "stream_items run_id x RUNNER_STDERR (rr_stderr (re_result x)) w1 = (Inr b, w2)"
    and c: "map_act (observation_item run_id x) (rr_observations (re_result x)) w2 = (Inr c, w3)"
    and d: "gap_items run_id x w3 = (Inr d, w')" and items: "items = a @ b @ c @ d"
    unfolding execution_items_def by (auto simp: bind_act_Inr)
  have g: "artifacts_grow w3 w'" "artifacts_grow w2 w3" "artifacts_grow w1 w2"
    using keepsD [OF gap_items_stored(1) d] keepsD [OF artifacts.keeps_map c]
      keepsD [OF stream_items_stored(1) b] observation_item_stored(1) by blast+
  have "item_stored (wd_evidence w3) e" if "e \<in> set c" for e
    by (rule map_items_stored [OF _ _ _ c that])
      (use observation_item_stored item_stored_grows in blast)+
  with stream_items_stored(2) [OF a] stream_items_stored(2) [OF b] gap_items_stored(2) [OF d] g
  show "list_all (item_stored (wd_evidence w')) items"
    unfolding items list_all_iff by (metis Un_iff artifacts.R_trans item_stored_grows set_append)
qed

lemma store_items_same:
  "store_items items db = Inr (durable, db') \<Longrightarrow> map ev_sha256 durable = map ev_sha256 items"
proof (induction items arbitrary: db durable)
  case (Cons e items)
  then obtain q db1 qs where q: "evidence_create_or_get e db = Inr (q, db1)"
    and qs: "store_items items db1 = Inr (qs, db')" and d: "durable = q # qs"
    by (auto simp: bind_res_Inr)
  from q have "evidence_core q = evidence_core e" unfolding evidence_create_Inr by blast
  then have "ev_sha256 (evidence_core q) = ev_sha256 (evidence_core e)" by simp
  then have "ev_sha256 q = ev_sha256 e" by (simp add: evidence_core_def)
  with Cons.IH [OF qs] d show ?case by simp
qed simp

text \<open>Every item that \<open>collect\<close> returns is backed by a file with its digest.\<close>

lemma collect_stored:
  assumes "collect_evidence run_id generation w = (Inr items, w')" and "e \<in> set items"
  shows "item_stored (wd_evidence w') e"
proof -
  from assms(1) obtain xs w1 candidates w2 where
    c: "map_act (execution_items run_id) xs w1 = (Inr candidates, w2)"
    and t: "transaction (store_items (concat candidates)) w2 = (Inr items, w')"
    unfolding collect_evidence_def bind_act_Inr by blast
  have all: "list_all (item_stored (wd_evidence w2)) y" if "y \<in> set candidates" for y
    by (rule map_items_stored [where ok = "\<lambda>m. list_all (item_stored m)",
          OF execution_items_stored items_stored_grows c that])
  have "map ev_sha256 items = map ev_sha256 (concat candidates)"
    using store_items_same [OF transaction_Inr [OF t]] .
  with assms(2) obtain y where "y \<in> set (concat candidates)" "ev_sha256 y = ev_sha256 e"
    by (metis image_iff list.set_map)
  moreover from this(1) all have "item_stored (wd_evidence w2) y" by (auto simp: list_all_iff)
  ultimately have "item_stored (wd_evidence w2) e" by (simp add: item_stored_def)
  then show ?thesis using item_stored_grows keepsD [OF artifacts_inputs(4) t] by blast
qed

end
