(* ===== verification/Stages.thy ===== *)
theory Stages
  imports Evidence StaticAudit
begin

text \<open>
  The stage handlers of \<open>application/discovery.py\<close>, \<open>static_analysis.py\<close>, \<open>planning.py\<close> and
  \<open>dynamic_audit.py\<close> with the services \<open>worker/runtime.py\<close> gives them.  A checkpoint is the
  action the worker passes in.
\<close>

section \<open>Services on the world\<close>

text \<open>
  An object with an identifier and a creation time, which are drawn when everything else is known.
\<close>

definition stamped :: "(uuid \<Rightarrow> time \<Rightarrow> 'a res) \<Rightarrow> ('d world, 'a) act" where
  "stamped f w =
     (case f (wd_ids w (wd_drawn w)) (wd_clock w (wd_readings w)) of
        Inl e \<Rightarrow> (Inl e, w)
      | Inr x \<Rightarrow> (Inr x, w\<lparr>wd_drawn := wd_drawn w + 1, wd_readings := wd_readings w + 1\<rparr>))"

text \<open>What the process reads of the artifact directory for a snapshot that was looked up.\<close>

definition absent_artifact :: stored_artifact where
  "absent_artifact =
     \<lparr>sa_manifest = None, sa_tree = Map.empty, sa_is_dir = False, sa_manifest_stat = None,
      sa_stats = Map.empty\<rparr>"

definition artifact_for :: "artifact_store \<Rightarrow> repo_snapshot option \<Rightarrow> stored_artifact" where
  "artifact_for store found =
     (case found of
        None \<Rightarrow> absent_artifact
      | Some s \<Rightarrow> (case store (sn_content_hash s) of None \<Rightarrow> absent_artifact | Some a \<Rightarrow> a))"

text \<open>
  What the services of a worker are built from: the settings, the parsers of the libraries, and the
  views of the repository that a snapshot takes.
\<close>

record stage_config =
  sg_parse_module :: "string \<Rightarrow> parse_result"
  sg_config_get :: "string \<Rightarrow> string option"
  sg_parse_manifest :: "bytes \<Rightarrow> manifest_file list option"
  sg_limits :: snapshot_limits
  sg_root_path :: string
  sg_root :: "fs_entry option"
  sg_view_selected :: repo_view
  sg_view_copied :: repo_view
  sg_view_verified :: repo_view
  sg_rename :: rename_outcome
  sg_isotime :: "time \<Rightarrow> string"
  sg_provider :: "nat \<Rightarrow> planner_request \<Rightarrow> string res"
  sg_parse_plan :: "string \<Rightarrow> parsed_output"
  sg_planner :: planner_config
  sg_durations :: "int \<Rightarrow> int"
  sg_max_revision_bytes :: int
  sg_sandbox :: sandbox_config
  sg_list_tree :: "(string \<rightharpoonup> bytes) \<Rightarrow> (string \<times> bytes) list"
  sg_parse_result :: "string \<Rightarrow> runner_result option"

text \<open>
  \<open>SnapshotService.create\<close>: \<open>snapshot_create\<close> with the outcome of the checkpoint, which is run
  only when the first selection succeeded.
\<close>

definition reaches_checkpoint :: "stage_config \<Rightarrow> snapshot_request \<Rightarrow> bool" where
  "reaches_checkpoint cfg request =
     (case resolve_repository (sg_root cfg) (sr_repository_path request) of
        Inl e \<Rightarrow> False
      | Inr relative \<Rightarrow>
          (case git_select (rv_git (sg_view_selected cfg)) (sg_root_path cfg @ ''/'' @ as_posix relative)
                  (sl_max_file_bytes (sg_limits cfg)) (rv_hashes (sg_view_selected cfg))
                  (sr_diff_mode request) (sr_base_ref request) (sr_head_ref request) of
             Inl e \<Rightarrow> False
           | Inr selection \<Rightarrow> True))"

definition create_snapshot ::
    "stage_config \<Rightarrow> snapshot_request \<Rightarrow> unit res \<Rightarrow> uuid \<Rightarrow> time \<Rightarrow> artifact_store \<Rightarrow>
     repo_snapshot res \<times> artifact_store" where
  "create_snapshot cfg request checkpoint snapshot_id now =
     snapshot_create (sg_parse_manifest cfg) (sg_limits cfg) (sg_root_path cfg) (sg_root cfg)
       (sg_view_selected cfg) (sg_view_copied cfg) (sg_view_verified cfg) checkpoint
       (sg_rename cfg) snapshot_id now request"

definition finish_snapshot ::
    "stage_config \<Rightarrow> snapshot_request \<Rightarrow> unit res \<Rightarrow> ('d world, repo_snapshot) act" where
  "finish_snapshot cfg request checkpoint w =
     (case create_snapshot cfg request checkpoint (wd_ids w (wd_drawn w))
             (wd_clock w (wd_readings w)) (wd_snapshots w) of
        (Inl e, store) \<Rightarrow> (Inl e, w\<lparr>wd_snapshots := store\<rparr>)
      | (Inr s, store) \<Rightarrow>
          (Inr s, w\<lparr>wd_snapshots := store, wd_drawn := wd_drawn w + 1,
                   wd_readings := wd_readings w + 1\<rparr>))"

definition snapshot_service ::
    "stage_config \<Rightarrow> snapshot_request \<Rightarrow> ('d world, unit) act \<Rightarrow> ('d world, repo_snapshot) act" where
  "snapshot_service cfg request checkpoint w =
     (if reaches_checkpoint cfg request
      then (case checkpoint w of (outcome, w') \<Rightarrow> finish_snapshot cfg request outcome w')
      else finish_snapshot cfg request (Inr ()) w)"

text \<open>\<open>AlembicDiscoveryService.discover\<close>\<close>

definition discovery_service :: "stage_config \<Rightarrow> uuid \<Rightarrow> ('d world, revision_graph) act" where
  "discovery_service cfg snapshot_id =
     bind_act (read_db (snapshots_get snapshot_id)) (\<lambda>found w.
       stamped (discover (sg_parse_module cfg) (sg_config_get cfg) (sg_parse_manifest cfg) found
                  (snapshot_artifact.truncate (artifact_for (wd_snapshots w) found))) w)"

text \<open>
  \<open>StaticAuditService.analyze\<close>: the reader looks the same immutable snapshot up again for each
  file.
\<close>

definition analysis_service :: "stage_config \<Rightarrow> uuid \<Rightarrow> uuid \<Rightarrow> ('d world, static_report) act" where
  "analysis_service cfg run_id snapshot_id =
     bind_act (read_db (snapshots_get snapshot_id)) (\<lambda>snapshot.
     bind_act (query_db (graphs_get_for_run run_id)) (\<lambda>graph w.
       stamped (\<lambda>report_id now.
         analyze (sg_parse_module cfg) (sg_parse_manifest cfg) (sl_max_file_bytes (sg_limits cfg))
           snapshot graph (artifact_for (wd_snapshots w) snapshot) report_id now run_id snapshot_id) w))"

text \<open>The gateway over the stored results.\<close>

definition gateway_context :: "stage_config \<Rightarrow> artifact_store \<Rightarrow> result_db \<Rightarrow> agent_context" where
  "gateway_context cfg store db =
     \<lparr>ac_graph = graph_view db,
      ac_snapshot = (\<lambda>r. snapshots_get_for_run r db),
      ac_report = (\<lambda>r. reports_get_for_run r db),
      ac_lookup = (\<lambda>i. snapshots_get i db),
      ac_artifact = (\<lambda>i. artifact_for store (snapshots_get i db)),
      ac_parse_manifest = sg_parse_manifest cfg,
      ac_max_revision_bytes = sg_max_revision_bytes cfg\<rparr>"

definition planning_service :: "stage_config \<Rightarrow> uuid \<Rightarrow> ('d world, planning_result) act" where
  "planning_service cfg run_id w =
     query_db (\<lambda>db. planner_plan
         (gateway_call (sg_isotime cfg) (gateway_context cfg (wd_snapshots w) db))
         (sg_provider cfg) (sg_parse_plan cfg) (sg_planner cfg) (sg_durations cfg) run_id) w"

section \<open>Discovery\<close>

definition noop_stage :: "('d world, unit) act \<Rightarrow> ('d world, unit) act" where
  "noop_stage checkpoint = checkpoint"

text \<open>\<open>SnapshotRequestV1.model_validate\<close> of the columns of the run.\<close>

definition run_snapshot_request :: "audit_run \<Rightarrow> snapshot_request res" where
  "run_snapshot_request run =
     (case find (\<lambda>m. diff_mode_value m = ar_diff_mode run) [WORKING_TREE, RANGE] of
        None \<Rightarrow> Inl (ValueError ''SnapshotRequestV1'')
      | Some mode \<Rightarrow>
          Inr \<lparr>sr_run_id = ar_id run, sr_repository_path = ar_repository_path run,
               sr_diff_mode = mode, sr_base_ref = ar_base_ref run, sr_head_ref = ar_head_ref run\<rparr>)"

definition ensure_snapshot ::
    "stage_config \<Rightarrow> audit_run \<Rightarrow> ('d world, unit) act \<Rightarrow> ('d world, repo_snapshot) act" where
  "ensure_snapshot cfg run checkpoint =
     bind_act (read_db (snapshots_get_for_run (ar_id run))) (\<lambda>existing.
       case existing of
         Some snapshot \<Rightarrow> ret snapshot
       | None \<Rightarrow>
           bind_act (of_res (run_snapshot_request run)) (\<lambda>request.
           bind_act (snapshot_service cfg request checkpoint) (\<lambda>candidate.
             transaction (snapshots_create_or_get candidate))))"

definition discovery_stage ::
    "stage_config \<Rightarrow> audit_run \<Rightarrow> ('d world, unit) act \<Rightarrow> ('d world, unit) act" where
  "discovery_stage cfg run checkpoint =
     bind_act (ensure_snapshot cfg run checkpoint) (\<lambda>snapshot.
     then_act checkpoint
     (bind_act (query_db (graphs_get_for_run (ar_id run))) (\<lambda>existing.
       if existing \<noteq> None then ret ()
       else bind_act (discovery_service cfg (sn_id snapshot)) (\<lambda>graph.
            then_act checkpoint
              (then_act (transaction (graphs_create_or_get graph)) (ret ()))))))"

section \<open>Static analysis\<close>

text \<open>The unit of work of the handler: \<open>None\<close> when the report exists.\<close>

definition analysis_inputs :: "uuid \<Rightarrow> result_db \<Rightarrow> repo_snapshot option option" where
  "analysis_inputs run_id db =
     (if reports_get_for_run run_id db \<noteq> None then None
      else Some (snapshots_get_for_run run_id db))"

definition static_analysis_stage ::
    "stage_config \<Rightarrow> audit_run \<Rightarrow> ('d world, unit) act \<Rightarrow> ('d world, unit) act" where
  "static_analysis_stage cfg run checkpoint =
     bind_act (read_db (analysis_inputs (ar_id run))) (\<lambda>inputs.
       case inputs of
         None \<Rightarrow> ret ()
       | Some None \<Rightarrow> raise_act (integrity_failed ''Static analysis snapshot was not found'')
       | Some (Some snapshot) \<Rightarrow>
           bind_act (analysis_service cfg (ar_id run) (sn_id snapshot)) (\<lambda>report.
           then_act checkpoint
             (then_act (transaction (reports_create_or_get report)) (ret ()))))"

section \<open>Planning\<close>

definition planning_stage ::
    "stage_config \<Rightarrow> audit_run \<Rightarrow> ('d world, unit) act \<Rightarrow> ('d world, unit) act" where
  "planning_stage cfg run checkpoint =
     bind_act (read_db (plans_get_for_run (ar_id run))) (\<lambda>existing.
       if existing \<noteq> None then ret ()
       else bind_act (planning_service cfg (ar_id run)) (\<lambda>result.
            then_act checkpoint
              (then_act (transaction (planning_save_result result))
                (if pr_plan result = None
                 then raise_act (RepositoryInputError ''PLAN_INVALID''
                        ''Agent plan failed validation after repair'')
                 else ret ()))))"

section \<open>Dynamic audit\<close>

definition unsupported_repository :: "string \<Rightarrow> exn" where
  "unsupported_repository detail = RepositoryInputError ''UNSUPPORTED_REPOSITORY'' detail"

definition provision_inputs ::
    "uuid \<Rightarrow> result_db \<Rightarrow> (repo_snapshot option \<times> revision_graph option) res" where
  "provision_inputs run_id db =
     bind_res (graphs_get_for_run run_id db) (\<lambda>graph. Inr (snapshots_get_for_run run_id db, graph))"

definition provision_stage ::
    "'d docker \<Rightarrow> stage_config \<Rightarrow> audit_run \<Rightarrow> ('d world, unit) act \<Rightarrow> ('d world, unit) act" where
  "provision_stage dk cfg run checkpoint =
     bind_act (query_db (provision_inputs (ar_id run))) (\<lambda>inputs.
       let unsupported = raise_act (unsupported_repository
             ''Dynamic audit requires a supported immutable revision graph'')
       in case inputs of
            (Some snapshot, Some graph) \<Rightarrow>
              if \<not> rg_supported graph then unsupported
              else if rg_target_chain graph = []
              then raise_act (unsupported_repository
                     ''Dynamic audit requires baseline and target revisions'')
              else on_error
                     (then_act (provision dk (sg_list_tree cfg) (sg_sandbox cfg) (ar_id run) 1
                                  snapshot checkpoint)
                        checkpoint)
                     (finalize_run dk (ar_id run) 1)
          | _ \<Rightarrow> unsupported)"

text \<open>\<open>value or default\<close> for an optional string.\<close>

definition text_or :: "string option \<Rightarrow> string \<Rightarrow> string" where
  "text_or v d = (case v of None \<Rightarrow> d | Some s \<Rightarrow> if s = [] then d else s)"

text \<open>
  The five handlers that run one action differ in the request, in the message of a missing graph
  and in the default code and detail of a failure.
\<close>

record action_stage =
  as_unavailable :: string
  as_request :: "revision_graph \<Rightarrow> runner_request"
  as_failed_code :: string
  as_failed_detail :: string

definition runner_stage ::
    "action_stage \<Rightarrow> 'd docker \<Rightarrow> stage_config \<Rightarrow> audit_run \<Rightarrow> ('d world, unit) act \<Rightarrow>
     ('d world, unit) act" where
  "runner_stage stage dk cfg run checkpoint =
     bind_act (query_db (graphs_get_for_run (ar_id run))) (\<lambda>found.
       let unavailable = raise_act (unsupported_repository (as_unavailable stage))
       in case found of
            None \<Rightarrow> unavailable
          | Some graph \<Rightarrow>
              if rg_target_chain graph = [] then unavailable
              else on_error
                (bind_act (of_res (make_request (as_request stage graph))) (\<lambda>request.
                 bind_act (sandbox_execute dk (sg_parse_result cfg) (sg_sandbox cfg) (ar_id run) 1
                             request checkpoint) (\<lambda>execution.
                   let result = re_result execution
                   in if rr_status result = RunnerFailed
                      then raise_act (RepositoryInputError
                             (text_or (rr_error_code result) (as_failed_code stage))
                             (text_or (rr_error_detail result) (as_failed_detail stage)))
                      else ret ())))
                (finalize_run dk (ar_id run) 1))"

definition action_request :: "runner_action \<Rightarrow> string \<Rightarrow> string option \<Rightarrow> runner_request" where
  "action_request action revision baseline =
     \<lparr>rq_action = action, rq_revision = revision, rq_baseline_revision = baseline,
      rq_statement_timeout_ms = 30000, rq_output_limit_bytes = 65536\<rparr>"

definition baseline_of :: "revision_graph \<Rightarrow> string" where
  "baseline_of graph = text_or (rg_baseline_revision graph) ''base''"

definition target_of :: "revision_graph \<Rightarrow> string" where
  "target_of graph = last (rg_target_chain graph)"

definition baseline_upgrade_stage :: action_stage where
  "baseline_upgrade_stage =
     \<lparr>as_unavailable = ''Baseline revision is unavailable'',
      as_request = (\<lambda>g. action_request UPGRADE_BASELINE_ACTION (baseline_of g) None),
      as_failed_code = ''MIGRATION_FAILED'', as_failed_detail = ''Baseline migration failed''\<rparr>"

definition apply_target_stage :: action_stage where
  "apply_target_stage =
     \<lparr>as_unavailable = ''Target revision is unavailable'',
      as_request = (\<lambda>g. action_request APPLY_TARGET (target_of g) None),
      as_failed_code = ''MIGRATION_FAILED'', as_failed_detail = ''Target migration failed''\<rparr>"

definition seed_data_stage :: action_stage where
  "seed_data_stage =
     \<lparr>as_unavailable = ''Target revision is unavailable'',
      as_request = (\<lambda>g. action_request LOAD_TEST_DATA_ACTION (target_of g) (Some (baseline_of g))),
      as_failed_code = ''SEED_FAILED'', as_failed_detail = ''Deterministic seed failed''\<rparr>"

definition smoke_checks_stage :: action_stage where
  "smoke_checks_stage =
     \<lparr>as_unavailable = ''Target revision is unavailable'',
      as_request = (\<lambda>g. action_request RUN_SMOKE_CHECKS_ACTION (target_of g) None),
      as_failed_code = ''SMOKE_CHECK_FAILED'', as_failed_detail = ''Smoke checks failed''\<rparr>"

definition rollback_roundtrip_stage :: action_stage where
  "rollback_roundtrip_stage =
     \<lparr>as_unavailable = ''Target revision is unavailable'',
      as_request = (\<lambda>g. action_request VERIFY_ROLLBACK_ROUNDTRIP_ACTION (target_of g)
                         (Some (baseline_of g))),
      as_failed_code = ''ROLLBACK_FAILED'', as_failed_detail = ''Rollback roundtrip failed''\<rparr>"

definition collect_evidence_stage ::
    "'d docker \<Rightarrow> audit_run \<Rightarrow> ('d world, unit) act \<Rightarrow> ('d world, unit) act" where
  "collect_evidence_stage dk run checkpoint =
     finally_act
       (then_act checkpoint
         (catch_act (then_act (collect_evidence (ar_id run) 1) (ret ()))
           (\<lambda>e. raise_act (RepositoryInputError ''EVIDENCE_COLLECTION_FAILED''
                  ''Dynamic evidence could not be committed to the artifact store''))))
       (finalize_run dk (ar_id run) 1)"

section \<open>The handler table of the worker\<close>

definition stage_handler ::
    "'d docker \<Rightarrow> stage_config \<Rightarrow> run_state \<Rightarrow> audit_run \<Rightarrow> ('d world, unit) act \<Rightarrow>
     ('d world, unit) act" where
  "stage_handler dk cfg state run checkpoint =
     (if state = DISCOVERING then discovery_stage cfg run checkpoint
      else if state = STATIC_ANALYSIS then static_analysis_stage cfg run checkpoint
      else if state = PLANNING then planning_stage cfg run checkpoint
      else if state = PROVISIONING then provision_stage dk cfg run checkpoint
      else if state = BASELINE_READY then runner_stage baseline_upgrade_stage dk cfg run checkpoint
      else if state = APPLYING then runner_stage apply_target_stage dk cfg run checkpoint
      else if state = SEEDING then runner_stage seed_data_stage dk cfg run checkpoint
      else if state = SMOKE_TESTING then runner_stage smoke_checks_stage dk cfg run checkpoint
      else if state = ROLLBACK_VERIFYING
      then runner_stage rollback_roundtrip_stage dk cfg run checkpoint
      else if state = REPORTING then collect_evidence_stage dk run checkpoint
      else noop_stage checkpoint)"

section \<open>Orders the stages keep\<close>

context result_order
begin

lemma stamped_kept: "keeps (lifted R) (stamped f)"
  by (rule keepsI) (auto simp: stamped_def lifted_def R_refl split: sum.splits)

lemma world_kept:
  "(\<And>w. keeps (lifted R) (f w)) \<Longrightarrow> keeps (lifted R) (\<lambda>w. f w w)"
  unfolding keeps_def by blast

lemma store_items_kept: "store_items items db = Inr (durable, db') \<Longrightarrow> R db db'"
proof (induction items arbitrary: db durable)
  case (Cons e items)
  then obtain q db1 qs where "evidence_create_or_get e db = Inr (q, db1)"
    and rest: "store_items items db1 = Inr (qs, db')" by (auto simp: bind_res_Inr)
  then have "db1 = result_step (StoreEvidence e) db" by (simp add: committed_def)
  with step_kept Cons.IH [OF rest] show ?case using R_trans by blast
qed (simp add: R_refl)

lemma put_kept: "keeps (lifted R) (artifact_put data)"
  by (rule keepsI)
    (auto simp: artifact_put_def Let_def lifted_def R_refl split: if_splits option.splits write_outcome.splits)

lemma make_item_kept: "keeps (lifted R) (make_item r x k p m s d a)"
  unfolding make_item_def Let_def by (auto intro!: kept)

lemma collect_kept: "keeps (lifted R) (collect_evidence run_id generation)"
proof -
  have "keeps (lifted R) (stream_items run_id x k s)" for x k s
    unfolding stream_items_def put_text_def by (auto intro!: kept put_kept make_item_kept)
  moreover have "keeps (lifted R) (observation_item run_id x obs)" for x obs
    unfolding observation_item_def put_json_def by (intro kept put_kept make_item_kept)
  moreover have "keeps (lifted R) (gap_items run_id x)" for x
    unfolding gap_items_def put_json_def Let_def by (auto intro!: kept put_kept make_item_kept)
  ultimately have "keeps (lifted R) (execution_items run_id x)" for x
    unfolding execution_items_def by (intro kept)
  moreover have "keeps (lifted R) (transaction (store_items items))" for items
    by (rule keeps_transaction) (rule store_items_kept)
  ultimately show ?thesis unfolding collect_evidence_def by (intro kept)
qed

lemma finish_snapshot_kept: "keeps (lifted R) (finish_snapshot cfg request outcome)"
  by (rule keepsI) (auto simp: finish_snapshot_def lifted_def R_refl split: prod.splits sum.splits)

lemma snapshot_service_kept:
  assumes "keeps (lifted R) checkpoint"
  shows "keeps (lifted R) (snapshot_service cfg request checkpoint)"
proof (rule keepsI)
  fix w r w' assume run: "snapshot_service cfg request checkpoint w = (r, w')"
  show "lifted R w w'"
  proof (cases "reaches_checkpoint cfg request")
    case True
    obtain outcome w1 where c: "checkpoint w = (outcome, w1)" by force
    with run True have "finish_snapshot cfg request outcome w1 = (r, w')"
      by (simp add: snapshot_service_def)
    then show ?thesis
      using keepsD [OF assms c] keepsD [OF finish_snapshot_kept] lifted.R_trans by blast
  next
    case False
    with run have "finish_snapshot cfg request (Inr ()) w = (r, w')" by (simp add: snapshot_service_def)
    then show ?thesis by (rule keepsD [OF finish_snapshot_kept])
  qed
qed

lemma discovery_service_kept: "keeps (lifted R) (discovery_service cfg s)"
  unfolding discovery_service_def by (rule lifted.keeps_bind, rule keeps_reads, rule world_kept, rule stamped_kept)

lemma analysis_service_kept: "keeps (lifted R) (analysis_service cfg r s)"
  unfolding analysis_service_def
  by (rule lifted.keeps_bind, rule keeps_reads, rule lifted.keeps_bind, rule keeps_reads,
      rule world_kept, rule stamped_kept)

lemma planning_service_kept: "keeps (lifted R) (planning_service cfg r)"
  unfolding planning_service_def by (rule world_kept, rule keeps_reads)

lemmas services_kept = discovery_service_kept analysis_service_kept planning_service_kept

lemma discovery_kept:
  assumes "keeps (lifted R) checkpoint"
  shows "keeps (lifted R) (discovery_stage cfg run checkpoint)"
  unfolding discovery_stage_def ensure_snapshot_def
  by (auto intro!: kept assms snapshot_service_kept services_kept split: option.split)

lemma analysis_kept:
  assumes "keeps (lifted R) checkpoint"
  shows "keeps (lifted R) (static_analysis_stage cfg run checkpoint)"
  unfolding static_analysis_stage_def
  by (auto intro!: kept assms services_kept split: option.split)

lemma planning_kept:
  assumes "keeps (lifted R) checkpoint"
  shows "keeps (lifted R) (planning_stage cfg run checkpoint)"
  unfolding planning_stage_def by (auto intro!: kept assms services_kept)

lemma provision_stage_kept:
  assumes "keeps (lifted R) checkpoint"
  shows "keeps (lifted R) (provision_stage dk cfg run checkpoint)"
  unfolding provision_stage_def Let_def
  by (auto intro!: kept assms provision_kept finalize_run_kept split: option.split prod.split)

lemma runner_stage_kept:
  assumes "keeps (lifted R) checkpoint"
  shows "keeps (lifted R) (runner_stage stage dk cfg run checkpoint)"
  unfolding runner_stage_def Let_def
  by (auto intro!: kept assms execute_kept finalize_run_kept split: option.split)

lemma collect_stage_kept:
  assumes "keeps (lifted R) checkpoint"
  shows "keeps (lifted R) (collect_evidence_stage dk run checkpoint)"
  unfolding collect_evidence_stage_def by (intro kept assms collect_kept finalize_run_kept)

lemma stage_kept:
  assumes "keeps (lifted R) checkpoint"
  shows "keeps (lifted R) (stage_handler dk cfg state run checkpoint)"
  unfolding stage_handler_def noop_stage_def
  by (simp add: assms discovery_kept analysis_kept planning_kept provision_stage_kept
      runner_stage_kept collect_stage_kept)

end

end
