(* ===== verification/Worker.thy ===== *)
theory Worker
  imports Stages RunExecution
begin

text \<open>
  \<open>worker/tasks.py\<close>: one delivery of an event.  The use cases of \<open>RunExecutionService\<close> run as
  transactions on the world, the stage as the handler of the claimed state.
\<close>

section \<open>RunExecutionService on the world\<close>

text \<open>\<open>lease_duration = timedelta(seconds=30)\<close>\<close>

definition claim_lease :: int where
  "claim_lease = 30000000"

text \<open>The two identifiers of a candidate are drawn before the unit of work.\<close>

definition service_claim :: "uuid \<Rightarrow> string \<Rightarrow> ('d world, run_step option) act" where
  "service_claim event_id worker_id =
     bind_act clock (\<lambda>now.
     bind_act fresh_id (\<lambda>step_id.
     bind_act fresh_id (\<lambda>token.
       transaction (exec_claim event_id worker_id now claim_lease step_id token))))"

definition service_heartbeat :: "run_step \<Rightarrow> ('d world, bool) act" where
  "service_heartbeat claim =
     (if rs_claim_token claim = None then ret False
      else bind_act clock (\<lambda>now. update_db (exec_heartbeat claim now claim_lease)))"

definition service_run :: "run_step \<Rightarrow> ('d world, audit_run) act" where
  "service_run claim = query_db (get_run_for_claim claim)"

definition service_finalize :: "run_step \<Rightarrow> ('d world, audit_run) act" where
  "service_finalize claim =
     (if rs_claim_token claim = None then raise_act (ClaimLostError (rs_id claim))
      else bind_act clock (\<lambda>now.
           bind_act fresh_id (\<lambda>event_id. transaction (exec_finalize claim now event_id))))"

definition service_fail :: "run_step \<Rightarrow> string \<Rightarrow> string \<Rightarrow> ('d world, audit_run) act" where
  "service_fail claim error_code error_detail =
     (if rs_claim_token claim = None then raise_act (ClaimLostError (rs_id claim))
      else bind_act clock (\<lambda>now. transaction (exec_fail claim error_code error_detail now)))"

section \<open>The task\<close>

datatype task_result =
    Ignored
  | Completed uuid run_state int
  | TaskFailed uuid run_state int string

definition completed_task :: "audit_run \<Rightarrow> task_result" where
  "completed_task run = Completed (ar_id run) (ar_state run) (ar_version run)"

definition dynamic_evidence_states :: "run_state set" where
  "dynamic_evidence_states = {APPLYING, SEEDING, SMOKE_TESTING, ROLLBACK_VERIFYING, REPORTING}"

definition task_checkpoint :: "run_step \<Rightarrow> ('d world, unit) act" where
  "task_checkpoint claim =
     bind_act (service_heartbeat claim) (\<lambda>renewed.
       if \<not> renewed then raise_act (ClaimLostError (rs_id claim))
       else bind_act (service_run claim) (\<lambda>run.
         if ar_cancel_requested_at run \<noteq> None then raise_act RunCancellationRequested
         else ret ()))"

text \<open>The body of the \<open>try\<close>.\<close>

definition task_body :: "'d docker \<Rightarrow> stage_config \<Rightarrow> run_step \<Rightarrow> ('d world, audit_run) act" where
  "task_body dk cfg claim =
     bind_act (service_run claim) (\<lambda>run.
     then_act
       (if ar_cancel_requested_at run = None
        then then_act (stage_handler dk cfg (rs_to_state claim) run (task_checkpoint claim))
               (task_checkpoint claim)
        else then_act (finalize_run dk (ar_id run) 1) (ret ()))
       (service_finalize claim))"

definition salvage_evidence :: "run_step \<Rightarrow> ('d world, unit) act" where
  "salvage_evidence claim =
     when_act (rs_to_state claim \<in> dynamic_evidence_states)
       (suppress_act (\<lambda>e. True) (collect_evidence (rs_run_id claim) 1))"

text \<open>\<open>except ClaimLostError: return {"status": "ignored"}\<close>\<close>

definition unless_lost :: "('w, task_result) act \<Rightarrow> ('w, task_result) act" where
  "unless_lost m = catch_act m (\<lambda>e. if is_claim_lost e then ret Ignored else raise_act e)"

definition fail_task :: "run_step \<Rightarrow> exn \<Rightarrow> ('d world, task_result) act" where
  "fail_task claim e =
     (let code = (case exn_code e of None \<Rightarrow> [] | Some c \<Rightarrow> c)
      in then_act (salvage_evidence claim)
           (unless_lost (bind_act (service_fail claim code (exn_detail e)) (\<lambda>run.
              ret (TaskFailed (ar_id run) (ar_state run) (ar_version run) code)))))"

definition process_claim :: "'d docker \<Rightarrow> stage_config \<Rightarrow> run_step \<Rightarrow> ('d world, task_result) act" where
  "process_claim dk cfg claim =
     catch_act (bind_act (task_body dk cfg claim) (\<lambda>run. ret (completed_task run)))
       (\<lambda>e. if e = RunCancellationRequested
            then then_act (salvage_evidence claim)
                   (unless_lost (bind_act (service_finalize claim) (\<lambda>run. ret (completed_task run))))
            else if is_repository_input_error e then fail_task claim e
            else if is_claim_lost e then ret Ignored
            else raise_act e)"

definition process_run_event ::
    "'d docker \<Rightarrow> stage_config \<Rightarrow> string \<Rightarrow> string \<Rightarrow> ('d world, task_result) act" where
  "process_run_event dk cfg event_id worker_id =
     (case parse_uuid event_id of
        None \<Rightarrow> raise_act (ValueError ''badly formed hexadecimal UUID string'')
      | Some parsed \<Rightarrow>
          bind_act (service_claim parsed worker_id) (\<lambda>claimed.
            case claimed of
              None \<Rightarrow> ret Ignored
            | Some claim \<Rightarrow>
                bind_act (service_heartbeat claim) (\<lambda>renewed.
                  if \<not> renewed then ret Ignored else process_claim dk cfg claim)))"

section \<open>Orders the task keeps\<close>

text \<open>An order that the result repositories and the use cases of one claim follow.\<close>

locale claim_order = result_order +
  fixes claim :: run_step
  assumes heartbeat_kept: "exec_heartbeat claim now lease db = (ok, db') \<Longrightarrow> R db db'"
    and finalize_kept: "exec_finalize claim now event_id db = Inr (run, db') \<Longrightarrow> R db db'"
    and fail_kept: "exec_fail claim code detail now db = Inr (run, db') \<Longrightarrow> R db db'"
begin

lemma service_heartbeat_kept: "keeps (lifted R) (service_heartbeat claim)"
  unfolding service_heartbeat_def
  by (auto intro!: kept keeps_update intro: heartbeat_kept)

lemma service_run_kept: "keeps (lifted R) (service_run claim)"
  unfolding service_run_def by (rule keeps_reads)

lemma service_finalize_kept: "keeps (lifted R) (service_finalize claim)"
  unfolding service_finalize_def
  by (auto intro!: kept keeps_transaction intro: finalize_kept)

lemma service_fail_kept: "keeps (lifted R) (service_fail claim code detail)"
  unfolding service_fail_def
  by (auto intro!: kept keeps_transaction intro: fail_kept)

lemma checkpoint_kept: "keeps (lifted R) (task_checkpoint claim)"
  unfolding task_checkpoint_def by (auto intro!: kept service_heartbeat_kept service_run_kept)

lemma task_body_kept: "keeps (lifted R) (task_body dk cfg claim)"
  unfolding task_body_def
  by (auto intro!: kept service_run_kept stage_kept checkpoint_kept finalize_run_kept service_finalize_kept)

lemma salvage_kept: "keeps (lifted R) (salvage_evidence claim)"
  unfolding salvage_evidence_def by (intro kept collect_kept)

lemma fail_task_kept: "keeps (lifted R) (fail_task claim e)"
  unfolding fail_task_def unless_lost_def Let_def
  by (auto intro!: kept salvage_kept service_fail_kept)

lemma process_claim_kept: "keeps (lifted R) (process_claim dk cfg claim)"
  unfolding process_claim_def unless_lost_def
  by (auto intro!: kept task_body_kept salvage_kept service_finalize_kept fail_task_kept)

lemma claimed_task_kept:
  "keeps (lifted R) (bind_act (service_heartbeat claim) (\<lambda>renewed.
     if \<not> renewed then ret Ignored else process_claim dk cfg claim))"
  by (auto intro!: kept service_heartbeat_kept process_claim_kept)

end

end
