(* ===== verification/WorkerFacts.thy ===== *)
theory WorkerFacts
  imports Worker RunSystem
begin

text \<open>
  What a delivery does to the database: to the stored results nothing but additions, to the tables
  of the runs a sequence of steps of the system of \<open>RunSystem\<close>.
\<close>

section \<open>The tables of the runs inside the database\<close>

abbreviation control :: "result_db \<Rightarrow> control_db" where
  "control \<equiv> control_db.truncate"

lemma truncate_fields [simp]:
  "audit_runs (control_db.truncate db) = audit_runs db"
  "run_steps (control_db.truncate db) = run_steps db"
  "outbox_events (control_db.truncate db) = outbox_events db"
  by (simp_all add: control_db.defs)

lemma truncate_updates [simp]:
  "control_db.truncate (db\<lparr>audit_runs := rs\<rparr>) = (control_db.truncate db)\<lparr>audit_runs := rs\<rparr>"
  "control_db.truncate (db\<lparr>run_steps := ss\<rparr>) = (control_db.truncate db)\<lparr>run_steps := ss\<rparr>"
  "control_db.truncate (db\<lparr>outbox_events := es\<rparr>) = (control_db.truncate db)\<lparr>outbox_events := es\<rparr>"
  by (simp_all add: control_db.defs)

text \<open>An operation of the run tables computes the same on a larger database and keeps the rest.\<close>

lemma runs_get_truncate [simp]: "runs_get rid (control_db.truncate db) = runs_get rid db"
  by (simp add: runs_get_def)

lemma outbox_get_truncate [simp]: "outbox_get eid (control_db.truncate db) = outbox_get eid db"
  by (simp add: outbox_get_def)

lemma steps_get_current_truncate [simp]:
  "steps_get_current rid (control_db.truncate db) = steps_get_current rid db"
  by (simp add: steps_get_current_def)

lemma update_owned_truncate:
  "update_owned i t f db = (ok, db') \<Longrightarrow>
   update_owned i t f (control_db.truncate db) = (ok, control_db.truncate db') \<and>
   control_db.more db' = control_db.more db"
  by (auto simp: update_owned_def split: prod.splits)

lemma runs_save_truncate:
  "runs_save run v db = Inr db' \<Longrightarrow>
   runs_save run v (control_db.truncate db) = Inr (control_db.truncate db') \<and>
   control_db.more db' = control_db.more db"
  by (auto simp: runs_save_def Let_def split: prod.splits if_splits)

lemma outbox_add_truncate:
  "outbox_add e db = Inr db' \<Longrightarrow>
   outbox_add e (control_db.truncate db) = Inr (control_db.truncate db') \<and>
   control_db.more db' = control_db.more db"
  by (auto simp: outbox_add_def split: if_splits)

lemma step_checks_truncate [simp]: "step_checks c (control_db.truncate db) = step_checks c db"
  by (simp add: step_checks_def)

lemma steps_claim_truncate:
  "steps_claim c db = Inr (x, db') \<Longrightarrow>
   steps_claim c (control_db.truncate db) = Inr (x, control_db.truncate db') \<and>
   control_db.more db' = control_db.more db"
  by (auto simp: steps_claim_def simp del: select_one_None split: option.splits if_splits)

lemma exec_heartbeat_truncate:
  assumes "exec_heartbeat k now lease db = (ok, db')"
  shows "exec_heartbeat k now lease (control_db.truncate db) = (ok, control_db.truncate db') \<and>
   control_db.more db' = control_db.more db"
proof (cases "rs_claim_token k")
  case None
  with assms show ?thesis by (simp add: exec_heartbeat_def)
next
  case (Some token)
  obtain renewed db1 where h: "steps_heartbeat (rs_id k) token now (now + lease) db = (renewed, db1)" by force
  from update_owned_truncate [OF this [unfolded steps_heartbeat_def]] assms
  show ?thesis
    by (simp add: exec_heartbeat_def Some h) (auto simp: steps_heartbeat_def split: if_splits)
qed

lemma claim_write_truncate:
  "claim_write c db = Inr (x, db') \<Longrightarrow>
   claim_write c (control_db.truncate db) = Inr (x, control_db.truncate db') \<and>
   control_db.more db' = control_db.more db"
  by (cases c) (auto simp: claim_write_def bind_res_Inr dest: steps_claim_truncate)

lemma finalize_write_truncate:
  "finalize_write k r now e db = Inr (run, db') \<Longrightarrow>
   finalize_write k r now e (control_db.truncate db) = Inr (run, control_db.truncate db') \<and>
   control_db.more db' = control_db.more db"
proof -
  assume fin: "finalize_write k r now e db = Inr (run, db')"
  then obtain token c db1 db2 where t: "rs_claim_token k = Some token" and c: "r = Some c"
    and v: "ar_version c = rs_expected_run_version k"
    and s: "steps_complete (rs_id k) token (ar_version c + 1) now (final_state k c) db = (True, db1)"
    and tr: "transition c (final_state k c) now = Inr run"
    and sv: "runs_save run (ar_version c) db1 = Inr db2"
    and o: "if ar_state run \<notin> terminal_states then outbox_add (advance_event run now e) db2 = Inr db'
            else db' = db2"
    by (auto simp: finalize_write_def Let_def bind_res_Inr split: option.splits prod.splits if_splits)
  from update_owned_truncate [OF s [unfolded steps_complete_def]] runs_save_truncate [OF sv] o
    outbox_add_truncate [of "advance_event run now e" db2 db']
  show ?thesis
    by (auto simp: finalize_write_def t c v tr Let_def steps_complete_def split: if_splits)
qed

lemma fail_write_truncate:
  "fail_write k r code detail now db = Inr (run, db') \<Longrightarrow>
   fail_write k r code detail now (control_db.truncate db) = Inr (run, control_db.truncate db') \<and>
   control_db.more db' = control_db.more db"
proof -
  assume "fail_write k r code detail now db = Inr (run, db')"
  then obtain token c db1 where t: "rs_claim_token k = Some token" and c: "r = Some c"
    and v: "ar_version c = rs_expected_run_version k"
    and s: "steps_fail (rs_id k) token (ar_version c + 1) now code detail db = (True, db1)"
    and tr: "transition (c\<lparr>ar_failure_code := Some code, ar_failure_detail := Some detail\<rparr>)
       run_state.FAILED now = Inr run"
    and sv: "runs_save run (ar_version c) db1 = Inr db'"
    by (auto simp: fail_write_def Let_def bind_res_Inr split: option.splits prod.splits if_splits)
  from update_owned_truncate [OF s [unfolded steps_fail_def]] runs_save_truncate [OF sv]
  show ?thesis by (auto simp: fail_write_def t c v tr Let_def steps_fail_def)
qed

section \<open>Results\<close>

lemma more_results:
  fixes db db' :: result_db
  assumes "control_db.more db' = control_db.more db"
  shows "results_advance db db'"
proof -
  have fields: "repo_snapshots db' = repo_snapshots db" "revision_graphs db' = revision_graphs db"
    "static_reports db' = static_reports db" "agent_invocations db' = agent_invocations db"
    "agent_tool_calls db' = agent_tool_calls db" "audit_plans db' = audit_plans db"
    "shadow_environments db' = shadow_environments db" "runner_executions db' = runner_executions db"
    "evidence_items db' = evidence_items db"
    using assms by (cases db; cases db'; simp)+
  have "graph_view db' = graph_view db"
    unfolding fun_eq_iff graph_view_def graphs_get_for_run_def snapshots_get_def fields by simp
  moreover have "results_wf db' = results_wf db"
    unfolding results_wf_def snapshots_get_def fields ..
  ultimately show ?thesis
    unfolding results_advance_def results_kept_def fields by simp
qed

interpretation results: claim_order results_advance claim for claim
proof (unfold_locales, goal_cases)
  case (1 now lease db ok db')
  then show ?case using exec_heartbeat_truncate more_results by blast
next
  case (2 now e db run db')
  then show ?case using finalize_write_truncate more_results unfolding exec_finalize_def by blast
next
  case (3 code detail now db run db')
  then show ?case using fail_write_truncate more_results unfolding exec_fail_def by blast
qed

section \<open>The system\<close>

text \<open>
  From any state of the system with this database and these claims there are steps to one with the
  other database.
\<close>

definition advances :: "run_step set \<Rightarrow> result_db \<Rightarrow> result_db \<Rightarrow> bool" where
  "advances K db db' \<longleftrightarrow>
     (\<forall>s. sy_db s = control db \<and> K \<subseteq> set (sy_claims s) \<longrightarrow>
        (\<exists>s'. sys_step\<^sup>*\<^sup>* s s' \<and> sy_db s' = control db'))"

lemma sys_step_claims: "sys_step s s' \<Longrightarrow> set (sy_claims s) \<subseteq> set (sy_claims s')"
  by (cases rule: sys_step.cases) auto

lemma sys_steps_claims: "sys_step\<^sup>*\<^sup>* s s' \<Longrightarrow> set (sy_claims s) \<subseteq> set (sy_claims s')"
  by (induction rule: rtranclp_induct) (use sys_step_claims in blast)+

lemma advances_trans:
  assumes "advances K a b" and "advances K b c"
  shows "advances K a c"
  unfolding advances_def
proof (intro allI impI)
  fix s :: run_system assume s: "sy_db s = control a \<and> K \<subseteq> set (sy_claims s)"
  with assms(1) obtain s1 where s1: "sys_step\<^sup>*\<^sup>* s s1" "sy_db s1 = control b"
    unfolding advances_def by blast
  with s sys_steps_claims have "K \<subseteq> set (sy_claims s1)" by blast
  with assms(2) s1(2) obtain s2 where "sys_step\<^sup>*\<^sup>* s1 s2" "sy_db s2 = control c"
    unfolding advances_def by blast
  with s1(1) show "\<exists>s'. sys_step\<^sup>*\<^sup>* s s' \<and> sy_db s' = control c"
    using rtranclp_trans by meson
qed

lemma advances_same: "control db' = control db \<Longrightarrow> advances K db db'"
  unfolding advances_def by auto

lemma advances_mono: "K \<subseteq> K' \<Longrightarrow> advances K db db' \<Longrightarrow> advances K' db db'"
  unfolding advances_def by blast

lemma planning_same_control:
  assumes "planning_save_result p db = Inr (x, db')"
  shows "control db' = control db"
proof -
  have calls: "insert_tool_calls cs a = Inr b \<Longrightarrow> control b = control a" for cs and a b :: result_db
    by (induction cs arbitrary: a) (auto simp: insert_tool_call_def bind_res_Inr control_db.defs)
  from planning_save_steps [OF assms] show ?thesis
  proof cases
    case (1 db1 db2)
    have "control db' = control db2"
      using 1(3) by (auto simp: insert_plan_def bind_res_Inr control_db.defs split: option.splits)
    moreover have "control db1 = control db"
      using 1(1) by (auto simp: insert_invocation_def bind_res_Inr control_db.defs)
    ultimately show ?thesis using calls [OF 1(2)] by simp
  qed
qed

lemma results_same_control: "control (result_step op db) = control db"
proof (cases op)
  case (StorePlanning p)
  then show ?thesis
    using planning_same_control by (auto simp: committed_def split: sum.splits prod.splits)
qed (auto simp: committed_def snapshots_create_or_get_def graphs_create_or_get_def
    reports_create_or_get_def sandbox_create_or_get_environment_def
    sandbox_create_or_get_execution_def evidence_create_or_get_def
    sandbox_set_environment_status_def bind_res_Inr Let_def control_db.defs
    split: sum.splits prod.splits)

text \<open>The use cases of a claim that was issued are steps of the system.\<close>

lemma heartbeat_advances:
  assumes "exec_heartbeat k now lease db = (ok, db')"
  shows "advances {k} db db'"
  unfolding advances_def
proof (intro allI impI)
  fix s :: run_system assume s: "sy_db s = control db \<and> {k} \<subseteq> set (sy_claims s)"
  have "exec_heartbeat k now lease (control db) = (ok, control db')"
    using exec_heartbeat_truncate [OF assms] by blast
  with s have "sys_step s (s\<lparr>sy_db := control db'\<rparr>)" by (intro sys_heartbeat [of k]) simp_all
  then show "\<exists>s'. sys_step\<^sup>*\<^sup>* s s' \<and> sy_db s' = control db'"
    by (intro exI [of _ "s\<lparr>sy_db := control db'\<rparr>"]) simp
qed

text \<open>A run that is read becomes a copy the system has seen.\<close>

lemma read_then_step:
  assumes "runs_get rid (sy_db s) = Some r" and "sys_step (s\<lparr>sy_seen := r # sy_seen s\<rparr>) s'"
  shows "sys_step\<^sup>*\<^sup>* s s'"
  using sys_read [OF assms(1)] assms(2) by (meson converse_rtranclp_into_rtranclp r_into_rtranclp)

lemma finalize_advances:
  assumes "exec_finalize k now e db = Inr (run, db')"
  shows "advances {k} db db'"
  unfolding advances_def
proof (intro allI impI)
  fix s :: run_system assume s: "sy_db s = control db \<and> {k} \<subseteq> set (sy_claims s)"
  from assms obtain c where c: "runs_get (rs_run_id k) db = Some c"
    by (auto simp: exec_finalize_def finalize_write_def Let_def split: option.splits)
  then have "finalize_write k (Some c) now e (control db) = Inr (run, control db')"
    using finalize_write_truncate assms unfolding exec_finalize_def by metis
  moreover have "runs_get (rs_run_id k) (sy_db s) = Some c" "ar_id c = rs_run_id k"
    using c s select_one_Some [of "\<lambda>r. ar_id r = rs_run_id k"] by (auto simp: runs_get_def)
  ultimately have "sys_step\<^sup>*\<^sup>* s (s\<lparr>sy_seen := c # sy_seen s, sy_db := control db'\<rparr>)"
    using s by (intro read_then_step [of "rs_run_id k"]) (auto intro: sys_finalize [of k _ c])
  then show "\<exists>s'. sys_step\<^sup>*\<^sup>* s s' \<and> sy_db s' = control db'" 
    by (intro exI [of _ "s\<lparr>sy_seen := c # sy_seen s, sy_db := control db'\<rparr>"]) simp
qed

lemma fail_advances:
  assumes "exec_fail k code detail now db = Inr (run, db')"
  shows "advances {k} db db'"
  unfolding advances_def
proof (intro allI impI)
  fix s :: run_system assume s: "sy_db s = control db \<and> {k} \<subseteq> set (sy_claims s)"
  from assms obtain c where c: "runs_get (rs_run_id k) db = Some c"
    by (auto simp: exec_fail_def fail_write_def Let_def split: option.splits)
  then have "fail_write k (Some c) code detail now (control db) = Inr (run, control db')"
    using fail_write_truncate assms unfolding exec_fail_def by metis
  moreover have "runs_get (rs_run_id k) (sy_db s) = Some c" "ar_id c = rs_run_id k"
    using c s select_one_Some [of "\<lambda>r. ar_id r = rs_run_id k"] by (auto simp: runs_get_def)
  ultimately have "sys_step\<^sup>*\<^sup>* s (s\<lparr>sy_seen := c # sy_seen s, sy_db := control db'\<rparr>)"
    using s by (intro read_then_step [of "rs_run_id k"]) (auto intro: sys_fail [of k _ c])
  then show "\<exists>s'. sys_step\<^sup>*\<^sup>* s s' \<and> sy_db s' = control db'" 
    by (intro exI [of _ "s\<lparr>sy_seen := c # sy_seen s, sy_db := control db'\<rparr>"]) simp
qed

interpretation system: claim_order "advances {k}" k for k
proof (unfold_locales, goal_cases)
  case (1 db) show ?case by (rule advances_same) simp
next
  case (2 a b c) then show ?case by (rule advances_trans)
next
  case (3 db op) show ?case by (rule advances_same [OF results_same_control])
next
  case (4 now lease db ok db') then show ?case by (rule heartbeat_advances)
next
  case (5 now e db run db') then show ?case by (rule finalize_advances)
next
  case (6 code detail now db run db') then show ?case by (rule fail_advances)
qed

text \<open>A claim reads the event, the run and its current step, and is issued by the system.\<close>

lemma exec_claim_steps:
  assumes "exec_claim e worker now lease sid tok db = Inr (res, db')" and "sy_db s = control db"
  shows "\<exists>s'. sys_step\<^sup>*\<^sup>* s s' \<and> sy_db s' = control db' \<and> (\<forall>k. res = Some k \<longrightarrow> k \<in> set (sy_claims s'))"
proof -
  define event where "event = outbox_get e db"
  define run where "run = (case event of None \<Rightarrow> None | Some e \<Rightarrow> runs_get (oe_aggregate_id e) db)"
  define current where "current = (case run of None \<Rightarrow> None | Some r \<Rightarrow> steps_get_current (ar_id r) db)"
  from assms(1) obtain candidate where
    d: "claim_decide event run current worker now lease sid tok = Inr candidate"
    and w: "claim_write candidate db = Inr (res, db')"
    unfolding exec_claim_def Let_def bind_res_Inr event_def run_def current_def by blast
  show ?thesis
  proof (cases candidate)
    case None
    with w assms(2) show ?thesis by (intro exI [of _ s]) (simp add: claim_write_def)
  next
    case (Some k)
    with d obtain ev c where ev: "event = Some ev" and c: "run = Some c"
      by (auto simp: claim_decide_def split: option.splits if_splits)
    let ?s1 = "s\<lparr>sy_seen := c # sy_seen s\<rparr>"
    let ?s2 = "?s1\<lparr>sy_db := control db', sy_claims := (case res of None \<Rightarrow> [] | Some x \<Rightarrow> [x]) @ sy_claims s\<rparr>"
    have "runs_get (oe_aggregate_id ev) (sy_db s) = Some c"
      using c ev assms(2) by (simp add: run_def)
    moreover have "sys_step ?s1 ?s2"
      using sys_claim [of c ?s1 event current worker now lease sid tok k res "control db'"]
        d Some c w claim_write_truncate assms(2) by fastforce
    ultimately have "sys_step\<^sup>*\<^sup>* s ?s2" by (rule read_then_step)
    then show ?thesis by (intro exI [of _ ?s2]) simp
  qed
qed

text \<open>A delivery is a sequence of steps of the system.\<close>

lemma process_advances:
  assumes others: "follows (advances {}) w" and s: "sy_db s = control (wd_db w)"
    and run: "process_run_event dk cfg event_id worker_id w = (r, w')"
  shows "\<exists>s'. sys_step\<^sup>*\<^sup>* s s' \<and> sy_db s' = control (wd_db w')"
proof (cases "parse_uuid event_id")
  case None
  with run s show ?thesis by (auto simp: process_run_event_def)
next
  case (Some parsed)
  define w1 where "w1 = w\<lparr>wd_readings := wd_readings w + 1, wd_drawn := wd_drawn w + 2\<rparr>"
  define db where "db = wd_others w (wd_transactions w) (wd_db w)"
  define f :: "result_db \<Rightarrow> (run_step option \<times> result_db) res" where "f = exec_claim parsed worker_id (wd_clock w (wd_readings w)) claim_lease
      (wd_ids w (wd_drawn w)) (wd_ids w (Suc (wd_drawn w)))"
  obtain s1 where s1: "sys_step\<^sup>*\<^sup>* s s1" "sy_db s1 = control db"
    using others s unfolding follows_def advances_def db_def by blast
  have claim: "service_claim parsed worker_id w = transaction f w1"
    by (simp add: service_claim_def bind_act_def clock_def fresh_id_def f_def w1_def)
  show ?thesis
  proof (cases "f db")
    case (Inl e)
    then have "transaction f w1 = (Inl e, w1\<lparr>wd_db := db, wd_transactions := wd_transactions w + 1\<rparr>)"
      by (simp add: transaction_def w1_def db_def)
    with run claim Some s1 show ?thesis
      by (auto simp: process_run_event_def bind_act_def)
  next
    case (Inr x)
    obtain res db' where x: "x = (res, db')" by force
    define w2 where "w2 = w1\<lparr>wd_db := db', wd_transactions := wd_transactions w + 1\<rparr>"
    have t: "transaction f w1 = (Inr res, w2)"
      using Inr by (simp add: transaction_def w1_def w2_def db_def x)
    from exec_claim_steps [OF Inr [unfolded x f_def] s1(2)] obtain s2 where
      s2: "sys_step\<^sup>*\<^sup>* s1 s2" "sy_db s2 = control db'" "\<And>k. res = Some k \<Longrightarrow> k \<in> set (sy_claims s2)"
      by blast
    have s12: "sys_step\<^sup>*\<^sup>* s s2" using s1(1) s2(1) by (rule rtranclp_trans)
    show ?thesis
    proof (cases res)
      case None
      with run claim t Some s12 s2(2) show ?thesis
        by (auto simp: process_run_event_def bind_act_def w2_def)
    next
      case (Some k)
      with run claim t \<open>parse_uuid event_id = Some parsed\<close>
      have rest: "bind_act (service_heartbeat k) (\<lambda>renewed.
          if \<not> renewed then ret Ignored else process_claim dk cfg k) w2 = (r, w')"
        by (simp add: process_run_event_def bind_act_def [of "service_claim parsed worker_id"])
      have "follows (advances {k}) w2"
        using others advances_mono [of "{}" "{k}"] by (simp add: follows_def w1_def w2_def)
      moreover have "lifted (advances {k}) w2 w'"
        using system.claimed_task_kept rest by (rule keepsD)
      ultimately have "advances {k} (wd_db w2) (wd_db w')" by (simp add: lifted_def)
      with s2 Some obtain s3 where "sys_step\<^sup>*\<^sup>* s2 s3" "sy_db s3 = control (wd_db w')"
        unfolding advances_def by (auto simp: w2_def)
      with s12 show ?thesis using rtranclp_trans by meson
    qed
  qed
qed

end
