(* ===== verification/StageFacts.thy ===== *)
theory StageFacts
  imports WorkerFacts
begin

text \<open>How stages and deliveries end.\<close>

section \<open>The sandbox after a stage\<close>

lemma query_db_run:
  "query_db f w =
     (let db = wd_others w (wd_transactions w) (wd_db w);
          w' = w\<lparr>wd_db := db, wd_transactions := wd_transactions w + 1\<rparr>
      in (f db, w'))"
  by (simp add: query_db_def transaction_def Let_def bind_res_def split: sum.split)

lemma query_db_eq: "query_db f w = (r, w') \<Longrightarrow> r = f (wd_db w')"
  by (auto simp: query_db_run Let_def)

lemma graph_kept: "results_kept db db' \<Longrightarrow> graph_view db k = Some g \<Longrightarrow> graph_view db' k = Some g"
  unfolding results_kept_def by (elim conjE) (rule map_le_Some)

lemma snapshot_kept: "results_kept db db' \<Longrightarrow> snapshot_view db k = Some g \<Longrightarrow> snapshot_view db' k = Some g"
  unfolding results_kept_def by (elim conjE) (rule map_le_Some)

definition released :: "uuid \<Rightarrow> int \<Rightarrow> result_db \<Rightarrow> bool" where
  "released run_id generation db \<longleftrightarrow>
     (\<forall>l. sandbox_get_environment run_id generation db = Some l \<longrightarrow> se_status (el_environment l) \<noteq> ACTIVE)"

lemma finalize_released:
  assumes "results_wf (wd_db w)" "follows results_advance w"
    and "finalize_run dk run_id generation w = (r, w')"
    and "\<And>e. r = Inl e \<Longrightarrow> is_repository_input_error e"
  shows "released run_id generation (wd_db w')"
  unfolding released_def using finalize_status [OF assms] by (auto split: sum.splits)

lemma on_error_released:
  assumes w: "results_wf (wd_db w)" "follows results_advance w" and m: "keeps (lifted results_advance) m"
    and run: "on_error m (finalize_run dk run_id generation) w = (Inl e, w')"
    and e: "is_repository_input_error e"
  shows "released run_id generation (wd_db w')"
proof -
  from run obtain e0 w1 where m1: "m w = (Inl e0, w1)"
    and f: "finalize_run dk run_id generation w1 = (Inl e, w') \<or> (\<exists>x. finalize_run dk run_id generation w1 = (Inr x, w'))"
    unfolding on_error_Inl by blast
  note w1 = lifted_wf [OF w keepsD [OF m m1]]
  from f show ?thesis using finalize_released w1 e by blast
qed

lemma finally_released:
  assumes w: "results_wf (wd_db w)" "follows results_advance w" and m: "keeps (lifted results_advance) m"
    and run: "finally_act m (finalize_run dk run_id generation) w = (r, w')"
    and r: "\<And>e. r = Inl e \<Longrightarrow> is_repository_input_error e"
  shows "released run_id generation (wd_db w')"
proof -
  obtain r1 w1 where m1: "m w = (r1, w1)" by force
  obtain r2 w2 where f: "finalize_run dk run_id generation w1 = (r2, w2)" by force
  from run m1 f have "w' = w2" "\<And>e. r2 = Inl e \<Longrightarrow> r = Inl e"
    by (auto simp: finally_act_def split: sum.splits)
  with finalize_released [OF _ _ f] lifted_wf [OF w keepsD [OF m m1]] r show ?thesis by blast
qed

text \<open>The graph a later stage reads is the one that was stored.\<close>

lemma query_graph:
  assumes w: "results_wf (wd_db w)" "follows results_advance w"
    and g: "graph_view (wd_db w) run_id = Some g"
    and q: "query_db (graphs_get_for_run run_id) w = (r, w')"
  shows "r = Inr (Some g) \<and> results_wf (wd_db w') \<and> follows results_advance w'"
proof -
  note w' = lifted_wf [OF w keepsD [OF results.keeps_reads(2) q]]
  with graph_kept g have "graph_view (wd_db w') run_id = Some g" by blast
  with query_db_eq [OF q] graphs_get_view w' show ?thesis by metis
qed

lemma runner_stage_released:
  assumes w: "results_wf (wd_db w)" "follows results_advance w" "keeps (lifted results_advance) checkpoint"
    and g: "graph_view (wd_db w) (ar_id run) = Some g" "rg_target_chain g \<noteq> []"
    and run: "runner_stage stage dk cfg run checkpoint w = (Inl e, w')" and e: "is_repository_input_error e"
  shows "released (ar_id run) 1 (wd_db w')"
  using run unfolding runner_stage_def
proof (cases rule: bind_act_cases)
  case (raised e0)
  with query_graph [OF w(1,2) g(1)] show ?thesis by blast
next
  case (continued found w1)
  with query_graph [OF w(1,2) g(1)] have found: "found = Some g"
    and w1: "results_wf (wd_db w1)" "follows results_advance w1" by blast+
  show ?thesis
    by (rule on_error_released [OF w1 _ _ e])
      (use continued(2) found g(2) in \<open>auto intro!: results.kept results.execute_kept w(3) simp: Let_def\<close>)
qed

lemma provision_stage_released:
  assumes w: "results_wf (wd_db w)" "follows results_advance w" "keeps (lifted results_advance) checkpoint"
    and g: "graph_view (wd_db w) (ar_id run) = Some g" "rg_target_chain g \<noteq> []" "rg_supported g"
    and s: "snapshot_view (wd_db w) (ar_id run) = Some s"
    and run: "provision_stage dk cfg run checkpoint w = (Inl e, w')" and e: "is_repository_input_error e"
  shows "released (ar_id run) 1 (wd_db w')"
proof -
  obtain r1 w1 where q: "query_db (provision_inputs (ar_id run)) w = (r1, w1)" by force
  note w1 = lifted_wf [OF w(1,2) keepsD [OF results.keeps_reads(2) q]]
  have "graphs_get_for_run (ar_id run) (wd_db w1) = Inr (Some g)"
    using graph_kept [OF _ g(1)] graphs_get_view w1 by metis
  moreover have "snapshots_get_for_run (ar_id run) (wd_db w1) = Some s"
    using snapshot_kept [OF _ s] w1 unfolding snapshots_get_for_run_def by blast
  ultimately have r1: "r1 = Inr (Some s, Some g)"
    using query_db_eq [OF q] by (simp add: provision_inputs_def)
  have "on_error (then_act (provision dk (sg_list_tree cfg) (sg_sandbox cfg) (ar_id run) 1 s checkpoint)
      checkpoint) (finalize_run dk (ar_id run) 1) w1 = (Inl e, w')"
    using run q r1 g(2,3) by (simp add: provision_stage_def bind_act_def [of "query_db _"] Let_def)
  then show ?thesis
    using w1 by (intro on_error_released [OF _ _ results.lifted.keeps_then [OF results.provision_kept [OF w(3)] w(3)] _ e]) auto
qed

lemma collect_stage_released:
  assumes w: "results_wf (wd_db w)" "follows results_advance w" "keeps (lifted results_advance) checkpoint"
    and run: "collect_evidence_stage dk run checkpoint w = (r, w')"
    and r: "\<And>e. r = Inl e \<Longrightarrow> is_repository_input_error e"
  shows "released (ar_id run) 1 (wd_db w')"
  by (rule finally_released [OF w(1,2) _ run [unfolded collect_evidence_stage_def] r])
    (intro results.kept w(3) results.collect_kept)

section \<open>The run after a failed delivery\<close>

lemma select_one_update:
  assumes "select_one (\<lambda>r. key r = k) t = Some r" and "P r" and "\<And>x. key (f x) = key x"
  shows "select_one (\<lambda>r. key r = k) (map (\<lambda>x. if key x = k \<and> P x then f x else x) t) = Some (f r)"
  using assms select_one_map [of "\<lambda>r. key r = k" "\<lambda>x. if key x = k \<and> P x then f x else x" t]
    select_one_Some [OF assms(1)] by simp

lemma runs_save_row:
  assumes "runs_save run v db = Inr db'" and "runs_get (ar_id run) db = Some row" and "ar_version row = v"
  shows "runs_get (ar_id run) db' = Some (saved_columns run row)"
proof -
  from assms(1) have db': "db' = db\<lparr>audit_runs := map (\<lambda>r. if ar_id r = ar_id run \<and> ar_version r = v
      then saved_columns run r else r) (audit_runs db)\<rparr>"
    by (auto simp: runs_save_def update_where_def Let_def split: if_splits)
  show ?thesis
    using select_one_update [OF assms(2) [unfolded runs_get_def], of "\<lambda>r. ar_version r = v" "saved_columns run"] assms(3)
    by (simp add: db' runs_get_def saved_columns_def)
qed

lemma exec_fail_row:
  assumes "exec_fail k code detail now db = Inr (run, db')"
  shows "\<exists>row. runs_get (ar_id run) db' = Some row \<and> ar_state run = run_state.FAILED \<and>
    ar_state row = run_state.FAILED \<and> ar_version row = ar_version run \<and>
    ar_failure_code row = Some code \<and> ar_failure_detail row = Some detail \<and> ar_id run = rs_run_id k"
proof -
  from assms obtain token c db1 where c: "runs_get (rs_run_id k) db = Some c"
    and s: "steps_fail (rs_id k) token (ar_version c + 1) now code detail db = (True, db1)"
    and tr: "transition (c\<lparr>ar_failure_code := Some code, ar_failure_detail := Some detail\<rparr>)
       run_state.FAILED now = Inr run"
    and sv: "runs_save run (ar_version c) db1 = Inr db'"
    by (auto simp: exec_fail_def fail_write_def Let_def bind_res_Inr split: option.splits prod.splits if_splits)
  have id: "ar_id c = rs_run_id k" using c select_one_Some by (fastforce simp: runs_get_def)
  from tr have r: "ar_id run = ar_id c" "ar_state run = run_state.FAILED"
    "ar_failure_code run = Some code" "ar_failure_detail run = Some detail"
    by (auto simp: transition_def Let_def split: if_splits)
  have "runs_get (ar_id run) db1 = Some c"
    using s c r(1) id by (auto simp: steps_fail_def update_owned_def runs_get_def split: prod.splits)
  from runs_save_row [OF sv this] r id show ?thesis by (simp add: saved_columns_def)
qed

lemma exec_finalize_row:
  assumes "exec_finalize k now e db = Inr (run, db')"
  shows "\<exists>row. runs_get (ar_id run) db' = Some row \<and> ar_state row = ar_state run \<and>
    ar_version row = ar_version run \<and> ar_id run = rs_run_id k"
proof -
  from assms obtain token c db1 db2 where c: "runs_get (rs_run_id k) db = Some c"
    and s: "steps_complete (rs_id k) token (ar_version c + 1) now (final_state k c) db = (True, db1)"
    and tr: "transition c (final_state k c) now = Inr run"
    and sv: "runs_save run (ar_version c) db1 = Inr db2"
    and o: "if ar_state run \<notin> terminal_states then outbox_add (advance_event run now e) db2 = Inr db'
            else db' = db2"
    by (auto simp: exec_finalize_def finalize_write_def Let_def bind_res_Inr split: option.splits prod.splits if_splits)
  have id: "ar_id c = rs_run_id k" using c select_one_Some by (fastforce simp: runs_get_def)
  from tr have r: "ar_id run = ar_id c" by (auto simp: transition_def split: if_splits)
  have "runs_get (ar_id run) db1 = Some c"
    using s c r id by (auto simp: steps_complete_def update_owned_def runs_get_def split: prod.splits)
  from runs_save_row [OF sv this] have "runs_get (ar_id run) db2 = Some (saved_columns run c)" by simp
  moreover have "audit_runs db' = audit_runs db2"
    using o by (auto simp: outbox_add_def split: if_splits)
  ultimately show ?thesis using r id by (simp add: runs_get_def saved_columns_def)
qed

lemma service_fail_Inr:
  "service_fail k code detail w = (Inr run, w') \<Longrightarrow> \<exists>now db. exec_fail k code detail now db = Inr (run, wd_db w')"
  by (auto simp: service_fail_def bind_act_Inr split: if_splits dest!: transaction_Inr)

lemma service_finalize_Inr:
  "service_finalize k w = (Inr run, w') \<Longrightarrow> \<exists>now e db. exec_finalize k now e db = Inr (run, wd_db w')"
  by (auto simp: service_finalize_def bind_act_Inr split: if_splits dest!: transaction_Inr)

lemma unless_lost_Inr:
  "unless_lost m w = (Inr x, w') \<Longrightarrow> m w = (Inr x, w') \<or> x = Ignored"
  by (auto simp: unless_lost_def catch_act_def split: prod.splits sum.splits if_splits)

lemma process_claim_Inr:
  assumes "process_claim dk cfg k w = (Inr res, w')"
  obtains (ignored) "res = Ignored"
  | (completed) run w1 where "service_finalize k w1 = (Inr run, w')" "res = completed_task run"
  | (failed) e run w1 where
      "service_fail k (case exn_code e of None \<Rightarrow> [] | Some c \<Rightarrow> c) (exn_detail e) w1 = (Inr run, w')"
      "res = TaskFailed (ar_id run) (ar_state run) (ar_version run)
         (case exn_code e of None \<Rightarrow> [] | Some c \<Rightarrow> c)"
proof (cases "task_body dk cfg k w")
  case (Pair r w1)
  show thesis
  proof (cases r)
    case (Inr run)
    then have "service_finalize k w0 = (Inr run, w1) \<Longrightarrow> thesis" for w0
      using assms Pair completed by (auto simp: process_claim_def catch_act_def bind_act_def)
    moreover obtain w0 where "service_finalize k w0 = (Inr run, w1)"
      using Pair Inr by (auto simp: task_body_def bind_act_Inr then_act_Inr)
    ultimately show thesis by blast
  next
    case (Inl e)
    with assms Pair consider
        (cancel) "then_act (salvage_evidence k)
          (unless_lost (bind_act (service_finalize k) (\<lambda>run. ret (completed_task run)))) w1 = (Inr res, w')"
      | (fail) "fail_task k e w1 = (Inr res, w')" | (lost) "res = Ignored"
      by (auto simp: process_claim_def catch_act_def bind_act_def split: if_splits)
    then show thesis
    proof cases
      case cancel
      then obtain w2 where "unless_lost (bind_act (service_finalize k) (\<lambda>run. ret (completed_task run))) w2 = (Inr res, w')"
        unfolding then_act_Inr by blast
      from unless_lost_Inr [OF this] show thesis using ignored completed by (auto simp: bind_act_Inr)
    next
      case fail
      then obtain w2 where "unless_lost (bind_act (service_fail k (case exn_code e of None \<Rightarrow> [] | Some c \<Rightarrow> c) (exn_detail e))
          (\<lambda>run. ret (TaskFailed (ar_id run) (ar_state run) (ar_version run)
             (case exn_code e of None \<Rightarrow> [] | Some c \<Rightarrow> c)))) w2 = (Inr res, w')"
        unfolding fail_task_def Let_def then_act_Inr by blast
      from unless_lost_Inr [OF this] show thesis using ignored failed by (auto simp: bind_act_Inr)
    qed (rule ignored)
  qed
qed

lemma process_Inr:
  assumes "process_run_event dk cfg event_id worker_id w = (Inr res, w')" and "res \<noteq> Ignored"
  obtains k w1 where "process_claim dk cfg k w1 = (Inr res, w')"
  using assms
  by (auto simp: process_run_event_def bind_act_Inr split: option.splits if_splits)

end
