(* ===== verification/RunnerChecks.thy ===== *)
theory RunnerChecks
  imports Sandbox Uuid5 GitRepository AgentGateway
begin

text \<open>
  \<open>runner/src/shadowops_runner/checks.py\<close>: the seed and the observations of the fixed runner.  The
  shadow database behind SQLAlchemy and Alembic is a record of actions on its own state.
\<close>

section \<open>The shadow database\<close>

text \<open>The SQLAlchemy types the seed distinguishes, in the order it tests them.\<close>

datatype column_type =
    IntegerType | StringType | BooleanType | DateTimeType | DateType | NumericType | UuidType | OtherType

record column =
  co_name :: string
  co_type :: column_type
  co_type_text :: string
  co_nullable :: bool
  co_default_text :: "string option"
  co_autoincrement :: bool
  co_primary_key :: bool
  co_has_default :: bool
  co_has_server_default :: bool

record foreign_key =
  fk_columns :: "string list"
  fk_referred_table :: "string option"
  fk_referred_columns :: "string list"

datatype seed_value =
    SeedJson json | SeedDateTime | SeedDate | SeedDecimal | SeedUuid uuid

type_synonym seed_row = "(string \<times> seed_value) list"

text \<open>
  \<open>sd_insert\<close> is one \<open>engine.begin()\<close> block with the inserts of all tables; \<open>sd_constraints\<close> sets the
  constraints immediate and counts them, all and those not validated.
\<close>

record 'e shadow_database =
  sd_tables :: "('e, string list) act"
  sd_columns :: "string \<Rightarrow> ('e, column list) act"
  sd_primary_key :: "string \<Rightarrow> ('e, string list) act"
  sd_unique :: "string \<Rightarrow> ('e, string list list) act"
  sd_foreign_keys :: "string \<Rightarrow> ('e, foreign_key list) act"
  sd_count :: "string \<Rightarrow> ('e, int) act"
  sd_insert :: "(string \<times> seed_row list) list \<Rightarrow> ('e, unit) act"
  sd_constraints :: "('e, int \<times> int) act"
  sd_version :: "('e, string option) act"
  sd_upgrade :: "string \<Rightarrow> ('e, unit) act"
  sd_downgrade :: "string \<Rightarrow> ('e, unit) act"

section \<open>Observations\<close>

definition make_observation ::
    "observation_kind \<Rightarrow> (string \<times> json) list \<Rightarrow> runner_observation res" where
  "make_observation kind data =
     (let encoded = canonical_json (JObj data)
      in if 65536 < length encoded
         then Inl (ValueError ''structured observation exceeds its fixed output budget'')
         else Inr \<lparr>ro_kind = kind, ro_sha256 = hexdigest encoded, ro_data = data\<rparr>)"

definition max_tables :: nat where "max_tables = 64"
definition max_columns :: nat where "max_columns = 256"
definition max_rows :: nat where "max_rows = 100"

definition table_names :: "'e shadow_database \<Rightarrow> ('e, string list) act" where
  "table_names sd =
     bind_act (sd_tables sd) (\<lambda>found.
       let names = sort (filter (\<lambda>n. n \<noteq> ''alembic_version'') found)
       in if max_tables < length names
          then raise_act (ValueError ''schema exceeds the fixed table observation budget'')
          else ret names)"

definition column_json :: "column \<Rightarrow> json" where
  "column_json c =
     JObj [(''name'', JStr (co_name c)), (''type'', JStr (co_type_text c)),
           (''nullable'', JBool (co_nullable c)), (''default'', opt_json JStr (co_default_text c))]"

definition foreign_key_json :: "foreign_key \<Rightarrow> json" where
  "foreign_key_json f =
     JObj [(''columns'', strings_json (fk_columns f)),
           (''referred_table'', opt_json JStr (fk_referred_table f)),
           (''referred_columns'', strings_json (fk_referred_columns f))]"

text \<open>One round of the loop: the columns counted so far are carried along.\<close>

definition table_shape :: "'e shadow_database \<Rightarrow> nat \<Rightarrow> string \<Rightarrow> ('e, json \<times> nat) act" where
  "table_shape sd counted name =
     bind_act (sd_columns sd name) (\<lambda>columns.
       if max_columns < counted + length columns
       then raise_act (ValueError ''schema exceeds the fixed column observation budget'')
       else bind_act (sd_primary_key sd name) (\<lambda>primary.
            bind_act (sd_unique sd name) (\<lambda>unique.
            bind_act (sd_foreign_keys sd name) (\<lambda>foreign.
              ret (JObj [(''name'', JStr name), (''columns'', JList (map column_json columns)),
                    (''primary_key'', strings_json primary),
                    (''unique'', JList (map strings_json (sort (map sort unique)))),
                    (''foreign_keys'', JList (sort_key canonical_json (map foreign_key_json foreign)))],
                   counted + length columns)))))"

fun table_shapes :: "'e shadow_database \<Rightarrow> nat \<Rightarrow> string list \<Rightarrow> ('e, json list \<times> nat) act" where
  "table_shapes sd counted [] = ret ([], counted)"
| "table_shapes sd counted (name # names) =
     bind_act (table_shape sd counted name) (\<lambda>(shape, counted').
     bind_act (table_shapes sd counted' names) (\<lambda>(shapes, n). ret (shape # shapes, n)))"

record schema_report =
  sc_fingerprint :: string
  sc_table_count :: int
  sc_column_count :: int
  sc_schema :: json

definition schema_fingerprint :: "'e shadow_database \<Rightarrow> ('e, schema_report) act" where
  "schema_fingerprint sd =
     bind_act (table_names sd) (\<lambda>names.
     bind_act (table_shapes sd 0 names) (\<lambda>(tables, columns).
       let shape = JObj [(''tables'', JList tables)]
       in ret \<lparr>sc_fingerprint = hexdigest (canonical_json shape),
               sc_table_count = int (length tables), sc_column_count = int columns,
               sc_schema = shape\<rparr>))"

definition schema_data :: "schema_report \<Rightarrow> (string \<times> json) list" where
  "schema_data s =
     [(''fingerprint'', JStr (sc_fingerprint s)), (''table_count'', JInt (sc_table_count s)),
      (''column_count'', JInt (sc_column_count s)), (''schema'', sc_schema s)]"

definition row_counts :: "'e shadow_database \<Rightarrow> ('e, (string \<times> int) list) act" where
  "row_counts sd =
     bind_act (table_names sd) (\<lambda>names.
       map_act (\<lambda>name. bind_act (sd_count sd name) (\<lambda>n. ret (name, n))) names)"

definition counts_json :: "(string \<times> int) list \<Rightarrow> json" where
  "counts_json counts = JObj (map (\<lambda>(name, n). (name, JInt n)) (dict_of counts))"

section \<open>The fixture manifest\<close>

text \<open>\<open>^[A-Za-z_][A-Za-z0-9_]{0,62}$\<close>\<close>

definition identifier_start :: "char \<Rightarrow> bool" where
  "identifier_start c \<longleftrightarrow> c \<in> set ''ABCDEFGHIJKLMNOPQRSTUVWXYZabcdefghijklmnopqrstuvwxyz_''"

definition is_identifier :: "string \<Rightarrow> bool" where
  "is_identifier s \<longleftrightarrow>
     (case s of
        [] \<Rightarrow> False
      | c # cs \<Rightarrow> identifier_start c \<and> length cs \<le> 62 \<and>
                  list_all (\<lambda>d. identifier_start d \<or> d \<in> set ''0123456789'') cs)"

text \<open>\<open>type(value).__name__\<close> and the \<open>TypeError\<close>s of a value of the wrong shape.\<close>

fun json_type :: "json \<Rightarrow> string" where
  "json_type JNull = ''NoneType''"
| "json_type (JBool b) = ''bool''"
| "json_type (JInt i) = ''int''"
| "json_type (JNum t) = ''float''"
| "json_type (JStr s) = ''str''"
| "json_type (JList xs) = ''list''"
| "json_type (JObj kvs) = ''dict''"

definition type_error :: "string \<Rightarrow> exn" where
  "type_error m = ForeignError ''TypeError'' m"

definition quoted :: "string \<Rightarrow> string" where
  "quoted s = [char_of (39::nat)] @ s @ [char_of (39::nat)]"

fun hashable :: "json \<Rightarrow> bool" where
  "hashable (JList xs) = False"
| "hashable (JObj kvs) = False"
| "hashable v = True"

definition has_keys :: "(string \<times> json) list \<Rightarrow> string list \<Rightarrow> bool" where
  "has_keys kvs ks \<longleftrightarrow> set (map fst kvs) = set ks"

text \<open>
  \<open>set(payload) != {"schema_version", "tables"} or payload["schema_version"] != "1.0"\<close>, and
  \<open>payload["tables"]\<close>.
\<close>

definition manifest_schema_error :: exn where
  "manifest_schema_error = ValueError ''fixture manifest must use the fixed 1.0 schema''"

definition manifest_tables :: "json \<Rightarrow> json res" where
  "manifest_tables payload =
     (case payload of
        JObj kvs \<Rightarrow>
          if \<not> has_keys kvs [''schema_version'', ''tables''] \<or>
             map_of kvs ''schema_version'' \<noteq> Some (JStr ''1.0'')
          then Inl manifest_schema_error
          else Inr (the (map_of kvs ''tables''))
      | JList xs \<Rightarrow>
          (case find (\<lambda>x. \<not> hashable x) xs of
             Some x \<Rightarrow> Inl (type_error (''unhashable type: '' @ quoted (json_type x)))
           | None \<Rightarrow>
               if set xs = {JStr ''schema_version'', JStr ''tables''}
               then Inl (type_error ''list indices must be integers or slices, not str'')
               else Inl manifest_schema_error)
      | JStr s \<Rightarrow> Inl manifest_schema_error
      | v \<Rightarrow> Inl (type_error (quoted (json_type v) @ '' object is not iterable'')))"

definition manifest_value :: "json \<Rightarrow> json res" where
  "manifest_value v =
     (case v of
        JList xs \<Rightarrow> Inl (ValueError ''fixture manifest values must be scalar JSON values'')
      | JObj kvs \<Rightarrow> Inl (ValueError ''fixture manifest values must be scalar JSON values'')
      | JStr s \<Rightarrow>
          if 4096 < length (encode s)
          then Inl (ValueError ''fixture manifest value budget exceeded'') else Inr v
      | _ \<Rightarrow> Inr v)"

fun manifest_cells :: "(string \<times> json) list \<Rightarrow> seed_row res" where
  "manifest_cells [] = Inr []"
| "manifest_cells ((key, v) # rest) =
     (if \<not> is_identifier key then Inl (ValueError ''fixture manifest column name is invalid'')
      else bind_res (manifest_value v) (\<lambda>clean.
           bind_res (manifest_cells rest) (\<lambda>cells. Inr ((key, SeedJson clean) # cells))))"

definition manifest_row :: "string list \<Rightarrow> json \<Rightarrow> seed_row res" where
  "manifest_row columns row =
     (case row of
        JObj kvs \<Rightarrow>
          if set (map fst kvs) \<subseteq> set columns then manifest_cells kvs
          else Inl (ValueError ''fixture manifest row contains an unknown column'')
      | _ \<Rightarrow> Inl (ValueError ''fixture manifest row contains an unknown column''))"

fun map_res :: "('a \<Rightarrow> 'b res) \<Rightarrow> 'a list \<Rightarrow> 'b list res" where
  "map_res f [] = Inr []"
| "map_res f (x # xs) = bind_res (f x) (\<lambda>y. bind_res (map_res f xs) (\<lambda>ys. Inr (y # ys)))"

text \<open>The name and the rows of one entry.\<close>

definition fixture_entry :: "string list \<Rightarrow> json \<Rightarrow> (string \<times> json list) res" where
  "fixture_entry available item =
     (case item of
        JObj kvs \<Rightarrow>
          if \<not> has_keys kvs [''name'', ''rows'']
          then Inl (ValueError ''fixture manifest table entry is invalid'')
          else (case (map_of kvs ''name'', map_of kvs ''rows'') of
                  (Some (JStr name), Some rows) \<Rightarrow>
                    if \<not> is_identifier name \<or> name \<notin> set available
                    then Inl (ValueError ''fixture manifest references an unavailable table'')
                    else (case rows of
                            JList xs \<Rightarrow> Inr (name, xs)
                          | _ \<Rightarrow> Inl (ValueError ''fixture manifest rows must be a list''))
                | _ \<Rightarrow> Inl (ValueError ''fixture manifest references an unavailable table''))
      | _ \<Rightarrow> Inl (ValueError ''fixture manifest table entry is invalid''))"

fun manifest_entries ::
    "'e shadow_database \<Rightarrow> string list \<Rightarrow> nat \<Rightarrow> json list \<Rightarrow> ('e, (string \<times> seed_row list) list) act" where
  "manifest_entries sd available total_rows [] = ret []"
| "manifest_entries sd available total_rows (item # items) =
     bind_act (of_res (fixture_entry available item)) (\<lambda>(name, rows).
       if max_rows < total_rows + length rows
       then raise_act (ValueError ''fixture manifest row budget exceeded'')
       else bind_act (sd_columns sd name) (\<lambda>columns.
            bind_act (of_res (map_res (manifest_row (map co_name columns)) rows)) (\<lambda>validated.
            bind_act (manifest_entries sd available (total_rows + length rows) items)
              (\<lambda>prepared. ret ((name, validated) # prepared)))))"

definition manifest_rows ::
    "'e shadow_database \<Rightarrow> json \<Rightarrow> ('e, (string \<times> seed_row list) list \<times> string list) act" where
  "manifest_rows sd payload =
     bind_act (of_res (manifest_tables payload)) (\<lambda>tables.
       case tables of
         JList items \<Rightarrow>
           if max_tables < length items
           then raise_act (ValueError ''fixture manifest table budget exceeded'')
           else bind_act (table_names sd) (\<lambda>available.
                bind_act (manifest_entries sd available 0 items) (\<lambda>prepared.
                  ret (prepared, map fst prepared)))
       | _ \<Rightarrow> raise_act (ValueError ''fixture manifest table budget exceeded''))"

section \<open>Synthetic rows\<close>

definition synthetic_value :: "string \<Rightarrow> string \<Rightarrow> column_type \<Rightarrow> seed_value option" where
  "synthetic_value table column t =
     (case t of
        IntegerType \<Rightarrow> Some (SeedJson (JInt 1))
      | StringType \<Rightarrow> Some (SeedJson (JStr (''shadowops_'' @ table @ ''_'' @ column @ ''_1'')))
      | BooleanType \<Rightarrow> Some (SeedJson (JBool True))
      | DateTimeType \<Rightarrow> Some SeedDateTime
      | DateType \<Rightarrow> Some SeedDate
      | NumericType \<Rightarrow> Some SeedDecimal
      | UuidType \<Rightarrow> Some (SeedUuid (uuid5 namespace_url (''shadowops:'' @ table @ '':'' @ column @ '':1'')))
      | OtherType \<Rightarrow> None)"

text \<open>The row so far, the gaps so far, and whether a required column has no value.\<close>

fun synthetic_columns ::
    "string \<Rightarrow> column list \<Rightarrow> seed_row \<times> string list \<times> bool \<Rightarrow> seed_row \<times> string list \<times> bool" where
  "synthetic_columns table [] acc = acc"
| "synthetic_columns table (c # cs) (row, gaps, blocked) =
     synthetic_columns table cs
       (if co_autoincrement c \<and> co_primary_key c then (row, gaps, blocked)
        else (case synthetic_value table (co_name c) (co_type c) of
                Some v \<Rightarrow> (dict_set (co_name c) v row, gaps, blocked)
              | None \<Rightarrow>
                  (row, gaps @ [''unsupported_type:'' @ table @ ''.'' @ co_name c @ '':'' @ co_type_text c],
                   blocked \<or> (\<not> co_nullable c \<and> \<not> co_has_default c \<and> \<not> co_has_server_default c))))"

fun synthetic_tables ::
    "'e shadow_database \<Rightarrow> string list \<Rightarrow> ('e, (string \<times> seed_row list) list \<times> string list) act" where
  "synthetic_tables sd [] = ret ([], [])"
| "synthetic_tables sd (name # names) =
     bind_act (sd_foreign_keys sd name) (\<lambda>foreign.
       if foreign \<noteq> []
       then bind_act (synthetic_tables sd names) (\<lambda>(prepared, gaps).
              ret (prepared, (''unsupported_foreign_key:'' @ name) # gaps))
       else bind_act (sd_columns sd name) (\<lambda>columns.
              case synthetic_columns name columns ([], [], False) of
                (row, own, blocked) \<Rightarrow>
                  bind_act (synthetic_tables sd names) (\<lambda>(prepared, gaps).
                    if blocked then ret (prepared, own @ [''table_not_seeded:'' @ name] @ gaps)
                    else ret ((name, [row]) # prepared, own @ gaps))))"

definition synthetic_rows ::
    "'e shadow_database \<Rightarrow> ('e, (string \<times> seed_row list) list \<times> string list) act" where
  "synthetic_rows sd = bind_act (table_names sd) (synthetic_tables sd)"

section \<open>Seeding and smoke checks\<close>

definition seed_summary ::
    "string \<Rightarrow> nat \<Rightarrow> string list \<Rightarrow> (string \<times> int) list \<Rightarrow> bool \<Rightarrow> (string \<times> json) list" where
  "seed_summary source considered seeded inserted covered =
     [(''source'', JStr source), (''tables_considered'', JInt (int considered)),
      (''tables_seeded'', strings_json seeded), (''rows_inserted'', counts_json inserted),
      (''coverage_complete'', JBool covered)]"

definition insert_prepared ::
    "'e shadow_database \<Rightarrow> string \<Rightarrow> (string \<times> seed_row list) list \<Rightarrow> string list \<Rightarrow> string list \<Rightarrow>
     ('e, (string \<times> json) list \<times> string list) act" where
  "insert_prepared sd source prepared names gaps =
     then_act (sd_insert sd (filter (\<lambda>(name, rows). rows \<noteq> []) prepared))
       (bind_act (table_names sd) (\<lambda>considered.
          ret (seed_summary source (length considered) names
                 (map (\<lambda>(name, rows). (name, int (length rows))) prepared) (gaps = []), gaps)))"

text \<open>
  The manifest file: absent, or what reading and parsing it gives.
\<close>

definition seed_database ::
    "'e shadow_database \<Rightarrow> json res option \<Rightarrow> bool \<Rightarrow>
     ('e, (string \<times> json) list \<times> string list) act" where
  "seed_database sd manifest allow_synthetic =
     (case manifest of
        Some loaded \<Rightarrow>
          bind_act (of_res loaded) (\<lambda>payload.
          bind_act (manifest_rows sd payload) (\<lambda>(prepared, names).
            insert_prepared sd ''fixture_manifest'' prepared names []))
      | None \<Rightarrow>
          if \<not> allow_synthetic
          then bind_act (table_names sd) (\<lambda>considered.
                 ret (seed_summary ''synthetic'' (length considered) [] [] False,
                      [''no_baseline_schema:synthetic_seed_skipped'']))
          else bind_act (synthetic_rows sd) (\<lambda>(prepared, gaps).
                 insert_prepared sd ''synthetic'' prepared (map fst prepared) gaps))"

definition smoke_checks ::
    "'e shadow_database \<Rightarrow> ('e, schema_report \<times> (string \<times> json) list) act" where
  "smoke_checks sd =
     bind_act (schema_fingerprint sd) (\<lambda>schema.
     bind_act (row_counts sd) (\<lambda>counts.
     bind_act (sd_constraints sd) (\<lambda>(all, unvalidated).
       ret (schema,
            [(''schema_fingerprint'', JStr (sc_fingerprint schema)),
             (''row_counts'', counts_json counts), (''constraint_count'', JInt all),
             (''unvalidated_constraint_count'', JInt unvalidated),
             (''constraints_immediate'', JBool True)]))))"

end
