(* ===== verification/RunnerMain.thy ===== *)
theory RunnerMain
  imports RunnerChecks
begin

text \<open>
  \<open>runner/src/shadowops_runner/main.py\<close>: one action from the request in the environment to the
  result on standard output.
\<close>

section \<open>Bounded text\<close>

text \<open>\<open>xs[:limit]\<close>\<close>

definition slice_to :: "int \<Rightarrow> 'a list \<Rightarrow> 'a list" where
  "slice_to limit xs =
     (if 0 \<le> limit then take (nat limit) xs else take (length xs - nat (- limit)) xs)"

text \<open>Bytes are dropped from the end until the rest decodes.\<close>

function trim_bytes :: "bytes \<Rightarrow> bytes \<times> string" where
  "trim_bytes bs =
     (if bs = [] then ([], [])
      else case decode bs of Some text \<Rightarrow> (bs, text) | None \<Rightarrow> trim_bytes (butlast bs))"
  by pat_completeness auto

termination
  by (relation "measure length") auto

declare trim_bytes.simps [simp del]

definition runner_artifact :: "string \<Rightarrow> int \<Rightarrow> bounded_artifact" where
  "runner_artifact value limit =
     (let encoded = encode value; (bounded, rendered) = trim_bytes (slice_to limit encoded)
      in \<lparr>ba_byte_count = int (length bounded), ba_sha256 = hexdigest bounded,
          ba_truncated = (limit < int (length encoded)), ba_text = rendered\<rparr>)"

section \<open>The request\<close>

fun json_repr :: "json \<Rightarrow> string" where
  "json_repr JNull = ''None''"
| "json_repr (JBool b) = (if b then ''True'' else ''False'')"
| "json_repr (JInt i) = dec_int i"
| "json_repr (JNum t) = t"
| "json_repr (JStr s) = py_repr s"
| "json_repr (JList xs) = ''['' @ join_with '', '' (map json_repr xs) @ '']''"
| "json_repr (JObj kvs) =
     ''{'' @ join_with '', '' (map (\<lambda>(k, v). py_repr k @ '': '' @ json_repr v) kvs) @ ''}''"

definition json_str :: "json \<Rightarrow> string" where
  "json_str v = (case v of JStr s \<Rightarrow> s | _ \<Rightarrow> json_repr v)"

text \<open>
  What the process is given: the environment variables, the parser of JSON, the fixture manifest,
  the reading of a float literal as an integer, the texts a traceback prints, and the elapsed time.
\<close>

record runner_inputs =
  ri_environment :: "string \<rightharpoonup> string"
  ri_loads :: "string \<Rightarrow> json res"
  ri_manifest :: "json res option"
  ri_float_int :: "string \<Rightarrow> int res"
  ri_traceback :: "exn \<Rightarrow> string"
  ri_duration_ms :: int

definition json_int :: "runner_inputs \<Rightarrow> json \<Rightarrow> int res" where
  "json_int inp v =
     (case v of
        JInt i \<Rightarrow> Inr i
      | JBool b \<Rightarrow> Inr (if b then 1 else 0)
      | JNum t \<Rightarrow> ri_float_int inp t
      | JStr s \<Rightarrow>
          (case py_int s of
             Some i \<Rightarrow> Inr i
           | None \<Rightarrow> Inl (ValueError (''invalid literal for int() with base 10: '' @ py_repr s)))
      | _ \<Rightarrow> Inl (type_error (''int() argument must be a string, a bytes-like object or a real number, not ''
                    @ quoted (json_type v))))"

text \<open>\<open>payload[key]\<close> and \<open>os.environ[name]\<close>: the message of a \<open>KeyError\<close> is the key's \<open>repr\<close>.\<close>

definition item_of :: "(string \<times> json) list \<Rightarrow> string \<Rightarrow> json res" where
  "item_of payload key =
     (case map_of payload key of None \<Rightarrow> Inl (KeyError (py_repr key)) | Some v \<Rightarrow> Inr v)"

definition environ :: "runner_inputs \<Rightarrow> string \<Rightarrow> string res" where
  "environ inp name =
     (case ri_environment inp name of None \<Rightarrow> Inl (KeyError (py_repr name)) | Some v \<Rightarrow> Inr v)"

definition database_url :: "runner_inputs \<Rightarrow> (string \<times> json) list \<Rightarrow> string res" where
  "database_url inp payload =
     (if map_of payload ''database_alias'' \<noteq> Some (JStr ''shadow-postgres'')
      then Inl (ValueError ''database alias is not allowlisted'')
      else bind_res (environ inp ''SHADOWOPS_DB_USER'') (\<lambda>user.
           bind_res (environ inp ''SHADOWOPS_DB_PASSWORD'') (\<lambda>password.
           bind_res (environ inp ''SHADOWOPS_DB_NAME'') (\<lambda>database.
           bind_res (item_of payload ''statement_timeout_ms'') (\<lambda>v.
           bind_res (json_int inp v) (\<lambda>timeout.
             Inr (''postgresql+psycopg://'' @ user @ '':'' @ password @ ''@shadow-postgres:5432/'' @ database
                  @ ''?options=-c%20statement_timeout%3D'' @ dec_int timeout)))))))"

section \<open>Errors\<close>

text \<open>\<open>type(error).__name__\<close> of what an action can raise.\<close>

fun exn_name :: "exn \<Rightarrow> string" where
  "exn_name (ValueError m) = ''ValueError''"
| "exn_name (KeyError m) = ''KeyError''"
| "exn_name (IndexError m) = ''IndexError''"
| "exn_name (RuntimeError m) = ''RuntimeError''"
| "exn_name (IntegrityError m) = ''IntegrityError''"
| "exn_name (DataError m) = ''DataError''"
| "exn_name (OverflowError m) = ''OverflowError''"
| "exn_name (OSError m) = ''OSError''"
| "exn_name (ForeignError n m) = n"
| "exn_name _ = ''Exception''"

fun is_integrity_error :: "exn \<Rightarrow> bool" where
  "is_integrity_error (IntegrityError m) = True"
| "is_integrity_error _ = False"

fun is_data_error :: "exn \<Rightarrow> bool" where
  "is_data_error (DataError m) = True"
| "is_data_error _ = False"

definition is_action :: "json option \<Rightarrow> runner_action \<Rightarrow> bool" where
  "is_action v a \<longleftrightarrow> v = Some (JStr (action_value a))"

definition error_code_for :: "json option \<Rightarrow> exn \<Rightarrow> string" where
  "error_code_for action e =
     (if is_value_error e then ''INVALID_INPUT''
      else if is_action action LOAD_TEST_DATA_ACTION
      then (if is_integrity_error e then ''SEED_CONSTRAINT_FAILED''
            else if is_data_error e then ''SEED_TYPE_FAILED'' else ''SEED_FAILED'')
      else if is_action action RUN_SMOKE_CHECKS_ACTION then ''SMOKE_CHECK_FAILED''
      else if is_action action VERIFY_ROLLBACK_ROUNDTRIP_ACTION then ''ROLLBACK_FAILED''
      else ''MIGRATION_FAILED'')"

definition error_text :: "exn \<Rightarrow> string" where
  "error_text e = exn_name e @ '': '' @ exn_detail e"

section \<open>One action\<close>

text \<open>The local variables that an exception leaves as they are.\<close>

record 'e action_state =
  at_engine :: 'e
  at_gaps :: "string list"
  at_observations :: "runner_observation list"
  at_current :: "string option"

definition on_engine :: "('e, 'a) act \<Rightarrow> ('e action_state, 'a) act" where
  "on_engine m st = (case m (at_engine st) of (r, e) \<Rightarrow> (r, st\<lparr>at_engine := e\<rparr>))"

definition set_gaps :: "string list \<Rightarrow> ('e action_state, unit) act" where
  "set_gaps gaps st = (Inr (), st\<lparr>at_gaps := gaps\<rparr>)"

definition add_observations :: "runner_observation list \<Rightarrow> ('e action_state, unit) act" where
  "add_observations obs st = (Inr (), st\<lparr>at_observations := at_observations st @ obs\<rparr>)"

definition set_current :: "string \<Rightarrow> ('e action_state, unit) act" where
  "set_current revision st = (Inr (), st\<lparr>at_current := Some revision\<rparr>)"

definition current_revision :: "'e shadow_database \<Rightarrow> ('e, string) act" where
  "current_revision sd =
     bind_act (sd_version sd) (\<lambda>v. ret (case v of None \<Rightarrow> ''base'' | Some r \<Rightarrow> r))"

definition load_test_data ::
    "'e shadow_database \<Rightarrow> runner_inputs \<Rightarrow> (string \<times> json) list \<Rightarrow> ('e action_state, unit) act" where
  "load_test_data sd inp payload =
     bind_act (on_engine (seed_database sd (ri_manifest inp)
                 (map_of payload ''baseline_revision'' \<noteq> Some (JStr ''base'')))) (\<lambda>(summary, gaps).
     then_act (set_gaps gaps)
       (bind_act (of_res (make_observation SEED_SUMMARY summary)) (\<lambda>ob. add_observations [ob])))"

definition run_smoke_checks :: "'e shadow_database \<Rightarrow> ('e action_state, unit) act" where
  "run_smoke_checks sd =
     bind_act (on_engine (smoke_checks sd)) (\<lambda>(schema, smoke).
     bind_act (of_res (make_observation SCHEMA_FINGERPRINT (schema_data schema))) (\<lambda>a.
     bind_act (of_res (make_observation SMOKE_SUMMARY smoke)) (\<lambda>b. add_observations [a, b])))"

definition roundtrip_data ::
    "string \<Rightarrow> string \<Rightarrow> string \<Rightarrow> string \<Rightarrow> schema_report \<Rightarrow> schema_report \<Rightarrow> (string \<times> int) list \<Rightarrow>
     (string \<times> int) list \<Rightarrow> bool \<Rightarrow> (string \<times> json) list" where
  "roundtrip_data baseline downgraded target upgraded schema_before schema_after before after restored =
     [(''baseline_revision'', JStr baseline), (''downgraded_revision'', JStr downgraded),
      (''target_revision'', JStr target), (''upgraded_revision'', JStr upgraded),
      (''schema_before'', JStr (sc_fingerprint schema_before)),
      (''schema_after'', JStr (sc_fingerprint schema_after)),
      (''row_counts_before'', counts_json before), (''row_counts_after'', counts_json after),
      (''restored'', JBool restored)]"

text \<open>The counts are dictionaries: compared as maps.\<close>

definition verify_roundtrip ::
    "'e shadow_database \<Rightarrow> (string \<times> json) list \<Rightarrow> string \<Rightarrow> ('e action_state, unit) act" where
  "verify_roundtrip sd payload revision =
     (case map_of payload ''baseline_revision'' of
        Some (JStr baseline) \<Rightarrow>
          bind_act (on_engine (schema_fingerprint sd)) (\<lambda>schema_before.
          bind_act (on_engine (row_counts sd)) (\<lambda>rows_before.
          then_act (on_engine (sd_downgrade sd baseline))
          (bind_act (on_engine (current_revision sd)) (\<lambda>downgraded.
          then_act (on_engine (sd_upgrade sd revision))
          (bind_act (on_engine (current_revision sd)) (\<lambda>upgraded.
           bind_act (on_engine (schema_fingerprint sd)) (\<lambda>schema_after.
           bind_act (on_engine (row_counts sd)) (\<lambda>rows_after.
             let restored = (upgraded = revision \<and>
                   sc_fingerprint schema_before = sc_fingerprint schema_after \<and>
                   map_of (dict_of rows_before) = map_of (dict_of rows_after))
             in bind_act (of_res (make_observation ROLLBACK_ROUNDTRIP
                    (roundtrip_data baseline downgraded revision upgraded schema_before schema_after
                       rows_before rows_after restored))) (\<lambda>a.
                bind_act (of_res (make_observation SCHEMA_FINGERPRINT (schema_data schema_after))) (\<lambda>b.
                then_act (add_observations [a, b])
                  (if restored then ret ()
                   else raise_act (RuntimeError
                          ''schema or row-count fingerprint changed after roundtrip''))))))))))))
      | _ \<Rightarrow> raise_act (ValueError ''rollback roundtrip requires baseline_revision''))"

text \<open>\<open>action not in {...}\<close> hashes the action first.\<close>

definition allowlisted :: "json option \<Rightarrow> runner_action res" where
  "allowlisted action =
     (case action of
        Some (JList xs) \<Rightarrow> Inl (type_error (''unhashable type: '' @ quoted ''list''))
      | Some (JObj kvs) \<Rightarrow> Inl (type_error (''unhashable type: '' @ quoted ''dict''))
      | _ \<Rightarrow> (case find (is_action action) runner_actions of
                None \<Rightarrow> Inl (ValueError ''action is not allowlisted'')
              | Some a \<Rightarrow> Inr a))"

text \<open>
  The checks before the configuration exists; afterwards a failing round trip upgrades again.
\<close>

definition prepare_action ::
    "runner_inputs \<Rightarrow> (string \<times> json) list \<Rightarrow> (runner_action \<times> string) res" where
  "prepare_action inp payload =
     (if map_of payload ''schema_version'' \<noteq> Some (JStr ''1.0'')
      then Inl (ValueError ''unsupported request schema'')
      else bind_res (allowlisted (map_of payload ''action'')) (\<lambda>action.
           bind_res (item_of payload ''revision'') (\<lambda>revision.
           bind_res (database_url inp payload) (\<lambda>url. Inr (action, json_str revision)))))"

definition perform_action ::
    "'e shadow_database \<Rightarrow> runner_inputs \<Rightarrow> (string \<times> json) list \<Rightarrow> runner_action \<Rightarrow> string \<Rightarrow>
     ('e action_state, unit) act" where
  "perform_action sd inp payload action revision =
     then_act
       (case action of
          UPGRADE_BASELINE_ACTION \<Rightarrow> on_engine (sd_upgrade sd revision)
        | APPLY_TARGET \<Rightarrow> on_engine (sd_upgrade sd revision)
        | LOAD_TEST_DATA_ACTION \<Rightarrow> load_test_data sd inp payload
        | RUN_SMOKE_CHECKS_ACTION \<Rightarrow> run_smoke_checks sd
        | VERIFY_ROLLBACK_ROUNDTRIP_ACTION \<Rightarrow> verify_roundtrip sd payload revision)
       (bind_act (on_engine (current_revision sd)) set_current)"

definition restore_target ::
    "'e shadow_database \<Rightarrow> string \<Rightarrow> ('e action_state, unit) act" where
  "restore_target sd revision =
     suppress_act (\<lambda>e. True)
       (then_act (on_engine (sd_upgrade sd revision))
         (bind_act (on_engine (current_revision sd)) set_current))"

text \<open>
  The failure, the state when the output is no longer redirected, and the state after the attempt
  to upgrade again.
\<close>

definition attempt_action ::
    "'e shadow_database \<Rightarrow> runner_inputs \<Rightarrow> (string \<times> json) list \<Rightarrow> 'e action_state \<Rightarrow>
     exn option \<times> 'e action_state \<times> 'e action_state" where
  "attempt_action sd inp payload st =
     (case prepare_action inp payload of
        Inl e \<Rightarrow> (Some e, st, st)
      | Inr (action, revision) \<Rightarrow>
          (case perform_action sd inp payload action revision st of
             (Inr u, st') \<Rightarrow> (None, st', st')
           | (Inl e, st') \<Rightarrow>
               (Some e, st', if action = VERIFY_ROLLBACK_ROUNDTRIP_ACTION
                             then snd (restore_target sd revision st') else st')))"

text \<open>What is printed: a result whose action is the value of the payload.\<close>

record runner_output =
  out_action :: json
  out_status :: runner_status
  out_error_code :: "string option"
  out_error_detail :: "string option"
  out_current_revision :: "string option"
  out_duration_ms :: int
  out_coverage_gaps :: "string list"
  out_observations :: "runner_observation list"
  out_stdout :: bounded_artifact
  out_stderr :: bounded_artifact

text \<open>The captured streams are those of the engine when the redirection ends.\<close>

definition runner_execute ::
    "'e shadow_database \<Rightarrow> ('e \<Rightarrow> string) \<Rightarrow> ('e \<Rightarrow> string) \<Rightarrow> runner_inputs \<Rightarrow> json \<Rightarrow> 'e \<Rightarrow>
     runner_output res \<times> 'e" where
  "runner_execute sd captured_out captured_err inp payload engine =
     (case payload of
        JObj kvs \<Rightarrow>
          (case json_int inp (case map_of kvs ''output_limit_bytes'' of None \<Rightarrow> JInt 65536 | Some v \<Rightarrow> v) of
             Inl e \<Rightarrow> (Inl e, engine)
           | Inr limit \<Rightarrow>
               let (failure, captured, st) = attempt_action sd inp kvs
                     \<lparr>at_engine = engine, at_gaps = [], at_observations = [], at_current = None\<rparr>;
                   action = map_of kvs ''action''
               in (Inr \<lparr>out_action = (case action of None \<Rightarrow> JStr ''APPLY_TARGET'' | Some v \<Rightarrow> v),
                        out_status = (if failure = None then RunnerSucceeded else RunnerFailed),
                        out_error_code = map_option (error_code_for action) failure,
                        out_error_detail = map_option (\<lambda>e. take 500 (error_text e)) failure,
                        out_current_revision = at_current st,
                        out_duration_ms = max 0 (ri_duration_ms inp),
                        out_coverage_gaps = at_gaps st, out_observations = at_observations st,
                        out_stdout = runner_artifact (captured_out (at_engine captured)) limit,
                        out_stderr = runner_artifact (captured_err (at_engine captured) @
                          (case failure of None \<Rightarrow> [] | Some e \<Rightarrow> ri_traceback inp e)) limit\<rparr>,
                   at_engine st))
      | v \<Rightarrow> (Inl (ForeignError ''AttributeError''
                (quoted (json_type v) @ '' object has no attribute '' @ quoted ''get'')), engine))"

definition invalid_input :: "exn \<Rightarrow> runner_output" where
  "invalid_input e =
     \<lparr>out_action = JStr ''APPLY_TARGET'', out_status = RunnerFailed,
      out_error_code = Some ''INVALID_INPUT'', out_error_detail = Some (take 500 (error_text e)),
      out_current_revision = None, out_duration_ms = 0, out_coverage_gaps = [],
      out_observations = [], out_stdout = runner_artifact [] 65536,
      out_stderr = runner_artifact (error_text e) 65536\<rparr>"

definition runner_main ::
    "'e shadow_database \<Rightarrow> ('e \<Rightarrow> string) \<Rightarrow> ('e \<Rightarrow> string) \<Rightarrow> runner_inputs \<Rightarrow> 'e \<Rightarrow>
     runner_output \<times> 'e" where
  "runner_main sd captured_out captured_err inp engine =
     (case bind_res (environ inp ''SHADOWOPS_RUNNER_REQUEST'') (ri_loads inp) of
        Inl e \<Rightarrow> (invalid_input e, engine)
      | Inr payload \<Rightarrow>
          (case runner_execute sd captured_out captured_err inp payload engine of
             (Inl e, engine') \<Rightarrow> (invalid_input e, engine')
           | (Inr out, engine') \<Rightarrow> (out, engine')))"

section \<open>The printed line\<close>

definition artifact_json :: "bounded_artifact \<Rightarrow> json" where
  "artifact_json a =
     JObj [(''media_type'', JStr ''text/plain''), (''byte_count'', JInt (ba_byte_count a)),
           (''sha256'', JStr (ba_sha256 a)), (''truncated'', JBool (ba_truncated a)),
           (''text'', JStr (ba_text a))]"

definition observed_json :: "runner_observation \<Rightarrow> json" where
  "observed_json ob =
     JObj [(''kind'', JStr (observation_value (ro_kind ob))), (''scope'', JStr ''observed_in_shadow''),
           (''sha256'', JStr (ro_sha256 ob)), (''data'', JObj (ro_data ob))]"

definition output_json :: "runner_output \<Rightarrow> json" where
  "output_json out =
     JObj [(''schema_version'', JStr ''1.0''), (''action'', out_action out),
           (''status'', JStr (if out_status out = RunnerSucceeded then ''SUCCEEDED'' else ''FAILED'')),
           (''error_code'', opt_json JStr (out_error_code out)),
           (''error_detail'', opt_json JStr (out_error_detail out)),
           (''current_revision'', opt_json JStr (out_current_revision out)),
           (''duration_ms'', JInt (out_duration_ms out)),
           (''coverage_gaps'', strings_json (out_coverage_gaps out)),
           (''observations'', JList (map observed_json (out_observations out))),
           (''stdout'', artifact_json (out_stdout out)), (''stderr'', artifact_json (out_stderr out))]"

definition printed_line :: "runner_output \<Rightarrow> string" where
  "printed_line out = dumps True (output_json out)"

end
