(* ===== verification/RunnerFacts.thy ===== *)
theory RunnerFacts
  imports RunnerMain
begin

text \<open>What the runner guarantees about what it prints.\<close>

section \<open>Bounded text\<close>

text \<open>A prefix of an encoded text is an encoded prefix and at most one byte of the next character.\<close>

lemma take_encode:
  "\<exists>p rest. prefix p s \<and> take n (encode s) = encode p @ rest \<and>
     (rest = [] \<or> (\<exists>b. rest = [b] \<and> 128 \<le> unat b))"
proof (induction s arbitrary: n)
  case Nil
  show ?case by (intro exI [of _ "[]"]) simp
next
  case (Cons c s)
  define i where "i = (of_char c :: nat)"
  have i: "i < 256" using of_char_less_256 by (simp add: i_def)
  show ?case
  proof (cases "length (utf8_char c) \<le> n")
    case True
    obtain p rest where p: "prefix p s" "take (n - length (utf8_char c)) (encode s) = encode p @ rest"
      "rest = [] \<or> (\<exists>b. rest = [b] \<and> 128 \<le> unat b)" using Cons.IH by blast
    with True show ?thesis by (intro exI [of _ "c # p"] exI [of _ rest]) simp
  next
    case False
    then have short: "take n (encode (c # s)) = take n (utf8_char c)" by simp
    show ?thesis
    proof (cases "n = 0")
      case True
      then show ?thesis by (intro exI [of _ "[]"]) simp
    next
      case nz: False
      with False have two: "\<not> i < 128" "n = 1"
        by (auto simp: utf8_char_def Let_def i_def split: if_splits)
      define b :: byte where "b = word_of_nat (192 + i div 64)"
      have "i div 64 < 4" using i by simp
      then have "unat b = 192 + i div 64" by (simp only: b_def unat_of_nat) simp
      moreover have "take n (utf8_char c) = [b]"
        using two by (simp add: utf8_char_def Let_def b_def i_def)
      ultimately show ?thesis
        using short by (intro exI [of _ "[]"] exI [of _ "[b]"]) simp
    qed
  qed
qed

lemma decode_cut: "128 \<le> unat b \<Longrightarrow> decode (encode p @ [b]) = None"
  by (induction p) (simp_all add: decode_utf8_char)

lemma trim_encode: "trim_bytes (encode p) = (encode p, p)"
  using encode_inject [of p "[]"] by (simp add: trim_bytes.simps [of "encode p"])

lemma trim_cut: "128 \<le> unat b \<Longrightarrow> trim_bytes (encode p @ [b]) = (encode p, p)"
  by (simp add: trim_bytes.simps [of "encode p @ [b]"] decode_cut trim_encode)

lemma trim_slice:
  obtains p where "prefix p s" "trim_bytes (take n (encode s)) = (encode p, p)"
    "length (encode p) \<le> length (take n (encode s))"
    "length (take n (encode s)) \<le> length (encode p) + 1"
proof -
  from take_encode [of s n] obtain p rest where p: "prefix p s" "take n (encode s) = encode p @ rest"
    and rest: "rest = [] \<or> (\<exists>b. rest = [b] \<and> 128 \<le> unat b)" by blast
  from rest have "trim_bytes (encode p @ rest) = (encode p, p) \<and> length rest \<le> 1"
    by (auto simp: trim_encode trim_cut)
  with p show thesis by (intro that [of p]) simp_all
qed

lemma runner_artifact_text:
  assumes "0 \<le> limit"
  shows "\<exists>p. prefix p s \<and> ba_text (runner_artifact s limit) = p \<and>
    ba_byte_count (runner_artifact s limit) = int (length (encode p)) \<and>
    ba_sha256 (runner_artifact s limit) = hexdigest (encode p) \<and>
    int (length (encode p)) \<le> limit \<and>
    min limit (int (length (encode s))) \<le> int (length (encode p)) + 1"
proof -
  obtain p where "prefix p s" "trim_bytes (take (nat limit) (encode s)) = (encode p, p)"
    "length (encode p) \<le> length (take (nat limit) (encode s))"
    "length (take (nat limit) (encode s)) \<le> length (encode p) + 1"
    by (rule trim_slice)
  with assms show ?thesis
    by (intro exI [of _ p]) (auto simp: runner_artifact_def slice_to_def min_def split: if_splits)
qed

lemma slice_to_take: "\<exists>n. slice_to limit xs = take n xs"
  unfolding slice_to_def by (cases "0 \<le> limit") auto

lemma runner_artifact_valid: "bounded_artifact_valid (runner_artifact s limit)"
proof -
  obtain n where n: "slice_to limit (encode s) = take n (encode s)"
    using slice_to_take by blast
  obtain p where "trim_bytes (take n (encode s)) = (encode p, p)" by (rule trim_slice)
  with n show ?thesis
    by (simp add: runner_artifact_def bounded_artifact_valid_def is_sha256_hex_hexdigest)
qed

section \<open>Observations\<close>

definition observed :: "'e action_state \<Rightarrow> bool" where
  "observed st \<longleftrightarrow> list_all runner_observation_valid (at_observations st) \<and> length (at_observations st) \<le> 2"

text \<open>An action that adds nothing, and one that leaves a valid list when it starts from none.\<close>

definition silent :: "('e action_state, 'a) act \<Rightarrow> bool" where
  "silent m \<longleftrightarrow> (\<forall>st. at_observations (snd (m st)) = at_observations st)"

definition observes :: "('e action_state, 'a) act \<Rightarrow> bool" where
  "observes m \<longleftrightarrow> (\<forall>st. at_observations st = [] \<longrightarrow> observed (snd (m st)))"

lemma silent_basic:
  "silent (ret x)" "silent (raise_act e)" "silent (of_res r)" "silent (on_engine m)"
  "silent (set_gaps gaps)" "silent (set_current revision)"
  by (auto simp: silent_def on_engine_def set_gaps_def set_current_def split: prod.split)

lemma silent_bind: "silent m \<Longrightarrow> (\<And>x. silent (f x)) \<Longrightarrow> silent (bind_act m f)"
  unfolding silent_def by (auto simp: bind_act_def split: prod.split sum.split) (metis snd_conv)+

lemma silent_then: "silent m \<Longrightarrow> silent k \<Longrightarrow> silent (then_act m k)"
  unfolding then_act_def by (rule silent_bind)

lemma observes_silent: "silent m \<Longrightarrow> observes m"
  by (simp add: silent_def observes_def observed_def)

lemma observes_bind: "silent m \<Longrightarrow> (\<And>x. observes (f x)) \<Longrightarrow> observes (bind_act m f)"
  unfolding silent_def observes_def
  by (auto simp: bind_act_def observed_def split: prod.split sum.split) (metis snd_conv list.pred_inject(1) list.size(3) zero_le)+

lemma observes_bind_after: "observes m \<Longrightarrow> (\<And>x. silent (f x)) \<Longrightarrow> observes (bind_act m f)"
  unfolding silent_def observes_def
  by (auto simp: bind_act_def observed_def split: prod.split sum.split)


lemma observation_ok:
  assumes "make_observation kind data = Inr ob"
  shows "runner_observation_valid ob"
  using assms by (auto simp: make_observation_def runner_observation_valid_def Let_def
      is_sha256_hex_hexdigest split: if_splits)

lemma observes_one: "observes (bind_act (of_res (make_observation k data)) (\<lambda>ob. add_observations [ob]))"
  by (auto simp: observes_def observed_def bind_act_def add_observations_def of_res_def observation_ok
      split: sum.split)

lemma observes_two:
  assumes "silent m"
  shows "observes (bind_act (of_res (make_observation k data)) (\<lambda>a.
    bind_act (of_res (make_observation k' data')) (\<lambda>b. then_act (add_observations [a, b]) m)))"
  using assms unfolding observes_def silent_def observed_def then_act_def bind_act_def
  by (auto simp: add_observations_def of_res_def observation_ok split: sum.split prod.split)

lemma load_test_data_observes: "observes (load_test_data sd inp payload)"
  unfolding load_test_data_def
  by (intro observes_bind silent_basic)
    (auto simp: then_act_def intro!: observes_bind silent_basic observes_one split: prod.split)

lemma observes_pair: "observes (bind_act (of_res (make_observation k data)) (\<lambda>a.
    bind_act (of_res (make_observation k' data')) (\<lambda>b. add_observations [a, b])))"
  by (auto simp: observes_def observed_def bind_act_def add_observations_def of_res_def observation_ok
      split: sum.split)

lemma run_smoke_checks_observes: "observes (run_smoke_checks sd)"
  unfolding run_smoke_checks_def
  by (intro observes_bind silent_basic) (auto intro!: observes_pair split: prod.split)

lemma verify_roundtrip_observes: "observes (verify_roundtrip sd payload revision)"
  unfolding verify_roundtrip_def Let_def
  by (auto split: option.split json.split simp: then_act_def
      intro!: observes_bind silent_basic observes_two [unfolded then_act_def]
        observes_silent [OF silent_basic(2)])

lemma perform_action_observes: "observes (perform_action sd inp payload action revision)"
  unfolding perform_action_def then_act_def
  by (intro observes_bind_after silent_bind silent_basic)
    (auto intro: observes_silent silent_basic load_test_data_observes run_smoke_checks_observes
      verify_roundtrip_observes split: runner_action.split)

lemma suppress_silent: "silent m \<Longrightarrow> silent (suppress_act P m)"
  unfolding silent_def suppress_act_def by (auto split: prod.split sum.split) (metis snd_conv)+

lemma restore_target_silent: "silent (restore_target sd revision)"
  unfolding restore_target_def by (intro suppress_silent silent_then silent_bind silent_basic)

lemma attempt_action_observed:
  assumes "attempt_action sd inp payload st = (failure, captured, st')" "at_observations st = []"
  shows "observed st'"
proof (cases "prepare_action inp payload")
  case Inl
  with assms show ?thesis by (auto simp: attempt_action_def observed_def)
next
  case (Inr p)
  obtain a revision where p: "p = (a, revision)" by (cases p)
  obtain r st1 where run: "perform_action sd inp payload a revision st = (r, st1)"
    by (cases "perform_action sd inp payload a revision st")
  have "observed st1"
    using perform_action_observes [of sd inp payload a revision] assms(2) run
    unfolding observes_def by (metis snd_conv)
  moreover have "at_observations (snd (restore_target sd revision st1)) = at_observations st1"
    using restore_target_silent unfolding silent_def by blast
  ultimately show ?thesis
    using assms(1) Inr p run by (auto simp: attempt_action_def observed_def split: sum.splits if_splits)
qed

section \<open>The output\<close>

text \<open>The clauses of \<open>RunnerResultV1\<close> the runner meets whatever it is given.\<close>

definition output_ok :: "runner_output \<Rightarrow> bool" where
  "output_ok out \<longleftrightarrow>
     max_length 64 (out_error_code out) \<and> max_length 500 (out_error_detail out) \<and>
     0 \<le> out_duration_ms out \<and> length (out_observations out) \<le> 2 \<and>
     list_all runner_observation_valid (out_observations out) \<and>
     bounded_artifact_valid (out_stdout out) \<and> bounded_artifact_valid (out_stderr out) \<and>
     (out_status out = RunnerFailed \<longleftrightarrow> out_error_code out \<noteq> None) \<and>
     (out_error_code out = None \<longleftrightarrow> out_error_detail out = None)"

lemma error_code_short: "length (error_code_for action e) \<le> 64"
  by (simp add: error_code_for_def)

lemma invalid_input_ok: "output_ok (invalid_input e)"
  by (simp add: output_ok_def invalid_input_def max_length_def runner_artifact_valid)

lemma runner_execute_ok:
  assumes "runner_execute sd o1 o2 inp payload engine = (Inr out, engine')"
  shows "output_ok out"
proof -
  obtain kvs where kvs: "payload = JObj kvs"
    using assms by (cases payload) (auto simp: runner_execute_def)
  let ?limit = "json_int inp (case map_of kvs ''output_limit_bytes'' of None \<Rightarrow> JInt 65536 | Some v \<Rightarrow> v)"
  obtain limit where limit: "?limit = Inr limit"
    using assms kvs by (cases ?limit) (auto simp: runner_execute_def)
  let ?st = "\<lparr>at_engine = engine, at_gaps = [], at_observations = [], at_current = None\<rparr>"
  obtain failure captured st where at: "attempt_action sd inp kvs ?st = (failure, captured, st)"
    by (metis prod_cases3)
  then have "observed st" by (rule attempt_action_observed) simp
  with assms kvs limit at show ?thesis
    by (cases failure)
      (auto simp: runner_execute_def Let_def output_ok_def observed_def max_length_def runner_artifact_valid
        error_code_short)
qed

lemma runner_main_ok:
  assumes "runner_main sd o1 o2 inp engine = (out, engine')"
  shows "output_ok out"
  using assms runner_execute_ok [of sd o1 o2 inp _ engine]
  by (auto simp: runner_main_def invalid_input_ok split: sum.splits prod.splits)


section \<open>The round trip\<close>

text \<open>A round trip that succeeds saw the target, the same schema and the same row counts again.\<close>

definition restored_pair :: "string \<Rightarrow> string \<Rightarrow> runner_observation list \<Rightarrow> bool" where
  "restored_pair baseline revision obs \<longleftrightarrow>
     (\<exists>downgraded before after counts counts'.
        sc_fingerprint before = sc_fingerprint after \<and>
        map_of (dict_of counts) = map_of (dict_of counts') \<and>
        map ro_data obs =
          [roundtrip_data baseline downgraded revision revision before after counts counts' True,
           schema_data after] \<and>
        list_all runner_observation_valid obs)"

lemma observation_data: "make_observation k data = Inr ob \<Longrightarrow> ro_data ob = data"
  by (auto simp: make_observation_def Let_def split: if_splits)

lemma restored_pairI:
  assumes "make_observation k (roundtrip_data baseline d revision revision before after counts counts' True) = Inr a"
    and "make_observation k' (schema_data after) = Inr b"
    and "sc_fingerprint before = sc_fingerprint after"
    and "map_of (dict_of counts) = map_of (dict_of counts')"
  shows "restored_pair baseline revision [a, b]"
  using assms observation_data [OF assms(1)] observation_data [OF assms(2)]
    observation_ok [OF assms(1)] observation_ok [OF assms(2)]
  unfolding restored_pair_def
  by (intro exI [of _ d] exI [of _ before] exI [of _ after] exI [of _ counts] exI [of _ counts']) simp

lemma on_engine_Inr:
  assumes "on_engine m st = (Inr x, st')"
  shows "\<exists>e. m (at_engine st) = (Inr x, e) \<and> st' = st\<lparr>at_engine := e\<rparr>"
  using assms by (auto simp: on_engine_def split: prod.splits)

lemma verify_roundtrip_Inr:
  assumes "verify_roundtrip sd payload revision st = (Inr (), st')"
  shows "\<exists>baseline obs. map_of payload ''baseline_revision'' = Some (JStr baseline) \<and>
    at_observations st' = at_observations st @ obs \<and> restored_pair baseline revision obs"
proof -
  obtain baseline where b: "map_of payload ''baseline_revision'' = Some (JStr baseline)"
    using assms by (auto simp: verify_roundtrip_def raise_act_def split: option.splits json.splits)
  from assms b have "\<exists>obs. at_observations st' = at_observations st @ obs \<and> restored_pair baseline revision obs"
    by (auto simp: verify_roundtrip_def Let_def then_act_def bind_act_def raise_act_def of_res_def
        add_observations_def ret_def dest!: on_engine_Inr
        split: prod.splits sum.splits if_splits intro: restored_pairI)
  with b show ?thesis by blast
qed

lemma execute_restored:
  assumes "runner_execute sd o1 o2 inp (JObj kvs) engine = (Inr out, engine')"
    and "map_of kvs ''action'' = Some (JStr (action_value VERIFY_ROLLBACK_ROUNDTRIP_ACTION))"
    and "out_status out = RunnerSucceeded"
  shows "\<exists>baseline revision. map_of kvs ''baseline_revision'' = Some (JStr baseline) \<and>
    map_of kvs ''revision'' = Some revision \<and>
    restored_pair baseline (json_str revision) (out_observations out)"
proof -
  let ?limit = "json_int inp (case map_of kvs ''output_limit_bytes'' of None \<Rightarrow> JInt 65536 | Some v \<Rightarrow> v)"
  obtain limit where limit: "?limit = Inr limit"
    using assms by (cases ?limit) (auto simp: runner_execute_def)
  let ?st = "\<lparr>at_engine = engine, at_gaps = [], at_observations = [], at_current = None\<rparr>"
  obtain failure captured st where at: "attempt_action sd inp kvs ?st = (failure, captured, st)"
    by (metis prod_cases3)
  with assms limit have failure: "failure = None" and obs: "out_observations out = at_observations st"
    by (auto simp: runner_execute_def Let_def split: if_splits)
  obtain a revision where prep: "prepare_action inp kvs = Inr (a, revision)"
    using at failure by (cases "prepare_action inp kvs") (auto simp: attempt_action_def)
  from assms(2) prep obtain v where v: "map_of kvs ''revision'' = Some v" "json_str v = revision"
    and a: "a = VERIFY_ROLLBACK_ROUNDTRIP_ACTION"
    by (auto simp: prepare_action_def bind_res_def allowlisted_def item_of_def runner_actions_def is_action_def
        split: if_splits sum.splits option.splits)
  from at failure prep a have "perform_action sd inp kvs a revision ?st = (Inr (), st)"
    by (auto simp: attempt_action_def split: prod.splits sum.splits)
  then obtain st1 where "verify_roundtrip sd kvs revision ?st = (Inr (), st1)"
    and "at_observations st = at_observations st1"
    unfolding perform_action_def a
    by (auto simp: then_act_def bind_act_def set_current_def dest!: on_engine_Inr split: prod.splits sum.splits)
  with verify_roundtrip_Inr [of sd kvs revision ?st st1] v obs show ?thesis by auto
qed

section \<open>The fixture manifest\<close>

text \<open>What a manifest can make the runner insert.\<close>

definition manifest_cell_ok :: "string list \<Rightarrow> string \<times> seed_value \<Rightarrow> bool" where
  "manifest_cell_ok columns cell =
     (case cell of
        (key, SeedJson v) \<Rightarrow> key \<in> set columns \<and> is_identifier key \<and> hashable v \<and>
          (case v of JStr s \<Rightarrow> length (encode s) \<le> 4096 | _ \<Rightarrow> True)
      | _ \<Rightarrow> False)"

lemma manifest_value_ok:
  "manifest_value v = Inr w \<Longrightarrow> hashable w \<and> (case w of JStr s \<Rightarrow> length (encode s) \<le> 4096 | _ \<Rightarrow> True)"
  by (cases v) (auto simp: manifest_value_def split: if_splits)

lemma manifest_cells_ok:
  "manifest_cells kvs = Inr cells \<Longrightarrow> set (map fst kvs) \<subseteq> set columns \<Longrightarrow>
   list_all (manifest_cell_ok columns) cells"
  by (induction kvs arbitrary: cells)
    (auto simp: bind_res_def manifest_cell_ok_def dest!: manifest_value_ok split: if_splits sum.splits)

lemma manifest_row_ok:
  "manifest_row columns row = Inr cells \<Longrightarrow> list_all (manifest_cell_ok columns) cells"
  by (cases row) (simp_all add: manifest_row_def manifest_cells_ok split: if_splits)

lemma map_res_Inr: "map_res f xs = Inr ys \<Longrightarrow> list_all2 (\<lambda>x y. f x = Inr y) xs ys"
  by (induction xs arbitrary: ys) (auto simp: bind_res_def split: sum.splits)

lemma manifest_rows_checked:
  assumes "map_res (manifest_row columns) rows = Inr ys"
  shows "list_all (list_all (manifest_cell_ok columns)) ys \<and> length ys = length rows"
  using map_res_Inr [OF assms] by (induction rule: list_all2_induct) (auto dest: manifest_row_ok)

lemma fixture_entry_ok:
  "fixture_entry available item = Inr (name, rows) \<Longrightarrow> is_identifier name \<and> name \<in> set available"
  by (auto simp: fixture_entry_def split: json.splits option.splits if_splits)

text \<open>A known table, rows over the columns the database has there.\<close>

definition entry_ok :: "'e shadow_database \<Rightarrow> string list \<Rightarrow> string \<times> seed_row list \<Rightarrow> bool" where
  "entry_ok sd available entry \<longleftrightarrow>
     fst entry \<in> set available \<and> is_identifier (fst entry) \<and>
     (\<exists>columns e e'. sd_columns sd (fst entry) e = (Inr columns, e') \<and>
        list_all (list_all (manifest_cell_ok (map co_name columns))) (snd entry))"

lemma manifest_entries_ok:
  assumes "manifest_entries sd available counted items e = (Inr prepared, e')" "counted \<le> max_rows"
  shows "list_all (entry_ok sd available) prepared \<and>
    length prepared = length items \<and> counted + sum_list (map (length \<circ> snd) prepared) \<le> max_rows"
  using assms
proof (induction items arbitrary: counted prepared e)
  case Nil
  then show ?case by simp
next
  case (Cons item items)
  from Cons.prems(1) have "\<exists>name rows columns ys rest e1.
      fixture_entry available item = Inr (name, rows) \<and> counted + length rows \<le> max_rows \<and>
      sd_columns sd name e = (Inr columns, e1) \<and>
      map_res (manifest_row (map co_name columns)) rows = Inr ys \<and>
      manifest_entries sd available (counted + length rows) items e1 = (Inr rest, e') \<and>
      prepared = (name, ys) # rest"
    by (auto simp: bind_act_def of_res_def raise_act_def not_less split: prod.splits sum.splits if_splits)
  then obtain name rows ys rest e1 columns where
    item: "fixture_entry available item = Inr (name, rows)" and
    budget: "counted + length rows \<le> max_rows" and
    columns: "sd_columns sd name e = (Inr columns, e1)" and
    cols: "map_res (manifest_row (map co_name columns)) rows = Inr ys" and
    rest: "manifest_entries sd available (counted + length rows) items e1 = (Inr rest, e')" and
    prepared: "prepared = (name, ys) # rest"
    by blast
  have "entry_ok sd available (name, ys)"
    using fixture_entry_ok [OF item] manifest_rows_checked [OF cols] columns
    unfolding entry_ok_def fst_conv snd_conv by blast
  with Cons.IH [OF rest budget] manifest_rows_checked [OF cols] prepared show ?case by auto
qed

lemma table_names_Inr:
  assumes "table_names sd e = (Inr names, e')"
  shows "length names \<le> max_tables \<and> sorted names \<and> ''alembic_version'' \<notin> set names"
  using assms by (auto simp: table_names_def bind_act_def raise_act_def Let_def not_less
      split: prod.splits sum.splits if_splits)

lemma manifest_rows_ok:
  assumes "manifest_rows sd payload e = (Inr (prepared, names), e')"
  shows "\<exists>available e1 e2. table_names sd e1 = (Inr available, e2) \<and>
    list_all (entry_ok sd available) prepared \<and>
    names = map fst prepared \<and> length prepared \<le> max_tables \<and>
    sum_list (map (length \<circ> snd) prepared) \<le> max_rows"
proof -
  from assms have "\<exists>items available e1 e2. length items \<le> max_tables \<and>
      table_names sd e1 = (Inr available, e2) \<and>
      manifest_entries sd available 0 items e2 = (Inr prepared, e') \<and> names = map fst prepared"
    by (auto simp: manifest_rows_def bind_act_def of_res_def raise_act_def not_less
        split: prod.splits sum.splits if_splits json.splits)
  then obtain items available e1 e2 where
    "length items \<le> max_tables" "table_names sd e1 = (Inr available, e2)"
    "manifest_entries sd available 0 items e2 = (Inr prepared, e')" "names = map fst prepared" by blast
  with manifest_entries_ok [of sd available 0 items e2 prepared e'] show ?thesis by auto
qed

end
