(* ===== verification/AuditExamples.thy ===== *)
theory AuditExamples
  imports RunExamples StageFacts RunnerFacts
begin

text \<open>
  A worker on an engine that succeeds at once and counts the containers it starts: the inputs the
  witnesses of the audit properties use.
\<close>

section \<open>The engine and the world\<close>

definition quiet_docker :: "nat docker" where
  "quiet_docker =
     \<lparr>dk_from_env = ret (), dk_ping = ret (), dk_image_id = ret,
      dk_create_network = (\<lambda>name labels. ret name), dk_network_name = ret,
      dk_connect = (\<lambda>network container aliases. ret ()),
      dk_create_volume = (\<lambda>name labels. ret name),
      dk_create_container = (\<lambda>spec. ret ''container''),
      dk_start = (\<lambda>container n. (Inr (), n + 1)), dk_exec = (\<lambda>container command. ret 0),
      dk_put_archive = (\<lambda>container path files. ret True),
      dk_wait = (\<lambda>container timeout. ret (Some 0)), dk_logs = (\<lambda>container. ret ''line''),
      dk_kill = (\<lambda>container. ret ()), dk_list_containers = (\<lambda>f. ret []),
      dk_list_networks = (\<lambda>f. ret []), dk_list_volumes = (\<lambda>f. ret []),
      dk_remove_container = (\<lambda>i. ret ()), dk_remove_network = (\<lambda>i. ret ()),
      dk_remove_volume = (\<lambda>i. ret ())\<rparr>"

definition demo_world :: "result_db \<Rightarrow> nat world" where
  "demo_world db =
     \<lparr>wd_db = db, wd_others = (\<lambda>n d. d), wd_transactions = 0, wd_docker = 0, wd_client = False,
      wd_snapshots = Map.empty, wd_evidence = Map.empty, wd_disk = (\<lambda>n. Written), wd_writes = 0,
      wd_clock = (\<lambda>n. 20), wd_readings = 0, wd_monotonic = (\<lambda>n. 250 * int n), wd_polls = 0,
      wd_ids = (\<lambda>n. 100 + of_nat n), wd_drawn = 0, wd_tokens = (\<lambda>n. ''q7GhTz0pLmVx''),
      wd_secrets = 0\<rparr>"

lemma demo_world_fields [simp]:
  "wd_db (demo_world db) = db" "wd_others (demo_world db) = (\<lambda>n d. d)"
  "wd_transactions (demo_world db) = 0" "wd_docker (demo_world db) = 0"
  "wd_client (demo_world db) = False" "wd_snapshots (demo_world db) = Map.empty"
  "wd_evidence (demo_world db) = Map.empty" "wd_disk (demo_world db) = (\<lambda>n. Written)"
  "wd_clock (demo_world db) = (\<lambda>n. 20)" "wd_monotonic (demo_world db) = (\<lambda>n. 250 * int n)"
  "wd_polls (demo_world db) = 0" "wd_ids (demo_world db) = (\<lambda>n. 100 + of_nat n)"
  "wd_drawn (demo_world db) = 0" "wd_readings (demo_world db) = 0" "wd_writes (demo_world db) = 0"
  by (simp_all add: demo_world_def)

lemma demo_world_follows: "(\<And>d. R d d) \<Longrightarrow> follows R (demo_world db)"
  by (simp add: follows_def demo_world_def)

definition demo_environment :: shadow_environment where
  "demo_environment =
     \<lparr>se_id = 50, se_run_id = 1, se_generation = 1, se_status = ACTIVE,
      se_postgres_container_id = ''postgres'', se_network_id = ''network'',
      se_volume_name = ''data'', se_snapshot_volume_name = ''snapshot'',
      se_postgres_image = ''postgres:17'', se_postgres_image_id = ''sha256:0'',
      se_runner_image = ''runner:1'', se_runner_image_id = ''sha256:1'',
      se_lease_expires_at = 5000000, se_created_at = 0, se_cleaned_at = None\<rparr>"

definition demo_lease :: environment_lease where
  "demo_lease = \<lparr>el_environment = demo_environment, el_database_password = ''q7GhTz0pLmVx''\<rparr>"

definition empty_results :: result_db where
  "empty_results =
     \<lparr>audit_runs = [demo_run], run_steps = [], outbox_events = [demo_event], repo_snapshots = [],
      revision_graphs = [], static_reports = [], agent_invocations = [], agent_tool_calls = [],
      audit_plans = [], shadow_environments = [], runner_executions = [], evidence_items = []\<rparr>"

definition demo_results :: result_db where
  "demo_results = empty_results\<lparr>shadow_environments := [demo_lease]\<rparr>"

lemma demo_control: "control empty_results = demo_created" "control demo_results = demo_created"
  by (simp_all add: control_db.defs empty_results_def demo_results_def demo_created_def)

definition demo_stream_text :: bounded_artifact where
  "demo_stream_text = \<lparr>ba_byte_count = 2, ba_sha256 = [], ba_truncated = False, ba_text = ''ok''\<rparr>"

definition demo_runner_result :: runner_result where
  "demo_runner_result =
     \<lparr>rr_action = APPLY_TARGET, rr_status = RunnerFailed, rr_error_code = Some ''MIGRATION_FAILED'',
      rr_error_detail = Some ''x'', rr_current_revision = None, rr_duration_ms = 1,
      rr_coverage_gaps = [''gap''], rr_observations = [], rr_stdout = demo_stream_text,
      rr_stderr = demo_stream_text\<rparr>"

definition demo_settings :: sandbox_config where
  "demo_settings =
     \<lparr>sc_postgres_image = ''postgres:17'', sc_runner_image = ''runner:1'',
      sc_lease_duration = 5000000, sc_readiness_timeout = 60, sc_execution_timeout = 180\<rparr>"

definition demo_action :: runner_request where
  "demo_action = action_request APPLY_TARGET ''r2'' None"

definition demo_execution :: runner_execution where
  "demo_execution =
     \<lparr>re_id = 100, re_environment_id = 50, re_run_id = 1, re_generation = 1,
      re_request = demo_action, re_result = redact_result ''q7GhTz0pLmVx'' demo_runner_result,
      re_created_at = 20\<rparr>"

text \<open>The world before and after the action, when the first transactions have been spent.\<close>

definition demo_started :: "nat \<Rightarrow> result_db \<Rightarrow> nat world" where
  "demo_started n db = (demo_world db)\<lparr>wd_transactions := n\<rparr>"

definition demo_executed :: "nat \<Rightarrow> result_db \<Rightarrow> nat world" where
  "demo_executed n db = (demo_world (db\<lparr>runner_executions := [demo_execution]\<rparr>))
     \<lparr>wd_transactions := n + 3, wd_docker := 1, wd_client := True, wd_readings := 1, wd_drawn := 1\<rparr>"

lemma last_line_demo: "last_line (strip ''line'') = Some ''line''"
  by code_simp

lemmas quiet_simps = quiet_docker_def bind_act_def then_act_def catch_act_def finally_act_def
  suppress_act_def transaction_def read_db_def query_db_def update_db_def with_docker_def
  clock_def fresh_id_def

lemmas demo_world_simps = demo_world_def demo_results_def empty_results_def demo_lease_def
  demo_environment_def

text \<open>The action runs once and leaves its execution.\<close>

lemma demo_executes:
  assumes "shadow_environments db = [demo_lease]" "runner_executions db = []" "audit_runs db = [demo_run]"
  shows "sandbox_execute quiet_docker (\<lambda>line. Some demo_runner_result) demo_settings 1 1 demo_action (ret ())
     (demo_started n db) = (Inr demo_execution, demo_executed n db)"
proof -
  have "require_active 1 1 (demo_started n db) = (Inr demo_lease, demo_started (n + 1) db)"
    using assms by (simp add: require_active_def get_environment_def quiet_simps sandbox_get_environment_def
        select_one_def environment_key_def demo_started_def demo_world_simps)
  with assms show ?thesis
    by (simp add: sandbox_execute_def execute_fresh_def docker_client_def collect_errors_def run_container_def
        observe_container_def await_container_def redacted_result_def last_line_demo quiet_simps Let_def
        sandbox_get_execution_def select_one_def sandbox_create_or_get_execution_def insert_absent_def
        execution_refs_def unless_def run_stored_def resolve_existing_def execution_key_def demo_started_def
        demo_executed_def demo_execution_def demo_action_def action_request_def demo_world_simps demo_defs)
qed

section \<open>A stage that fails\<close>

definition demo_snapshot :: repo_snapshot where
  "demo_snapshot =
     \<lparr>sn_id = 60, sn_run_id = 1, sn_source_path_hash = ''00'', sn_diff_mode = WORKING_TREE,
      sn_base_commit = None, sn_head_commit = ''ab'', sn_dirty_diff_hash = None,
      sn_content_hash = ''cd'', sn_artifact_uri = ''artifact://snapshots/cd'', sn_file_count = 1,
      sn_total_bytes = 1, sn_changed_paths = [], sn_created_at = 5\<rparr>"

definition demo_graph :: revision_graph where
  "demo_graph =
     \<lparr>rg_id = 61, rg_run_id = 1, rg_snapshot_id = 60, rg_diff_mode = WORKING_TREE,
      rg_base_commit = None, rg_head_commit = ''ab'', rg_nodes = [], rg_heads = [''r2''],
      rg_baseline_revision = Some ''r1'', rg_target_chain = [''r2''],
      rg_changed_revisions = [''r2''], rg_supported = True, rg_unsupported_reasons = [],
      rg_created_at = 6\<rparr>"

definition demo_provisioned :: result_db where
  "demo_provisioned =
     demo_results\<lparr>repo_snapshots := [demo_snapshot], revision_graphs := [row_of_graph demo_graph]\<rparr>"

lemma demo_wf: "results_wf demo_results" "results_wf demo_provisioned"
  by (simp_all add: results_wf_def demo_provisioned_def demo_world_simps demo_snapshot_def
      snapshot_check_def snapshots_get_def select_one_def row_of_graph_def demo_graph_def)

lemma demo_graph_stored: "graphs_get_for_run 1 demo_provisioned = Inr (Some demo_graph)"
  by (simp add: graphs_get_for_run_def select_one_def demo_provisioned_def row_of_graph_def graph_of_row_def
      snapshots_get_def demo_snapshot_def demo_graph_def demo_world_simps)

definition demo_view :: repo_view where
  "demo_view =
     \<lparr>rv_git = (\<lambda>arguments env. None), rv_hashes = (\<lambda>p. HashIOError),
      rv_files = (\<lambda>p. \<lparr>fo_lstat = None, fo_opened = None, fo_chunks = [],
         fo_completed = \<lparr>st_kind = RegularFile, st_nlink = 1, st_dev = 0, st_ino = 0, st_size = 0,
                         st_mtime_ns = 0, st_exec = False\<rparr>\<rparr>)\<rparr>"

text \<open>There is no repository below the root; the runner always reports a failed migration.\<close>

definition demo_stages :: stage_config where
  "demo_stages =
     \<lparr>sg_parse_module = (\<lambda>s. Parsed []), sg_config_get = (\<lambda>s. None),
      sg_parse_manifest = (\<lambda>b. None),
      sg_limits = \<lparr>sl_max_files = 10, sl_max_file_bytes = 100, sl_max_total_bytes = 1000\<rparr>,
      sg_root_path = ''/repositories'', sg_root = None, sg_view_selected = demo_view,
      sg_view_copied = demo_view, sg_view_verified = demo_view, sg_rename = Renamed,
      sg_isotime = (\<lambda>t. []), sg_provider = (\<lambda>n r. Inr []), sg_parse_plan = (\<lambda>s. JsonInvalid),
      sg_planner = \<lparr>pc_provider_name = ''p'', pc_model_name = ''m'', pc_max_revision_reads = 2,
                    pc_max_output_bytes = 100, pc_started_at = 0, pc_completed_at = 0\<rparr>,
      sg_durations = (\<lambda>i. 0), sg_max_revision_bytes = 100, sg_sandbox = demo_settings,
      sg_list_tree = (\<lambda>t. []), sg_parse_result = (\<lambda>line. Some demo_runner_result)\<rparr>"

lemma demo_action_made: "make_request (as_request apply_target_stage demo_graph) = Inr demo_action"
proof -
  have "runner_request_valid demo_action" by code_simp
  moreover have "as_request apply_target_stage demo_graph = demo_action"
    by (simp add: apply_target_stage_def demo_action_def target_of_def demo_graph_def)
  ultimately show ?thesis by (simp add: make_request_def)
qed

lemma redact_demo: "redact ''q7GhTz0pLmVx'' ''x'' = ''x''"
  by code_simp

lemma demo_finalizes:
  assumes "shadow_environments (wd_db w) = [demo_lease]" "wd_others w = (\<lambda>n d. d)" "wd_client w"
  shows "\<exists>w'. finalize_run quiet_docker 1 1 w = (Inr True, w')"
proof -
  have "sandbox_get_environment 1 1 (wd_db w) = Some demo_lease"
    using assms by (simp add: sandbox_get_environment_def select_one_def environment_key_def
        demo_lease_def demo_environment_def)
  moreover have "cleanup_by_labels quiet_docker 1 1 w0 = (Inr True, w0)" if "wd_client w0" for w0
    using that by (simp add: cleanup_by_labels_def docker_client_def quiet_simps remove_each_def
        something_left_def numeral_eq_Suc)
  ultimately show ?thesis using assms
    by (simp add: finalize_run_def get_environment_def quiet_simps mark_environment_def
        sandbox_set_environment_status_def update_where_def demo_lease_def demo_environment_def)
qed

lemma demo_stage_fails:
  "\<exists>w'. runner_stage apply_target_stage quiet_docker demo_stages demo_run (ret ())
      (demo_world demo_provisioned) = (Inl (RepositoryInputError ''MIGRATION_FAILED'' ''x''), w')"
proof -
  let ?db = demo_provisioned
  have q: "query_db (graphs_get_for_run 1) (demo_world ?db) = (Inr (Some demo_graph), demo_started (Suc 0) ?db)"
    using demo_graph_stored by (simp add: query_db_run demo_started_def demo_world_def)
  have x: "sandbox_execute quiet_docker (\<lambda>line. Some demo_runner_result) demo_settings 1 1 demo_action (ret ())
     (demo_started (Suc 0) ?db) = (Inr demo_execution, demo_executed (Suc 0) ?db)"
    by (rule demo_executes) (simp_all add: demo_provisioned_def demo_results_def empty_results_def)
  obtain w' where f: "finalize_run quiet_docker 1 1 (demo_executed (Suc 0) ?db) = (Inr True, w')"
    using demo_finalizes [of "demo_executed (Suc 0) ?db"]
    by (auto simp: demo_executed_def demo_provisioned_def demo_results_def demo_world_def)
  have "rg_target_chain demo_graph \<noteq> []" "ar_id demo_run = 1" by (simp_all add: demo_graph_def demo_defs)
  moreover have "sg_sandbox demo_stages = demo_settings" "sg_parse_result demo_stages = (\<lambda>line. Some demo_runner_result)"
    by (simp_all add: demo_stages_def)
  moreover have "rr_status (re_result demo_execution) = RunnerFailed"
    "rr_error_code (re_result demo_execution) = Some ''MIGRATION_FAILED''"
    "rr_error_detail (re_result demo_execution) = Some ''x''"
    by (simp_all add: demo_execution_def redact_result_def demo_runner_result_def redact_demo)
  ultimately show ?thesis
    by (simp add: runner_stage_def bind_act_def [of "query_db g" for g] q Let_def on_error_def catch_act_def
        bind_act_def demo_action_made x f then_act_def text_or_def)
qed

section \<open>A collection\<close>

text \<open>An execution with a coverage gap and without output.\<close>

definition silent_execution :: runner_execution where
  "silent_execution =
     demo_execution\<lparr>re_result := demo_runner_result
       \<lparr>rr_stdout := demo_stream_text\<lparr>ba_text := []\<rparr>, rr_stderr := demo_stream_text\<lparr>ba_text := []\<rparr>\<rparr>\<rparr>"

definition demo_finished :: result_db where
  "demo_finished = demo_results\<lparr>runner_executions := [silent_execution]\<rparr>"

definition demo_gaps :: bytes where
  "demo_gaps = canonical_json (JObj [(''coverage_gaps'', strings_json [''gap''])])"

lemma length_demo_gaps: "length demo_gaps = 25"
  by (simp add: demo_gaps_def) code_simp

definition demo_item :: evidence_item where
  "demo_item =
     \<lparr>ev_id = 100, ev_run_id = 1, ev_execution_id = 100, ev_kind = COVERAGE_GAPS,
      ev_producer = ''runner.apply_target.v1'', ev_observation_scope = UnknownInProduction,
      ev_artifact_uri = ''artifact://sha256/'' @ hexdigest demo_gaps, ev_sha256 = hexdigest demo_gaps,
      ev_byte_count = 25, ev_media_type = ApplicationJson,
      ev_redaction_status = RedactionNotRequired, ev_created_at = 20\<rparr>"

lemma demo_item_valid: "evidence_item_valid demo_item"
  by (simp add: evidence_item_valid_def demo_item_def starts_with_def length_between_def
      is_sha256_hex_hexdigest)

lemma demo_producer: "execution_producer silent_execution = ''runner.apply_target.v1''"
proof -
  have "rq_action (re_request silent_execution) = APPLY_TARGET"
    by (simp add: silent_execution_def demo_execution_def demo_action_def action_request_def)
  moreover have "''runner.'' @ map ascii_lower (action_value APPLY_TARGET) @ ''.v1'' = ''runner.apply_target.v1''"
    by code_simp
  ultimately show ?thesis by (simp add: execution_producer_def)
qed

lemma demo_collects: "\<exists>w'. collect_evidence 1 1 (demo_world demo_finished) = (Inr [demo_item], w')"
proof -
  let ?w = "(demo_world demo_finished)\<lparr>wd_transactions := Suc 0\<rparr>"
  have q: "query_db (executions_of 1 1) (demo_world demo_finished) = (Inr [silent_execution], ?w)"
    by (simp add: query_db_run executions_of_def sandbox_get_environment_def select_one_def environment_key_def
        sandbox_list_executions_def demo_finished_def demo_world_simps silent_execution_def demo_execution_def)
  have gaps: "rr_coverage_gaps (re_result silent_execution) = [''gap'']" "re_id silent_execution = 100"
    "ba_text (rr_stdout (re_result silent_execution)) = []" "ba_text (rr_stderr (re_result silent_execution)) = []"
    "rr_observations (re_result silent_execution) = []"
    by (simp_all add: silent_execution_def demo_execution_def demo_runner_result_def)
  have put: "put_json (JObj [(''coverage_gaps'', strings_json [''gap''])]) ?w =
      (Inr (artifact_ref demo_gaps), ?w\<lparr>wd_writes := 1, wd_evidence := [hexdigest demo_gaps \<mapsto> demo_gaps]\<rparr>)"
    by (simp add: put_json_def artifact_put_def demo_gaps_def [symmetric] max_artifact_bytes_def length_demo_gaps Let_def)
  obtain w1 where "gap_items 1 silent_execution ?w = (Inr [demo_item], w1)"
    and w1: "wd_db w1 = demo_finished" "wd_others w1 = (\<lambda>n d. d)"
    using demo_item_valid
    by (simp add: gap_items_def gaps bind_act_def put make_item_def clock_def fresh_id_def demo_producer
        artifact_ref_def length_demo_gaps demo_item_def)
  then have "execution_items 1 silent_execution ?w = (Inr [demo_item], w1)"
    by (simp add: execution_items_def stream_items_def gaps bind_act_def)
  moreover have "\<exists>w'. transaction (store_items [demo_item]) w1 = (Inr [demo_item], w')"
    using w1 by (simp add: transaction_def Let_def evidence_create_or_get_def insert_absent_def evidence_refs_def
        unless_def run_stored_def resolve_existing_def evidence_get_def select_one_def demo_finished_def
        demo_world_simps demo_item_def silent_execution_def demo_execution_def demo_defs)
  ultimately show ?thesis
    by (simp add: collect_evidence_def bind_act_def [of "query_db g" for g] q) (simp add: bind_act_def)
qed

section \<open>A delivery that fails\<close>

definition demo_candidate :: run_step where
  "demo_candidate = candidate_step demo_run DISCOVERING ''worker'' 20 claim_lease 100 101"

lemma demo_claim_results:
  "exec_claim 2 ''worker'' 20 claim_lease 100 101 empty_results =
     Inr (Some demo_candidate, empty_results\<lparr>run_steps := [demo_candidate]\<rparr>)"
proof -
  have "outbox_get 2 empty_results = Some demo_event" "runs_get (oe_aggregate_id demo_event) empty_results = Some demo_run"
    "steps_get_current (ar_id demo_run) empty_results = None"
    by (simp_all add: outbox_get_def runs_get_def select_one_def steps_get_current_def empty_results_def demo_defs)
  moreover have "claim_decide (Some demo_event) (Some demo_run) None ''worker'' 20 claim_lease 100 101 =
      Inr (Some demo_candidate)"
    by (simp add: claim_decide_def claim_target_def parse_QUEUED demo_candidate_def demo_defs)
  moreover have "claim_write (Some demo_candidate) empty_results =
      Inr (Some demo_candidate, empty_results\<lparr>run_steps := [demo_candidate]\<rparr>)"
    by (simp add: claim_write_def steps_claim_def step_checks_def select_one_def empty_results_def
        demo_candidate_def demo_defs)
  ultimately show ?thesis by (simp add: exec_claim_def)
qed


text \<open>Between the claim and the commit nothing else changes the tables.\<close>

definition demo_waiting :: "nat world \<Rightarrow> bool" where
  "demo_waiting w \<longleftrightarrow> wd_db w = empty_results\<lparr>run_steps := [demo_candidate]\<rparr> \<and>
     wd_others w = (\<lambda>n d. d) \<and> wd_clock w = (\<lambda>n. 20)"

lemmas candidate_simps = demo_candidate_def candidate_step_def

lemma demo_heartbeat:
  assumes "demo_waiting w"
  shows "\<exists>w'. service_heartbeat demo_candidate w = (Inr True, w') \<and> demo_waiting w'"
  using assms by (simp add: demo_waiting_def service_heartbeat_def exec_heartbeat_def steps_heartbeat_def
      update_owned_def update_where_def owned_def quiet_simps candidate_simps Let_def)

lemma demo_run_read:
  assumes "demo_waiting w"
  shows "\<exists>w'. service_run demo_candidate w = (Inr demo_run, w') \<and> demo_waiting w'"
proof -
  have "get_run_for_claim demo_candidate (wd_db w) = Inr demo_run"
    using assms by (simp add: demo_waiting_def get_run_for_claim_def runs_get_def select_one_def
        empty_results_def candidate_simps demo_defs)
  with assms show ?thesis by (simp add: service_run_def query_db_run demo_waiting_def)
qed

lemma demo_discovery_fails:
  assumes "demo_waiting w"
  shows "\<exists>w'. stage_handler quiet_docker demo_stages DISCOVERING demo_run checkpoint w
    = (Inl (RepositoryInputError ''REPOSITORY_NOT_FOUND'' ''Repository was not found''), w') \<and> demo_waiting w'"
proof -
  define rq where "rq = \<lparr>sr_run_id = 1, sr_repository_path = ''shop'', sr_diff_mode = WORKING_TREE,
      sr_base_ref = None, sr_head_ref = None\<rparr>"
  have r: "run_snapshot_request demo_run = Inr rq"
    by (simp add: run_snapshot_request_def rq_def demo_defs demo_request_def)
  have n: "resolve_repository (sg_root demo_stages) (sr_repository_path rq) =
      Inl (RepositoryInputError ''REPOSITORY_NOT_FOUND'' ''Repository was not found'')"
  proof -
    have "safe_relative_path ''shop'' = Inr [''shop'']" by code_simp
    then show ?thesis by (simp add: resolve_repository_def demo_stages_def rq_def)
  qed
  have "snapshots_get_for_run (ar_id demo_run) (wd_db w) = None"
    using assms by (simp add: snapshots_get_for_run_def select_one_def demo_waiting_def empty_results_def)
  with assms show ?thesis
    by (simp add: stage_handler_def discovery_stage_def ensure_snapshot_def bind_act_def read_db_def
        transaction_def Let_def r snapshot_service_def reaches_checkpoint_def n finish_snapshot_def
        create_snapshot_def snapshot_create_def demo_waiting_def)
qed

lemma demo_fails:
  assumes "demo_waiting w"
  shows "\<exists>w' run. service_fail demo_candidate ''REPOSITORY_NOT_FOUND'' detail w = (Inr run, w') \<and>
    ar_id run = 1 \<and> ar_state run = run_state.FAILED \<and> ar_version run = 2"
proof -
  have "\<exists>db run. exec_fail demo_candidate ''REPOSITORY_NOT_FOUND'' detail 20 (wd_db w) = Inr (run, db) \<and>
      ar_id run = 1 \<and> ar_state run = run_state.FAILED \<and> ar_version run = 2"
    using assms by (simp add: exec_fail_def fail_write_def steps_fail_def update_owned_def update_where_def owned_def
        transition_def allowed_targets_iff runs_save_def saved_columns_def runs_get_def select_one_def
        demo_waiting_def empty_results_def Let_def candidate_simps demo_defs)
  with assms show ?thesis
    by (auto simp: service_fail_def bind_act_def clock_def transaction_def Let_def demo_waiting_def candidate_simps)
qed

lemma demo_delivery_fails:
  "\<exists>w'. process_run_event quiet_docker demo_stages (uuid_str 2) ''worker'' (demo_world empty_results)
    = (Inr (TaskFailed 1 run_state.FAILED 2 ''REPOSITORY_NOT_FOUND''), w')"
proof -
  have "service_claim 2 ''worker'' (demo_world empty_results) = (Inr (Some demo_candidate),
      (demo_world empty_results)\<lparr>wd_readings := 1, wd_drawn := 2, wd_transactions := 1,
        wd_db := empty_results\<lparr>run_steps := [demo_candidate]\<rparr>\<rparr>)"
    using demo_claim_results by (simp add: service_claim_def quiet_simps Let_def numeral_2_eq_2)
  then obtain w1 where c: "service_claim 2 ''worker'' (demo_world empty_results) = (Inr (Some demo_candidate), w1)"
    and w1: "demo_waiting w1" by (auto simp: demo_waiting_def)
  from demo_heartbeat [OF w1] obtain w2 where h: "service_heartbeat demo_candidate w1 = (Inr True, w2)"
    and w2: "demo_waiting w2" by blast
  from demo_run_read [OF w2] obtain w3 where r: "service_run demo_candidate w2 = (Inr demo_run, w3)"
    and w3: "demo_waiting w3" by blast
  from demo_discovery_fails [OF w3, of "task_checkpoint demo_candidate"] obtain w4 where
    d: "stage_handler quiet_docker demo_stages DISCOVERING demo_run (task_checkpoint demo_candidate) w3
      = (Inl (RepositoryInputError ''REPOSITORY_NOT_FOUND'' ''Repository was not found''), w4)"
    and w4: "demo_waiting w4" by blast
  from demo_fails [OF w4] obtain w5 run where f: "service_fail demo_candidate ''REPOSITORY_NOT_FOUND''
      ''Repository was not found'' w4 = (Inr run, w5)" and run: "ar_id run = 1" "ar_state run = run_state.FAILED"
      "ar_version run = 2" by blast
  have "rs_to_state demo_candidate = DISCOVERING" "ar_cancel_requested_at demo_run = None"
    by (simp_all add: candidate_simps demo_defs)
  then show ?thesis using run
    by (simp add: process_run_event_def parse_uuid_str bind_act_def c h r d f process_claim_def task_body_def
        catch_act_def then_act_def fail_task_def Let_def salvage_evidence_def dynamic_evidence_states_def when_act_def
        unless_lost_def)
qed


section \<open>A runner\<close>

text \<open>An upper bound of the length of a dump.\<close>

fun json_bound :: "json \<Rightarrow> nat" where
  "json_bound JNull = 4"
| "json_bound (JBool b) = 5"
| "json_bound (JInt i) = length (dec_int i)"
| "json_bound (JNum t) = length t"
| "json_bound (JStr s) = 2 + 6 * length s"
| "json_bound (JList xs) = 2 + (\<Sum>x\<leftarrow>xs. 1 + json_bound x)"
| "json_bound (JObj kvs) = 2 + (\<Sum>(k, v)\<leftarrow>kvs. 4 + 6 * length k + json_bound v)"

lemma length_join: "length (join_with '','' xs) \<le> (\<Sum>x\<leftarrow>xs. 1 + length x)"
  by (induction xs rule: induct_list012) auto

lemma length_json_string: "length (json_string ea s) \<le> 2 + 6 * length s"
proof -
  have "length (json_char ea c) \<le> 6" for c
    by (simp add: json_char_def Let_def)
  then have "length (concat (map (json_char ea) s)) \<le> 6 * length s"
    by (induction s) (auto simp: add_mono)
  then show ?thesis by (simp add: json_string_def)
qed


lemma length_dumps: "length (dumps ea v) \<le> json_bound v"
proof (induction ea v rule: dumps.induct)
  case (6 ea xs)
  have "(\<Sum>x\<leftarrow>map (dumps ea) xs. 1 + length x) \<le> (\<Sum>x\<leftarrow>xs. 1 + json_bound x)"
    unfolding map_map comp_def by (rule sum_list_mono) (use 6 in auto)
  with length_join [of "map (dumps ea) xs"] show ?case by simp
next
  case (7 ea kvs)
  let ?entry = "\<lambda>(k, v). (k, json_string ea k @ '':'' @ dumps ea v)"
  let ?xs = "map snd (sort_key fst (map ?entry kvs))"
  have "mset (map (\<lambda>x. 1 + length x) ?xs) = mset (map (\<lambda>x. 1 + length x) (map snd (map ?entry kvs)))"
    by (simp add: image_mset.compositionality comp_def)
  then have "(\<Sum>x\<leftarrow>?xs. 1 + length x) = (\<Sum>x\<leftarrow>map snd (map ?entry kvs). 1 + length x)"
    unfolding sum_mset_sum_list [symmetric] by (rule arg_cong)
  also have "\<dots> \<le> (\<Sum>(k, v)\<leftarrow>kvs. 4 + 6 * length k + json_bound v)"
    unfolding map_map comp_def
  proof (rule sum_list_mono)
    fix kv assume kv: "kv \<in> set kvs"
    obtain k v where e: "kv = (k, v)" by force
    with 7 kv have "length (dumps ea v) \<le> json_bound v" by blast
    with length_json_string [of ea k]
    show "1 + length (snd (?entry kv)) \<le> (case kv of (k, v) \<Rightarrow> 4 + 6 * length k + json_bound v)"
      by (simp add: e)
  qed
  finally show ?case using length_join [of ?xs] by simp
next
  case (5 ea s)
  show ?case using length_json_string [of ea s] by simp
qed simp_all

lemma length_encode: "length (encode s) \<le> 2 * length s"
proof (induction s)
  case (Cons c s)
  have "length (utf8_char c) \<le> 2" by (simp add: utf8_char_def Let_def)
  with Cons show ?case by simp
qed simp

lemma small_observation:
  assumes "json_bound (JObj data) \<le> 32768"
  shows "\<exists>ob. make_observation kind data = Inr ob"
proof -
  have "length (canonical_json (JObj data)) \<le> 65536"
    using length_encode [of "dumps False (JObj data)"] length_dumps [of False "JObj data"] assms
    by (simp add: canonical_json_def)
  then show ?thesis by (simp add: make_observation_def Let_def)
qed


text \<open>A database with one table of three rows; up- and downgrades move its version.\<close>

definition quiet_database :: "string shadow_database" where
  "quiet_database =
     \<lparr>sd_tables = ret [''users'', ''alembic_version''],
      sd_columns = (\<lambda>t. ret [\<lparr>co_name = ''age'', co_type = IntegerType, co_type_text = ''INTEGER'',
        co_nullable = False, co_default_text = None, co_autoincrement = False,
        co_primary_key = False, co_has_default = False, co_has_server_default = False\<rparr>]),
      sd_primary_key = (\<lambda>t. ret []), sd_unique = (\<lambda>t. ret []), sd_foreign_keys = (\<lambda>t. ret []),
      sd_count = (\<lambda>t. ret 3), sd_insert = (\<lambda>rows. ret ()), sd_constraints = ret (1, 0),
      sd_version = (\<lambda>v. (Inr (Some v), v)), sd_upgrade = (\<lambda>r v. (Inr (), r)),
      sd_downgrade = (\<lambda>r v. (Inr (), r))\<rparr>"

definition demo_inputs :: runner_inputs where
  "demo_inputs =
     \<lparr>ri_environment = (\<lambda>name. Some name), ri_loads = (\<lambda>s. Inr JNull), ri_manifest = None,
      ri_float_int = (\<lambda>t. Inr 0), ri_traceback = (\<lambda>e. []), ri_duration_ms = 7\<rparr>"

definition demo_payload :: "(string \<times> json) list" where
  "demo_payload =
     [(''schema_version'', JStr ''1.0''), (''action'', JStr ''VERIFY_ROLLBACK_ROUNDTRIP''),
      (''revision'', JStr ''r2''), (''baseline_revision'', JStr ''r1''),
      (''database_alias'', JStr ''shadow-postgres''), (''statement_timeout_ms'', JInt 30000),
      (''output_limit_bytes'', JInt 65536)]"

lemma demo_action_prepared:
  "prepare_action demo_inputs demo_payload = Inr (VERIFY_ROLLBACK_ROUNDTRIP_ACTION, ''r2'')"
  by (simp add: prepare_action_def demo_payload_def allowlisted_def runner_actions_def is_action_def item_of_def
      database_url_def environ_def demo_inputs_def json_int_def json_str_def bind_res_def)

definition demo_column :: column where
  "demo_column = \<lparr>co_name = ''age'', co_type = IntegerType, co_type_text = ''INTEGER'',
     co_nullable = False, co_default_text = None, co_autoincrement = False,
     co_primary_key = False, co_has_default = False, co_has_server_default = False\<rparr>"

lemma quiet_database_fields:
  "sd_tables quiet_database = ret [''users'', ''alembic_version'']"
  "sd_columns quiet_database t = ret [demo_column]" "sd_primary_key quiet_database t = ret []"
  "sd_unique quiet_database t = ret []" "sd_foreign_keys quiet_database t = ret []"
  "sd_count quiet_database t = ret 3" "sd_version quiet_database v = (Inr (Some v), v)"
  "sd_upgrade quiet_database r v = (Inr (), r)" "sd_downgrade quiet_database r v = (Inr (), r)"
  by (simp_all add: quiet_database_def demo_column_def)

definition demo_shape :: json where
  "demo_shape = JObj [(''tables'', JList [JObj [(''name'', JStr ''users''),
     (''columns'', JList [column_json demo_column]), (''primary_key'', strings_json []),
     (''unique'', JList []), (''foreign_keys'', JList [])]])]"

definition demo_report :: schema_report where
  "demo_report = \<lparr>sc_fingerprint = hexdigest (canonical_json demo_shape), sc_table_count = 1,
     sc_column_count = 1, sc_schema = demo_shape\<rparr>"

lemma demo_tables: "table_names quiet_database v = (Inr [''users''], v)"
  by (simp add: table_names_def quiet_database_fields bind_act_def max_tables_def)

lemma demo_counts: "row_counts quiet_database v = (Inr [(''users'', 3)], v)"
  by (simp add: row_counts_def bind_act_def demo_tables quiet_database_fields)

lemma demo_schema: "schema_fingerprint quiet_database v = (Inr demo_report, v)"
  by (simp add: schema_fingerprint_def bind_act_def demo_tables table_shape_def max_columns_def
      quiet_database_fields demo_report_def demo_shape_def Let_def)

lemma demo_version: "current_revision quiet_database v = (Inr v, v)"
  by (simp add: current_revision_def bind_act_def quiet_database_fields)

lemma demo_bounds: "json_bound demo_shape \<le> 2000" "json_bound (counts_json [(''users'', 3)]) \<le> 100"
  by (simp_all add: demo_shape_def column_json_def demo_column_def strings_json_def counts_json_def
      dict_of_def dec_int_def dec_nat.simps)


lemma demo_roundtrip:
  "\<exists>st'. verify_roundtrip quiet_database demo_payload ''r2'' st = (Inr (), st')"
proof -
  let ?a = "roundtrip_data ''r1'' ''r1'' ''r2'' ''r2'' demo_report demo_report [(''users'', 3)] [(''users'', 3)] True"
  have "json_bound (JObj ?a) \<le> 32768"
    using demo_bounds(2) by (simp add: roundtrip_data_def demo_report_def)
  then obtain a where a: "make_observation ROLLBACK_ROUNDTRIP ?a = Inr a" using small_observation by blast
  have "json_bound (JObj (schema_data demo_report)) \<le> 32768"
    using demo_bounds(1) by (simp add: schema_data_def demo_report_def dec_int_def dec_nat.simps)
  then obtain b where b: "make_observation SCHEMA_FINGERPRINT (schema_data demo_report) = Inr b"
    using small_observation by blast
  have "map_of demo_payload ''baseline_revision'' = Some (JStr ''r1'')" by (simp add: demo_payload_def)
  with a b show ?thesis
    by (simp add: verify_roundtrip_def bind_act_def then_act_def on_engine_def demo_schema demo_counts
        demo_version quiet_database_fields Let_def add_observations_def)
qed

lemma demo_verifies:
  "\<exists>out v'. runner_execute quiet_database (\<lambda>v. []) (\<lambda>v. []) demo_inputs (JObj demo_payload) ''r2'' = (Inr out, v') \<and>
     out_status out = RunnerSucceeded"
proof -
  let ?st = "\<lparr>at_engine = ''r2'', at_gaps = [], at_observations = [], at_current = None\<rparr>"
  from demo_roundtrip [of ?st] obtain st1 where
    v: "verify_roundtrip quiet_database demo_payload ''r2'' ?st = (Inr (), st1)" by blast
  obtain st' where "perform_action quiet_database demo_inputs demo_payload
      VERIFY_ROLLBACK_ROUNDTRIP_ACTION ''r2'' ?st = (Inr (), st')"
    by (simp add: perform_action_def then_act_def bind_act_def v on_engine_def demo_version set_current_def)
  then have "attempt_action quiet_database demo_inputs demo_payload ?st = (None, st', st')"
    by (simp add: attempt_action_def demo_action_prepared)
  moreover have "map_of demo_payload ''output_limit_bytes'' = Some (JInt 65536)" by (simp add: demo_payload_def)
  ultimately show ?thesis by (simp add: runner_execute_def json_int_def Let_def)
qed

definition demo_manifest :: json where
  "demo_manifest = JObj [(''schema_version'', JStr ''1.0''), (''tables'', JList [JObj
     [(''name'', JStr ''users''), (''rows'', JList [JObj [(''age'', JInt 4)], JObj [(''age'', JNull)]])]])]"

lemma demo_manifest_rows:
  "manifest_rows quiet_database demo_manifest v =
     (Inr ([(''users'', [[(''age'', SeedJson (JInt 4))], [(''age'', SeedJson JNull)]])], [''users'']), v)"
proof -
  have "is_identifier ''users''" "is_identifier ''age''" by code_simp+
  moreover have "co_name demo_column = ''age''" by (simp add: demo_column_def)
  ultimately show ?thesis
    by (simp add: manifest_rows_def demo_manifest_def manifest_tables_def has_keys_def bind_act_def demo_tables
        max_tables_def fixture_entry_def max_rows_def quiet_database_fields manifest_row_def manifest_value_def
        bind_res_def insert_commute)
qed

end
