(* ===== verification/AuditProperties.thy ===== *)
theory AuditProperties
  imports AuditExamples
begin

text \<open>
  The properties of the audit itself: the worker and the lifecycle, stored results, the sandbox,
  redaction, evidence and the runner.
\<close>

section \<open>Deliveries\<close>

text \<open>
  C3. The worker implements the lifecycle: whatever a delivery does (with any stage, engine and
  outcome), as long as the other processes take steps of the interleaved system on the run tables,
  so does the delivery; its effect on the run tables is a sequence of steps of the system.
\<close>

theorem delivery_refines_system:
  assumes "follows (advances {}) w" and "sy_db s = control (wd_db w)"
    and "process_run_event dk cfg event_id worker_id w = (r, w')"
  shows "\<exists>s'. sys_step\<^sup>*\<^sup>* s s' \<and> sy_db s' = control (wd_db w')"
  using assms by (rule process_advances)

lemma delivery_refines_system_witness:
  "\<exists>s'. sys_step\<^sup>*\<^sup>* demo_sys_created s' \<and>
     sy_db s' = control (wd_db (snd (process_run_event quiet_docker demo_stages (uuid_str 2) ''worker''
       (demo_world empty_results))))"
proof (rule delivery_refines_system)
  show "follows (advances {}) (demo_world empty_results)"
    by (simp add: follows_def advances_same)
  show "sy_db demo_sys_created = control (wd_db (demo_world empty_results))"
    using demo_control by (simp add: demo_sys_created_def)
qed (rule surjective_pairing)

text \<open>
  C9. What a delivery reports is what it committed: a completed task names a stored row with that
  state and version, and a failed task one that ended as FAILED with the reported code.
\<close>

theorem task_result_committed:
  assumes "process_run_event dk cfg event_id worker_id w = (Inr res, w')"
  shows "case res of
      Ignored \<Rightarrow> True
    | Completed i st v \<Rightarrow>
        (\<exists>row. runs_get i (wd_db w') = Some row \<and> ar_state row = st \<and> ar_version row = v)
    | TaskFailed i st v code \<Rightarrow>
        st = run_state.FAILED \<and>
        (\<exists>row. runs_get i (wd_db w') = Some row \<and> ar_state row = run_state.FAILED \<and>
           ar_version row = v \<and> ar_failure_code row = Some code)"
proof (cases "res = Ignored")
  case True
  then show ?thesis by simp
next
  case False
  with assms obtain k w1 where "process_claim dk cfg k w1 = (Inr res, w')" by (rule process_Inr)
  then show ?thesis
  proof (cases rule: process_claim_Inr)
    case ignored
    then show ?thesis by simp
  next
    case (completed run w2)
    from service_finalize_Inr [OF completed(1)] obtain now e db where
      "exec_finalize k now e db = Inr (run, wd_db w')" by blast
    from exec_finalize_row [OF this] completed(2) show ?thesis by (auto simp: completed_task_def)
  next
    case (failed e run w2)
    from service_fail_Inr [OF failed(1)] obtain now db where
      "exec_fail k (case exn_code e of None \<Rightarrow> [] | Some c \<Rightarrow> c) (exn_detail e) now db = Inr (run, wd_db w')"
      by blast
    from exec_fail_row [OF this] failed(2) show ?thesis by auto
  qed
qed

lemma task_result_committed_witness:
  "\<exists>w' row. process_run_event quiet_docker demo_stages (uuid_str 2) ''worker'' (demo_world empty_results)
      = (Inr (TaskFailed 1 run_state.FAILED 2 ''REPOSITORY_NOT_FOUND''), w') \<and>
    runs_get 1 (wd_db w') = Some row \<and> ar_state row = run_state.FAILED \<and> ar_version row = 2 \<and>
    ar_failure_code row = Some ''REPOSITORY_NOT_FOUND''"
proof -
  from demo_delivery_fails obtain w' where w': "process_run_event quiet_docker demo_stages (uuid_str 2)
      ''worker'' (demo_world empty_results) = (Inr (TaskFailed 1 run_state.FAILED 2 ''REPOSITORY_NOT_FOUND''), w')"
    by blast
  with task_result_committed [OF w'] show ?thesis by auto
qed

section \<open>Stored results\<close>

text \<open>
  C10. Results are immutable: after any sequence of committed repository operations every stored
  snapshot, graph, report, invocation, tool call, plan, environment, execution and evidence item
  reads as it did before (of an environment, all but the status and the time of its cleaning).
\<close>

theorem results_immutable:
  "results_wf db \<longrightarrow>
     results_wf (fold result_step ops db) \<and> results_kept db (fold result_step ops db)"
  using steps_advance unfolding results_advance_def by blast

lemma results_immutable_witness:
  "results_kept demo_provisioned
     (fold result_step [StoreExecution demo_execution, SetEnvironmentStatus 50 CLEANED (Some 9),
        StoreSnapshot (demo_snapshot\<lparr>sn_head_commit := ''ff''\<rparr>)] demo_provisioned)"
  using results_immutable [of demo_provisioned] demo_wf by blast

text \<open>
  C11. An action runs at most once in a shadow generation: after a stored execution, executing the
  same action again (another request, another checkpoint, any result reader) starts no container,
  and returns the stored execution or finds the generation no longer active.
\<close>

theorem action_runs_once:
  assumes "results_wf (wd_db w)" and "follows results_advance w"
    and "keeps (lifted results_advance) checkpoint"
    and "sandbox_execute dk parse cfg run_id generation request checkpoint w = (Inr x, w')"
    and "rq_action request' = rq_action request"
    and "sandbox_execute dk parse cfg run_id generation request' checkpoint' w' = (r, w'')"
  shows "wd_docker w'' = wd_docker w' \<and>
    (r = Inr x \<or> r = Inl (sandbox_unavailable ''No active shadow generation exists''))"
  using assms by (rule execute_again)

lemma action_runs_once_witness:
  "wd_docker (demo_executed 0 demo_results) = 1 \<and>
   wd_docker (snd (sandbox_execute quiet_docker (\<lambda>line. Some demo_runner_result) demo_settings 1 1
     (demo_action\<lparr>rq_revision := ''r9''\<rparr>) (ret ()) (demo_executed 0 demo_results))) = 1"
proof -
  have x: "sandbox_execute quiet_docker (\<lambda>line. Some demo_runner_result) demo_settings 1 1 demo_action (ret ())
      (demo_started 0 demo_results) = (Inr demo_execution, demo_executed 0 demo_results)"
    by (rule demo_executes) (simp_all add: demo_results_def empty_results_def)
  have "results_wf (wd_db (demo_started 0 demo_results))" "follows results_advance (demo_started 0 demo_results)"
    using demo_wf by (simp_all add: demo_started_def follows_def results_order.R_refl)
  moreover have "keeps (lifted results_advance) (ret () :: (nat world, unit) act)"
    by (rule results.lifted.keeps_rules)
  ultimately have "wd_docker (snd (sandbox_execute quiet_docker (\<lambda>line. Some demo_runner_result) demo_settings 1 1
     (demo_action\<lparr>rq_revision := ''r9''\<rparr>) (ret ()) (demo_executed 0 demo_results))) =
     wd_docker (demo_executed 0 demo_results)"
    using action_runs_once [OF _ _ _ x _ surjective_pairing, of "demo_action\<lparr>rq_revision := ''r9''\<rparr>" "ret ()"]
    by simp
  then show ?thesis by (simp add: demo_executed_def)
qed


section \<open>The sandbox\<close>





text \<open>
  C29. The readiness loop ends: when each quarter-second sleep shows on the clock, the bound on the
  polls is never reached; the wait fails only with the time-out, or with an exception of the
  checkpoint or of the engine.
\<close>

theorem readiness_ends:
  assumes "keeps same_polls checkpoint"
    and "wd_monotonic w (wd_polls w) \<le> wd_monotonic w (Suc (wd_polls w))"
    and "\<And>i. wd_polls w < i \<Longrightarrow> wd_monotonic w i + 250 \<le> wd_monotonic w (Suc i)"
    and "wait_ready dk cfg container checkpoint w = (Inl e, w')"
  shows "e = sandbox_unavailable ''Shadow PostgreSQL readiness timed out'' \<or>
    (\<exists>v v'. checkpoint v = (Inl e, v')) \<or> (\<exists>d d'. dk_exec dk container pg_isready d = (Inl e, d'))"
  using wait_ready_error [OF assms] by (simp add: wait_error_def)

lemma readiness_ends_witness:
  "\<exists>w'. wait_ready (quiet_docker\<lparr>dk_exec := \<lambda>c command. ret 1\<rparr>) demo_settings ''postgres'' (ret ())
      (demo_world demo_results) = (Inl (sandbox_unavailable ''Shadow PostgreSQL readiness timed out''), w')"
proof -
  let ?dk = "quiet_docker\<lparr>dk_exec := \<lambda>c command. ret 1\<rparr>"
  obtain r w' where run: "wait_ready ?dk demo_settings ''postgres'' (ret ()) (demo_world demo_results) = (r, w')"
    by force
  have "r \<noteq> Inr ()" using run wait_ready_not_ready [of ?dk "''postgres''" demo_settings "ret ()"] by auto
  then obtain e where e: "r = Inl e" by (cases r) auto
  have "keeps same_polls (ret () :: (nat world, unit) act)" by (rule polls.keeps_rules)
  from readiness_ends [OF this _ _ run [unfolded e]] run e show ?thesis by auto
qed




section \<open>Redaction and evidence\<close>

text \<open>
  C13. The password of the shadow database does not reach the stored output: when it is longer than
  the inside of the redaction mark and has no brackets (as \<open>secrets.token_urlsafe\<close> gives), neither
  stream nor the error detail of the result of a Runner container contains it, whatever was logged.
\<close>

theorem password_not_stored:
  assumes "observe_container dk parse cfg lease run_id generation request container w = (Inr x, w')"
    and "markless (el_database_password lease)"
    and "t \<in> {ba_text (rr_stdout (re_result x)), ba_text (rr_stderr (re_result x))} \<union>
               set_option (rr_error_detail (re_result x))"
  shows "\<not> sublist (el_database_password lease) t"
proof -
  let ?p = "el_database_password lease"
  from observe_Inr [OF assms(1)] obtain raw where "redacted_result parse raw ?p = Inr (re_result x)" by blast
  then obtain r where "re_result x = redact_result ?p r"
    by (auto simp: redacted_result_def split: option.splits) metis
  with assms(3) obtain s where "t = redact ?p s"
    by (auto simp: redact_result_def redact_artifact_def Let_def split: option.splits if_splits)
  with redact_absent [OF assms(2)] show ?thesis by simp
qed

lemma password_not_stored_witness:
  "\<exists>x w'. observe_container quiet_docker
       (\<lambda>line. Some (demo_runner_result\<lparr>rr_stdout := demo_stream_text\<lparr>ba_text := ''url q7GhTz0pLmVx''\<rparr>\<rparr>))
       demo_settings demo_lease 1 1 demo_action ''container'' (demo_world demo_results) = (Inr x, w') \<and>
     \<not> sublist ''q7GhTz0pLmVx'' (ba_text (rr_stdout (re_result x)))"
proof -
  let ?parse = "\<lambda>line. Some (demo_runner_result\<lparr>rr_stdout := demo_stream_text\<lparr>ba_text := ''url q7GhTz0pLmVx''\<rparr>\<rparr>)"
  obtain x w' where x: "observe_container quiet_docker ?parse demo_settings demo_lease 1 1 demo_action
      ''container'' (demo_world demo_results) = (Inr x, w')"
    by (simp add: observe_container_def await_container_def redacted_result_def last_line_demo quiet_simps Let_def)
  have p: "el_database_password demo_lease = ''q7GhTz0pLmVx''" by (simp add: demo_lease_def)
  have "markless ''q7GhTz0pLmVx''" by (simp add: markless_def)
  with password_not_stored [OF x, unfolded p] x show ?thesis by blast
qed

text \<open>
  C14. Evidence never dangles: every item that a collection returns is backed by a file of the
  artifact directory that is stored under the digest of the item and has that digest.
\<close>

theorem evidence_resolves:
  assumes "collect_evidence run_id generation w = (Inr items, w')" and "e \<in> set items"
  shows "\<exists>data. wd_evidence w' (ev_sha256 e) = Some data \<and> hexdigest data = ev_sha256 e"
  using collect_stored [OF assms] by (simp add: item_stored_def)

lemma evidence_resolves_witness:
  "\<exists>w' data. collect_evidence 1 1 (demo_world demo_finished) = (Inr [demo_item], w') \<and>
     wd_evidence w' (hexdigest demo_gaps) = Some data \<and> hexdigest data = hexdigest demo_gaps"
proof -
  obtain w' where c: "collect_evidence 1 1 (demo_world demo_finished) = (Inr [demo_item], w')"
    using demo_collects by blast
  moreover have "ev_sha256 demo_item = hexdigest demo_gaps" by (simp add: demo_item_def)
  ultimately show ?thesis using evidence_resolves [OF c, of demo_item] by auto
qed

section \<open>The runner\<close>




text \<open>
  C27. A fixture manifest stays within its budget: accepted rows are for at most 64 tables of the
  database with identifiers as names, at most 100 rows in all, and every cell is a column that the
  database has in that table, with an identifier as name and a scalar value, a text of at most 4096
  bytes.
\<close>

theorem manifest_within_budget:
  assumes "manifest_rows sd payload e = (Inr (prepared, names), e')"
  shows "\<exists>available e1 e2. table_names sd e1 = (Inr available, e2) \<and>
    list_all (entry_ok sd available) prepared \<and> names = map fst prepared \<and>
    length prepared \<le> 64 \<and> sum_list (map (length \<circ> snd) prepared) \<le> 100"
  using manifest_rows_ok [OF assms] by (simp add: max_tables_def max_rows_def)

lemma manifest_within_budget_witness:
  "\<exists>available v1 v2. table_names quiet_database v1 = (Inr available, v2) \<and>
     list_all (entry_ok quiet_database available)
       [(''users'', [[(''age'', SeedJson (JInt 4))], [(''age'', SeedJson JNull)]])]"
  using manifest_within_budget [OF demo_manifest_rows] by blast

end
