(* ===== verification/Api.thy ===== *)
theory Api
  imports Timeline SandboxLabels
begin

text \<open>
  The HTTP interface: the query services of \<open>application/static_analysis.py\<close>,
  \<open>application/planning.py\<close> and \<open>application/dynamic_results.py\<close>, the routes of
  \<open>api/routes/runs.py\<close>, \<open>api/routes/run_events.py\<close> and \<open>api/routes/health.py\<close>, and
  \<open>application/readiness.py\<close>.  Path parameters are the identifiers FastAPI has read from the path.
\<close>

section \<open>Queries\<close>

text \<open>\<open>StaticReportQueryService\<close>, \<open>AuditPlanQueryService\<close>, \<open>DynamicAuditQueryService\<close>\<close>

definition static_report_query :: "uuid \<Rightarrow> 'z result_db_scheme \<Rightarrow> static_report res" where
  "static_report_query run_id db =
     (case runs_get run_id db of
        None \<Rightarrow> Inl (RunNotFoundError run_id)
      | Some run \<Rightarrow>
          (case reports_get_for_run run_id db of
             None \<Rightarrow> Inl (StaticReportNotReadyError run_id)
           | Some report \<Rightarrow> Inr report))"

definition audit_plan_query :: "uuid \<Rightarrow> 'z result_db_scheme \<Rightarrow> audit_plan_record res" where
  "audit_plan_query run_id db =
     (case runs_get run_id db of
        None \<Rightarrow> Inl (RunNotFoundError run_id)
      | Some run \<Rightarrow>
          (case plans_get_for_run run_id db of
             None \<Rightarrow> Inl (AuditPlanNotReadyError run_id)
           | Some plan \<Rightarrow> Inr plan))"

definition dynamic_audit_query :: "uuid \<Rightarrow> int \<Rightarrow> 'z result_db_scheme \<Rightarrow> dynamic_audit_view res" where
  "dynamic_audit_query run_id generation db =
     (case runs_get run_id db of
        None \<Rightarrow> Inl (RunNotFoundError run_id)
      | Some run \<Rightarrow>
          (case sandbox_get_environment run_id generation db of
             None \<Rightarrow> Inl (DynamicAuditNotReadyError run_id)
           | Some lease \<Rightarrow>
               Inr \<lparr>dv_run_id = run_id, dv_generation = generation,
                    dv_environment = el_environment lease,
                    dv_executions = sandbox_list_executions (se_id (el_environment lease)) db,
                    dv_evidence_items = evidence_list_for_run run_id db\<rparr>))"

section \<open>Replies\<close>

text \<open>
  A response with its status and \<open>Location\<close>, an \<open>HTTPException\<close> with its status and code, the
  refusal of a request that does not satisfy the declared constraints (422), or any other exception.
\<close>

datatype 'a reply =
    Reply int "string option" 'a
  | HttpError int string
  | Unprocessable
  | Unhandled exn

text \<open>The \<open>except\<close> clauses of a route: the status for the exceptions it names.\<close>

definition refuse :: "(exn \<Rightarrow> int option) \<Rightarrow> exn \<Rightarrow> 'a reply" where
  "refuse clauses e =
     (case (clauses e, exn_code e) of
        (Some status, Some code) \<Rightarrow> HttpError status code
      | _ \<Rightarrow> Unhandled e)"

fun not_found_clauses :: "exn \<Rightarrow> int option" where
  "not_found_clauses (RunNotFoundError r) = Some 404"
| "not_found_clauses _ = None"

fun create_clauses :: "exn \<Rightarrow> int option" where
  "create_clauses (IdempotencyConflictError key) = Some 409"
| "create_clauses _ = None"

fun report_clauses :: "exn \<Rightarrow> int option" where
  "report_clauses (RunNotFoundError r) = Some 404"
| "report_clauses (StaticReportNotReadyError r) = Some 409"
| "report_clauses _ = None"

fun plan_clauses :: "exn \<Rightarrow> int option" where
  "plan_clauses (RunNotFoundError r) = Some 404"
| "plan_clauses (AuditPlanNotReadyError r) = Some 409"
| "plan_clauses _ = None"

fun dynamic_clauses :: "exn \<Rightarrow> int option" where
  "dynamic_clauses (RunNotFoundError r) = Some 404"
| "dynamic_clauses (DynamicAuditNotReadyError r) = Some 409"
| "dynamic_clauses _ = None"

fun cancel_clauses :: "exn \<Rightarrow> int option" where
  "cancel_clauses (RunNotFoundError r) = Some 404"
| "cancel_clauses (OptimisticConcurrencyError r v) = Some 409"
| "cancel_clauses (TerminalRunError r s) = Some 409"
| "cancel_clauses _ = None"

text \<open>\<open>request.app.state.*_service\<close> is \<open>None\<close> when it was not configured.\<close>

definition with_service :: "bool \<Rightarrow> string \<Rightarrow> 'a reply \<Rightarrow> 'a reply" where
  "with_service configured code reply = (if configured then reply else HttpError 503 code)"

definition answer :: "(exn \<Rightarrow> int option) \<Rightarrow> 'a res \<Rightarrow> 'a reply" where
  "answer clauses r = (case r of Inl e \<Rightarrow> refuse clauses e | Inr x \<Rightarrow> Reply 200 None x)"

section \<open>Views\<close>

record run_view =
  vw_schema_version :: string
  vw_id :: uuid
  vw_state :: run_state
  vw_version :: int
  vw_execution_profile :: string
  vw_failure_code :: "string option"
  vw_cancel_requested_at :: "time option"
  vw_created_at :: "time option"
  vw_updated_at :: "time option"
  vw_completed_at :: "time option"
  vw_links :: "(string \<times> string) list"

definition run_path :: "uuid \<Rightarrow> string" where
  "run_path run_id = ''/api/v1/runs/'' @ uuid_str run_id"

definition run_links :: "uuid \<Rightarrow> (string \<times> string) list" where
  "run_links run_id =
     (let base = run_path run_id
      in [(''self'', base), (''events'', base @ ''/events''), (''timeline'', base @ ''/timeline''),
          (''static_report'', base @ ''/static-report''), (''plan'', base @ ''/plan''),
          (''dynamic_result'', base @ ''/dynamic-result'')])"

text \<open>\<open>Field(ge=1)\<close> of the views\<close>

definition at_least_1 :: "int \<Rightarrow> 'a \<Rightarrow> 'a res" where
  "at_least_1 n x = (if 1 \<le> n then Inr x else Inl (ForeignError ''ValidationError'' ''greater_than_equal''))"

definition view_run :: "audit_run \<Rightarrow> run_view res" where
  "view_run run =
     at_least_1 (ar_version run)
       \<lparr>vw_schema_version = ''1.0'', vw_id = ar_id run, vw_state = ar_state run,
        vw_version = ar_version run, vw_execution_profile = ''m5.dynamic-evidence.v1'',
        vw_failure_code = ar_failure_code run, vw_cancel_requested_at = ar_cancel_requested_at run,
        vw_created_at = ar_created_at run, vw_updated_at = Some (ar_updated_at run),
        vw_completed_at = ar_completed_at run, vw_links = run_links (ar_id run)\<rparr>"

text \<open>\<open>RunTimelineEventV1\<close> has the fields of a \<open>TimelineEvent\<close>.\<close>

definition view_event :: "timeline_event \<Rightarrow> timeline_event res" where
  "view_event e =
     bind_res (at_least_1 (te_version e) e) (\<lambda>e.
       case te_attempt e of None \<Rightarrow> Inr e | Some attempt \<Rightarrow> at_least_1 attempt e)"

record step_view =
  sv_step_key :: string
  sv_attempt :: int
  sv_status :: step_status
  sv_handler_version :: string
  sv_started_at :: time
  sv_heartbeat_at :: "time option"
  sv_lease_expires_at :: "time option"

definition view_step :: "run_step \<Rightarrow> step_view res" where
  "view_step s =
     at_least_1 (rs_attempt s)
       \<lparr>sv_step_key = rs_step_key s, sv_attempt = rs_attempt s, sv_status = rs_status s,
        sv_handler_version = rs_handler_version s, sv_started_at = rs_started_at s,
        sv_heartbeat_at = rs_heartbeat_at s, sv_lease_expires_at = rs_lease_expires_at s\<rparr>"

record timeline_view =
  lv_schema_version :: string
  lv_run_id :: uuid
  lv_run_version :: int
  lv_terminal :: bool
  lv_events :: "timeline_event list"
  lv_current_step :: "step_view option"

definition view_timeline :: "run_timeline \<Rightarrow> timeline_view res" where
  "view_timeline t =
     bind_res (collect (\<lambda>e. bind_res (view_event e) (\<lambda>v. Inr (Some v))) (tl_events t)) (\<lambda>events.
     bind_res (case tl_current_step t of
                 None \<Rightarrow> Inr None
               | Some s \<Rightarrow> bind_res (view_step s) (\<lambda>v. Inr (Some v))) (\<lambda>current.
       at_least_1 (tl_run_version t)
         \<lparr>lv_schema_version = ''1.0'', lv_run_id = tl_run_id t, lv_run_version = tl_run_version t,
          lv_terminal = tl_terminal t, lv_events = events, lv_current_step = current\<rparr>))"

section \<open>Routes of runs\<close>

definition create_run ::
    "bool \<Rightarrow> create_request \<Rightarrow> string \<Rightarrow> time \<Rightarrow> uuid \<Rightarrow> uuid \<Rightarrow> 'z control_db_scheme \<Rightarrow>
     run_view reply \<times> 'z control_db_scheme" where
  "create_run configured payload key now run_id event_id db =
     (case create_request_validate payload of
        Inl e \<Rightarrow> (Unprocessable, db)
      | Inr request \<Rightarrow>
          if \<not> length_between 1 255 key then (Unprocessable, db)
          else if \<not> configured then (HttpError 503 ''RUN_SERVICE_UNAVAILABLE'', db)
          else (case run_service_create request key now run_id event_id db of
                  Inl e \<Rightarrow> (refuse create_clauses e, db)
                | Inr (run, db') \<Rightarrow>
                    ((case view_run run of
                        Inl e \<Rightarrow> Unhandled e
                      | Inr v \<Rightarrow> Reply 202 (Some (run_path (ar_id run))) v), db')))"

definition get_run :: "bool \<Rightarrow> uuid \<Rightarrow> 'z control_db_scheme \<Rightarrow> run_view reply" where
  "get_run configured run_id db =
     with_service configured ''RUN_SERVICE_UNAVAILABLE''
       (answer not_found_clauses (bind_res (run_service_get run_id db) view_run))"

definition get_static_report :: "bool \<Rightarrow> uuid \<Rightarrow> 'z result_db_scheme \<Rightarrow> static_report reply" where
  "get_static_report configured run_id db =
     with_service configured ''STATIC_REPORT_SERVICE_UNAVAILABLE''
       (answer report_clauses (static_report_query run_id db))"

definition get_audit_plan :: "bool \<Rightarrow> uuid \<Rightarrow> 'z result_db_scheme \<Rightarrow> audit_plan_record reply" where
  "get_audit_plan configured run_id db =
     with_service configured ''AUDIT_PLAN_SERVICE_UNAVAILABLE''
       (answer plan_clauses (audit_plan_query run_id db))"

definition get_dynamic_result :: "bool \<Rightarrow> uuid \<Rightarrow> 'z result_db_scheme \<Rightarrow> dynamic_audit_view reply" where
  "get_dynamic_result configured run_id db =
     with_service configured ''DYNAMIC_AUDIT_SERVICE_UNAVAILABLE''
       (answer dynamic_clauses (dynamic_audit_query run_id 1 db))"

definition cancel_run ::
    "bool \<Rightarrow> uuid \<Rightarrow> int \<Rightarrow> time \<Rightarrow> 'z control_db_scheme \<Rightarrow>
     run_view reply \<times> 'z control_db_scheme" where
  "cancel_run configured run_id expected_version now db =
     (case cancel_request_validate expected_version of
        Inl e \<Rightarrow> (Unprocessable, db)
      | Inr version \<Rightarrow>
          if \<not> configured then (HttpError 503 ''RUN_SERVICE_UNAVAILABLE'', db)
          else (case run_service_cancel run_id version now db of
                  Inl e \<Rightarrow> (refuse cancel_clauses e, db)
                | Inr (run, db') \<Rightarrow>
                    ((case view_run run of Inl e \<Rightarrow> Unhandled e | Inr v \<Rightarrow> Reply 202 None v), db')))"

definition get_timeline :: "bool \<Rightarrow> uuid \<Rightarrow> 'z control_db_scheme \<Rightarrow> timeline_view reply" where
  "get_timeline configured run_id db =
     with_service configured ''RUN_TIMELINE_SERVICE_UNAVAILABLE''
       (answer not_found_clauses (bind_res (timeline_get run_id 0 db) view_timeline))"

section \<open>The event stream\<close>

text \<open>
  \<open>_parse_cursor\<close>: no header is 0; what \<open>int\<close> rejects, more than 4300 digits among it, or a negative
  number is a 400.
\<close>

definition invalid_cursor :: exn where
  "invalid_cursor = ValueError ''INVALID_EVENT_CURSOR''"

definition parse_cursor :: "string option \<Rightarrow> int res" where
  "parse_cursor header =
     (case header of
        None \<Rightarrow> Inr 0
      | Some text \<Rightarrow>
          if 4300 < length (filter is_digit_char text) then Inl invalid_cursor
          else (case py_int text of
                  None \<Rightarrow> Inl invalid_cursor
                | Some cursor \<Rightarrow> if cursor < 0 then Inl invalid_cursor else Inr cursor))"

text \<open>\<open>model_dump_json()\<close>: the fields in their order; \<open>isotime\<close> renders a \<open>datetime\<close>.\<close>

definition event_fields :: "(time \<Rightarrow> string) \<Rightarrow> timeline_event \<Rightarrow> (string \<times> json) list" where
  "event_fields isotime e =
     [(''version'', JInt (te_version e)), (''state'', JStr (state_value (te_state e))),
      (''at'', JStr (isotime (te_at e))), (''step_key'', opt_json JStr (te_step_key e)),
      (''attempt'', opt_json JInt (te_attempt e)),
      (''status'', opt_json (\<lambda>s. JStr (step_status_value s)) (te_status e)),
      (''handler_version'', opt_json JStr (te_handler_version e)),
      (''error_code'', opt_json JStr (te_error_code e))]"

definition event_json :: "(time \<Rightarrow> string) \<Rightarrow> timeline_event \<Rightarrow> string" where
  "event_json isotime e =
     ''{'' @ join_with '',''
       (map (\<lambda>(k, v). json_string False k @ '':'' @ dumps False v) (event_fields isotime e)) @ ''}''"

definition newline :: char where
  "newline = CHR 0x0A"

definition sse_event :: "(time \<Rightarrow> string) \<Rightarrow> timeline_event \<Rightarrow> string res" where
  "sse_event isotime event =
     bind_res (view_event event) (\<lambda>v. Inr
       (''id: '' @ dec_int (te_version event) @ [newline] @ ''event: run.state.changed'' @ [newline] @
        ''data: '' @ event_json isotime v @ [newline, newline]))"

definition keepalive :: string where
  "keepalive = '': keepalive'' @ [newline, newline]"

text \<open>
  The loop over the events of one timeline: what is sent, the cursor, the time of the last output
  and the readings of \<open>monotonic\<close> so far; an event that has no view ends the stream.
\<close>

fun emit_events ::
    "(time \<Rightarrow> string) \<Rightarrow> (nat \<Rightarrow> int) \<Rightarrow> timeline_event list \<Rightarrow> int \<Rightarrow> int \<Rightarrow> nat \<Rightarrow>
     string list \<times> (int \<times> int \<times> nat) res" where
  "emit_events isotime ticks [] cursor last_output n = ([], Inr (cursor, last_output, n))"
| "emit_events isotime ticks (e # es) cursor last_output n =
     (case sse_event isotime e of
        Inl x \<Rightarrow> ([], Inl x)
      | Inr frame \<Rightarrow>
          (case emit_events isotime ticks es (te_version e) (ticks n) (n + 1) of
             (frames, r) \<Rightarrow> (frame # frames, r)))"

text \<open>How the stream ends: finished, disconnected, by an exception, or not within these polls.\<close>

datatype stream_end = StreamFinished | StreamDisconnected | StreamRaised exn | StreamOpen

text \<open>
  \<open>generate\<close>: \<open>polls\<close> says for each round whether the client has gone, and gives the database the
  next timeline is read from.
\<close>

fun generate ::
    "(time \<Rightarrow> string) \<Rightarrow> (nat \<Rightarrow> int) \<Rightarrow> int \<Rightarrow> uuid \<Rightarrow> run_timeline \<Rightarrow> int \<Rightarrow> int \<Rightarrow> nat \<Rightarrow>
     (bool \<times> 'z control_db_scheme) list \<Rightarrow> string list \<times> int \<times> stream_end" where
  "generate isotime ticks interval run_id timeline cursor last_output n polls =
     (case emit_events isotime ticks (tl_events timeline) cursor last_output n of
        (frames, Inl x) \<Rightarrow> (frames, cursor, StreamRaised x)
      | (frames, Inr (cursor, last_output, n)) \<Rightarrow>
          if tl_terminal timeline \<and> tl_run_version timeline \<le> cursor
          then (frames, cursor, StreamFinished)
          else (case polls of
                  [] \<Rightarrow> (frames, cursor, StreamOpen)
                | (gone, db) # rest \<Rightarrow>
                    if gone then (frames, cursor, StreamDisconnected)
                    else let idle = interval \<le> ticks n - last_output;
                             pause = (if idle then [keepalive] else [])
                         in (case timeline_get run_id cursor db of
                               Inl x \<Rightarrow> (frames @ pause, cursor, StreamRaised x)
                             | Inr next_timeline \<Rightarrow>
                                 (case generate isotime ticks interval run_id next_timeline cursor
                                         (if idle then ticks (n + 1) else last_output)
                                         (if idle then n + 2 else n + 1) rest of
                                    (more_frames, r) \<Rightarrow> (frames @ pause @ more_frames, r)))))"

declare generate.simps [simp del]

definition stream_events ::
    "bool \<Rightarrow> (time \<Rightarrow> string) \<Rightarrow> (nat \<Rightarrow> int) \<Rightarrow> int \<Rightarrow> uuid \<Rightarrow> string option \<Rightarrow>
     'z control_db_scheme \<Rightarrow> (bool \<times> 'z control_db_scheme) list \<Rightarrow>
     (string list \<times> int \<times> stream_end) reply" where
  "stream_events configured isotime ticks interval run_id last_event_id db polls =
     (case parse_cursor last_event_id of
        Inl e \<Rightarrow> HttpError 400 ''INVALID_EVENT_CURSOR''
      | Inr cursor \<Rightarrow>
          with_service configured ''RUN_TIMELINE_SERVICE_UNAVAILABLE''
            (case timeline_get run_id cursor db of
               Inl e \<Rightarrow> refuse not_found_clauses e
             | Inr initial \<Rightarrow>
                 Reply 200 None (generate isotime ticks interval run_id initial cursor (ticks 0) 1 polls)))"

section \<open>Readiness\<close>

text \<open>\<open>ReadinessService.run\<close>: every check is run; any exception makes its dependency unavailable.\<close>

definition readiness_run :: "(string \<times> unit res) list \<Rightarrow> bool \<times> (string \<times> string) list" where
  "readiness_run checks =
     (let dependencies =
        map (\<lambda>(name, outcome). (name, case outcome of Inl e \<Rightarrow> ''unavailable'' | Inr u \<Rightarrow> ''ok'')) checks
      in (list_all (\<lambda>(name, status). status = ''ok'') dependencies, dependencies))"

definition redis_check :: "bool res \<Rightarrow> unit res" where
  "redis_check ping =
     bind_res ping (\<lambda>pong. if pong then Inr ()
       else Inl (ForeignError ''ConnectionError'' ''Redis ping returned a non-true response''))"

definition ready :: "(string \<times> unit res) list \<Rightarrow> (string \<times> (string \<times> string) list) reply" where
  "ready checks =
     (case readiness_run checks of
        (all_ok, dependencies) \<Rightarrow>
          Reply (if all_ok then 200 else 503) None
            (if all_ok then ''ready'' else ''not_ready'', dependencies))"

end
