(* ===== verification/ApiFacts.thy ===== *)
theory ApiFacts
  imports Api RunExamples
begin

text \<open>
  The text of the event stream carries the polls of \<open>Timeline\<close>, and a client that returns the
  identifier of an event resumes after it; every request ends in one of the replies the routes
  declare.
\<close>

section \<open>Lines\<close>

lemma of_char_newline [simp]: "(of_char newline :: nat) = 10"
  by (simp add: newline_def)

lemma py_space_newline: "py_space newline"
  by (simp add: py_space_def)

lemma no_newline_dec_int: "newline \<notin> set (dec_int i)"
proof -
  have "newline \<noteq> CHR ''-''" by (simp add: newline_def)
  then show ?thesis using dec_nat_digits(4) py_space_newline by (auto simp: dec_int_def)
qed

lemma no_newline_json_string: "newline \<notin> set (json_string ea s)"
proof -
  have "of_char newline \<noteq> (of_char quote :: nat)" "of_char newline \<noteq> (of_char backslash :: nat)"
    by (simp_all add: quote_def backslash_def)
  then have q: "newline \<noteq> quote" "newline \<noteq> backslash" by (metis of_char_newline)+
  have c: "newline \<notin> {CHR ''n'', CHR ''r'', CHR ''t'', CHR ''f'', CHR ''b'', CHR ''u''}"
    by (simp add: newline_def)
  have "newline \<notin> set (json_char ea c)" for c
  proof (cases "c = newline")
    case True
    with q c show ?thesis by (simp add: json_char_def Let_def)
  next
    case False
    with q c hex_fixed_clean py_space_newline show ?thesis by (auto simp: json_char_def Let_def)
  qed
  with q show ?thesis by (auto simp: json_string_def)
qed

lemma split_on_line: "c \<notin> set s \<Longrightarrow> split_on c (s @ c # t) = s # split_on c t"
  by (induction s) auto

lemma split_on_last: "c \<notin> set s \<Longrightarrow> split_on c s = [s]"
  by (induction s) auto

section \<open>Reading an event back\<close>

text \<open>The field \<open>id\<close> of an event, as a client of the stream reads it from the lines.\<close>

definition event_id :: "string \<Rightarrow> string option" where
  "event_id frame =
     map_option (drop 4) (find (\<lambda>line. starts_with line ''id: '') (split_on newline frame))"

definition event_data :: "string \<Rightarrow> string option" where
  "event_data frame =
     map_option (drop 6) (find (\<lambda>line. starts_with line ''data: '') (split_on newline frame))"

lemma view_event_same: "view_event e = Inr v \<Longrightarrow> v = e \<and> 1 \<le> te_version e"
  by (auto simp: view_event_def at_least_1_def bind_res_Inr split: option.splits if_splits)

lemma no_newline_join:
  "newline \<notin> set sep \<Longrightarrow> (\<And>p. p \<in> set ps \<Longrightarrow> newline \<notin> set p) \<Longrightarrow> newline \<notin> set (join_with sep ps)"
  by (induction sep ps rule: join_with.induct) auto

lemma no_newline_dumps:
  "newline \<notin> set (dumps ea JNull)" "newline \<notin> set (dumps ea (JInt i))" "newline \<notin> set (dumps ea (JStr s))"
  using no_newline_dec_int no_newline_json_string by (simp_all add: newline_def)

lemma no_newline_opt:
  "newline \<notin> set (dumps ea (opt_json JInt x))" "newline \<notin> set (dumps ea (opt_json (\<lambda>s. JStr (f s)) y))"
  using no_newline_dumps by (cases x; simp) (use no_newline_dumps in \<open>cases y; simp\<close>)

lemma no_newline_event_json: "newline \<notin> set (event_json isotime e)"
proof -
  have "newline \<notin> set (json_string False k @ '':'' @ dumps False v)"
    if "(k, v) \<in> set (event_fields isotime e)" for k v
    using that no_newline_dumps no_newline_opt(1) no_newline_opt(2) [of False "\<lambda>s. s"]
      no_newline_opt(2) [of False step_status_value "te_status e"] no_newline_json_string
    by (auto simp: event_fields_def newline_def)
  then have "newline \<notin> set (join_with '',''
      (map (\<lambda>(k, v). json_string False k @ '':'' @ dumps False v) (event_fields isotime e)))"
    by (intro no_newline_join) (auto simp: newline_def)
  then show ?thesis by (simp add: event_json_def newline_def)
qed

lemma sse_event_lines:
  assumes "sse_event isotime e = Inr frame"
  shows "split_on newline frame =
    [''id: '' @ dec_int (te_version e), ''event: run.state.changed'', ''data: '' @ event_json isotime e, [], []]"
proof -
  have v: "view_event e = Inr e" and frame: "frame = ''id: '' @ dec_int (te_version e) @ newline #
      ''event: run.state.changed'' @ newline # ''data: '' @ event_json isotime e @ [newline, newline]"
    using assms view_event_same by (auto simp: sse_event_def bind_res_Inr)
  have a: "newline \<notin> set (''id: '' @ dec_int (te_version e))"
    using no_newline_dec_int by (simp add: newline_def)
  have b: "newline \<notin> set ''event: run.state.changed''" by (simp add: newline_def)
  have c: "newline \<notin> set (''data: '' @ event_json isotime e)"
    using no_newline_event_json by (simp add: newline_def)
  have "split_on newline frame = (''id: '' @ dec_int (te_version e)) #
      split_on newline (''event: run.state.changed'' @ newline # (''data: '' @ event_json isotime e) @ [newline, newline])"
    unfolding frame using split_on_line [OF a] by simp
  also have "\<dots> = (''id: '' @ dec_int (te_version e)) # ''event: run.state.changed'' #
      split_on newline ((''data: '' @ event_json isotime e) @ newline # [newline])"
    using split_on_line [OF b] by simp
  also have "split_on newline ((''data: '' @ event_json isotime e) @ newline # [newline]) =
      [''data: '' @ event_json isotime e, [], []]"
    using split_on_line [OF c] by simp
  finally show ?thesis by simp
qed

lemma sse_event_read:
  assumes "sse_event isotime e = Inr frame"
  shows "event_id frame = Some (dec_int (te_version e))" and "event_data frame = Some (event_json isotime e)"
    and "frame \<noteq> keepalive"
  unfolding event_id_def event_data_def sse_event_lines [OF assms]
  using assms by (auto simp: starts_with_def sse_event_def bind_res_Inr keepalive_def)

section \<open>The cursor a client sends back\<close>

lemma length_dec_nat: "n < 10 ^ Suc k \<Longrightarrow> length (dec_nat n) \<le> Suc k"
proof (induction k arbitrary: n)
  case 0
  then show ?case by (simp add: dec_nat.simps [of n])
next
  case (Suc k)
  have "n div 10 < 10 ^ Suc k" using Suc.prems by (simp add: div_less_iff_less_mult)
  from Suc.IH [OF this] show ?case by (simp add: dec_nat.simps [of n])
qed

lemma parse_cursor_version:
  assumes "0 \<le> v" and "v < 2 ^ 31"
  shows "parse_cursor (Some (dec_int v)) = Inr v"
proof -
  have "nat v < 10 ^ Suc 9" using assms by simp
  from length_dec_nat [OF this] have "length (dec_int v) \<le> 10" using assms(1) by (simp add: dec_int_def)
  with length_filter_le [of is_digit_char "dec_int v"]
  have "length (filter is_digit_char (dec_int v)) \<le> 4300" by linarith
  with assms(1) show ?thesis by (simp add: parse_cursor_def py_int_dec_int)
qed

text \<open>What parsing accepts is never negative.\<close>

lemma parse_cursor_nonneg: "parse_cursor h = Inr c \<Longrightarrow> 0 \<le> c"
  by (auto simp: parse_cursor_def split: option.splits if_splits)

section \<open>The text of a stream\<close>

lemma emit_events_frames:
  assumes "emit_events isotime ticks es c l n = (frames, Inr (c', l', n'))"
  shows "list_all2 (\<lambda>e f. sse_event isotime e = Inr f) es frames \<and>
    c' = (if es = [] then c else te_version (last es))"
  using assms
proof (induction isotime ticks es c l n arbitrary: frames rule: emit_events.induct)
  case (2 isotime ticks e es c l n)
  then obtain f rest where "sse_event isotime e = Inr f" "frames = f # rest"
    "emit_events isotime ticks es (te_version e) (ticks n) (n + 1) = (rest, Inr (c', l', n'))"
    by (auto split: sum.splits prod.splits)
  with 2 show ?case by auto
qed simp

lemma frames_no_keepalive:
  "list_all2 (\<lambda>e f. sse_event isotime e = Inr f) es frames \<Longrightarrow> filter (\<lambda>f. f \<noteq> keepalive) frames = frames"
  by (induction rule: list_all2_induct) (auto dest: sse_event_read(3))

text \<open>One round of the loop.\<close>

lemma generate_round:
  assumes "generate isotime ticks interval rid timeline c l n polls = (frames, c', how)"
    and "how \<in> {StreamFinished, StreamOpen}"
  obtains sent c1 l1 n1 where
    "emit_events isotime ticks (tl_events timeline) c l n = (sent, Inr (c1, l1, n1))"
    and "if tl_terminal timeline \<and> tl_run_version timeline \<le> c1
         then frames = sent \<and> c' = c1 \<and> how = StreamFinished
         else case polls of
             [] \<Rightarrow> frames = sent \<and> c' = c1 \<and> how = StreamOpen
           | (gone, db) # rest \<Rightarrow> \<exists>timeline' l2 n2 pause later. timeline_get rid c1 db = Inr timeline' \<and>
               generate isotime ticks interval rid timeline' c1 l2 n2 rest = (later, c', how) \<and>
               frames = sent @ pause @ later \<and> filter (\<lambda>f. f \<noteq> keepalive) pause = []"
proof -
  obtain sent r where e: "emit_events isotime ticks (tl_events timeline) c l n = (sent, r)" by force
  with assms obtain c1 l1 n1 where r: "r = Inr (c1, l1, n1)"
    by (cases r) (auto simp: generate.simps [of _ _ _ _ timeline])
  show thesis
  proof (rule that [of sent c1 l1 n1])
    show "emit_events isotime ticks (tl_events timeline) c l n = (sent, Inr (c1, l1, n1))"
      using e r by simp
    show "if tl_terminal timeline \<and> tl_run_version timeline \<le> c1
         then frames = sent \<and> c' = c1 \<and> how = StreamFinished
         else case polls of
             [] \<Rightarrow> frames = sent \<and> c' = c1 \<and> how = StreamOpen
           | (gone, db) # rest \<Rightarrow> \<exists>timeline' l2 n2 pause later. timeline_get rid c1 db = Inr timeline' \<and>
               generate isotime ticks interval rid timeline' c1 l2 n2 rest = (later, c', how) \<and>
               frames = sent @ pause @ later \<and> filter (\<lambda>f. f \<noteq> keepalive) pause = []"
    proof (cases polls)
      case Nil
      with assms e r show ?thesis by (auto simp: generate.simps [of _ _ _ _ timeline])
    next
      case (Cons poll rest)
      obtain gone db where poll: "poll = (gone, db)" by force
      note g = assms(1) [unfolded generate.simps [of _ _ _ _ timeline] e r Cons poll, simplified]
      show ?thesis
      proof (cases "tl_terminal timeline \<and> tl_run_version timeline \<le> c1")
        case True
        with g show ?thesis by simp
      next
        case False
        then have "\<not> gone" using g assms(2) by auto
        let ?idle = "interval \<le> ticks n1 - l1"
        have pause: "filter (\<lambda>f. f \<noteq> keepalive) (if ?idle then [keepalive] else []) = []" by simp
        from False g \<open>\<not> gone\<close> assms(2) obtain timeline' where t: "timeline_get rid c1 db = Inr timeline'"
          by (cases "timeline_get rid c1 db") (auto simp: Let_def)
        obtain later c2 how2 where later: "generate isotime ticks interval rid timeline' c1
            (if ?idle then ticks (n1 + 1) else l1) (if ?idle then n1 + 2 else n1 + 1) rest = (later, c2, how2)"
          by (metis prod_cases3)
        with False g \<open>\<not> gone\<close> t have
          fr: "frames = sent @ (if ?idle then [keepalive] else []) @ later" and c: "c2 = c'" "how2 = how"
          by (auto simp: Let_def)
        have "\<exists>timeline' l2 n2 pause later. timeline_get rid c1 db = Inr timeline' \<and>
            generate isotime ticks interval rid timeline' c1 l2 n2 rest = (later, c', how) \<and>
            frames = sent @ pause @ later \<and> filter (\<lambda>f. f \<noteq> keepalive) pause = []"
          using t later [unfolded c] fr pause by blast
        with False show ?thesis by (simp only: Cons poll list.case prod.case if_False)
      qed
    qed
  qed
qed

text \<open>
  The events of a stream that was neither cut off nor ended by an exception are those of the polls
  of \<open>stream_run\<close>, whatever the clock does.
\<close>

lemma generate_stream:
  assumes "generate isotime ticks interval rid timeline c l n polls = (frames, c', how)"
    and "how \<in> {StreamFinished, StreamOpen}" and "timeline_get rid c db = Inr timeline"
  shows "\<exists>events. stream_run rid c (db # map snd polls) = Inr (events, c', how = StreamFinished) \<and>
    list_all2 (\<lambda>e f. sse_event isotime e = Inr f) events (filter (\<lambda>f. f \<noteq> keepalive) frames)"
  using assms(1,3)
proof (induction polls arbitrary: timeline c l n frames db)
  case Nil
  obtain sent c1 l1 n1 where
    e: "emit_events isotime ticks (tl_events timeline) c l n = (sent, Inr (c1, l1, n1))"
    and r: "frames = sent" "c' = c1"
      "how = (if tl_terminal timeline \<and> tl_run_version timeline \<le> c1 then StreamFinished else StreamOpen)"
    by (rule generate_round [OF Nil.prems(1) assms(2)]) (rule that, assumption, auto split: if_splits)
  from emit_events_frames [OF e] Nil.prems(2) r show ?case
    by (auto simp: stream_poll_def Let_def frames_no_keepalive)
next
  case (Cons poll polls)
  obtain gone db' where poll: "poll = (gone, db')" by force
  obtain sent c1 l1 n1 where
    e: "emit_events isotime ticks (tl_events timeline) c l n = (sent, Inr (c1, l1, n1))"
    and r: "if tl_terminal timeline \<and> tl_run_version timeline \<le> c1
       then frames = sent \<and> c' = c1 \<and> how = StreamFinished
       else \<exists>timeline' l2 n2 pause later. timeline_get rid c1 db' = Inr timeline' \<and>
         generate isotime ticks interval rid timeline' c1 l2 n2 polls = (later, c', how) \<and>
         frames = sent @ pause @ later \<and> filter (\<lambda>f. f \<noteq> keepalive) pause = []"
    by (rule generate_round [OF Cons.prems(1) assms(2)])
      (rule that, assumption, simp only: poll list.case prod.case)
  note f = emit_events_frames [OF e]
  have poll_c: "stream_poll c timeline =
      (tl_events timeline, c1, tl_terminal timeline \<and> tl_run_version timeline \<le> c1)"
    using f by (simp add: stream_poll_def Let_def)
  have run: "stream_run rid c (db # dbs) =
      (if tl_terminal timeline \<and> tl_run_version timeline \<le> c1 then Inr (tl_events timeline, c1, True)
       else bind_res (stream_run rid c1 dbs) (\<lambda>(rest, c, e). Inr (tl_events timeline @ rest, c, e)))" for dbs
    by (simp add: Cons.prems(2) poll_c)
  show ?case
  proof (cases "tl_terminal timeline \<and> tl_run_version timeline \<le> c1")
    case True
    with r have "frames = sent" "c' = c1" "how = StreamFinished" by simp_all
    moreover have "stream_run rid c (db # map snd (poll # polls)) = Inr (tl_events timeline, c1, True)"
      unfolding run by (rule if_P [OF True])
    moreover have "filter (\<lambda>f. f \<noteq> keepalive) sent = sent" using f by (auto intro: frames_no_keepalive)
    ultimately show ?thesis using f by auto
  next
    case False
    with r obtain timeline' l2 n2 pause later where
      t: "timeline_get rid c1 db' = Inr timeline'"
      and g: "generate isotime ticks interval rid timeline' c1 l2 n2 polls = (later, c', how)"
      and fr: "frames = sent @ pause @ later" "filter (\<lambda>f. f \<noteq> keepalive) pause = []"
      by (simp only: if_False) blast
    from Cons.IH [OF g t] obtain events where
      ev: "stream_run rid c1 (db' # map snd polls) = Inr (events, c', how = StreamFinished)"
        "list_all2 (\<lambda>e f. sse_event isotime e = Inr f) events (filter (\<lambda>f. f \<noteq> keepalive) later)"
      by blast
    have "stream_run rid c (db # map snd (poll # polls)) =
        Inr (tl_events timeline @ events, c', how = StreamFinished)"
      unfolding list.map poll prod.sel run if_not_P [OF False] ev(1) by simp
    moreover have "filter (\<lambda>f. f \<noteq> keepalive) frames = sent @ filter (\<lambda>f. f \<noteq> keepalive) later"
      using fr frames_no_keepalive [OF conjunct1 [OF f]] by simp
    ultimately show ?thesis using f ev(2) by (auto intro!: list_all2_appendI)
  qed
qed

section \<open>Databases along a path of the system\<close>

lemma path_databases:
  assumes "reachable s" and "\<forall>i < length rest. sys_step\<^sup>*\<^sup>* ((s # rest) ! i) (rest ! i)"
  shows "\<forall>db \<in> set (map sy_db (s # rest)). db_inv db"
    and "Suc i < length (s # rest) \<Longrightarrow> db_extends (map sy_db (s # rest) ! i) (map sy_db (s # rest) ! Suc i)"
proof -
  have inv: "sys_inv ((s # rest) ! j)" if "j \<le> length rest" for j
    using that
  proof (induction j)
    case 0
    then show ?case using reachable_inv [OF assms(1)] by simp
  next
    case (Suc j)
    then have "sys_step\<^sup>*\<^sup>* ((s # rest) ! j) ((s # rest) ! Suc j)" "sys_inv ((s # rest) ! j)"
      using assms(2) by simp_all
    then show ?case using reachable_extends by blast
  qed
  have "db_inv (sy_db x)" if x: "x \<in> set (s # rest)" for x
  proof -
    obtain j where "j < length (s # rest)" "x = (s # rest) ! j" using x by (metis in_set_conv_nth)
    with inv [of j] show ?thesis by (simp add: sys_inv_def)
  qed
  then show "\<forall>db \<in> set (map sy_db (s # rest)). db_inv db" by auto
  show "db_extends (map sy_db (s # rest) ! i) (map sy_db (s # rest) ! Suc i)" if i: "Suc i < length (s # rest)"
  proof -
    have "sys_step\<^sup>*\<^sup>* ((s # rest) ! i) (rest ! i)" "sys_inv ((s # rest) ! i)"
      using assms(2) inv [of i] i by simp_all
    then have "db_extends (sy_db ((s # rest) ! i)) (sy_db (rest ! i))" using reachable_extends by blast
    with i show ?thesis by (simp only: nth_map list.map(2) nth_Cons_Suc length_Cons Suc_less_eq length_map
        less_SucI less_imp_le_nat) (metis (no_types, lifting) Suc_less_eq length_Cons length_map less_SucI list.map(2) nth_Cons_Suc nth_map)
  qed
qed

end
