(* ===== verification/ApiProperties.thy ===== *)
theory ApiProperties
  imports ApiFacts ServiceProperties
begin

text \<open>The properties of the HTTP interface.\<close>

section \<open>Queries\<close>

lemma get_static_report_reply:
  "get_static_report True rid db =
     (if runs_get rid db = None then HttpError 404 ''RUN_NOT_FOUND''
      else case reports_get_for_run rid db of
          None \<Rightarrow> HttpError 409 ''STATIC_REPORT_NOT_READY'' | Some r \<Rightarrow> Reply 200 None r)"
  by (auto simp: get_static_report_def with_service_def answer_def static_report_query_def refuse_def
      split: option.split)

lemma get_audit_plan_reply:
  "get_audit_plan True rid db =
     (if runs_get rid db = None then HttpError 404 ''RUN_NOT_FOUND''
      else case plans_get_for_run rid db of
          None \<Rightarrow> HttpError 409 ''AUDIT_PLAN_NOT_READY'' | Some p \<Rightarrow> Reply 200 None p)"
  by (auto simp: get_audit_plan_def with_service_def answer_def audit_plan_query_def refuse_def
      split: option.split)

lemma get_dynamic_result_reply:
  assumes "runs_get rid db \<noteq> None" and "sandbox_get_environment rid 1 db = Some lease"
  shows "\<exists>v. get_dynamic_result True rid db = Reply 200 None v \<and> dv_environment v = el_environment lease \<and>
     (\<forall>x. x \<in> set (dv_executions v) \<longleftrightarrow>
        x \<in> set (runner_executions db) \<and> re_environment_id x = se_id (el_environment lease)) \<and>
     (\<forall>e. e \<in> set (dv_evidence_items v) \<longleftrightarrow> e \<in> set (evidence_items db) \<and> ev_run_id e = rid)"
  using assms by (auto simp: get_dynamic_result_def with_service_def answer_def dynamic_audit_query_def
      sandbox_list_executions_def evidence_list_for_run_def)

lemma view_run_ok: "1 \<le> ar_version r \<Longrightarrow> \<exists>v. view_run r = Inr v \<and> vw_id v = ar_id r \<and>
    vw_state v = ar_state r \<and> vw_version v = ar_version r \<and> vw_cancel_requested_at v = ar_cancel_requested_at r"
  by (simp add: view_run_def at_least_1_def)

lemma stored_version: "db_inv db \<Longrightarrow> runs_get rid db = Some r \<Longrightarrow> 1 \<le> ar_version r"
  using runs_get_Some db_invD(3) by (metis run_copy_ok_def)

lemma get_run_reply:
  assumes "db_inv db"
  shows "get_run True rid db = (case runs_get rid db of
      None \<Rightarrow> HttpError 404 ''RUN_NOT_FOUND''
    | Some r \<Rightarrow> (case view_run r of Inl e \<Rightarrow> Unhandled e | Inr v \<Rightarrow> Reply 200 None v))"
    and "get_run True rid db \<noteq> Unhandled e"
proof -
  show g: "get_run True rid db = (case runs_get rid db of
      None \<Rightarrow> HttpError 404 ''RUN_NOT_FOUND''
    | Some r \<Rightarrow> (case view_run r of Inl e \<Rightarrow> Unhandled e | Inr v \<Rightarrow> Reply 200 None v))"
    by (auto simp: get_run_def with_service_def answer_def run_service_get_def refuse_def view_run_def
        at_least_1_def split: option.split)
  show "get_run True rid db \<noteq> Unhandled e"
  proof (cases "runs_get rid db")
    case (Some r)
    then obtain w where "view_run r = Inr w" using view_run_ok stored_version [OF assms] by blast
    with Some show ?thesis by (simp add: g)
  qed (simp add: g)
qed

text \<open>A service that is not configured is reported, and nothing is read or written.\<close>

lemma unconfigured_replies:
  "get_run False rid db = HttpError 503 ''RUN_SERVICE_UNAVAILABLE''"
  "get_static_report False rid db' = HttpError 503 ''STATIC_REPORT_SERVICE_UNAVAILABLE''"
  "snd (create_run False rq key now i j db) = db" "snd (cancel_run False rid v now db) = db"
  by (auto simp: get_run_def get_static_report_def with_service_def create_run_def cancel_run_def
      split: sum.split)

text \<open>Every check is reported, and the service is ready when none of them failed.\<close>

lemma ready_reply:
  "ready checks = Reply (if list_all (\<lambda>(n, c). \<exists>u. c = Inr u) checks then 200 else 503) None
     (if list_all (\<lambda>(n, c). \<exists>u. c = Inr u) checks then ''ready'' else ''not_ready'',
      map (\<lambda>(n, c). (n, case c of Inl e \<Rightarrow> ''unavailable'' | Inr u \<Rightarrow> ''ok'')) checks)"
proof -
  have "list_all (\<lambda>(n, status). status = ''ok'')
      (map (\<lambda>(n, c). (n, case c of Inl e \<Rightarrow> ''unavailable'' | Inr u \<Rightarrow> ''ok'')) checks) =
    list_all (\<lambda>(n, c). \<exists>u. c = Inr u) checks"
    by (induction checks) (auto split: sum.splits)
  then show ?thesis by (simp add: ready_def readiness_run_def Let_def)
qed

section \<open>Cancellation\<close>

text \<open>
  C18. The cancel route answers every request on a consistent database with one of its declared
  replies: 422 for a version below 1, 404 for an unknown run, 409 with the code of the conflict for
  a run that has ended or moved on, and otherwise 202 with the run as it is now stored; a repeated
  request is answered with the run unchanged.
\<close>

theorem cancel_replies:
  assumes "db_inv db"
  shows "case cancel_run True rid v now db of (reply, db') \<Rightarrow>
    if v < 1 then reply = Unprocessable \<and> db' = db
    else case runs_get rid db of
        None \<Rightarrow> reply = HttpError 404 ''RUN_NOT_FOUND'' \<and> db' = db
      | Some r \<Rightarrow>
          if ar_state r = run_state.CANCELLED \<or> ar_cancel_requested_at r \<noteq> None
          then db' = db \<and> (\<exists>w. view_run r = Inr w \<and> reply = Reply 202 None w)
          else if ar_state r \<in> terminal_states
          then reply = HttpError 409 ''RUN_TERMINAL'' \<and> db' = db
          else if ar_version r \<noteq> v
          then reply = HttpError 409 ''OPTIMISTIC_CONCURRENCY_CONFLICT'' \<and> db' = db
          else (\<exists>r' w. runs_get rid db' = Some r' \<and> view_run r' = Inr w \<and> reply = Reply 202 None w \<and>
                  ar_cancel_requested_at r' = Some now \<and> ar_version r' = v)"
proof -
  consider (low) "v < 1" | (absent) "1 \<le> v" "runs_get rid db = None"
    | (found) r where "1 \<le> v" "runs_get rid db = Some r" by fastforce
  then show ?thesis
  proof cases
    case low
    then show ?thesis by (simp add: cancel_run_def cancel_request_validate_def)
  next
    case absent
    then show ?thesis
      by (simp add: cancel_run_def cancel_request_validate_def run_service_cancel_def refuse_def)
  next
    case (found r)
    have row: "r \<in> set (audit_runs db)" "ar_id r = rid" using runs_get_Some [OF found(2)] by auto
    obtain w where w: "view_run r = Inr w" using view_run_ok stored_version [OF assms found(2)] by blast
    note run = cancel_run_def cancel_request_validate_def run_service_cancel_def cancel_write_def request_cancel_def
    consider (again) "ar_state r = run_state.CANCELLED \<or> ar_cancel_requested_at r \<noteq> None"
      | (ended) "ar_cancel_requested_at r = None" "ar_state r \<noteq> run_state.CANCELLED" "ar_state r \<in> terminal_states"
      | (moved) "ar_cancel_requested_at r = None" "ar_state r \<notin> terminal_states" "ar_version r \<noteq> v"
      | (live) "ar_cancel_requested_at r = None" "ar_state r \<notin> terminal_states" "ar_version r = v" by blast
    then show ?thesis
    proof cases
      case again
      with found w show ?thesis by (auto simp: run)
    next
      case ended
      with found w show ?thesis by (auto simp: run refuse_def)
    next
      case moved
      then have "ar_state r \<noteq> run_state.CANCELLED" by auto
      with moved found w show ?thesis by (simp add: run refuse_def)
    next
      case live
      then have state: "ar_state r \<noteq> run_state.CANCELLED" by auto
      obtain r' db' where cancel: "run_service_cancel rid v now db = Inr (r', db')"
        using cancel_wakes_delivery [OF assms found(2) live(2,1,3)] by blast
      then have "cancel_write r v now db = Inr (r', db')" by (simp add: run_service_cancel_def found(2))
      note stored = cancel_write_stored [OF assms row(1) this live(1) state]
      then have "1 \<le> ar_version r'" using found(1) live(3) by simp
      then obtain w' where "view_run r' = Inr w'" using view_run_ok by blast
      with cancel stored found live(1,2,3) state row(2) show ?thesis
        by (simp add: cancel_run_def cancel_request_validate_def)
    qed
  qed
qed

theorem cancel_replies_witness:
  "\<exists>w db' r. cancel_run True 1 1 15 demo_claimed = (Reply 202 None w, db') \<and>
     runs_get 1 db' = Some r \<and> ar_cancel_requested_at r = Some 15"
proof -
  have "runs_get 1 demo_claimed = Some demo_run" by (rule demo_get_claimed)
  moreover have "ar_state demo_run = QUEUED" "ar_version demo_run = 1" "ar_cancel_requested_at demo_run = None"
    by (simp_all add: demo_defs)
  ultimately show ?thesis using cancel_replies [OF demo_inv(2), of 1 1 15]
    by (cases "cancel_run True 1 1 15 demo_claimed") auto
qed

section \<open>The event stream\<close>

text \<open>
  C16. The text of an event stream can be resumed: reading the \<open>id\<close> line of each event sent and
  giving it back as \<open>Last-Event-ID\<close> yields the versions of the run after the cursor, in order and
  without a gap, whatever steps the system takes between the polls; a stream that is finished has
  sent the version at which the run ended.
\<close>

theorem event_ids_resume:
  assumes "reachable s" and "\<forall>i < length rest. sys_step\<^sup>*\<^sup>* ((s # rest) ! i) (rest ! i)"
    and "runs_get rid (sy_db s) = Some r" and "parse_cursor header = Inr a" and "a \<le> ar_version r"
    and "stream_events True isotime ticks interval rid header (sy_db s)
      (map (\<lambda>x. (False, sy_db x)) rest) = Reply 200 None (frames, cursor, how)"
    and "how \<in> {StreamFinished, StreamOpen}" and "cursor < 2 ^ 31"
  shows "map (\<lambda>f. parse_cursor (event_id f)) (filter (\<lambda>f. f \<noteq> keepalive) frames) = map Inr [a + 1..cursor] \<and>
    (how = StreamFinished \<longrightarrow> (\<exists>x \<in> set (s # rest). \<exists>r'. runs_get rid (sy_db x) = Some r' \<and>
       ar_state r' \<in> terminal_states \<and> ar_version r' = cursor))"
proof -
  have a: "0 \<le> a" using assms(4) by (rule parse_cursor_nonneg)
  from assms(4,6) obtain timeline where t: "timeline_get rid a (sy_db s) = Inr timeline"
    and g: "generate isotime ticks interval rid timeline a (ticks 0) 1
      (map (\<lambda>x. (False, sy_db x)) rest) = (frames, cursor, how)"
    by (auto simp: stream_events_def with_service_def refuse_def split: sum.splits option.splits)
  from generate_stream [OF g assms(7) t] obtain events where
    run: "stream_run rid a (map sy_db (s # rest)) = Inr (events, cursor, how = StreamFinished)"
    and frames: "list_all2 (\<lambda>e f. sse_event isotime e = Inr f) events (filter (\<lambda>f. f \<noteq> keepalive) frames)"
    by (auto simp: comp_def simp del: stream_run.simps)
  have "has_run (sy_db s) rid a"
    using runs_get_Some [OF assms(3)] assms(5) by (auto simp: has_run_def)
  then have start: "map sy_db (s # rest) \<noteq> [] \<longrightarrow> has_run (hd (map sy_db (s # rest))) rid a" by simp
  have versions: "map te_version events = [a + 1..cursor]"
    and ended: "how = StreamFinished \<longrightarrow> (\<exists>x \<in> set (s # rest). \<exists>r'. runs_get rid (sy_db x) = Some r' \<and>
       ar_state r' \<in> terminal_states \<and> ar_version r' = cursor)"
    using stream_run_versions [OF path_databases(1) [OF assms(1,2)] a run start
        path_databases(2) [OF assms(1,2)]] by auto
  have "map (\<lambda>f. parse_cursor (event_id f)) (filter (\<lambda>f. f \<noteq> keepalive) frames) =
      map (\<lambda>e. parse_cursor (Some (dec_int (te_version e)))) events"
    using frames by (induction rule: list_all2_induct) (simp_all add: sse_event_read(1))
  also have "\<dots> = map (\<lambda>v. parse_cursor (Some (dec_int v))) [a + 1..cursor]"
    by (simp add: versions [symmetric])
  also have "\<dots> = map Inr [a + 1..cursor]"
    using parse_cursor_version a assms(8) by simp
  finally show ?thesis using ended by blast
qed

theorem event_ids_resume_witness:
  "\<exists>frames. stream_events True dec_int int 1 1 None demo_created [(False, demo_claimed), (False, demo_committed)] =
       Reply 200 None (frames, 2, StreamOpen) \<and>
     map (\<lambda>f. parse_cursor (event_id f)) (filter (\<lambda>f. f \<noteq> keepalive) frames) = [Inr 1, Inr 2]"
proof -
  let ?e1 = "first_event demo_run" and ?e2 = "step_event demo_moved demo_committed_step"
  let ?rest = "[demo_sys_claimed, demo_sys_committed]"
  have attempts: "te_attempt ?e1 = None" "te_attempt ?e2 = Some 1"
    by (simp_all add: first_event_def step_event_def demo_defs)
  have "view_event ?e1 = Inr ?e1" "view_event ?e2 = Inr ?e2"
    by (simp_all add: view_event_def at_least_1_def demo_event_versions attempts)
  then obtain f1 f2 where f: "sse_event dec_int ?e1 = Inr f1" "sse_event dec_int ?e2 = Inr f2"
    by (simp add: sse_event_def)
  obtain t0 t1 t2 where t: "timeline_get 1 0 demo_created = Inr t0" "timeline_get 1 1 demo_claimed = Inr t1"
      "timeline_get 1 1 demo_committed = Inr t2" "\<not> tl_terminal t0" "\<not> tl_terminal t1" "\<not> tl_terminal t2"
      "tl_events t0 = [?e1]" "tl_events t1 = []" "tl_events t2 = [?e2]"
    using demo_timelines by blast
  obtain frames where s: "stream_events True dec_int int 1 1 None demo_created
      [(False, demo_claimed), (False, demo_committed)] = Reply 200 None (frames, 2, StreamOpen)"
    using t f by (simp add: stream_events_def parse_cursor_def with_service_def generate.simps
        demo_event_versions Let_def)
  have dbs: "sy_db demo_sys_created = demo_created" "sy_db demo_sys_claimed = demo_claimed"
    "sy_db demo_sys_committed = demo_committed"
    by (simp_all add: demo_sys_created_def demo_sys_claimed_def demo_sys_committed_def)
  have path: "\<forall>i < length ?rest. sys_step\<^sup>*\<^sup>* ((demo_sys_created # ?rest) ! i) (?rest ! i)"
    using demo_step_claim demo_step_commit by (auto simp: less_Suc_eq)
  have r: "runs_get 1 (sy_db demo_sys_created) = Some demo_run"
    by (simp add: dbs runs_get_def select_one_def demo_defs)
  have c: "parse_cursor None = Inr 0" "0 \<le> ar_version demo_run"
    by (simp_all add: parse_cursor_def demo_defs)
  have upto: "[1..2] = [1, 2 :: int]" by (simp add: upto.simps)
  from event_ids_resume [OF demo_reachable_created path r c, of dec_int int 1 frames 2 StreamOpen] s
  show ?thesis by (simp add: dbs upto)
qed

end
