(* ===== verification/Maintenance.thy ===== *)
theory Maintenance
  imports WorkerFacts
begin

text \<open>
  The settings of \<open>config.py\<close>, what the Celery application and the factories of
  \<open>worker/runtime.py\<close> take from them, and the periodic tasks of \<open>worker/tasks.py\<close>.
\<close>

section \<open>Settings\<close>

text \<open>Durations that the code turns into a \<open>timedelta\<close> are microseconds.\<close>

record settings =
  st_outbox_batch_size :: int
  st_outbox_poll_interval :: int
  st_outbox_retry_base :: int
  st_outbox_retry_max :: int
  st_reconcile_batch_size :: int
  st_reconcile_interval :: int
  st_recovery_stale_after :: int
  st_recovery_max_attempts :: int
  st_sse_poll_interval :: int
  st_sse_keepalive :: int
  st_repo_root :: string
  st_artifact_root :: string
  st_snapshot_max_files :: int
  st_snapshot_max_file_bytes :: int
  st_snapshot_max_total_bytes :: int
  st_snapshot_read_chunk_bytes :: int
  st_shadow_postgres_image :: string
  st_runner_image :: string
  st_sandbox_lease_seconds :: int
  st_sandbox_readiness_timeout_seconds :: nat
  st_sandbox_execution_timeout_seconds :: int
  st_sandbox_sweep_interval :: int

definition seconds :: "int \<Rightarrow> int" where
  "seconds s = 1000000 * s"

definition default_settings :: settings where
  "default_settings =
     \<lparr>st_outbox_batch_size = 50, st_outbox_poll_interval = 500000,
      st_outbox_retry_base = seconds 1, st_outbox_retry_max = seconds 30,
      st_reconcile_batch_size = 50, st_reconcile_interval = seconds 2,
      st_recovery_stale_after = seconds 10, st_recovery_max_attempts = 5,
      st_sse_poll_interval = 250000, st_sse_keepalive = seconds 10,
      st_repo_root = ''/repositories'', st_artifact_root = ''/var/lib/shadowops/artifacts'',
      st_snapshot_max_files = 10000, st_snapshot_max_file_bytes = 5 * 1024 * 1024,
      st_snapshot_max_total_bytes = 100 * 1024 * 1024, st_snapshot_read_chunk_bytes = 1024 * 1024,
      st_shadow_postgres_image =
        ''postgres:16@sha256:4b7183ac05f8ef417db21fd72d71047a4238340c261d3cc3ddb6d579ab5071ae'',
      st_runner_image = ''shadowops-runner:0.1.0'',
      st_sandbox_lease_seconds = 600, st_sandbox_readiness_timeout_seconds = 30,
      st_sandbox_execution_timeout_seconds = 210, st_sandbox_sweep_interval = seconds 30\<rparr>"

text \<open>\<open>get_sandbox_manager\<close> and the budgets of the services of \<open>get_stage_handlers\<close>\<close>

definition sandbox_manager :: "settings \<Rightarrow> sandbox_config" where
  "sandbox_manager st =
     \<lparr>sc_postgres_image = st_shadow_postgres_image st, sc_runner_image = st_runner_image st,
      sc_lease_duration = seconds (st_sandbox_lease_seconds st),
      sc_readiness_timeout = st_sandbox_readiness_timeout_seconds st,
      sc_execution_timeout = st_sandbox_execution_timeout_seconds st\<rparr>"

definition snapshot_budgets :: "settings \<Rightarrow> snapshot_limits" where
  "snapshot_budgets st =
     \<lparr>sl_max_files = st_snapshot_max_files st, sl_max_file_bytes = st_snapshot_max_file_bytes st,
      sl_max_total_bytes = st_snapshot_max_total_bytes st\<rparr>"

text \<open>The configuration of Celery: the two limits, and task and interval of each schedule.\<close>

definition celery_conf :: "settings \<Rightarrow> (string \<times> int) list" where
  "celery_conf st =
     [(''shadowops_outbox_batch_size'', st_outbox_batch_size st),
      (''shadowops_reconcile_batch_size'', st_reconcile_batch_size st),
      (''shadowops_sandbox_sweep_interval_seconds'', st_sandbox_sweep_interval st)]"

definition beat_schedule :: "settings \<Rightarrow> (string \<times> string \<times> int) list" where
  "beat_schedule st =
     [(''dispatch-outbox'', ''shadowops.maintenance.dispatch_outbox'', st_outbox_poll_interval st),
      (''reconcile-runs'', ''shadowops.maintenance.reconcile_runs'', st_reconcile_interval st),
      (''sweep-sandboxes'', ''shadowops.maintenance.sweep_sandboxes'', st_sandbox_sweep_interval st)]"

definition conf_get :: "string \<Rightarrow> int \<Rightarrow> (string \<times> int) list \<Rightarrow> int" where
  "conf_get name absent conf = (case map_of conf name of None \<Rightarrow> absent | Some v \<Rightarrow> v)"

section \<open>The periodic tasks\<close>

definition dispatch_outbox ::
    "settings \<Rightarrow> (outbox_event \<Rightarrow> string option) \<Rightarrow> uuid list \<Rightarrow>
     ('d world, (string \<times> int) list) act" where
  "dispatch_outbox st publish locked =
     (let limit = conf_get ''shadowops_outbox_batch_size'' 50 (celery_conf st)
      in bind_act clock (\<lambda>now.
         bind_act (transaction (\<lambda>db. snd (dispatch_batch now (st_outbox_retry_base st)
                     (st_outbox_retry_max st) publish limit locked db))) (\<lambda>published.
           ret [(''published'', published)])))"

definition reconcile_runs ::
    "settings \<Rightarrow> uuid list \<Rightarrow> (uuid \<Rightarrow> uuid) \<Rightarrow> ('d world, (string \<times> int) list) act" where
  "reconcile_runs st locked step_ids =
     (let limit = conf_get ''shadowops_reconcile_batch_size'' 50 (celery_conf st)
      in bind_act clock (\<lambda>now.
         bind_act (transaction (reconcile_batch now (st_recovery_stale_after st)
                     (st_recovery_max_attempts st) limit locked step_ids)) (\<lambda>(reopened, failed).
           ret [(''reopened'', reopened), (''failed'', failed)])))"

definition sweep_sandboxes ::
    "'d docker \<Rightarrow> ((uuid \<times> int) list \<Rightarrow> (uuid \<times> int) list) \<Rightarrow>
     ('d world, (string \<times> int) list) act" where
  "sweep_sandboxes dk set_order =
     bind_act (sweep_expired dk set_order) (\<lambda>cleaned. ret [(''cleaned'', cleaned)])"

lemma batch_limits:
  "conf_get ''shadowops_outbox_batch_size'' n (celery_conf st) = st_outbox_batch_size st"
  "conf_get ''shadowops_reconcile_batch_size'' n (celery_conf st) = st_reconcile_batch_size st"
  by (simp_all add: conf_get_def celery_conf_def)

text \<open>
  With the default settings a claim expires while a single action may still be running, and the
  deliveries of a run are reconciled before its claim expires.
\<close>

lemma default_timings:
  "claim_lease < seconds (sc_execution_timeout (sandbox_manager default_settings))"
  "st_recovery_stale_after default_settings < claim_lease"
  "seconds (sc_execution_timeout (sandbox_manager default_settings)) <
     sc_lease_duration (sandbox_manager default_settings)"
  by (simp_all add: sandbox_manager_def default_settings_def seconds_def claim_lease_def)

section \<open>The tasks as steps of the system\<close>

lemma update_events_truncate:
  "update_events P f (control_db.truncate db) =
     (fst (update_events P f db), control_db.truncate (snd (update_events P f db)))"
  by (simp add: update_events_def split: prod.splits)

lemma dispatch_event_truncate:
  "dispatch_event now rb rm publish e db = Inr (ok, db') \<Longrightarrow>
   dispatch_event now rb rm publish e (control_db.truncate db) = Inr (ok, control_db.truncate db')"
  by (auto simp: dispatch_event_def bind_res_Inr outbox_mark_failed_def outbox_mark_published_def
      update_events_truncate split: option.splits)

lemma dispatch_events_truncate:
  "dispatch_events now rb rm publish es n db = (sent, Inr (m, db')) \<Longrightarrow>
   dispatch_events now rb rm publish es n (control_db.truncate db) =
     (sent, Inr (m, control_db.truncate db'))"
proof (induction now rb rm publish es n db arbitrary: sent rule: dispatch_events.induct)
  case (2 now rb rm publish e es n db)
  obtain ok db1 where one: "dispatch_event now rb rm publish e db = Inr (ok, db1)"
    using "2.prems" by (auto simp: Let_def split: sum.splits)
  obtain rest r where rest: "dispatch_events now rb rm publish es (if ok then n + 1 else n) db1 = (rest, r)"
    by force
  with "2.prems" one have r: "r = Inr (m, db')" and sent: "sent = (if publish e = None then [e] else []) @ rest"
    by (auto simp: Let_def)
  from "2.IH" [OF refl one refl] rest r have
    "dispatch_events now rb rm publish es (if ok then n + 1 else n) (control_db.truncate db1) =
       (rest, Inr (m, control_db.truncate db'))"
    by simp
  then show ?case using dispatch_event_truncate [OF one] sent by (simp add: Let_def)
qed simp

lemma lock_unpublished_truncate:
  "outbox_lock_unpublished now limit locked (control_db.truncate db) =
     outbox_lock_unpublished now limit locked db"
  by (simp add: outbox_lock_unpublished_def)

lemma dispatch_advances:
  assumes "snd (dispatch_batch now rb rm publish limit locked db) = Inr (n, db')"
  shows "advances {} db db'"
  unfolding advances_def
proof (intro allI impI)
  fix s :: run_system assume s: "sy_db s = control db \<and> {} \<subseteq> set (sy_claims s)"
  obtain sent where "dispatch_batch now rb rm publish limit locked db = (sent, Inr (n, db'))"
    using assms by (cases "dispatch_batch now rb rm publish limit locked db") simp
  then have "dispatch_batch now rb rm publish limit locked (control db) = (sent, Inr (n, control db'))"
    using dispatch_events_truncate by (simp add: dispatch_batch_def lock_unpublished_truncate)
  with s have "sys_step s (s\<lparr>sy_db := control db'\<rparr>)" by (intro sys_dispatch) simp_all
  then show "\<exists>s'. sys_step\<^sup>*\<^sup>* s s' \<and> sy_db s' = control db'"
    by (intro exI [of _ "s\<lparr>sy_db := control db'\<rparr>"]) simp
qed

lemma steps_add_truncate:
  "steps_add x db = Inr db' \<Longrightarrow> steps_add x (control_db.truncate db) = Inr (control_db.truncate db')"
  by (auto simp: steps_add_def split: if_splits option.splits)

lemma reconcile_write_truncate:
  assumes "reconcile_write now m sid e r db = Inr (out, db')"
  shows "reconcile_write now m sid e r (control_db.truncate db) = Inr (out, control_db.truncate db')"
proof (cases r)
  case (Some run)
  let ?failed = "transition (run\<lparr>ar_failure_code := Some recovery_code,
    ar_failure_detail := Some recovery_detail\<rparr>) run_state.FAILED now"
  consider (skip) "ar_version run \<noteq> oe_aggregate_version e"
    | (fail) "ar_version run = oe_aggregate_version e" "m \<le> oe_publish_attempts e"
    | (reopen) "ar_version run = oe_aggregate_version e" "\<not> m \<le> oe_publish_attempts e" by blast
  then show ?thesis
  proof cases
    case skip
    with assms show ?thesis by (simp add: reconcile_write_def Some)
  next
    case fail
    with assms obtain run' db1 where t: "?failed = Inr run'"
      and a: "steps_add (recovery_step e run run' now sid) db = Inr db1"
      and s: "runs_save run' (ar_version run) db1 = Inr db'" and out: "out = RecoveryFailed"
      by (auto simp: reconcile_write_def Some bind_res_Inr)
    from fail steps_add_truncate [OF a] runs_save_truncate [OF s] show ?thesis
      by (simp add: reconcile_write_def Some t out)
  next
    case reopen
    with assms show ?thesis
      by (auto simp: reconcile_write_def Some outbox_reopen_def update_events_truncate split: prod.splits)
  qed
qed (use assms in \<open>simp add: reconcile_write_def\<close>)

lemma reconcile_write_advances:
  assumes "reconcile_write now m sid e (runs_get rid db) db = Inr (out, db')"
  shows "advances {} db db'"
proof (cases "runs_get rid db")
  case None
  with assms show ?thesis by (intro advances_same) (simp add: reconcile_write_def)
next
  case (Some c)
  show ?thesis unfolding advances_def
  proof (intro allI impI)
    fix s :: run_system assume s: "sy_db s = control db \<and> {} \<subseteq> set (sy_claims s)"
    have "reconcile_write now m sid e (Some c) (control db) = Inr (out, control db')"
      using reconcile_write_truncate [OF assms [unfolded Some]] .
    with s Some have "sys_step\<^sup>*\<^sup>* s (s\<lparr>sy_seen := c # sy_seen s, sy_db := control db'\<rparr>)"
      by (intro read_then_step [of rid]) (auto intro: sys_reconcile [of c])
    then show "\<exists>s'. sys_step\<^sup>*\<^sup>* s s' \<and> sy_db s' = control db'"
      by (intro exI [of _ "s\<lparr>sy_seen := c # sy_seen s, sy_db := control db'\<rparr>"]) simp
  qed
qed

lemma reconcile_events_advance:
  "reconcile_events now m es counts db = Inr (res, db') \<Longrightarrow> advances {} db db'"
proof (induction now m es counts db rule: reconcile_events.induct)
  case (1 now m counts db)
  then show ?case by (simp add: advances_same)
next
  case (2 now m e u es reopened failed db)
  then show ?case
    by (auto simp: bind_res_Inr intro: advances_trans [OF reconcile_write_advances])
qed

interpretation periodic: result_order "advances {}"
proof (unfold_locales, goal_cases)
  case (1 db) show ?case by (rule advances_same) simp
next
  case (2 a b c) then show ?case by (rule advances_trans)
next
  case (3 db op) show ?case by (rule advances_same [OF results_same_control])
qed

lemma dispatch_outbox_kept: "keeps (lifted (advances {})) (dispatch_outbox st publish locked)"
  unfolding dispatch_outbox_def Let_def
  by (auto intro!: periodic.kept periodic.keeps_transaction intro: dispatch_advances)

lemma reconcile_runs_kept: "keeps (lifted (advances {})) (reconcile_runs st locked step_ids)"
  unfolding reconcile_runs_def Let_def reconcile_batch_def
  by (auto intro!: periodic.kept periodic.keeps_transaction intro: reconcile_events_advance
      split: prod.split)

lemma sweep_sandboxes_kept: "keeps (lifted (advances {})) (sweep_sandboxes dk set_order)"
  unfolding sweep_sandboxes_def by (auto intro!: periodic.kept periodic.sweep_kept)

lemma maintenance_steps:
  assumes "keeps (lifted (advances {})) m" and "follows (advances {}) w" and "m w = (r, w')"
    and "sy_db s = control (wd_db w)"
  shows "\<exists>s'. sys_step\<^sup>*\<^sup>* s s' \<and> sy_db s' = control (wd_db w')"
  using keepsD [OF assms(1,3)] assms(2,4) by (auto simp: lifted_def advances_def)

end
