(* ===== verification/ControlSchema.thy ===== *)
theory ControlSchema
  imports Errors
begin

text \<open>
  The schema of the control database: the migrations of \<open>migrations/control/versions\<close> as lists of
  statements, the tables \<open>persistence/models.py\<close> declares, and what applying the one gives compared
  with the other.  Alembic and PostgreSQL are read as far as the migrations use them: a statement
  fails when a name is taken, missing, or still referred to.
\<close>

section \<open>Tables and statements\<close>

datatype sql_type =
  SqlUuid | SqlText | SqlString nat | SqlInteger | SqlBoolean | SqlDateTime | SqlJson

record sql_column =
  cl_name :: string
  cl_type :: sql_type
  cl_nullable :: bool
  cl_server_default :: "string option"

text \<open>A foreign key has its columns, its targets \<open>table.column\<close> and its \<open>ON DELETE\<close> clause.\<close>

datatype table_constraint =
    Check string string
  | PrimaryKey "string list"
  | UniqueKey "string option" "string list"
  | ForeignKey "string list" "string list" string

record table =
  tb_name :: string
  tb_columns :: "sql_column list"
  tb_constraints :: "table_constraint list"

record table_index =
  ix_name :: string
  ix_table :: string
  ix_columns :: "string list"

record schema =
  sh_tables :: "table list"
  sh_indexes :: "table_index list"

datatype ddl =
    CreateTable table
  | DropTable string
  | CreateIndex string string "string list"
  | DropIndex string string

definition required :: "string \<Rightarrow> sql_type \<Rightarrow> sql_column" where
  "required name t = \<lparr>cl_name = name, cl_type = t, cl_nullable = False, cl_server_default = None\<rparr>"

definition optional :: "string \<Rightarrow> sql_type \<Rightarrow> sql_column" where
  "optional name t = \<lparr>cl_name = name, cl_type = t, cl_nullable = True, cl_server_default = None\<rparr>"

definition empty_schema :: schema where
  "empty_schema = \<lparr>sh_tables = [], sh_indexes = []\<rparr>"

definition schema_tables :: "schema \<Rightarrow> string list" where
  "schema_tables s = map tb_name (sh_tables s)"

definition relation_names :: "schema \<Rightarrow> string list" where
  "relation_names s = schema_tables s @ map ix_name (sh_indexes s)"

definition has_columns :: "table \<Rightarrow> string list \<Rightarrow> bool" where
  "has_columns t names = list_all (\<lambda>n. n \<in> set (map cl_name (tb_columns t))) names"

fun constraint_columns :: "table_constraint \<Rightarrow> string list" where
  "constraint_columns (PrimaryKey cs) = cs"
| "constraint_columns (UniqueKey n cs) = cs"
| "constraint_columns (ForeignKey cs targets clause) = cs"
| "constraint_columns (Check condition n) = []"

fun foreign_targets :: "table_constraint \<Rightarrow> string list" where
  "foreign_targets (ForeignKey cs targets clause) = targets"
| "foreign_targets _ = []"

text \<open>The tables a table refers to.\<close>

definition referenced :: "table \<Rightarrow> string list" where
  "referenced t = map (\<lambda>target. fst (split_first (CHR ''.'') target)) (concat (map foreign_targets (tb_constraints t)))"

definition target_exists :: "table list \<Rightarrow> string \<Rightarrow> bool" where
  "target_exists ts target =
     (case split_first (CHR ''.'') target of
        (name, Some column) \<Rightarrow> list_ex (\<lambda>t. tb_name t = name \<and> has_columns t [column]) ts
      | (name, None) \<Rightarrow> False)"

definition schema_error :: "string \<Rightarrow> exn" where
  "schema_error name = ForeignError ''ProgrammingError'' name"

fun apply_ddl :: "ddl \<Rightarrow> schema \<Rightarrow> schema res" where
  "apply_ddl (CreateTable t) s =
     (if tb_name t \<in> set (relation_names s)
         \<or> \<not> list_all (\<lambda>c. has_columns t (constraint_columns c)) (tb_constraints t)
         \<or> \<not> list_all (target_exists (sh_tables s @ [t])) (concat (map foreign_targets (tb_constraints t)))
      then Inl (schema_error (tb_name t))
      else Inr (s\<lparr>sh_tables := sh_tables s @ [t]\<rparr>))"
| "apply_ddl (DropTable name) s =
     (if name \<notin> set (schema_tables s)
         \<or> list_ex (\<lambda>t. tb_name t \<noteq> name \<and> name \<in> set (referenced t)) (sh_tables s)
      then Inl (schema_error name)
      else Inr (s\<lparr>sh_tables := filter (\<lambda>t. tb_name t \<noteq> name) (sh_tables s),
                  sh_indexes := filter (\<lambda>i. ix_table i \<noteq> name) (sh_indexes s)\<rparr>))"
| "apply_ddl (CreateIndex name table_name columns) s =
     (if name \<in> set (relation_names s)
         \<or> \<not> list_ex (\<lambda>t. tb_name t = table_name \<and> has_columns t columns) (sh_tables s)
      then Inl (schema_error name)
      else Inr (s\<lparr>sh_indexes := sh_indexes s @
                  [\<lparr>ix_name = name, ix_table = table_name, ix_columns = columns\<rparr>]\<rparr>))"
| "apply_ddl (DropIndex name table_name) s =
     (if name \<notin> set (map ix_name (sh_indexes s)) then Inl (schema_error name)
      else Inr (s\<lparr>sh_indexes := filter (\<lambda>i. ix_name i \<noteq> name) (sh_indexes s)\<rparr>))"

fun apply_all :: "ddl list \<Rightarrow> schema \<Rightarrow> schema res" where
  "apply_all [] s = Inr s"
| "apply_all (op # ops) s = bind_res (apply_ddl op s) (apply_all ops)"

section \<open>Migrations\<close>

record migration =
  mg_revision :: string
  mg_down_revision :: "string option"
  mg_upgrade :: "ddl list"
  mg_downgrade :: "ddl list"

text \<open>A database has the revision it is at and its schema; a migration starts from its parent.\<close>

type_synonym migrated = "string option \<times> schema"

definition upgrade_one :: "migration \<Rightarrow> migrated \<Rightarrow> migrated res" where
  "upgrade_one m db =
     (if fst db \<noteq> mg_down_revision m then Inl (RuntimeError ''revision'')
      else bind_res (apply_all (mg_upgrade m) (snd db)) (\<lambda>s. Inr (Some (mg_revision m), s)))"

definition downgrade_one :: "migration \<Rightarrow> migrated \<Rightarrow> migrated res" where
  "downgrade_one m db =
     (if fst db \<noteq> Some (mg_revision m) then Inl (RuntimeError ''revision'')
      else bind_res (apply_all (mg_downgrade m) (snd db)) (\<lambda>s. Inr (mg_down_revision m, s)))"

fun upgrade_all :: "migration list \<Rightarrow> migrated \<Rightarrow> migrated res" where
  "upgrade_all [] db = Inr db"
| "upgrade_all (m # ms) db = bind_res (upgrade_one m db) (upgrade_all ms)"

fun downgrade_all :: "migration list \<Rightarrow> migrated \<Rightarrow> migrated res" where
  "downgrade_all [] db = Inr db"
| "downgrade_all (m # ms) db = bind_res (downgrade_one m db) (downgrade_all ms)"

subsection \<open>\<open>0001_bootstrap.py\<close>\<close>

definition migration_0001 :: migration where
  "migration_0001 =
     \<lparr>mg_revision = ''0001_bootstrap'', mg_down_revision = None,
      mg_upgrade =
        [],
      mg_downgrade =
        []\<rparr>"

subsection \<open>\<open>0002_reliable_runs.py\<close>\<close>

definition created_audit_runs :: table where
  "created_audit_runs =
     \<lparr>tb_name = ''audit_runs'',
      tb_columns =
        [required ''id'' SqlUuid, required ''repository_path'' SqlText,
         required ''diff_mode'' (SqlString 32), optional ''base_ref'' (SqlString 512),
         optional ''head_ref'' (SqlString 512), required ''idempotency_key'' (SqlString 255),
         required ''request_fingerprint'' (SqlString 64), required ''state'' (SqlString 32),
         required ''version'' SqlInteger, required ''cleanup_status'' (SqlString 32),
         optional ''heartbeat_at'' SqlDateTime, optional ''cancel_requested_at'' SqlDateTime,
         optional ''failure_code'' (SqlString 64), optional ''failure_detail'' SqlText,
         required ''created_at'' SqlDateTime, required ''updated_at'' SqlDateTime,
         optional ''completed_at'' SqlDateTime],
      tb_constraints =
        [Check ''version >= 1'' ''ck_audit_runs_version_positive'', PrimaryKey [''id''],
         UniqueKey None [''idempotency_key'']]\<rparr>"

definition created_run_steps :: table where
  "created_run_steps =
     \<lparr>tb_name = ''run_steps'',
      tb_columns =
        [required ''id'' SqlUuid, required ''run_id'' SqlUuid,
         required ''step_key'' (SqlString 255), required ''from_state'' (SqlString 32),
         required ''to_state'' (SqlString 32), required ''generation'' SqlInteger,
         required ''attempt'' SqlInteger, required ''status'' (SqlString 32),
         required ''expected_run_version'' SqlInteger,
         optional ''resulting_run_version'' SqlInteger,
         required ''handler_version'' (SqlString 64), optional ''worker_id'' (SqlString 255),
         optional ''claim_token'' SqlUuid, optional ''heartbeat_at'' SqlDateTime,
         optional ''lease_expires_at'' SqlDateTime, required ''started_at'' SqlDateTime,
         optional ''finished_at'' SqlDateTime, optional ''error_code'' (SqlString 64),
         optional ''error_detail'' SqlText],
      tb_constraints =
        [Check ''attempt >= 1'' ''ck_run_steps_attempt_positive'',
         Check ''generation >= 1'' ''ck_run_steps_generation_positive'',
         ForeignKey [''run_id''] [''audit_runs.id''] ''CASCADE'', PrimaryKey [''id''],
         UniqueKey (Some ''uq_run_steps_run_step_key'') [''run_id'', ''step_key'']]\<rparr>"

definition created_outbox_events :: table where
  "created_outbox_events =
     \<lparr>tb_name = ''outbox_events'',
      tb_columns =
        [required ''id'' SqlUuid, required ''aggregate_id'' SqlUuid,
         required ''aggregate_version'' SqlInteger, required ''topic'' (SqlString 128),
         required ''payload'' SqlJson, required ''available_at'' SqlDateTime,
         optional ''published_at'' SqlDateTime,
         (required ''publish_attempts'' SqlInteger)\<lparr>cl_server_default := Some ''0''\<rparr>,
         optional ''last_error'' SqlText, required ''created_at'' SqlDateTime],
      tb_constraints =
        [ForeignKey [''aggregate_id''] [''audit_runs.id''] ''CASCADE'', PrimaryKey [''id''],
         UniqueKey (Some ''uq_outbox_aggregate_version_topic'') [''aggregate_id'', ''aggregate_version'', ''topic'']]\<rparr>"

definition migration_0002 :: migration where
  "migration_0002 =
     \<lparr>mg_revision = ''0002_reliable_runs'', mg_down_revision = Some ''0001_bootstrap'',
      mg_upgrade =
        [CreateTable created_audit_runs,
         CreateIndex ''ix_audit_runs_state_updated'' ''audit_runs'' [''state'', ''updated_at''],
         CreateTable created_run_steps,
         CreateIndex ''ix_run_steps_active_lease'' ''run_steps'' [''status'', ''lease_expires_at''],
         CreateTable created_outbox_events,
         CreateIndex ''ix_outbox_events_available'' ''outbox_events'' [''published_at'', ''available_at'']],
      mg_downgrade =
        [DropIndex ''ix_outbox_events_available'' ''outbox_events'', DropTable ''outbox_events'',
         DropIndex ''ix_run_steps_active_lease'' ''run_steps'', DropTable ''run_steps'',
         DropIndex ''ix_audit_runs_state_updated'' ''audit_runs'', DropTable ''audit_runs'']\<rparr>"

subsection \<open>\<open>0003_secure_discovery.py\<close>\<close>

definition created_repo_snapshots :: table where
  "created_repo_snapshots =
     \<lparr>tb_name = ''repo_snapshots'',
      tb_columns =
        [required ''id'' SqlUuid, required ''run_id'' SqlUuid,
         required ''schema_version'' (SqlString 16),
         required ''source_path_hash'' (SqlString 64), required ''diff_mode'' (SqlString 32),
         optional ''base_commit'' (SqlString 40), required ''head_commit'' (SqlString 40),
         optional ''dirty_diff_hash'' (SqlString 64), required ''content_hash'' (SqlString 64),
         required ''artifact_uri'' (SqlString 255), required ''file_count'' SqlInteger,
         required ''total_bytes'' SqlInteger, required ''changed_paths'' SqlJson,
         required ''created_at'' SqlDateTime],
      tb_constraints =
        [Check ''file_count > 0'' ''ck_repo_snapshots_file_count_positive'',
         Check ''total_bytes >= 0'' ''ck_repo_snapshots_total_bytes_nonnegative'',
         ForeignKey [''run_id''] [''audit_runs.id''] ''CASCADE'', PrimaryKey [''id''],
         UniqueKey None [''run_id'']]\<rparr>"

definition created_revision_graphs :: table where
  "created_revision_graphs =
     \<lparr>tb_name = ''revision_graphs'',
      tb_columns =
        [required ''id'' SqlUuid, required ''run_id'' SqlUuid, required ''snapshot_id'' SqlUuid,
         required ''schema_version'' (SqlString 16), required ''supported'' SqlBoolean,
         required ''nodes'' SqlJson, required ''heads'' SqlJson,
         optional ''baseline_revision'' (SqlString 255), required ''target_chain'' SqlJson,
         required ''changed_revisions'' SqlJson, required ''unsupported_reasons'' SqlJson,
         required ''created_at'' SqlDateTime],
      tb_constraints =
        [ForeignKey [''run_id''] [''audit_runs.id''] ''CASCADE'',
         ForeignKey [''snapshot_id''] [''repo_snapshots.id''] ''CASCADE'', PrimaryKey [''id''],
         UniqueKey None [''run_id'']]\<rparr>"

definition migration_0003 :: migration where
  "migration_0003 =
     \<lparr>mg_revision = ''0003_secure_discovery'', mg_down_revision = Some ''0002_reliable_runs'',
      mg_upgrade =
        [CreateTable created_repo_snapshots, CreateTable created_revision_graphs],
      mg_downgrade =
        [DropTable ''revision_graphs'', DropTable ''repo_snapshots'']\<rparr>"

subsection \<open>\<open>0004_static_reports.py\<close>\<close>

definition created_static_reports :: table where
  "created_static_reports =
     \<lparr>tb_name = ''static_reports'',
      tb_columns =
        [required ''id'' SqlUuid, required ''run_id'' SqlUuid, required ''snapshot_id'' SqlUuid,
         required ''schema_version'' (SqlString 16), required ''ruleset_version'' (SqlString 64),
         required ''risk_level'' (SqlString 16), required ''report'' SqlJson,
         required ''created_at'' SqlDateTime],
      tb_constraints =
        [ForeignKey [''run_id''] [''audit_runs.id''] ''CASCADE'',
         ForeignKey [''snapshot_id''] [''repo_snapshots.id''] ''CASCADE'', PrimaryKey [''id''],
         UniqueKey None [''run_id'']]\<rparr>"

definition migration_0004 :: migration where
  "migration_0004 =
     \<lparr>mg_revision = ''0004_static_reports'', mg_down_revision = Some ''0003_secure_discovery'',
      mg_upgrade =
        [CreateTable created_static_reports],
      mg_downgrade =
        [DropTable ''static_reports'']\<rparr>"

subsection \<open>\<open>0005_agent_planning.py\<close>\<close>

definition created_agent_invocations :: table where
  "created_agent_invocations =
     \<lparr>tb_name = ''agent_invocations'',
      tb_columns =
        [required ''id'' SqlUuid, required ''run_id'' SqlUuid, required ''phase'' (SqlString 32),
         required ''provider'' (SqlString 64), required ''model'' (SqlString 128),
         required ''prompt_version'' (SqlString 64),
         required ''tool_schema_version'' (SqlString 64), required ''input_hash'' (SqlString 64),
         optional ''output_hash'' (SqlString 64), required ''status'' (SqlString 32),
         required ''repair_attempts'' SqlInteger, optional ''error_code'' (SqlString 64),
         optional ''error_detail'' SqlText, required ''started_at'' SqlDateTime,
         required ''completed_at'' SqlDateTime],
      tb_constraints =
        [ForeignKey [''run_id''] [''audit_runs.id''] ''CASCADE'', PrimaryKey [''id''],
         UniqueKey (Some ''uq_agent_run_phase'') [''run_id'', ''phase'']]\<rparr>"

definition created_agent_tool_calls :: table where
  "created_agent_tool_calls =
     \<lparr>tb_name = ''agent_tool_calls'',
      tb_columns =
        [required ''id'' SqlUuid, required ''invocation_id'' SqlUuid,
         required ''run_id'' SqlUuid, required ''sequence'' SqlInteger,
         required ''tool_name'' (SqlString 64), required ''tool_version'' (SqlString 32),
         required ''arguments_hash'' (SqlString 64), required ''result_hash'' (SqlString 64),
         required ''status'' (SqlString 32), required ''duration_ms'' SqlInteger,
         required ''correlation_id'' (SqlString 64), required ''observation'' SqlJson],
      tb_constraints =
        [ForeignKey [''invocation_id''] [''agent_invocations.id''] ''CASCADE'',
         ForeignKey [''run_id''] [''audit_runs.id''] ''CASCADE'', PrimaryKey [''id''],
         UniqueKey (Some ''uq_agent_tool_call_sequence'') [''invocation_id'', ''sequence'']]\<rparr>"

definition created_audit_plans :: table where
  "created_audit_plans =
     \<lparr>tb_name = ''audit_plans'',
      tb_columns =
        [required ''id'' SqlUuid, required ''run_id'' SqlUuid,
         required ''invocation_id'' SqlUuid, required ''input_hash'' (SqlString 64),
         required ''plan'' SqlJson, required ''created_at'' SqlDateTime],
      tb_constraints =
        [ForeignKey [''run_id''] [''audit_runs.id''] ''CASCADE'',
         ForeignKey [''invocation_id''] [''agent_invocations.id''] ''CASCADE'',
         PrimaryKey [''id''], UniqueKey None [''run_id'']]\<rparr>"

definition migration_0005 :: migration where
  "migration_0005 =
     \<lparr>mg_revision = ''0005_agent_planning'', mg_down_revision = Some ''0004_static_reports'',
      mg_upgrade =
        [CreateTable created_agent_invocations, CreateTable created_agent_tool_calls,
         CreateTable created_audit_plans],
      mg_downgrade =
        [DropTable ''audit_plans'', DropTable ''agent_tool_calls'',
         DropTable ''agent_invocations'']\<rparr>"

subsection \<open>\<open>0006_dynamic_sandbox.py\<close>\<close>

definition created_shadow_environments :: table where
  "created_shadow_environments =
     \<lparr>tb_name = ''shadow_environments'',
      tb_columns =
        [required ''id'' SqlUuid, required ''run_id'' SqlUuid,
         required ''generation'' SqlInteger, required ''schema_version'' (SqlString 16),
         required ''status'' (SqlString 32), required ''postgres_container_id'' (SqlString 128),
         required ''network_id'' (SqlString 128), required ''volume_name'' (SqlString 255),
         required ''snapshot_volume_name'' (SqlString 255),
         required ''postgres_image'' (SqlString 255),
         required ''postgres_image_id'' (SqlString 80),
         required ''runner_image'' (SqlString 255), required ''runner_image_id'' (SqlString 80),
         required ''database_password'' (SqlString 255),
         required ''lease_expires_at'' SqlDateTime, required ''created_at'' SqlDateTime,
         optional ''cleaned_at'' SqlDateTime],
      tb_constraints =
        [Check ''generation >= 1'' ''ck_shadow_generation_positive'',
         ForeignKey [''run_id''] [''audit_runs.id''] ''CASCADE'', PrimaryKey [''id''],
         UniqueKey (Some ''uq_shadow_run_generation'') [''run_id'', ''generation'']]\<rparr>"

definition created_runner_executions :: table where
  "created_runner_executions =
     \<lparr>tb_name = ''runner_executions'',
      tb_columns =
        [required ''id'' SqlUuid, required ''environment_id'' SqlUuid,
         required ''run_id'' SqlUuid, required ''generation'' SqlInteger,
         required ''schema_version'' (SqlString 16), required ''action'' (SqlString 32),
         required ''request'' SqlJson, required ''result'' SqlJson,
         required ''created_at'' SqlDateTime],
      tb_constraints =
        [ForeignKey [''environment_id''] [''shadow_environments.id''] ''CASCADE'',
         ForeignKey [''run_id''] [''audit_runs.id''] ''CASCADE'', PrimaryKey [''id''],
         UniqueKey (Some ''uq_runner_environment_action'') [''environment_id'', ''action'']]\<rparr>"

definition migration_0006 :: migration where
  "migration_0006 =
     \<lparr>mg_revision = ''0006_dynamic_sandbox'', mg_down_revision = Some ''0005_agent_planning'',
      mg_upgrade =
        [CreateTable created_shadow_environments,
         CreateIndex ''ix_shadow_status_lease'' ''shadow_environments'' [''status'', ''lease_expires_at''],
         CreateTable created_runner_executions],
      mg_downgrade =
        [DropTable ''runner_executions'',
         DropIndex ''ix_shadow_status_lease'' ''shadow_environments'',
         DropTable ''shadow_environments'']\<rparr>"

subsection \<open>\<open>0007_dynamic_evidence.py\<close>\<close>

definition created_evidence_items :: table where
  "created_evidence_items =
     \<lparr>tb_name = ''evidence_items'',
      tb_columns =
        [required ''id'' SqlUuid, required ''run_id'' SqlUuid, required ''execution_id'' SqlUuid,
         required ''schema_version'' (SqlString 16), required ''kind'' (SqlString 32),
         required ''producer'' (SqlString 128), required ''observation_scope'' (SqlString 32),
         required ''artifact_uri'' (SqlString 255), required ''sha256'' (SqlString 64),
         required ''byte_count'' SqlInteger, required ''media_type'' (SqlString 64),
         required ''redaction_status'' (SqlString 32), required ''created_at'' SqlDateTime],
      tb_constraints =
        [ForeignKey [''execution_id''] [''runner_executions.id''] ''CASCADE'',
         ForeignKey [''run_id''] [''audit_runs.id''] ''CASCADE'', PrimaryKey [''id''],
         UniqueKey (Some ''uq_evidence_execution_kind_hash'') [''execution_id'', ''kind'', ''sha256'']]\<rparr>"

definition migration_0007 :: migration where
  "migration_0007 =
     \<lparr>mg_revision = ''0007_dynamic_evidence'', mg_down_revision = Some ''0006_dynamic_sandbox'',
      mg_upgrade =
        [CreateTable created_evidence_items,
         CreateIndex ''ix_evidence_items_run_created'' ''evidence_items'' [''run_id'', ''created_at'']],
      mg_downgrade =
        [DropIndex ''ix_evidence_items_run_created'' ''evidence_items'',
         DropTable ''evidence_items'']\<rparr>"

definition control_history :: "migration list" where
  "control_history =
     [migration_0001, migration_0002, migration_0003, migration_0004, migration_0005,
      migration_0006, migration_0007]"

section \<open>The declared tables\<close>

text \<open>
  \<open>mapped_column\<close>: a column is nullable when its annotation admits \<open>None\<close>; primary key, uniqueness
  and foreign key become constraints of the table, after those of \<open>__table_args__\<close>.
\<close>

record mapped_column =
  mc_column :: sql_column
  mc_primary_key :: bool
  mc_unique :: bool
  mc_foreign_key :: "(string \<times> string) option"

definition mapped_column :: "string \<Rightarrow> sql_type \<Rightarrow> mapped_column" where
  "mapped_column name t =
     \<lparr>mc_column = required name t, mc_primary_key = False, mc_unique = False, mc_foreign_key = None\<rparr>"

definition mapped_optional :: "string \<Rightarrow> sql_type \<Rightarrow> mapped_column" where
  "mapped_optional name t = (mapped_column name t)\<lparr>mc_column := optional name t\<rparr>"

definition column_constraints :: "mapped_column \<Rightarrow> table_constraint list" where
  "column_constraints m =
     (let name = cl_name (mc_column m)
      in (if mc_primary_key m then [PrimaryKey [name]] else []) @
         (if mc_unique m then [UniqueKey None [name]] else []) @
         (case mc_foreign_key m of
            None \<Rightarrow> []
          | Some (target, clause) \<Rightarrow> [ForeignKey [name] [target] clause]))"

definition mapped_table :: "string \<Rightarrow> table_constraint list \<Rightarrow> mapped_column list \<Rightarrow> table" where
  "mapped_table name table_args columns =
     \<lparr>tb_name = name, tb_columns = map mc_column columns,
      tb_constraints = table_args @ concat (map column_constraints columns)\<rparr>"

definition model_audit_runs :: table where
  "model_audit_runs =
     mapped_table ''audit_runs''
       [Check ''version >= 1'' ''ck_audit_runs_version_positive'']
       [(mapped_column ''id'' SqlUuid)\<lparr>mc_primary_key := True\<rparr>,
        mapped_column ''repository_path'' SqlText, mapped_column ''diff_mode'' (SqlString 32),
        mapped_optional ''base_ref'' (SqlString 512),
        mapped_optional ''head_ref'' (SqlString 512),
        (mapped_column ''idempotency_key'' (SqlString 255))\<lparr>mc_unique := True\<rparr>,
        mapped_column ''request_fingerprint'' (SqlString 64),
        mapped_column ''state'' (SqlString 32), mapped_column ''version'' SqlInteger,
        mapped_column ''cleanup_status'' (SqlString 32),
        mapped_optional ''heartbeat_at'' SqlDateTime,
        mapped_optional ''cancel_requested_at'' SqlDateTime,
        mapped_optional ''failure_code'' (SqlString 64),
        mapped_optional ''failure_detail'' SqlText, mapped_column ''created_at'' SqlDateTime,
        mapped_column ''updated_at'' SqlDateTime, mapped_optional ''completed_at'' SqlDateTime]"

definition model_run_steps :: table where
  "model_run_steps =
     mapped_table ''run_steps''
       [UniqueKey (Some ''uq_run_steps_run_step_key'') [''run_id'', ''step_key''],
        Check ''generation >= 1'' ''ck_run_steps_generation_positive'',
        Check ''attempt >= 1'' ''ck_run_steps_attempt_positive'']
       [(mapped_column ''id'' SqlUuid)\<lparr>mc_primary_key := True\<rparr>,
        (mapped_column ''run_id'' SqlUuid)\<lparr>mc_foreign_key := Some (''audit_runs.id'', ''CASCADE'')\<rparr>,
        mapped_column ''step_key'' (SqlString 255), mapped_column ''from_state'' (SqlString 32),
        mapped_column ''to_state'' (SqlString 32), mapped_column ''generation'' SqlInteger,
        mapped_column ''attempt'' SqlInteger, mapped_column ''status'' (SqlString 32),
        mapped_column ''expected_run_version'' SqlInteger,
        mapped_optional ''resulting_run_version'' SqlInteger,
        mapped_column ''handler_version'' (SqlString 64),
        mapped_optional ''worker_id'' (SqlString 255), mapped_optional ''claim_token'' SqlUuid,
        mapped_optional ''heartbeat_at'' SqlDateTime,
        mapped_optional ''lease_expires_at'' SqlDateTime,
        mapped_column ''started_at'' SqlDateTime, mapped_optional ''finished_at'' SqlDateTime,
        mapped_optional ''error_code'' (SqlString 64), mapped_optional ''error_detail'' SqlText]"

definition model_outbox_events :: table where
  "model_outbox_events =
     mapped_table ''outbox_events''
       [UniqueKey (Some ''uq_outbox_aggregate_version_topic'') [''aggregate_id'', ''aggregate_version'', ''topic'']]
       [(mapped_column ''id'' SqlUuid)\<lparr>mc_primary_key := True\<rparr>,
        (mapped_column ''aggregate_id'' SqlUuid)\<lparr>mc_foreign_key := Some (''audit_runs.id'', ''CASCADE'')\<rparr>,
        mapped_column ''aggregate_version'' SqlInteger, mapped_column ''topic'' (SqlString 128),
        mapped_column ''payload'' SqlJson, mapped_column ''available_at'' SqlDateTime,
        mapped_optional ''published_at'' SqlDateTime,
        mapped_column ''publish_attempts'' SqlInteger, mapped_optional ''last_error'' SqlText,
        mapped_column ''created_at'' SqlDateTime]"

definition model_repo_snapshots :: table where
  "model_repo_snapshots =
     mapped_table ''repo_snapshots''
       [Check ''file_count > 0'' ''ck_repo_snapshots_file_count_positive'',
        Check ''total_bytes >= 0'' ''ck_repo_snapshots_total_bytes_nonnegative'']
       [(mapped_column ''id'' SqlUuid)\<lparr>mc_primary_key := True\<rparr>,
        (mapped_column ''run_id'' SqlUuid)\<lparr>mc_unique := True, mc_foreign_key := Some (''audit_runs.id'', ''CASCADE'')\<rparr>,
        mapped_column ''schema_version'' (SqlString 16),
        mapped_column ''source_path_hash'' (SqlString 64),
        mapped_column ''diff_mode'' (SqlString 32),
        mapped_optional ''base_commit'' (SqlString 40),
        mapped_column ''head_commit'' (SqlString 40),
        mapped_optional ''dirty_diff_hash'' (SqlString 64),
        mapped_column ''content_hash'' (SqlString 64),
        mapped_column ''artifact_uri'' (SqlString 255), mapped_column ''file_count'' SqlInteger,
        mapped_column ''total_bytes'' SqlInteger, mapped_column ''changed_paths'' SqlJson,
        mapped_column ''created_at'' SqlDateTime]"

definition model_revision_graphs :: table where
  "model_revision_graphs =
     mapped_table ''revision_graphs''
       []
       [(mapped_column ''id'' SqlUuid)\<lparr>mc_primary_key := True\<rparr>,
        (mapped_column ''run_id'' SqlUuid)\<lparr>mc_unique := True, mc_foreign_key := Some (''audit_runs.id'', ''CASCADE'')\<rparr>,
        (mapped_column ''snapshot_id'' SqlUuid)\<lparr>mc_foreign_key := Some (''repo_snapshots.id'', ''CASCADE'')\<rparr>,
        mapped_column ''schema_version'' (SqlString 16), mapped_column ''supported'' SqlBoolean,
        mapped_column ''nodes'' SqlJson, mapped_column ''heads'' SqlJson,
        mapped_optional ''baseline_revision'' (SqlString 255),
        mapped_column ''target_chain'' SqlJson, mapped_column ''changed_revisions'' SqlJson,
        mapped_column ''unsupported_reasons'' SqlJson, mapped_column ''created_at'' SqlDateTime]"

definition model_static_reports :: table where
  "model_static_reports =
     mapped_table ''static_reports''
       []
       [(mapped_column ''id'' SqlUuid)\<lparr>mc_primary_key := True\<rparr>,
        (mapped_column ''run_id'' SqlUuid)\<lparr>mc_unique := True, mc_foreign_key := Some (''audit_runs.id'', ''CASCADE'')\<rparr>,
        (mapped_column ''snapshot_id'' SqlUuid)\<lparr>mc_foreign_key := Some (''repo_snapshots.id'', ''CASCADE'')\<rparr>,
        mapped_column ''schema_version'' (SqlString 16),
        mapped_column ''ruleset_version'' (SqlString 64),
        mapped_column ''risk_level'' (SqlString 16), mapped_column ''report'' SqlJson,
        mapped_column ''created_at'' SqlDateTime]"

definition model_agent_invocations :: table where
  "model_agent_invocations =
     mapped_table ''agent_invocations''
       [UniqueKey (Some ''uq_agent_run_phase'') [''run_id'', ''phase'']]
       [(mapped_column ''id'' SqlUuid)\<lparr>mc_primary_key := True\<rparr>,
        (mapped_column ''run_id'' SqlUuid)\<lparr>mc_foreign_key := Some (''audit_runs.id'', ''CASCADE'')\<rparr>,
        mapped_column ''phase'' (SqlString 32), mapped_column ''provider'' (SqlString 64),
        mapped_column ''model'' (SqlString 128), mapped_column ''prompt_version'' (SqlString 64),
        mapped_column ''tool_schema_version'' (SqlString 64),
        mapped_column ''input_hash'' (SqlString 64),
        mapped_optional ''output_hash'' (SqlString 64), mapped_column ''status'' (SqlString 32),
        mapped_column ''repair_attempts'' SqlInteger,
        mapped_optional ''error_code'' (SqlString 64), mapped_optional ''error_detail'' SqlText,
        mapped_column ''started_at'' SqlDateTime, mapped_column ''completed_at'' SqlDateTime]"

definition model_agent_tool_calls :: table where
  "model_agent_tool_calls =
     mapped_table ''agent_tool_calls''
       [UniqueKey (Some ''uq_agent_tool_call_sequence'') [''invocation_id'', ''sequence'']]
       [(mapped_column ''id'' SqlUuid)\<lparr>mc_primary_key := True\<rparr>,
        (mapped_column ''invocation_id'' SqlUuid)\<lparr>mc_foreign_key := Some (''agent_invocations.id'', ''CASCADE'')\<rparr>,
        (mapped_column ''run_id'' SqlUuid)\<lparr>mc_foreign_key := Some (''audit_runs.id'', ''CASCADE'')\<rparr>,
        mapped_column ''sequence'' SqlInteger, mapped_column ''tool_name'' (SqlString 64),
        mapped_column ''tool_version'' (SqlString 32),
        mapped_column ''arguments_hash'' (SqlString 64),
        mapped_column ''result_hash'' (SqlString 64), mapped_column ''status'' (SqlString 32),
        mapped_column ''duration_ms'' SqlInteger,
        mapped_column ''correlation_id'' (SqlString 64), mapped_column ''observation'' SqlJson]"

definition model_audit_plans :: table where
  "model_audit_plans =
     mapped_table ''audit_plans''
       []
       [(mapped_column ''id'' SqlUuid)\<lparr>mc_primary_key := True\<rparr>,
        (mapped_column ''run_id'' SqlUuid)\<lparr>mc_unique := True, mc_foreign_key := Some (''audit_runs.id'', ''CASCADE'')\<rparr>,
        (mapped_column ''invocation_id'' SqlUuid)\<lparr>mc_foreign_key := Some (''agent_invocations.id'', ''CASCADE'')\<rparr>,
        mapped_column ''input_hash'' (SqlString 64), mapped_column ''plan'' SqlJson,
        mapped_column ''created_at'' SqlDateTime]"

definition model_shadow_environments :: table where
  "model_shadow_environments =
     mapped_table ''shadow_environments''
       [UniqueKey (Some ''uq_shadow_run_generation'') [''run_id'', ''generation''],
        Check ''generation >= 1'' ''ck_shadow_generation_positive'']
       [(mapped_column ''id'' SqlUuid)\<lparr>mc_primary_key := True\<rparr>,
        (mapped_column ''run_id'' SqlUuid)\<lparr>mc_foreign_key := Some (''audit_runs.id'', ''CASCADE'')\<rparr>,
        mapped_column ''generation'' SqlInteger, mapped_column ''schema_version'' (SqlString 16),
        mapped_column ''status'' (SqlString 32),
        mapped_column ''postgres_container_id'' (SqlString 128),
        mapped_column ''network_id'' (SqlString 128),
        mapped_column ''volume_name'' (SqlString 255),
        mapped_column ''snapshot_volume_name'' (SqlString 255),
        mapped_column ''postgres_image'' (SqlString 255),
        mapped_column ''postgres_image_id'' (SqlString 80),
        mapped_column ''runner_image'' (SqlString 255),
        mapped_column ''runner_image_id'' (SqlString 80),
        mapped_column ''database_password'' (SqlString 255),
        mapped_column ''lease_expires_at'' SqlDateTime, mapped_column ''created_at'' SqlDateTime,
        mapped_optional ''cleaned_at'' SqlDateTime]"

definition model_runner_executions :: table where
  "model_runner_executions =
     mapped_table ''runner_executions''
       [UniqueKey (Some ''uq_runner_environment_action'') [''environment_id'', ''action'']]
       [(mapped_column ''id'' SqlUuid)\<lparr>mc_primary_key := True\<rparr>,
        (mapped_column ''environment_id'' SqlUuid)\<lparr>mc_foreign_key := Some (''shadow_environments.id'', ''CASCADE'')\<rparr>,
        (mapped_column ''run_id'' SqlUuid)\<lparr>mc_foreign_key := Some (''audit_runs.id'', ''CASCADE'')\<rparr>,
        mapped_column ''generation'' SqlInteger, mapped_column ''schema_version'' (SqlString 16),
        mapped_column ''action'' (SqlString 32), mapped_column ''request'' SqlJson,
        mapped_column ''result'' SqlJson, mapped_column ''created_at'' SqlDateTime]"

definition model_evidence_items :: table where
  "model_evidence_items =
     mapped_table ''evidence_items''
       [UniqueKey (Some ''uq_evidence_execution_kind_hash'') [''execution_id'', ''kind'', ''sha256'']]
       [(mapped_column ''id'' SqlUuid)\<lparr>mc_primary_key := True\<rparr>,
        (mapped_column ''run_id'' SqlUuid)\<lparr>mc_foreign_key := Some (''audit_runs.id'', ''CASCADE'')\<rparr>,
        (mapped_column ''execution_id'' SqlUuid)\<lparr>mc_foreign_key := Some (''runner_executions.id'', ''CASCADE'')\<rparr>,
        mapped_column ''schema_version'' (SqlString 16), mapped_column ''kind'' (SqlString 32),
        mapped_column ''producer'' (SqlString 128),
        mapped_column ''observation_scope'' (SqlString 32),
        mapped_column ''artifact_uri'' (SqlString 255), mapped_column ''sha256'' (SqlString 64),
        mapped_column ''byte_count'' SqlInteger, mapped_column ''media_type'' (SqlString 64),
        mapped_column ''redaction_status'' (SqlString 32),
        mapped_column ''created_at'' SqlDateTime]"

definition model_schema :: schema where
  "model_schema =
     \<lparr>sh_tables =
        [model_audit_runs, model_run_steps, model_outbox_events, model_repo_snapshots,
         model_revision_graphs, model_static_reports, model_agent_invocations,
         model_agent_tool_calls, model_audit_plans, model_shadow_environments,
         model_runner_executions, model_evidence_items],
      sh_indexes =
        [\<lparr>ix_name = ''ix_audit_runs_state_updated'', ix_table = ''audit_runs'', ix_columns = [''state'', ''updated_at'']\<rparr>,
         \<lparr>ix_name = ''ix_run_steps_active_lease'', ix_table = ''run_steps'', ix_columns = [''status'', ''lease_expires_at'']\<rparr>,
         \<lparr>ix_name = ''ix_outbox_events_available'', ix_table = ''outbox_events'', ix_columns = [''published_at'', ''available_at'']\<rparr>,
         \<lparr>ix_name = ''ix_shadow_status_lease'', ix_table = ''shadow_environments'', ix_columns = [''status'', ''lease_expires_at'']\<rparr>,
         \<lparr>ix_name = ''ix_evidence_items_run_created'', ix_table = ''evidence_items'', ix_columns = [''run_id'', ''created_at'']\<rparr>]\<rparr>"

section \<open>Comparing schemas\<close>

text \<open>
  Two tables agree when they have the same columns in the same order, up to server defaults (the
  models give defaults on the side of Python), and the same constraints in any order.
\<close>

definition same_table :: "table \<Rightarrow> table \<Rightarrow> bool" where
  "same_table a b \<longleftrightarrow>
     tb_name a = tb_name b \<and>
     map (cl_server_default_update (\<lambda>d. None)) (tb_columns a) =
       map (cl_server_default_update (\<lambda>d. None)) (tb_columns b) \<and>
     list_all (\<lambda>c. c \<in> set (tb_constraints b)) (tb_constraints a) \<and>
     list_all (\<lambda>c. c \<in> set (tb_constraints a)) (tb_constraints b)"

definition same_schema :: "schema \<Rightarrow> schema \<Rightarrow> bool" where
  "same_schema a b \<longleftrightarrow>
     list_all2 same_table (sh_tables a) (sh_tables b) \<and> sh_indexes a = sh_indexes b"

text \<open>
  The target of each \<open>ON CONFLICT\<close> clause in \<open>persistence/repositories.py\<close>: a constraint by name, or
  columns; PostgreSQL needs a unique constraint for either.
\<close>

datatype conflict_target = OnConstraint string | OnColumns "string list"

definition conflict_targets :: "(string \<times> conflict_target) list" where
  "conflict_targets =
     [(''audit_runs'', OnColumns [''idempotency_key'']),
      (''run_steps'', OnConstraint ''uq_run_steps_run_step_key''),
      (''repo_snapshots'', OnColumns [''run_id'']),
      (''revision_graphs'', OnColumns [''run_id'']),
      (''static_reports'', OnColumns [''run_id'']),
      (''agent_invocations'', OnConstraint ''uq_agent_run_phase''),
      (''agent_tool_calls'', OnConstraint ''uq_agent_tool_call_sequence''),
      (''audit_plans'', OnColumns [''run_id'']),
      (''shadow_environments'', OnConstraint ''uq_shadow_run_generation''),
      (''runner_executions'', OnConstraint ''uq_runner_environment_action''),
      (''evidence_items'', OnConstraint ''uq_evidence_execution_kind_hash'')]"

fun arbitrates :: "conflict_target \<Rightarrow> table_constraint \<Rightarrow> bool" where
  "arbitrates (OnConstraint name) (UniqueKey n cs) = (n = Some name)"
| "arbitrates (OnColumns names) (UniqueKey n cs) = (cs = names)"
| "arbitrates (OnColumns names) (PrimaryKey cs) = (cs = names)"
| "arbitrates _ _ = False"

definition conflict_handled :: "schema \<Rightarrow> string \<times> conflict_target \<Rightarrow> bool" where
  "conflict_handled s clause \<longleftrightarrow>
     list_ex (\<lambda>t. tb_name t = fst clause \<and> list_ex (arbitrates (snd clause)) (tb_constraints t)) (sh_tables s)"

section \<open>Undoing migrations\<close>

fun creates :: "ddl \<Rightarrow> bool" where
  "creates (CreateTable t) = True"
| "creates (CreateIndex name table_name columns) = True"
| "creates _ = False"

fun undo :: "ddl \<Rightarrow> ddl" where
  "undo (CreateTable t) = DropTable (tb_name t)"
| "undo (CreateIndex name table_name columns) = DropIndex name table_name"
| "undo op = op"

text \<open>The downgrade drops what the upgrade created, in the opposite order.\<close>

definition mirrored :: "migration \<Rightarrow> bool" where
  "mirrored m \<longleftrightarrow> list_all creates (mg_upgrade m) \<and> mg_downgrade m = map undo (rev (mg_upgrade m))"

text \<open>References lead to tables of the schema.\<close>

definition closed_schema :: "schema \<Rightarrow> bool" where
  "closed_schema s \<longleftrightarrow>
     (\<forall>t \<in> set (sh_tables s). set (referenced t) \<subseteq> set (schema_tables s)) \<and>
     (\<forall>i \<in> set (sh_indexes s). ix_table i \<in> set (schema_tables s))"

lemma target_exists_table:
  "target_exists ts target \<Longrightarrow> fst (split_first (CHR ''.'') target) \<in> set (map tb_name ts)"
  by (auto simp: target_exists_def list_ex_iff split: prod.splits option.splits)

lemma apply_undo:
  assumes "closed_schema s" and "creates op" and "apply_ddl op s = Inr s'"
  shows "closed_schema s' \<and> apply_ddl (undo op) s' = Inr s"
proof (cases op)
  case (CreateTable t)
  with assms(3) have fresh: "tb_name t \<notin> set (schema_tables s)"
    and s': "s' = s\<lparr>sh_tables := sh_tables s @ [t]\<rparr>"
    and targets: "list_all (target_exists (sh_tables s @ [t])) (concat (map foreign_targets (tb_constraints t)))"
    by (auto simp: relation_names_def split: if_splits)
  have refs: "set (referenced t) \<subseteq> insert (tb_name t) (set (schema_tables s))"
    using targets target_exists_table by (fastforce simp: referenced_def list_all_iff schema_tables_def)
  have "filter (\<lambda>u. tb_name u \<noteq> tb_name t) (sh_tables s) = sh_tables s"
    using fresh by (simp add: schema_tables_def filter_id_conv image_iff) metis
  moreover have "filter (\<lambda>i. ix_table i \<noteq> tb_name t) (sh_indexes s) = sh_indexes s"
    using fresh assms(1) by (auto simp: closed_schema_def filter_id_conv)
  moreover have "\<not> list_ex (\<lambda>u. tb_name u \<noteq> tb_name t \<and> tb_name t \<in> set (referenced u)) (sh_tables s @ [t])"
    using fresh assms(1) by (auto simp: closed_schema_def list_ex_iff)
  moreover have "closed_schema s'"
    using assms(1) refs by (auto simp: closed_schema_def s' schema_tables_def)
  ultimately show ?thesis by (simp add: CreateTable s' schema_tables_def)
next
  case (CreateIndex name table_name columns)
  with assms(3) have fresh: "name \<notin> set (map ix_name (sh_indexes s))"
    and there: "table_name \<in> set (schema_tables s)"
    and s': "s' = s\<lparr>sh_indexes := sh_indexes s @ [\<lparr>ix_name = name, ix_table = table_name, ix_columns = columns\<rparr>]\<rparr>"
    by (auto simp: relation_names_def schema_tables_def list_ex_iff split: if_splits)
  have "filter (\<lambda>i. ix_name i \<noteq> name) (sh_indexes s) = sh_indexes s"
    using fresh by (auto simp: filter_id_conv)
  moreover have "closed_schema s'"
    using assms(1) there by (auto simp: closed_schema_def s' schema_tables_def)
  ultimately show ?thesis by (simp add: CreateIndex s')
qed (use assms(2) in simp_all)

lemma apply_all_append: "apply_all (xs @ ys) s = bind_res (apply_all xs s) (apply_all ys)"
  by (induction xs arbitrary: s) (auto simp: bind_res_def split: sum.splits)

lemma apply_all_undo:
  assumes "closed_schema s" and "list_all creates ops" and "apply_all ops s = Inr s'"
  shows "closed_schema s' \<and> apply_all (map undo (rev ops)) s' = Inr s"
  using assms
proof (induction ops arbitrary: s)
  case (Cons op ops)
  then obtain s1 where s1: "apply_ddl op s = Inr s1" "apply_all ops s1 = Inr s'"
    by (auto simp: bind_res_Inr)
  with apply_undo [of s op s1] Cons.prems have one: "closed_schema s1" "apply_ddl (undo op) s1 = Inr s" by auto
  with Cons.IH [of s1] s1 Cons.prems show ?case by (simp add: apply_all_append)
qed simp

lemma upgrade_one_undo:
  assumes "closed_schema (snd db)" and "mirrored m" and "upgrade_one m db = Inr db'"
  shows "closed_schema (snd db') \<and> downgrade_one m db' = Inr db"
proof -
  from assms(3) obtain s where s: "apply_all (mg_upgrade m) (snd db) = Inr s" "db' = (Some (mg_revision m), s)"
    and v: "fst db = mg_down_revision m"
    by (auto simp: upgrade_one_def bind_res_Inr split: if_splits)
  with apply_all_undo [OF assms(1) _ s(1)] assms(2) show ?thesis
    by (simp add: downgrade_one_def mirrored_def prod_eq_iff)
qed

lemma downgrade_all_append: "downgrade_all (xs @ ys) s = bind_res (downgrade_all xs s) (downgrade_all ys)"
  by (induction xs arbitrary: s) (auto simp: bind_res_def split: sum.splits)

lemma upgrade_all_append: "upgrade_all (xs @ ys) s = bind_res (upgrade_all xs s) (upgrade_all ys)"
  by (induction xs arbitrary: s) (auto simp: bind_res_def split: sum.splits)

lemma upgrade_all_undo:
  assumes "closed_schema (snd db)" and "list_all mirrored ms" and "upgrade_all ms db = Inr db'"
  shows "closed_schema (snd db') \<and> downgrade_all (rev ms) db' = Inr db"
  using assms
proof (induction ms arbitrary: db)
  case (Cons m ms)
  then obtain db1 where db1: "upgrade_one m db = Inr db1" "upgrade_all ms db1 = Inr db'"
    by (auto simp: bind_res_Inr)
  with upgrade_one_undo [of db m db1] Cons.prems have one: "closed_schema (snd db1)" "downgrade_one m db1 = Inr db"
    by auto
  with Cons.IH [of db1] db1 Cons.prems show ?case by (simp add: downgrade_all_append)
qed simp

section \<open>The control database\<close>

lemma control_history_mirrored: "list_all mirrored control_history"
  by code_simp

definition control_head :: migrated where
  "control_head =
     (Some ''0007_dynamic_evidence'',
      \<lparr>sh_tables =
        [created_audit_runs, created_run_steps, created_outbox_events, created_repo_snapshots,
         created_revision_graphs, created_static_reports, created_agent_invocations,
         created_agent_tool_calls, created_audit_plans, created_shadow_environments,
         created_runner_executions, created_evidence_items],
       sh_indexes = sh_indexes model_schema\<rparr>)"

lemma control_upgrade: "upgrade_all control_history (None, empty_schema) = Inr control_head"
  by code_simp

lemma control_models: "same_schema (snd control_head) model_schema"
  by code_simp

lemma control_conflicts: "list_all (conflict_handled (snd control_head)) conflict_targets"
  by code_simp

text \<open>
  C22. The migrations of the control database apply one after the other to an empty database, and the
  schema they lead to is the one the models declare: the same tables, columns (server defaults aside), constraints and
  indexes; every \<open>ON CONFLICT\<close> clause of the repositories has its unique constraint there.  From
  there, downgrading to any revision gives exactly the database that upgrading to it gave.
\<close>

theorem control_migrations:
  "\<exists>head. upgrade_all control_history (None, empty_schema) = Inr head \<and>
     fst head = Some ''0007_dynamic_evidence'' \<and> same_schema (snd head) model_schema \<and>
     list_all (conflict_handled (snd head)) conflict_targets \<and>
     (\<forall>k. downgrade_all (rev (drop k control_history)) head =
            upgrade_all (take k control_history) (None, empty_schema))"
proof (intro exI conjI allI)
  show "upgrade_all control_history (None, empty_schema) = Inr control_head" by (rule control_upgrade)
  show "fst control_head = Some ''0007_dynamic_evidence''" by (simp add: control_head_def)
  show "same_schema (snd control_head) model_schema" by (rule control_models)
  show "list_all (conflict_handled (snd control_head)) conflict_targets" by (rule control_conflicts)
  fix k
  let ?below = "take k control_history" and ?above = "drop k control_history"
  from control_upgrade have "upgrade_all (?below @ ?above) (None, empty_schema) = Inr control_head" by simp
  then obtain db where db: "upgrade_all ?below (None, empty_schema) = Inr db" "upgrade_all ?above db = Inr control_head"
    by (auto simp only: upgrade_all_append bind_res_Inr)
  have mirrored: "list_all mirrored (?below @ ?above)" using control_history_mirrored by simp
  have "closed_schema (snd (None :: string option, empty_schema))" by (simp add: closed_schema_def empty_schema_def)
  with upgrade_all_undo [OF this _ db(1)] mirrored have "closed_schema (snd db)"
    by (simp only: list_all_append)
  with upgrade_all_undo [OF this _ db(2)] mirrored
  have "downgrade_all (rev ?above) control_head = Inr db" by (simp only: list_all_append)
  then show "downgrade_all (rev ?above) control_head = upgrade_all ?below (None, empty_schema)" by (simp add: db(1))
qed

end
