(* ===== verification/Rows.thy ===== *)
theory Rows
  imports ControlSchema Outbox
begin

text \<open>
  The rows behind \<open>ControlDb\<close>: the values \<open>persistence/repositories.py\<close> writes to the columns of
  \<open>audit_runs\<close>, \<open>run_steps\<close> and \<open>outbox_events\<close>, the conversions \<open>_to_run\<close>, \<open>_to_step\<close> and \<open>_to_event\<close>
  back, and what a column of \<open>ControlSchema\<close> accepts.  The lemmas show that storing the domain
  objects themselves, as \<open>ControlDb\<close> does, loses nothing: conversions are inverse to each other and
  every \<open>UPDATE\<close> of columns is the function on domain objects of \<open>ControlDb\<close>.
\<close>

section \<open>Values and columns\<close>

datatype sql_value =
    UuidValue uuid
  | TextValue string
  | IntValue int
  | BoolValue bool
  | TimeValue time
  | JsonValue json
  | NullValue

text \<open>A row, or the \<open>SET\<close> list of a statement: columns and values.\<close>

type_synonym sql_row = "(string \<times> sql_value) list"

definition plain_text :: "string \<Rightarrow> bool" where
  "plain_text s \<longleftrightarrow> nul \<notin> set s"

definition text_fits :: "nat \<Rightarrow> string \<Rightarrow> bool" where
  "text_fits n s \<longleftrightarrow> length s \<le> n \<and> plain_text s"

text \<open>
  What PostgreSQL takes: \<open>varchar(n)\<close> counts characters, an integer has 32 bits, and no text holds
  the character zero.
\<close>

fun type_accepts :: "sql_type \<Rightarrow> sql_value \<Rightarrow> bool" where
  "type_accepts SqlUuid (UuidValue u) = True"
| "type_accepts SqlText (TextValue s) = plain_text s"
| "type_accepts (SqlString n) (TextValue s) = text_fits n s"
| "type_accepts SqlInteger (IntValue i) = (- (2 ^ 31) \<le> i \<and> i < 2 ^ 31)"
| "type_accepts SqlBoolean (BoolValue b) = True"
| "type_accepts SqlDateTime (TimeValue t) = True"
| "type_accepts SqlJson (JsonValue j) = True"
| "type_accepts _ _ = False"

definition column_accepts :: "sql_column \<Rightarrow> sql_value \<Rightarrow> bool" where
  "column_accepts c v \<longleftrightarrow> (if v = NullValue then cl_nullable c else type_accepts (cl_type c) v)"

text \<open>A row has a value for every column of its table, in their order, and each is accepted.\<close>

definition row_accepted :: "table \<Rightarrow> sql_row \<Rightarrow> bool" where
  "row_accepted t row \<longleftrightarrow>
     list_all2 (\<lambda>c (name, v). cl_name c = name \<and> column_accepts c v) (tb_columns t) row"

definition nullable_value :: "('a \<Rightarrow> sql_value) \<Rightarrow> 'a option \<Rightarrow> sql_value" where
  "nullable_value f v = (case v of None \<Rightarrow> NullValue | Some x \<Rightarrow> f x)"

section \<open>Rows of runs\<close>

text \<open>\<open>SqlAlchemyRunRepository.add\<close> and \<open>add_if_idempotency_absent\<close>.\<close>

definition run_columns :: "audit_run \<Rightarrow> sql_row" where
  "run_columns run =
     [(''id'', UuidValue (ar_id run)), (''repository_path'', TextValue (ar_repository_path run)),
      (''diff_mode'', TextValue (ar_diff_mode run)),
      (''base_ref'', nullable_value TextValue (ar_base_ref run)),
      (''head_ref'', nullable_value TextValue (ar_head_ref run)),
      (''idempotency_key'', TextValue (ar_idempotency_key run)),
      (''request_fingerprint'', TextValue (ar_request_fingerprint run)),
      (''state'', TextValue (state_value (ar_state run))), (''version'', IntValue (ar_version run)),
      (''cleanup_status'', TextValue (cleanup_value (ar_cleanup_status run))),
      (''heartbeat_at'', nullable_value TimeValue (ar_heartbeat_at run)),
      (''cancel_requested_at'', nullable_value TimeValue (ar_cancel_requested_at run)),
      (''failure_code'', nullable_value TextValue (ar_failure_code run)),
      (''failure_detail'', nullable_value TextValue (ar_failure_detail run)),
      (''created_at'', TimeValue (case ar_created_at run of None \<Rightarrow> ar_updated_at run | Some t \<Rightarrow> t)),
      (''updated_at'', TimeValue (ar_updated_at run)),
      (''completed_at'', nullable_value TimeValue (ar_completed_at run))]"

text \<open>The \<open>SET\<close> list of \<open>save\<close>.\<close>

definition saved_values :: "audit_run \<Rightarrow> sql_row" where
  "saved_values run =
     [(''state'', TextValue (state_value (ar_state run))), (''version'', IntValue (ar_version run)),
      (''cleanup_status'', TextValue (cleanup_value (ar_cleanup_status run))),
      (''heartbeat_at'', nullable_value TimeValue (ar_heartbeat_at run)),
      (''cancel_requested_at'', nullable_value TimeValue (ar_cancel_requested_at run)),
      (''failure_code'', nullable_value TextValue (ar_failure_code run)),
      (''failure_detail'', nullable_value TextValue (ar_failure_detail run)),
      (''updated_at'', TimeValue (ar_updated_at run)),
      (''completed_at'', nullable_value TimeValue (ar_completed_at run))]"

section \<open>Rows of steps\<close>

text \<open>\<open>SqlAlchemyRunStepRepository.add\<close> and the values \<open>claim\<close> inserts.\<close>

definition step_columns :: "run_step \<Rightarrow> sql_row" where
  "step_columns s =
     [(''id'', UuidValue (rs_id s)), (''run_id'', UuidValue (rs_run_id s)),
      (''step_key'', TextValue (rs_step_key s)),
      (''from_state'', TextValue (state_value (rs_from_state s))),
      (''to_state'', TextValue (state_value (rs_to_state s))),
      (''generation'', IntValue (rs_generation s)), (''attempt'', IntValue (rs_attempt s)),
      (''status'', TextValue (step_status_value (rs_status s))),
      (''expected_run_version'', IntValue (rs_expected_run_version s)),
      (''resulting_run_version'', nullable_value IntValue (rs_resulting_run_version s)),
      (''handler_version'', TextValue (rs_handler_version s)),
      (''worker_id'', nullable_value TextValue (rs_worker_id s)),
      (''claim_token'', nullable_value UuidValue (rs_claim_token s)),
      (''heartbeat_at'', nullable_value TimeValue (rs_heartbeat_at s)),
      (''lease_expires_at'', nullable_value TimeValue (rs_lease_expires_at s)),
      (''started_at'', TimeValue (rs_started_at s)),
      (''finished_at'', nullable_value TimeValue (rs_finished_at s)),
      (''error_code'', nullable_value TextValue (rs_error_code s)),
      (''error_detail'', nullable_value TextValue (rs_error_detail s))]"

text \<open>The \<open>set_\<close> of the upsert, on the row it conflicts with: \<open>RunStepModel.attempt + 1\<close>.\<close>

definition claim_values :: "run_step \<Rightarrow> run_step \<Rightarrow> sql_row" where
  "claim_values candidate s =
     [(''attempt'', IntValue (rs_attempt s + 1)),
      (''status'', TextValue (step_status_value step_status.RUNNING)),
      (''worker_id'', nullable_value TextValue (rs_worker_id candidate)),
      (''claim_token'', nullable_value UuidValue (rs_claim_token candidate)),
      (''heartbeat_at'', nullable_value TimeValue (rs_heartbeat_at candidate)),
      (''lease_expires_at'', nullable_value TimeValue (rs_lease_expires_at candidate))]"

definition heartbeat_values :: "time \<Rightarrow> time \<Rightarrow> sql_row" where
  "heartbeat_values heartbeat_at lease_expires_at =
     [(''heartbeat_at'', TimeValue heartbeat_at), (''lease_expires_at'', TimeValue lease_expires_at)]"

definition complete_values :: "int \<Rightarrow> time \<Rightarrow> run_state \<Rightarrow> sql_row" where
  "complete_values resulting_run_version finished_at final =
     [(''status'', TextValue (if final = run_state.CANCELLED
                            then step_status_value step_status.CANCELLED
                            else step_status_value step_status.SUCCEEDED)),
      (''to_state'', TextValue (state_value final)),
      (''resulting_run_version'', IntValue resulting_run_version),
      (''finished_at'', TimeValue finished_at), (''lease_expires_at'', NullValue)]"

definition fail_values :: "int \<Rightarrow> time \<Rightarrow> string \<Rightarrow> string \<Rightarrow> sql_row" where
  "fail_values resulting_run_version finished_at error_code error_detail =
     [(''status'', TextValue (step_status_value step_status.FAILED)),
      (''to_state'', TextValue (state_value run_state.FAILED)),
      (''resulting_run_version'', IntValue resulting_run_version),
      (''finished_at'', TimeValue finished_at), (''lease_expires_at'', NullValue),
      (''error_code'', TextValue error_code), (''error_detail'', TextValue error_detail)]"

section \<open>Rows of events\<close>

definition payload_json :: "advance_payload \<Rightarrow> json" where
  "payload_json p =
     JObj [(''run_id'', JStr (pl_run_id p)), (''expected_state'', JStr (pl_expected_state p)),
           (''expected_version'', JInt (pl_expected_version p))]"

definition event_columns :: "outbox_event \<Rightarrow> sql_row" where
  "event_columns e =
     [(''id'', UuidValue (oe_id e)), (''aggregate_id'', UuidValue (oe_aggregate_id e)),
      (''aggregate_version'', IntValue (oe_aggregate_version e)), (''topic'', TextValue (oe_topic e)),
      (''payload'', JsonValue (payload_json (oe_payload e))),
      (''available_at'', TimeValue (oe_available_at e)),
      (''published_at'', nullable_value TimeValue (oe_published_at e)),
      (''publish_attempts'', IntValue (oe_publish_attempts e)),
      (''last_error'', nullable_value TextValue (oe_last_error e)),
      (''created_at'', TimeValue (oe_created_at e))]"

definition published_values :: "time \<Rightarrow> outbox_event \<Rightarrow> sql_row" where
  "published_values published_at e =
     [(''published_at'', TimeValue published_at),
      (''publish_attempts'', IntValue (oe_publish_attempts e + 1)), (''last_error'', NullValue)]"

definition failed_values :: "string \<Rightarrow> time \<Rightarrow> outbox_event \<Rightarrow> sql_row" where
  "failed_values err available_at e =
     [(''available_at'', TimeValue available_at),
      (''publish_attempts'', IntValue (oe_publish_attempts e + 1)), (''last_error'', TextValue err)]"

text \<open>\<open>reopen\<close>, and \<open>wake_current\<close> with its own reason.\<close>

definition reopened_values :: "time \<Rightarrow> string \<Rightarrow> sql_row" where
  "reopened_values available_at reason =
     [(''published_at'', NullValue), (''available_at'', TimeValue available_at),
      (''last_error'', TextValue reason)]"

section \<open>Reading rows\<close>

fun as_uuid :: "sql_value \<Rightarrow> uuid option" where
  "as_uuid (UuidValue u) = Some u"
| "as_uuid _ = None"

fun as_text :: "sql_value \<Rightarrow> string option" where
  "as_text (TextValue s) = Some s"
| "as_text _ = None"

fun as_int :: "sql_value \<Rightarrow> int option" where
  "as_int (IntValue i) = Some i"
| "as_int _ = None"

fun as_time :: "sql_value \<Rightarrow> time option" where
  "as_time (TimeValue t) = Some t"
| "as_time _ = None"

text \<open>The JSON column of an event, as far as the services use it: an object with the three keys.\<close>

fun as_payload :: "sql_value \<Rightarrow> advance_payload option" where
  "as_payload (JsonValue (JObj kvs)) =
     (case (map_of kvs ''run_id'', map_of kvs ''expected_state'', map_of kvs ''expected_version'') of
        (Some (JStr r), Some (JStr s), Some (JInt v)) \<Rightarrow>
          Some \<lparr>pl_run_id = r, pl_expected_state = s, pl_expected_version = v\<rparr>
      | _ \<Rightarrow> None)"
| "as_payload _ = None"

definition or_null :: "(sql_value \<Rightarrow> 'a option) \<Rightarrow> sql_value \<Rightarrow> 'a option option" where
  "or_null f v = (if v = NullValue then Some None else map_option Some (f v))"

text \<open>An attribute of the mapped object.\<close>

definition read_column :: "(sql_value \<Rightarrow> 'a option) \<Rightarrow> sql_row \<Rightarrow> string \<Rightarrow> 'a res" where
  "read_column f row name =
     (case map_of row name of
        None \<Rightarrow> Inl (schema_error name)
      | Some v \<Rightarrow> (case f v of None \<Rightarrow> Inl (schema_error name) | Some x \<Rightarrow> Inr x))"

definition to_run :: "sql_row \<Rightarrow> audit_run res" where
  "to_run row =
     bind_res (read_column as_uuid row ''id'') (\<lambda>id'.
     bind_res (read_column as_text row ''repository_path'') (\<lambda>path.
     bind_res (read_column as_text row ''diff_mode'') (\<lambda>mode.
     bind_res (read_column (or_null as_text) row ''base_ref'') (\<lambda>base.
     bind_res (read_column (or_null as_text) row ''head_ref'') (\<lambda>head.
     bind_res (read_column as_text row ''idempotency_key'') (\<lambda>key.
     bind_res (read_column as_text row ''request_fingerprint'') (\<lambda>fingerprint.
     bind_res (bind_res (read_column as_text row ''state'') parse_state) (\<lambda>state.
     bind_res (read_column as_int row ''version'') (\<lambda>version.
     bind_res (bind_res (read_column as_text row ''cleanup_status'') parse_cleanup_status) (\<lambda>cleanup.
     bind_res (read_column (or_null as_time) row ''heartbeat_at'') (\<lambda>heartbeat.
     bind_res (read_column (or_null as_time) row ''cancel_requested_at'') (\<lambda>cancel.
     bind_res (read_column (or_null as_text) row ''failure_code'') (\<lambda>code.
     bind_res (read_column (or_null as_text) row ''failure_detail'') (\<lambda>detail.
     bind_res (read_column as_time row ''created_at'') (\<lambda>created.
     bind_res (read_column as_time row ''updated_at'') (\<lambda>updated.
     bind_res (read_column (or_null as_time) row ''completed_at'') (\<lambda>completed.
       Inr \<lparr>ar_id = id', ar_state = state, ar_version = version, ar_updated_at = updated,
            ar_created_at = Some created, ar_completed_at = completed,
            ar_cancel_requested_at = cancel, ar_repository_path = path, ar_diff_mode = mode,
            ar_base_ref = base, ar_head_ref = head, ar_idempotency_key = key,
            ar_request_fingerprint = fingerprint, ar_cleanup_status = cleanup,
            ar_heartbeat_at = heartbeat, ar_failure_code = code,
            ar_failure_detail = detail\<rparr>)))))))))))))))))"

definition to_step :: "sql_row \<Rightarrow> run_step res" where
  "to_step row =
     bind_res (read_column as_uuid row ''id'') (\<lambda>id'.
     bind_res (read_column as_uuid row ''run_id'') (\<lambda>run_id.
     bind_res (read_column as_text row ''step_key'') (\<lambda>key.
     bind_res (bind_res (read_column as_text row ''from_state'') parse_state) (\<lambda>from_state.
     bind_res (bind_res (read_column as_text row ''to_state'') parse_state) (\<lambda>to_state.
     bind_res (read_column as_int row ''generation'') (\<lambda>generation.
     bind_res (read_column as_int row ''attempt'') (\<lambda>attempt.
     bind_res (bind_res (read_column as_text row ''status'') parse_step_status) (\<lambda>status.
     bind_res (read_column as_int row ''expected_run_version'') (\<lambda>expected.
     bind_res (read_column (or_null as_int) row ''resulting_run_version'') (\<lambda>resulting.
     bind_res (read_column as_text row ''handler_version'') (\<lambda>handler.
     bind_res (read_column (or_null as_text) row ''worker_id'') (\<lambda>worker.
     bind_res (read_column (or_null as_uuid) row ''claim_token'') (\<lambda>token.
     bind_res (read_column (or_null as_time) row ''heartbeat_at'') (\<lambda>heartbeat.
     bind_res (read_column (or_null as_time) row ''lease_expires_at'') (\<lambda>lease.
     bind_res (read_column as_time row ''started_at'') (\<lambda>started.
     bind_res (read_column (or_null as_time) row ''finished_at'') (\<lambda>finished.
     bind_res (read_column (or_null as_text) row ''error_code'') (\<lambda>code.
     bind_res (read_column (or_null as_text) row ''error_detail'') (\<lambda>detail.
       Inr \<lparr>rs_id = id', rs_run_id = run_id, rs_step_key = key, rs_from_state = from_state,
            rs_to_state = to_state, rs_generation = generation, rs_attempt = attempt,
            rs_status = status, rs_expected_run_version = expected, rs_handler_version = handler,
            rs_started_at = started, rs_resulting_run_version = resulting, rs_worker_id = worker,
            rs_claim_token = token, rs_heartbeat_at = heartbeat, rs_lease_expires_at = lease,
            rs_finished_at = finished, rs_error_code = code,
            rs_error_detail = detail\<rparr>)))))))))))))))))))"

definition to_event :: "sql_row \<Rightarrow> outbox_event res" where
  "to_event row =
     bind_res (read_column as_uuid row ''id'') (\<lambda>id'.
     bind_res (read_column as_uuid row ''aggregate_id'') (\<lambda>aggregate_id.
     bind_res (read_column as_int row ''aggregate_version'') (\<lambda>aggregate_version.
     bind_res (read_column as_text row ''topic'') (\<lambda>topic.
     bind_res (read_column as_payload row ''payload'') (\<lambda>payload.
     bind_res (read_column as_time row ''available_at'') (\<lambda>available.
     bind_res (read_column (or_null as_time) row ''published_at'') (\<lambda>published.
     bind_res (read_column as_int row ''publish_attempts'') (\<lambda>attempts.
     bind_res (read_column (or_null as_text) row ''last_error'') (\<lambda>last_error.
     bind_res (read_column as_time row ''created_at'') (\<lambda>created.
       Inr \<lparr>oe_id = id', oe_aggregate_id = aggregate_id, oe_aggregate_version = aggregate_version,
            oe_topic = topic, oe_payload = payload, oe_available_at = available,
            oe_created_at = created, oe_published_at = published, oe_publish_attempts = attempts,
            oe_last_error = last_error\<rparr>))))))))))"

text \<open>\<open>UPDATE ... SET\<close> on one row.\<close>

definition set_columns :: "sql_row \<Rightarrow> sql_row \<Rightarrow> sql_row" where
  "set_columns values' row =
     map (\<lambda>(name, v). (name, case map_of values' name of None \<Rightarrow> v | Some v' \<Rightarrow> v')) row"

section \<open>Rows stand for the objects\<close>

lemma or_null_value [simp]:
  "or_null as_text (nullable_value TextValue t) = Some t"
  "or_null as_time (nullable_value TimeValue m) = Some m"
  "or_null as_int (nullable_value IntValue i) = Some i"
  "or_null as_uuid (nullable_value UuidValue u) = Some u"
  by (cases t, simp_all add: or_null_def nullable_value_def)
    (cases m, simp_all, cases i, simp_all, cases u, simp_all)

lemma as_payload_json [simp]: "as_payload (JsonValue (payload_json p)) = Some p"
  by (cases p) (simp add: payload_json_def)

lemma to_run_columns: "to_run (run_columns run) = Inr (run_row run)"
  by (cases run) (simp add: to_run_def run_columns_def read_column_def run_row_def)

lemma to_step_columns: "to_step (step_columns s) = Inr s"
  by (cases s) (simp add: to_step_def step_columns_def read_column_def)

lemma to_event_columns: "to_event (event_columns e) = Inr e"
  by (cases e) (simp add: to_event_def event_columns_def read_column_def)

lemma run_columns_saved:
  "ar_created_at r \<noteq> None \<Longrightarrow> run_columns (saved_columns run r) = set_columns (saved_values run) (run_columns r)"
  by (cases "ar_created_at r") (simp_all add: run_columns_def saved_columns_def set_columns_def saved_values_def)

lemma step_columns_updated:
  "step_columns (taken_over candidate s) = set_columns (claim_values candidate s) (step_columns s)"
  "step_columns (s\<lparr>rs_heartbeat_at := Some h, rs_lease_expires_at := Some l\<rparr>) =
     set_columns (heartbeat_values h l) (step_columns s)"
  by (simp_all add: step_columns_def set_columns_def taken_over_def claim_values_def
      heartbeat_values_def nullable_value_def)

lemma step_columns_ended:
  "step_columns (s\<lparr>rs_status := (if x = run_state.CANCELLED then step_status.CANCELLED
                               else step_status.SUCCEEDED),
                 rs_to_state := x, rs_resulting_run_version := Some v, rs_finished_at := Some t,
                 rs_lease_expires_at := None\<rparr>) = set_columns (complete_values v t x) (step_columns s)"
  "step_columns (s\<lparr>rs_status := step_status.FAILED, rs_to_state := run_state.FAILED,
                 rs_resulting_run_version := Some v, rs_finished_at := Some t,
                 rs_lease_expires_at := None, rs_error_code := Some code,
                 rs_error_detail := Some detail\<rparr>) =
     set_columns (fail_values v t code detail) (step_columns s)"
  by (simp_all add: step_columns_def set_columns_def complete_values_def fail_values_def
      nullable_value_def)

lemma event_columns_updated:
  "event_columns (e\<lparr>oe_published_at := Some t, oe_publish_attempts := oe_publish_attempts e + 1,
                  oe_last_error := None\<rparr>) = set_columns (published_values t e) (event_columns e)"
  "event_columns (e\<lparr>oe_available_at := t, oe_publish_attempts := oe_publish_attempts e + 1,
                  oe_last_error := Some err\<rparr>) = set_columns (failed_values err t e) (event_columns e)"
  "event_columns (e\<lparr>oe_published_at := None, oe_available_at := t, oe_last_error := Some reason\<rparr>) =
     set_columns (reopened_values t reason) (event_columns e)"
  by (simp_all add: event_columns_def set_columns_def published_values_def failed_values_def
      reopened_values_def nullable_value_def)

end
