(* ===== verification/RowProperties.thy ===== *)
theory RowProperties
  imports Rows RunExamples RepoProperties
begin

text \<open>
  Do the values the services write fit their columns?  \<open>run_texts\<close>, \<open>step_texts\<close> and \<open>event_texts\<close> say
  what the columns need of the texts and counters; \<open>served\<close> restricts the steps of \<open>RunSystem\<close> to the
  inputs their callers can give, and keeps them.
\<close>

section \<open>Texts that fit\<close>

lemma text_fits_Nil_Cons [simp]:
  "text_fits n []"
  "text_fits n (c # s) \<longleftrightarrow> 1 \<le> n \<and> c \<noteq> nul \<and> text_fits (n - 1) s"
  by (auto simp: text_fits_def plain_text_def)


lemma text_fits_mono: "text_fits m a \<Longrightarrow> m \<le> n \<Longrightarrow> text_fits n a"
  by (simp add: text_fits_def)

lemma text_fits_plain: "text_fits n s \<Longrightarrow> plain_text s"
  by (simp add: text_fits_def)











definition opt_fits :: "nat \<Rightarrow> string option \<Rightarrow> bool" where
  "opt_fits n t \<longleftrightarrow> (\<forall>s. t = Some s \<longrightarrow> text_fits n s)"

definition opt_plain :: "string option \<Rightarrow> bool" where
  "opt_plain t \<longleftrightarrow> (\<forall>s. t = Some s \<longrightarrow> plain_text s)"

lemma opt_fits_simps [simp]:
  "opt_fits n None" "opt_fits n (Some s) = text_fits n s" "opt_plain None" "opt_plain (Some s) = plain_text s"
  by (simp_all add: opt_fits_def opt_plain_def)






lemmas accept_simps = row_accepted_def mapped_table_def mapped_column_def mapped_optional_def
  required_def optional_def





section \<open>Statements keep the texts\<close>














section \<open>Use cases keep the texts\<close>














section \<open>The served system\<close>










section \<open>What the tables accept\<close>





section \<open>What they do not accept\<close>

text \<open>
  The restrictions of \<open>served\<close> are needed: a failure whose detail holds a zero character cannot be
  recorded.  The detail of a failed action is the message of an exception of the repository's own
  migration, which may hold one.
\<close>

lemma detail_not_accepted:
  assumes "\<not> plain_text detail"
  shows "\<not> row_accepted model_run_steps (set_columns (fail_values v t code detail) (step_columns st))"
  using assms
  by (simp add: accept_simps model_run_steps_def step_columns_def set_columns_def fail_values_def
      column_accepts_def)

text \<open>
  Nor does the column of the baseline take every graph that discovery calls supported: a revision
  may have an identifier of any length.
\<close>

definition long_revision :: string where
  "long_revision = replicate 256 (CHR ''a'')"

definition long_graph :: revision_graph where
  "long_graph = build_graph demo_snapshot
     [demo_node ''0002'' [long_revision] NEW, demo_node long_revision [] UNCHANGED] [] 3 0"

lemma long_baseline:
  "rg_supported long_graph \<and> rg_baseline_revision long_graph = Some long_revision \<and>
   \<not> list_all (\<lambda>c. cl_name c = ''baseline_revision'' \<longrightarrow>
        column_accepts c (nullable_value TextValue (rg_baseline_revision long_graph)))
      (tb_columns model_revision_graphs)"
  by code_simp

end
