(* ===== verification/Spec2Isabelle.thy ===== *)
theory Spec2Isabelle
  imports RunProperties ServiceProperties RepoProperties SnapshotProperties RuleProperties
    PlanProperties AuditProperties ApiProperties Maintenance
    RowProperties
begin

text \<open>
  A verification development for ShadowOps, a service that audits database migrations.  A request
  opens a run; workers take it through a fixed sequence of stages: a snapshot of the repository,
  discovery of the Alembic revisions, static rules over the changed ones, a plan proposed by an
  agent and checked against a fixed catalog, and the execution of the plan in a shadow database.
  The run, its steps and an outbox of events live in one control database; every stage commits its
  step, the next state of the run and the next event in one transaction.

  \<^bold>\<open>Shared theories.\<close>
  \<open>Prelude\<close> holds strings, identifiers, the collections of Python and statements on tables;
  \<open>Errors\<close> the exceptions of \<open>domain/errors.py\<close> and the results \<open>exn + 'a\<close>; \<open>Canonical\<close> UTF-8,
  SHA-256 and canonical JSON; \<open>Uuid5\<close> SHA-1 and name-based identifiers.

  \<^bold>\<open>The schema.\<close>  \<open>ControlSchema\<close>: the migrations of \<open>migrations/control/versions\<close> as statements on a
  schema, the tables \<open>persistence/models.py\<close> declares, and that the former lead to the latter (C22).
  \<open>Rows\<close>: the values \<open>persistence/repositories.py\<close> writes to the columns of \<open>audit_runs\<close>, \<open>run_steps\<close> and
  \<open>outbox_events\<close>, its conversions back, and that both agree with \<open>ControlDb\<close>.  \<open>RowProperties\<close>: the
  columns accept what the services write (C37), and the two cases in which they would not.

  \<^bold>\<open>The life of a run.\<close>
  \<^item> \<open>Domain\<close>: states, transitions and aggregates of \<open>domain/runs.py\<close>.
  \<^item> \<open>ControlDb\<close>: the tables \<open>audit_runs\<close>, \<open>run_steps\<close>, \<open>outbox_events\<close> of
    \<open>persistence/models.py\<close> with their keys and checks, and their repositories in
    \<open>persistence/repositories.py\<close>.
  \<^item> \<open>RunService\<close>: \<open>api/schemas/runs.py\<close> and \<open>application/runs.py\<close> (create, get, cancel).
  \<^item> \<open>RunExecution\<close>: \<open>application/run_execution.py\<close> (claim, heartbeat, finalize, fail).  A use
    case is split into what it reads and what it writes, so that other transactions may commit in
    between, as they can under READ COMMITTED.
  \<^item> \<open>Outbox\<close>: \<open>worker/outbox.py\<close> and \<open>worker/reconciler.py\<close>; the broker is a parameter.
  \<^item> \<open>Timeline\<close>: \<open>application/run_timeline.py\<close> and the polls of a stream.
  \<^item> \<open>Api\<close>: the query services, the routes of \<open>api/routes\<close> with their replies and views, the text of
    the event stream and \<open>application/readiness.py\<close>.  \<open>ApiFacts\<close>: the text of a stream carries the
    polls of \<open>Timeline\<close>, and the identifiers in it can be sent back.  \<open>ApiProperties\<close> (C16, C18).
  \<^item> \<open>RunSystem\<close>: the step relation of all of them, interleaved; reachable states.
  \<^item> \<open>RunInvariant\<close>, \<open>RunPreserve\<close>, \<open>RunCommit\<close>, \<open>RunWriters\<close>: the invariant of the database and its
    preservation by every statement and writer.  \<open>RunLedger\<close>: the abstract ledger (one list of
    states per run) and the refinement of it.  \<open>RunFencing\<close>: claims, leases and tokens.
    \<open>TimelineFacts\<close>, \<open>RunExamples\<close>: the timeline against the ledger, and a concrete run.
  \<^item> \<open>RunProperties\<close> (C1, C2, C4-C8, C15, C21) and \<open>ServiceProperties\<close> (C17, C19, C20, C23, C24).

  \<^bold>\<open>The repository and its revisions.\<close>
  \<^item> \<open>RepoContracts\<close>: \<open>repository/contracts.py\<close> and \<open>repository/security.py\<close>, over a tree of file
    system entries.
  \<^item> \<open>GitRepository\<close>: \<open>repository/git.py\<close>; the \<open>git\<close> process is a function of command and
    environment.
  \<^item> \<open>Snapshot\<close>: \<open>repository/snapshot.py\<close>; what the process observes of a file is an input, a
    stored artifact is a value.  \<open>SnapshotFacts\<close>: what verification of an artifact establishes.
  \<^item> \<open>PyAst\<close>: the syntax trees of \<open>ast\<close> as far as the code looks at them, and \<open>ast.walk\<close>.
  \<^item> \<open>RevisionGraph\<close>: \<open>repository/alembic.py\<close>; \<open>ast.parse\<close> and \<open>configparser\<close> are parameters.
    \<open>RevisionFacts\<close>: the chain, the reported reasons, the linear history.
  \<^item> \<open>CycleSearch\<close>: a locale for depth-first searches with a budget, interpreted for the search of
    discovery in \<open>RevisionFacts\<close> and for the one of the plan validator in \<open>PlanFacts\<close>.
  \<^item> \<open>RuleEngine\<close>: \<open>rules/engine.py\<close>, the regular expression written out as a matcher;
    \<open>StaticAudit\<close>: \<open>rules/service.py\<close> and \<open>rules/contracts.py\<close>.
  \<^item> \<open>RepoProperties\<close> (C30-C32), \<open>SnapshotProperties\<close> (C33, C34), \<open>RuleProperties\<close> (C35, C36).

  \<^bold>\<open>Planning.\<close>
  \<^item> \<open>PlanContracts\<close>: \<open>agent/contracts.py\<close> (plans) and \<open>agent/catalog.py\<close>; \<open>PlanValidator\<close>:
    \<open>agent/validator.py\<close>; \<open>PlanFacts\<close>: the specification \<open>plan_ok\<close> and the proof that the
    validator decides it.
  \<^item> \<open>AgentGateway\<close>: \<open>agent/gateway.py\<close>; \<open>AgentPlanner\<close>: \<open>agent/provider.py\<close> and
    \<open>agent/runtime.py\<close>; the provider and the reading of its text as a plan are parameters.
  \<^item> \<open>PlanProperties\<close> (C38-C40).

  \<^bold>\<open>Results and the audit itself.\<close>
  \<^item> \<open>SandboxContracts\<close>: \<open>sandbox/contracts.py\<close> and \<open>evidence/contracts.py\<close>.  \<open>ResultStore\<close>: the tables
    of the stages and their repositories.  \<open>ResultFacts\<close>: a locale for a store that is written once per
    key, interpreted for every repository; \<open>ResultOrder\<close>: what all of them keep.
  \<^item> \<open>Effects\<close>: actions with exceptions and the orders they keep; \<open>World\<close>: the database, the other
    processes, the engine, the artifact directories, clocks and identifiers of a worker, and the unit
    of work (\<open>persistence/uow.py\<close>) as a transaction on it.
  \<^item> \<open>Docker\<close>, \<open>Redaction\<close>, \<open>Sandbox\<close>: \<open>sandbox/docker_manager.py\<close>.  \<open>SandboxFacts\<close>: the orders its
    operations keep; \<open>SandboxLabels\<close>: labels read back; \<open>SandboxOutcomes\<close>: how the operations end.
  \<^item> \<open>Evidence\<close>: \<open>evidence/store.py\<close> and \<open>evidence/collector.py\<close>.
  \<^item> \<open>Stages\<close>: the stage handlers of \<open>application/discovery.py\<close>, \<open>static_analysis.py\<close>, \<open>planning.py\<close>
    and \<open>dynamic_audit.py\<close>, chosen as in \<open>worker/runtime.py\<close>; \<open>Worker\<close>: \<open>process_run_event\<close> of
    \<open>worker/tasks.py\<close>.  \<open>WorkerFacts\<close>: a delivery, on the run tables, is a sequence of steps of
    \<open>RunSystem\<close>; \<open>StageFacts\<close>: how stages and deliveries end.
  \<^item> \<open>Maintenance\<close>: \<open>config.py\<close>, the factories of \<open>worker/runtime.py\<close> and the periodic tasks, which are
    sequences of steps of \<open>RunSystem\<close> as well.
  \<^item> \<open>RunnerChecks\<close>, \<open>RunnerMain\<close>: the fixed runner, \<open>checks.py\<close> and \<open>main.py\<close> of
    \<open>runner/src/shadowops_runner\<close>; \<open>RunnerFacts\<close>: what it guarantees about what it prints.
  \<^item> \<open>AuditExamples\<close>: a concrete engine, world and runner.  \<open>AuditProperties\<close> (C3, C9-C14, C25-C29).

  \<^bold>\<open>Bounds and fuel.\<close>  The recursive cycle searches take a depth; one more than the number of nodes
  is enough, since every level of the recursion enters a node that is neither active nor finished
  (C40).  The loop that waits for PostgreSQL takes a number of rounds; it sleeps a quarter of a second
  in each, so four per second of the time-out and one more are enough (C29).  The planning loop counts
  its two iterations down.  A stream is a recursion over the list of its polls.  The exponent of the
  retry delay is a natural number and the conversion to a float fails from 1024 on, as in the code.
  Characters are those below 256, so strings are Latin-1; the UTF-8 encoding of every such string is
  modelled.  Times are microseconds, integers are unbounded as in Python.

  \<^bold>\<open>Parameters\<close> stand for code outside the repository: the broker, the \<open>git\<close> process, \<open>ast.parse\<close>,
  \<open>configparser\<close>, the JSON reader with the validation of pydantic, the rendering of a \<open>datetime\<close>,
  the provider of the agent, clocks and random identifiers, the Docker engine (a record of actions on
  its own state), and Alembic, SQLAlchemy and the database in the runner (a record likewise).  Other
  processes are a function on databases; where a property needs them to behave, it says which order
  they follow.

  \<^bold>\<open>Not modelled.\<close>  Declarations without behaviour (\<open>application/ports.py\<close>), the construction of
  engines and sessions (\<open>persistence/database.py\<close>), the composition of the FastAPI and Celery
  applications apart from the settings above, structured logging and the command line: they only
  call libraries.  The tables of the stages store their domain values; the columns behind them are
  modelled for the run, step and event tables only.
\<close>

end
